(* ===== verification/Pactline_Prelude.thy ===== *)
theory Pactline_Prelude
  imports Main "HOL-Library.Word" "HOL-Library.Product_Lexorder"
begin

text \<open>
  The vocabulary the components share.

  \<^item> \<open>uuid\<close> is the sixteen-byte identifier of the Go package uuid, read as one unsigned
    128-bit word: equality is byte equality, the order is the byte order PostgreSQL sorts by,
    and \<open>uuid.Nil\<close> is zero.  Fresh identifiers (\<open>uuid.New\<close>) are never computed here: the
    operations that draw them take them as arguments.
  \<^item> \<open>time\<close> is an instant in microseconds since Go's zero time, the precision a
    \<open>timestamptz\<close> column keeps; \<open>IsZero\<close> is equality with zero and \<open>UTC\<close> does not
    move an instant.
  \<^item> A Go string is the list of its bytes.  \<open>TrimSpace\<close> strips the UTF-8 encodings of the
    runes for which \<open>unicode.IsSpace\<close> holds.
  \<^item> A fallible function returns \<open>'e + 'a\<close>; \<open>bindR\<close> is the early return on error.
  \<^item> A table is the list of its rows; \<open>update_where\<close> and \<open>count_where\<close> are the effect and
    the row count of an \<open>UPDATE\<close>.
  \<^item> \<open>reach\<close> is reachability under a step relation, and the locale \<open>invariant_system\<close> is
    the contract every state machine of the development discharges.
\<close>

named_theorems result_simps \<open>case analysis of error results\<close>
named_theorems table_simps \<open>reading a table after it was updated\<close>

section \<open>Identifiers and instants\<close>

type_synonym uuid = "128 word"

abbreviation uuid_nil :: uuid where
  "uuid_nil \<equiv> 0"

type_synonym time = int

abbreviation is_zero_time :: "time \<Rightarrow> bool" where
  "is_zero_time t \<equiv> t = 0"

definition hours :: "int \<Rightarrow> int" where
  "hours n = n * 3600 * 1000000"

section \<open>Results\<close>

definition bindR :: "'e + 'a \<Rightarrow> ('a \<Rightarrow> 'e + 'b) \<Rightarrow> 'e + 'b" where
  "bindR m f = (case m of Inl e \<Rightarrow> Inl e | Inr x \<Rightarrow> f x)"

definition ensure :: "bool \<Rightarrow> 'e \<Rightarrow> 'e + unit" where
  "ensure c e = (if c then Inr () else Inl e)"

lemma bindR_simps [simp]:
  "bindR (Inl e) f = Inl e"
  "bindR (Inr x) f = f x"
  by (simp_all add: bindR_def)

lemma bindR_eq_Inr [result_simps]:
  "bindR m f = Inr y \<longleftrightarrow> (\<exists>x. m = Inr x \<and> f x = Inr y)"
  by (cases m) simp_all

lemma bindR_eq_Inl [result_simps]:
  "bindR m f = Inl e \<longleftrightarrow> m = Inl e \<or> (\<exists>x. m = Inr x \<and> f x = Inl e)"
  by (cases m) simp_all

lemma ensure_eq [simp]:
  "ensure c e = Inr u \<longleftrightarrow> c"
  "ensure c e = Inl e' \<longleftrightarrow> \<not> c \<and> e' = e"
  "ensure True e = Inr ()"
  "ensure False e = Inl e"
  by (auto simp: ensure_def)

lemma bindR_ensure: "bindR (ensure c e) f = (if c then f () else Inl e)"
  by (simp add: ensure_def)

section \<open>Byte strings and white space\<close>

fun drop_prefix :: "'a list \<Rightarrow> 'a list \<Rightarrow> 'a list option" where
  "drop_prefix [] ys = Some ys"
| "drop_prefix (x # xs) [] = None"
| "drop_prefix (x # xs) (y # ys) = (if x = y then drop_prefix xs ys else None)"

fun drop_any :: "'a list list \<Rightarrow> 'a list \<Rightarrow> 'a list option" where
  "drop_any [] s = None"
| "drop_any (w # ws) s =
     (if w = [] then drop_any ws s
      else case drop_prefix w s of Some r \<Rightarrow> Some r | None \<Rightarrow> drop_any ws s)"

lemma drop_prefix_eq: "drop_prefix w s = Some r \<longleftrightarrow> s = w @ r"
  by (induction w s rule: drop_prefix.induct) auto

lemma drop_any_Some: "drop_any ws s = Some r \<Longrightarrow> \<exists>w \<in> set ws. w \<noteq> [] \<and> s = w @ r"
  by (induction ws) (auto split: if_splits option.splits simp: drop_prefix_eq)

lemma drop_any_None: "drop_any ws s = None \<longleftrightarrow> (\<forall>w \<in> set ws. w \<noteq> [] \<longrightarrow> (\<forall>r. s \<noteq> w @ r))"
proof (induction ws)
  case (Cons w ws)
  have "drop_prefix w s = None \<longleftrightarrow> (\<forall>r. s \<noteq> w @ r)"
    using drop_prefix_eq [of w s] by (cases "drop_prefix w s") auto
  with Cons show ?case by (auto split: option.splits simp: drop_prefix_eq)
qed simp

lemma drop_any_shorter: "drop_any ws s = Some r \<Longrightarrow> length r < length s"
  by (auto dest: drop_any_Some)

function trim_with :: "'a list list \<Rightarrow> 'a list \<Rightarrow> 'a list" where
  "trim_with ws s = (case drop_any ws s of None \<Rightarrow> s | Some r \<Rightarrow> trim_with ws r)"
  by pat_completeness auto
termination
  by (relation "measure (\<lambda>(ws, s). length s)") (auto dest: drop_any_shorter)

declare trim_with.simps [simp del]

lemma trim_with_stops: "drop_any ws (trim_with ws s) = None"
proof (induction ws s rule: trim_with.induct)
  case (1 ws s)
  then show ?case
    by (cases "drop_any ws s") (simp_all add: trim_with.simps [of ws s])
qed

lemma trim_with_id: "drop_any ws s = None \<Longrightarrow> trim_with ws s = s"
  by (simp add: trim_with.simps [of ws s])

lemma trim_with_suffix: "\<exists>p. s = p @ trim_with ws s"
proof (induction ws s rule: trim_with.induct)
  case (1 ws s)
  show ?case
  proof (cases "drop_any ws s")
    case None
    then show ?thesis by (simp add: trim_with_id)
  next
    case (Some r)
    then obtain w where "s = w @ r" by (auto dest: drop_any_Some)
    moreover obtain p where "r = p @ trim_with ws r" using 1 [OF Some] by blast
    moreover have "trim_with ws s = trim_with ws r"
      using Some by (simp add: trim_with.simps [of ws s])
    ultimately have "s = (w @ p) @ trim_with ws s" by simp
    then show ?thesis by blast
  qed
qed

text \<open>
  The byte encodings of the runes of \<open>unicode.IsSpace\<close>: the ASCII blanks, U+0085, U+00A0,
  U+1680, U+2000 to U+200A, U+2028, U+2029, U+202F, U+205F and U+3000.
\<close>

definition go_spaces :: "string list" where
  "go_spaces =
     [[CHR 0x20], [CHR 0x09], [CHR 0x0A], [CHR 0x0B], [CHR 0x0C], [CHR 0x0D],
      [CHR 0xC2, CHR 0x85], [CHR 0xC2, CHR 0xA0], [CHR 0xE1, CHR 0x9A, CHR 0x80],
      [CHR 0xE2, CHR 0x80, CHR 0x80], [CHR 0xE2, CHR 0x80, CHR 0x81],
      [CHR 0xE2, CHR 0x80, CHR 0x82], [CHR 0xE2, CHR 0x80, CHR 0x83],
      [CHR 0xE2, CHR 0x80, CHR 0x84], [CHR 0xE2, CHR 0x80, CHR 0x85],
      [CHR 0xE2, CHR 0x80, CHR 0x86], [CHR 0xE2, CHR 0x80, CHR 0x87],
      [CHR 0xE2, CHR 0x80, CHR 0x88], [CHR 0xE2, CHR 0x80, CHR 0x89],
      [CHR 0xE2, CHR 0x80, CHR 0x8A], [CHR 0xE2, CHR 0x80, CHR 0xA8],
      [CHR 0xE2, CHR 0x80, CHR 0xA9], [CHR 0xE2, CHR 0x80, CHR 0xAF],
      [CHR 0xE2, CHR 0x81, CHR 0x9F], [CHR 0xE3, CHR 0x80, CHR 0x80]]"

definition TrimSpace :: "string \<Rightarrow> string" where
  "TrimSpace s = rev (trim_with (map rev go_spaces) (rev (trim_with go_spaces s)))"

abbreviation blank :: "string \<Rightarrow> bool" where
  "blank s \<equiv> TrimSpace s = []"

lemma TrimSpace_Nil [simp]: "TrimSpace [] = []"
  by (simp add: TrimSpace_def go_spaces_def trim_with.simps)

lemma TrimSpace_unpadded:
  assumes "drop_any go_spaces s = None" and "drop_any (map rev go_spaces) (rev s) = None"
  shows "TrimSpace s = s"
  using assms by (simp add: TrimSpace_def trim_with_id)

lemma TrimSpace_no_right_space: "drop_any (map rev go_spaces) (rev (TrimSpace s)) = None"
  by (simp add: TrimSpace_def trim_with_stops)

lemma TrimSpace_no_left_space: "drop_any go_spaces (TrimSpace s) = None"
proof -
  let ?l = "trim_with go_spaces s"
  obtain p where "rev ?l = p @ trim_with (map rev go_spaces) (rev ?l)"
    using trim_with_suffix by blast
  then have "rev (rev ?l) = rev (p @ trim_with (map rev go_spaces) (rev ?l))" by (rule arg_cong)
  then have split: "?l = TrimSpace s @ rev p" by (simp add: TrimSpace_def)
  have "drop_any go_spaces ?l = None" by (rule trim_with_stops)
  then show ?thesis unfolding drop_any_None split by auto
qed

lemma TrimSpace_idem [simp]: "TrimSpace (TrimSpace s) = TrimSpace s"
  by (rule TrimSpace_unpadded) (rule TrimSpace_no_left_space TrimSpace_no_right_space)+

text \<open>PostgreSQL's \<open>btrim\<close> with its default argument strips the space character only.\<close>

definition btrim :: "string \<Rightarrow> string" where
  "btrim s = rev (dropWhile (\<lambda>c. c = CHR 0x20) (rev (dropWhile (\<lambda>c. c = CHR 0x20) s)))"

section \<open>Tables\<close>

definition update_where :: "('r \<Rightarrow> bool) \<Rightarrow> ('r \<Rightarrow> 'r) \<Rightarrow> 'r list \<Rightarrow> 'r list" where
  "update_where p f rows = map (\<lambda>r. if p r then f r else r) rows"

definition count_where :: "('r \<Rightarrow> bool) \<Rightarrow> 'r list \<Rightarrow> nat" where
  "count_where p rows = length (filter p rows)"

lemma update_where_simps [simp]:
  "update_where p f [] = []"
  "update_where p f (r # rows) = (if p r then f r else r) # update_where p f rows"
  by (simp_all add: update_where_def)

lemma update_where_append [simp]:
  "update_where p f (rows @ rows') = update_where p f rows @ update_where p f rows'"
  by (simp add: update_where_def)

lemma set_update_where [table_simps]:
  "set (update_where p f rows) = (\<lambda>r. if p r then f r else r) ` set rows"
  by (simp add: update_where_def)

lemma map_update_where [table_simps]:
  "(\<And>r. k (f r) = k r) \<Longrightarrow> map k (update_where p f rows) = map k rows"
  by (induction rows) simp_all

lemma map_update_where_key:
  "(\<And>r. r \<in> set rows \<Longrightarrow> p r \<Longrightarrow> k (f r) = k r) \<Longrightarrow> map k (update_where p f rows) = map k rows"
  by (induction rows) simp_all

lemma image_update_where:
  assumes "\<And>r. r \<in> set rows \<Longrightarrow> p r \<Longrightarrow> k (f r) = k r"
  shows "k ` set (update_where p f rows) = k ` set rows"
  using arg_cong [OF map_update_where_key [of rows p k f, OF assms], of set] by simp

lemma filter_update_where_same:
  "(\<And>r. r \<in> set rows \<Longrightarrow> p r \<Longrightarrow> q (f r) \<longleftrightarrow> q r) \<Longrightarrow>
   filter q (update_where p f rows) = update_where p f (filter q rows)"
  by (induction rows) auto

lemma filter_update_where_frame:
  "(\<And>r. r \<in> set rows \<Longrightarrow> p r \<Longrightarrow> \<not> q r \<and> \<not> q (f r)) \<Longrightarrow>
   filter q (update_where p f rows) = filter q rows"
  by (induction rows) auto

lemma filter_update_where_remove:
  "(\<And>r. r \<in> set rows \<Longrightarrow> p r \<Longrightarrow> \<not> q (f r)) \<Longrightarrow>
   filter q (update_where p f rows) = filter (\<lambda>r. q r \<and> \<not> p r) rows"
  by (induction rows) auto

lemma count_where_0: "count_where p rows = 0 \<longleftrightarrow> (\<forall>r \<in> set rows. \<not> p r)"
  by (auto simp: count_where_def filter_empty_conv)

text \<open>
  A key column: a row found by its key is the only row with that key, so a lookup after an
  update by key reads the updated row, and every other lookup is undisturbed.
\<close>

lemma distinct_key_inj:
  "distinct (map k rows) \<Longrightarrow> r \<in> set rows \<Longrightarrow> r' \<in> set rows \<Longrightarrow> k r = k r' \<Longrightarrow> r = r'"
  by (induction rows) (auto simp: rev_image_eqI)

lemma find_SomeD: "find p rows = Some r \<Longrightarrow> r \<in> set rows \<and> p r"
  by (induction rows) (auto split: if_splits)

lemma find_NoneD: "find p rows = None \<Longrightarrow> r \<in> set rows \<Longrightarrow> \<not> p r"
  by (auto simp: find_None_iff)

lemma find_key:
  "distinct (map k rows) \<Longrightarrow> r \<in> set rows \<Longrightarrow> find (\<lambda>x. k x = k r) rows = Some r"
  by (induction rows) (auto simp: rev_image_eqI)

lemma filter_find: "filter P xs = [x] \<Longrightarrow> find P xs = Some x"
  by (induction xs) (auto split: if_splits)

lemma filter_key:
  "distinct (map k rows) \<Longrightarrow> r \<in> set rows \<Longrightarrow> p r \<Longrightarrow>
   filter (\<lambda>x. k x = k r \<and> p x) rows = [r]"
proof (induction rows)
  case (Cons a rows)
  show ?case
  proof (cases "r = a")
    case True
    then have "filter (\<lambda>x. k x = k r \<and> p x) rows = []"
      using Cons.prems by (auto simp: filter_empty_conv rev_image_eqI)
    with True Cons.prems show ?thesis by simp
  next
    case False
    then have "k a \<noteq> k r" using Cons.prems by (auto simp: rev_image_eqI)
    with False Cons show ?thesis by simp
  qed
qed simp

section \<open>Reachability and invariants\<close>

inductive reach :: "('s \<Rightarrow> bool) \<Rightarrow> ('s \<Rightarrow> 's \<Rightarrow> bool) \<Rightarrow> 's \<Rightarrow> bool" for init step where
  reach_init: "init s \<Longrightarrow> reach init step s"
| reach_step: "reach init step s \<Longrightarrow> step s t \<Longrightarrow> reach init step t"

locale invariant_system =
  fixes init :: "'s \<Rightarrow> bool"
    and step :: "'s \<Rightarrow> 's \<Rightarrow> bool"
    and inv :: "'s \<Rightarrow> bool"
  assumes inv_init: "init s \<Longrightarrow> inv s"
    and inv_step: "inv s \<Longrightarrow> step s t \<Longrightarrow> inv t"
begin

lemma inv_reach: "reach init step s \<Longrightarrow> inv s"
  by (induction rule: reach.induct) (auto intro: inv_init inv_step)

lemma inv_steps: "step\<^sup>*\<^sup>* s t \<Longrightarrow> inv s \<Longrightarrow> inv t"
  by (induction rule: rtranclp_induct) (auto intro: inv_step)

end

text \<open>
  A machine whose step never lowers a measure into an order: the measure is monotone along
  every run.
\<close>

locale monotone_system =
  fixes step :: "'s \<Rightarrow> 's \<Rightarrow> bool"
    and rank :: "'s \<Rightarrow> 'o::preorder"
  assumes rank_step: "step s t \<Longrightarrow> rank s \<le> rank t"
begin

lemma rank_steps: "step\<^sup>*\<^sup>* s t \<Longrightarrow> rank s \<le> rank t"
  by (induction rule: rtranclp_induct) (auto intro: rank_step order_trans)

end

end
