(* ===== verification/Domain_Actors.thy ===== *)
theory Domain_Actors
  imports Pactline_Prelude
begin

text \<open>
  Errors, actors and operation provenance: internal/domain/errors.go, the \<open>Actor\<close> of
  internal/domain/acceptance.go, internal/domain/operation.go, \<open>validThreadActor\<close> of
  internal/domain/thread.go, the actor helpers of internal/store/task_thread_store.go, and the
  mapping of errors to HTTP problems in internal/api/v1/errors.go and internal/api/response.go.

  An error is identified by the sentinel it wraps, which is what \<open>errors.Is\<close> sees; the text
  after the sentinel is not modelled.  Go's string enumerations are datatypes with one
  constructor per declared constant and one for any other string (the empty string included).
\<close>

section \<open>Errors\<close>

datatype error =
    ErrNotFound
  | ErrInvalidInput
  | ErrForbidden
  | ErrConflict
  | ErrInvalidTransition
  | ErrActiveClaim
  | ErrActiveIssue
  | ErrMigrationRequired
  | ErrWrongIssueType
  | ErrIntegrationNotConfigured
  | ErrProviderUnauthorized
  | ErrProviderUnavailable
  | ErrProviderRejected
  | ErrVersionConflict
  | VersionConflictError int
  | ErrInvalidOperationActor
  | ErrAuthenticationRequired
  | ErrInsufficientScope
  | ErrInvalidRequest
  | ErrPreconditionRequired
  | ErrNotImplemented
  | ErrOther

type_synonym 'a result = "error + 'a"

text \<open>The \<open>Unwrap\<close> chain of the sentinels, and \<open>errors.Is\<close> along it.\<close>

fun error_unwrap :: "error \<Rightarrow> error option" where
  "error_unwrap ErrInvalidTransition = Some ErrConflict"
| "error_unwrap ErrActiveClaim = Some ErrConflict"
| "error_unwrap ErrActiveIssue = Some ErrConflict"
| "error_unwrap ErrMigrationRequired = Some ErrConflict"
| "error_unwrap ErrWrongIssueType = Some ErrInvalidInput"
| "error_unwrap (VersionConflictError _) = Some ErrVersionConflict"
| "error_unwrap _ = None"

definition errors_is :: "error \<Rightarrow> error \<Rightarrow> bool" where
  "errors_is e target \<longleftrightarrow> e = target \<or> error_unwrap e = Some target"

text \<open>No sentinel wraps a wrapping sentinel, so one unwrapping follows the whole chain.\<close>

lemma error_unwrap_flat: "error_unwrap e = Some e' \<Longrightarrow> error_unwrap e' = None"
  by (cases e) auto

record Problem =
  problem_status :: int
  problem_title :: string
  problem_detail :: string
  problem_code :: string
  problem_current_version :: "int option"
  problem_retryable :: "bool option"

definition problem_of :: "int \<Rightarrow> string \<Rightarrow> string \<Rightarrow> string \<Rightarrow> Problem" where
  "problem_of status title detail code =
     \<lparr>problem_status = status, problem_title = title, problem_detail = detail,
      problem_code = code, problem_current_version = None, problem_retryable = None\<rparr>"

definition provider_problem ::
  "int \<Rightarrow> string \<Rightarrow> string \<Rightarrow> string \<Rightarrow> bool \<Rightarrow> Problem" where
  "provider_problem status title detail code retryable =
     (problem_of status title detail code)\<lparr>problem_retryable := Some retryable\<rparr>"

definition internal_problem :: Problem where
  "internal_problem =
     problem_of 500 ''Internal server error'' ''The request could not be completed.''
       ''INTERNAL_ERROR''"

text \<open>
  \<open>ErrorHandler\<close>: the problem of the first case whose sentinel the error is.  The argument
  \<open>status\<close> is the code the transport library derives from the error
  (\<open>ogenerrors.ErrorCode\<close>); it matters only for an error that is no sentinel.
\<close>

definition ErrorHandler :: "int \<Rightarrow> error \<Rightarrow> Problem" where
  "ErrorHandler status e =
     (if errors_is e ErrAuthenticationRequired then
        problem_of 401 ''Authentication required'' ''Authentication is required.''
          ''AUTHENTICATION_REQUIRED''
      else if errors_is e ErrInsufficientScope then
        problem_of 403 ''Insufficient scope''
          ''The bearer token does not grant the required scope.'' ''INSUFFICIENT_SCOPE''
      else if errors_is e ErrInvalidRequest then
        problem_of 400 ''Invalid request'' ''The request is invalid.'' ''INVALID_REQUEST''
      else if errors_is e ErrPreconditionRequired then
        problem_of 428 ''Precondition required''
          ''The current resource ETag is required in If-Match.'' ''PRECONDITION_REQUIRED''
      else if errors_is e ErrVersionConflict then
        (problem_of 412 ''Version conflict''
           ''The resource changed after the supplied ETag was issued.'' ''VERSION_CONFLICT'')
          \<lparr>problem_current_version :=
             (case e of VersionConflictError v \<Rightarrow> Some v | _ \<Rightarrow> None)\<rparr>
      else if errors_is e ErrIntegrationNotConfigured then
        provider_problem 503 ''Integration not configured''
          ''The requested repository integration is not configured.''
          ''INTEGRATION_NOT_CONFIGURED'' False
      else if errors_is e ErrProviderUnauthorized then
        provider_problem 502 ''Provider authorization failed''
          ''The repository provider rejected the configured credential.''
          ''PROVIDER_UNAUTHORIZED'' False
      else if errors_is e ErrProviderUnavailable then
        provider_problem 503 ''Provider unavailable''
          ''The repository provider is temporarily unavailable.'' ''PROVIDER_UNAVAILABLE'' True
      else if errors_is e ErrProviderRejected then
        provider_problem 502 ''Provider rejected request''
          ''The repository provider returned an invalid or rejected response.''
          ''PROVIDER_REJECTED'' False
      else if errors_is e ErrNotFound then
        problem_of 404 ''Not found'' ''The requested resource was not found.'' ''NOT_FOUND''
      else if errors_is e ErrForbidden then
        problem_of 403 ''Forbidden'' ''The operation is not permitted.'' ''FORBIDDEN''
      else if errors_is e ErrInvalidTransition then
        problem_of 409 ''Invalid Task transition''
          ''The Task cannot perform that command from its current lifecycle state.''
          ''INVALID_TRANSITION''
      else if errors_is e ErrActiveClaim then
        problem_of 409 ''Active Claim exists'' ''The Task already has an active Claim.''
          ''ACTIVE_CLAIM''
      else if errors_is e ErrActiveIssue then
        problem_of 409 ''Active Issue exists'' ''The Task already has an open Issue Thread.''
          ''ACTIVE_ISSUE''
      else if errors_is e ErrMigrationRequired then
        problem_of 409 ''Task migration required''
          ''The Task has not been classified into the current lifecycle model.''
          ''MIGRATION_REQUIRED''
      else if errors_is e ErrWrongIssueType then
        problem_of 400 ''Unsupported Issue type''
          ''The Issue type is not supported by the current workflow.'' ''WRONG_ISSUE_TYPE''
      else if errors_is e ErrConflict then
        problem_of 409 ''Conflict'' ''The operation conflicts with current state.'' ''CONFLICT''
      else if errors_is e ErrInvalidInput then
        problem_of 400 ''Invalid request'' ''The request is invalid.'' ''INVALID_REQUEST''
      else if errors_is e ErrNotImplemented then internal_problem
      else if status < 400 \<or> status \<ge> 500 then internal_problem
      else problem_of status ''Invalid request''
             ''The request does not match the API contract.'' ''VALIDATION_FAILED'')"

definition WriteError :: "error \<Rightarrow> int" where
  "WriteError e =
     (if errors_is e ErrNotFound then 404
      else if errors_is e ErrInvalidInput then 400
      else if errors_is e ErrForbidden then 403
      else if errors_is e ErrConflict then 409
      else 500)"

section \<open>Actors\<close>

datatype ActorType =
    ActorTypeUser
  | ActorTypeAgent
  | ActorTypeSystem
  | ActorTypeOther string

record Actor =
  actor_type :: ActorType
  actor_user_id :: "uuid option"
  actor_ref :: string

definition Actor_IsHuman :: "Actor \<Rightarrow> bool" where
  "Actor_IsHuman a \<longleftrightarrow>
     actor_type a = ActorTypeUser \<and>
     (case actor_user_id a of None \<Rightarrow> False | Some u \<Rightarrow> u \<noteq> uuid_nil)"

definition validThreadActor :: "Actor \<Rightarrow> bool" where
  "validThreadActor a =
     (case actor_type a of
        ActorTypeUser \<Rightarrow> Actor_IsHuman a
      | ActorTypeAgent \<Rightarrow> \<not> blank (actor_ref a)
      | ActorTypeSystem \<Rightarrow> \<not> blank (actor_ref a)
      | ActorTypeOther _ \<Rightarrow> False)"

definition workflowSystemActor :: Actor where
  "workflowSystemActor =
     \<lparr>actor_type = ActorTypeSystem, actor_user_id = None, actor_ref = ''pactline''\<rparr>"

section \<open>Operation provenance\<close>

datatype AuthenticationMethod =
    AuthenticationMethodSession
  | AuthenticationMethodAPIToken
  | AuthenticationMethodAgentDelegate
  | AuthenticationMethodOther string

record OperationActor =
  op_user_id :: uuid
  op_auth_method :: AuthenticationMethod
  op_token_id :: "uuid option"
  op_token_name :: string
  op_agent_run_id :: "uuid option"
  op_request_id :: string

text \<open>A pointer that is nil or points to \<open>uuid.Nil\<close>.\<close>

definition nil_or_zero :: "uuid option \<Rightarrow> bool" where
  "nil_or_zero p = (case p of None \<Rightarrow> True | Some u \<Rightarrow> u = uuid_nil)"

definition OperationActor_Validate :: "OperationActor \<Rightarrow> unit result" where
  "OperationActor_Validate a =
     (if op_user_id a = uuid_nil \<or> blank (op_request_id a) then Inl ErrInvalidOperationActor
      else case op_auth_method a of
        AuthenticationMethodSession \<Rightarrow>
          (if op_token_id a \<noteq> None \<or> op_token_name a \<noteq> [] \<or> op_agent_run_id a \<noteq> None
           then Inl ErrInvalidOperationActor else Inr ())
      | AuthenticationMethodAPIToken \<Rightarrow>
          (if nil_or_zero (op_token_id a) \<or> op_agent_run_id a \<noteq> None
           then Inl ErrInvalidOperationActor else Inr ())
      | AuthenticationMethodAgentDelegate \<Rightarrow>
          (if op_token_id a \<noteq> None \<or> op_token_name a \<noteq> [] \<or> nil_or_zero (op_agent_run_id a)
           then Inl ErrInvalidOperationActor else Inr ())
      | AuthenticationMethodOther _ \<Rightarrow> Inl ErrInvalidOperationActor)"

definition SessionOperation :: "uuid \<Rightarrow> string \<Rightarrow> OperationActor" where
  "SessionOperation userID requestID =
     \<lparr>op_user_id = userID, op_auth_method = AuthenticationMethodSession, op_token_id = None,
      op_token_name = [], op_agent_run_id = None,
      op_request_id = (if blank requestID then ''internal'' else requestID)\<rparr>"

definition validateThreadOperationActor :: "Actor \<Rightarrow> OperationActor \<Rightarrow> unit result" where
  "validateThreadOperationActor a opn =
     bindR (OperationActor_Validate opn) (\<lambda>_.
       case actor_type a of
         ActorTypeUser \<Rightarrow>
           (if op_auth_method opn \<noteq> AuthenticationMethodSession \<or>
               actor_user_id a \<noteq> Some (op_user_id opn)
            then Inl ErrForbidden else Inr ())
       | ActorTypeAgent \<Rightarrow>
           (if op_auth_method opn = AuthenticationMethodSession \<or> blank (actor_ref a)
            then Inl ErrForbidden else Inr ())
       | _ \<Rightarrow> Inl ErrForbidden)"

text \<open>Optional identifiers compared by value, nil equal to nil only.\<close>

definition sameOptionalUUID :: "uuid option \<Rightarrow> uuid option \<Rightarrow> bool" where
  "sameOptionalUUID a b =
     (case (a, b) of (Some x, Some y) \<Rightarrow> x = y | (None, None) \<Rightarrow> True | _ \<Rightarrow> False)"

section \<open>Actors as columns\<close>

text \<open>The empty string is stored as NULL.\<close>

definition nullIfEmpty :: "string \<Rightarrow> string option" where
  "nullIfEmpty s = (if s = [] then None else Some s)"

definition actorColumns :: "Actor \<Rightarrow> uuid option \<times> string option" where
  "actorColumns a =
     (if actor_type a = ActorTypeUser then (actor_user_id a, None)
      else (None, nullIfEmpty (actor_ref a)))"

definition actorFromColumns :: "ActorType \<Rightarrow> uuid option \<Rightarrow> string option \<Rightarrow> Actor" where
  "actorFromColumns ty userID ref =
     \<lparr>actor_type = ty, actor_user_id = userID,
      actor_ref = (case ref of None \<Rightarrow> [] | Some r \<Rightarrow> r)\<rparr>"

text \<open>What reading back a stored actor gives.\<close>

definition storedActor :: "Actor \<Rightarrow> Actor" where
  "storedActor a =
     (case actorColumns a of (u, r) \<Rightarrow> actorFromColumns (actor_type a) u r)"

section \<open>Lemmas\<close>

lemma sameOptionalUUID_eq [simp]: "sameOptionalUUID a b \<longleftrightarrow> a = b"
  by (auto simp: sameOptionalUUID_def split: option.splits)

lemma nullIfEmpty_simps [simp]:
  "nullIfEmpty [] = None"
  "nullIfEmpty s = None \<longleftrightarrow> s = []"
  "nullIfEmpty s = Some t \<longleftrightarrow> s = t \<and> t \<noteq> []"
  "(case nullIfEmpty s of None \<Rightarrow> [] | Some t \<Rightarrow> t) = s"
  by (auto simp: nullIfEmpty_def)

lemma storedActor_eq:
  "storedActor a =
     (if actor_type a = ActorTypeUser then a\<lparr>actor_ref := []\<rparr> else a\<lparr>actor_user_id := None\<rparr>)"
  by (simp add: storedActor_def actorColumns_def actorFromColumns_def)

lemma storedActor_idem [simp]: "storedActor (storedActor a) = storedActor a"
  by (simp add: storedActor_eq)

lemma storedActor_type [simp]: "actor_type (storedActor a) = actor_type a"
  by (simp add: storedActor_eq)

lemma storedActor_valid [simp]: "validThreadActor (storedActor a) = validThreadActor a"
  by (cases "actor_type a") (simp_all add: storedActor_eq validThreadActor_def Actor_IsHuman_def)

lemma pactline_not_blank: "\<not> blank ''pactline''"
  by (simp add: TrimSpace_def go_spaces_def trim_with.simps)

lemma workflowSystemActor_valid [simp]: "validThreadActor workflowSystemActor"
  by (simp add: workflowSystemActor_def validThreadActor_def pactline_not_blank)

lemma OperationActor_Validate_user:
  "OperationActor_Validate opn = Inr u \<Longrightarrow> op_user_id opn \<noteq> uuid_nil \<and> \<not> blank (op_request_id opn)"
  by (auto simp: OperationActor_Validate_def split: if_splits)

lemma OperationActor_Validate_error:
  "OperationActor_Validate opn = Inl e \<Longrightarrow> e = ErrInvalidOperationActor"
  by (auto simp: OperationActor_Validate_def split: if_splits AuthenticationMethod.splits)

lemma validateThreadOperationActor_Inr:
  "validateThreadOperationActor a opn = Inr u \<longleftrightarrow>
     OperationActor_Validate opn = Inr () \<and>
     (actor_type a = ActorTypeUser \<and> op_auth_method opn = AuthenticationMethodSession \<and>
        actor_user_id a = Some (op_user_id opn)
      \<or> actor_type a = ActorTypeAgent \<and> op_auth_method opn \<noteq> AuthenticationMethodSession \<and>
        \<not> blank (actor_ref a))"
  by (cases "OperationActor_Validate opn")
    (auto simp: validateThreadOperationActor_def split: ActorType.splits)

end
