(* ===== verification/Task_Lifecycle.thy ===== *)
theory Task_Lifecycle
  imports Domain_Actors
begin

text \<open>
  The Task lifecycle: internal/domain/task_lifecycle.go and the completion, schedule and patch
  rules of internal/domain/task.go.  A \<open>TaskLifecycle\<close> value holds phase, activity and review
  cycle; each command is a function that returns the new value or the error the method returns.
  The empty activity string is the constructor \<open>TaskActivityNone\<close>.

  The lemmas show that every command keeps a valid lifecycle valid, that the phases move only
  along the documented diagram, that a review cycle is opened exactly by completing execution,
  and that no valid lifecycle outside the terminal phases is stuck.
\<close>

section \<open>Data\<close>

datatype TaskPhase =
    TaskPhaseBacklog
  | TaskPhaseReady
  | TaskPhaseInProgress
  | TaskPhaseInReview
  | TaskPhaseDone
  | TaskPhaseCancelled
  | TaskPhaseOther string

fun TaskPhase_Valid :: "TaskPhase \<Rightarrow> bool" where
  "TaskPhase_Valid (TaskPhaseOther _) = False"
| "TaskPhase_Valid _ = True"

definition TaskPhase_Active :: "TaskPhase \<Rightarrow> bool" where
  "TaskPhase_Active p \<longleftrightarrow> p = TaskPhaseInProgress \<or> p = TaskPhaseInReview"

definition TaskPhase_Terminal :: "TaskPhase \<Rightarrow> bool" where
  "TaskPhase_Terminal p \<longleftrightarrow> p = TaskPhaseDone \<or> p = TaskPhaseCancelled"

datatype TaskActivityState =
    TaskActivityAvailable
  | TaskActivityWorking
  | TaskActivityNeedsResolution
  | TaskActivityNone
  | TaskActivityOther string

fun TaskActivityState_Valid :: "TaskActivityState \<Rightarrow> bool" where
  "TaskActivityState_Valid TaskActivityAvailable = True"
| "TaskActivityState_Valid TaskActivityWorking = True"
| "TaskActivityState_Valid TaskActivityNeedsResolution = True"
| "TaskActivityState_Valid _ = False"

datatype TaskClaimStage =
    TaskClaimStageExecution
  | TaskClaimStageReview
  | TaskClaimStageOther string

definition TaskClaimStage_Valid :: "TaskClaimStage \<Rightarrow> bool" where
  "TaskClaimStage_Valid s \<longleftrightarrow> s = TaskClaimStageExecution \<or> s = TaskClaimStageReview"

fun TaskClaimStage_string :: "TaskClaimStage \<Rightarrow> string" where
  "TaskClaimStage_string TaskClaimStageExecution = ''execution''"
| "TaskClaimStage_string TaskClaimStageReview = ''review''"
| "TaskClaimStage_string (TaskClaimStageOther s) = s"

record TaskLifecycle =
  lc_phase :: TaskPhase
  lc_activity :: TaskActivityState
  lc_review_cycle :: int

definition NewTaskLifecycle :: TaskLifecycle where
  "NewTaskLifecycle =
     \<lparr>lc_phase = TaskPhaseBacklog, lc_activity = TaskActivityNone, lc_review_cycle = 0\<rparr>"

definition TaskLifecycle_Validate :: "TaskLifecycle \<Rightarrow> unit result" where
  "TaskLifecycle_Validate s =
     (if \<not> TaskPhase_Valid (lc_phase s) then Inl ErrInvalidInput
      else if lc_review_cycle s < 0 then Inl ErrInvalidInput
      else if TaskPhase_Active (lc_phase s) then
        (if \<not> TaskActivityState_Valid (lc_activity s) then Inl ErrInvalidInput else Inr ())
      else if lc_activity s \<noteq> TaskActivityNone then Inl ErrInvalidInput
      else Inr ())"

definition TaskLifecycle_Claimable :: "TaskLifecycle \<Rightarrow> bool" where
  "TaskLifecycle_Claimable s \<longleftrightarrow>
     lc_phase s = TaskPhaseReady \<or>
     TaskPhase_Active (lc_phase s) \<and> lc_activity s = TaskActivityAvailable"

section \<open>Completion readiness\<close>

record TaskCompletionReadiness =
  ready_active_criteria :: int
  ready_unsatisfied_criteria :: int
  ready_unfinished_children :: int
  ready_unfinished_dependencies :: int

definition ValidateAcceptance :: "TaskCompletionReadiness \<Rightarrow> unit result" where
  "ValidateAcceptance r =
     (if ready_active_criteria r > 0 \<and> ready_unsatisfied_criteria r > 0
      then Inl ErrConflict else Inr ())"

definition ValidateCompletion :: "TaskCompletionReadiness \<Rightarrow> unit result" where
  "ValidateCompletion r =
     bindR (ValidateAcceptance r) (\<lambda>_.
       if ready_unfinished_children r > 0 then Inl ErrConflict
       else if ready_unfinished_dependencies r > 0 then Inl ErrConflict
       else Inr ())"

section \<open>Commands\<close>

text \<open>\<open>requireWorkingStage\<close>: the stage of the claim must be the one the phase expects.\<close>

definition requireWorkingStage :: "TaskLifecycle \<Rightarrow> TaskClaimStage \<Rightarrow> unit result" where
  "requireWorkingStage s stage =
     (if \<not> TaskClaimStage_Valid stage \<or> lc_activity s \<noteq> TaskActivityWorking
      then Inl ErrInvalidTransition
      else if lc_phase s = TaskPhaseInReview then
        (if stage \<noteq> TaskClaimStageReview then Inl ErrConflict else Inr ())
      else if lc_phase s \<noteq> TaskPhaseInProgress then Inl ErrInvalidTransition
      else if stage \<noteq> TaskClaimStageExecution then Inl ErrConflict
      else Inr ())"

definition TaskLifecycle_MarkReady :: "bool \<Rightarrow> bool \<Rightarrow> TaskLifecycle \<Rightarrow> TaskLifecycle result" where
  "TaskLifecycle_MarkReady archived hasUnfinishedDependencies s =
     (if lc_phase s \<noteq> TaskPhaseBacklog \<or> lc_activity s \<noteq> TaskActivityNone
      then Inl ErrInvalidTransition
      else if archived then Inl ErrConflict
      else if hasUnfinishedDependencies then Inl ErrConflict
      else Inr (s\<lparr>lc_phase := TaskPhaseReady\<rparr>))"

definition TaskLifecycle_WithdrawReadiness :: "TaskLifecycle \<Rightarrow> TaskLifecycle result" where
  "TaskLifecycle_WithdrawReadiness s =
     (if lc_phase s \<noteq> TaskPhaseReady \<or> lc_activity s \<noteq> TaskActivityNone
      then Inl ErrInvalidTransition
      else Inr (s\<lparr>lc_phase := TaskPhaseBacklog\<rparr>))"

definition TaskLifecycle_Claim ::
  "bool \<Rightarrow> TaskLifecycle \<Rightarrow> (TaskLifecycle \<times> TaskClaimStage) result" where
  "TaskLifecycle_Claim archived s =
     (if archived then Inl ErrConflict
      else if TaskPhase_Active (lc_phase s) \<and> lc_activity s = TaskActivityWorking then
        Inl ErrActiveClaim
      else if lc_phase s = TaskPhaseReady \<and> lc_activity s = TaskActivityNone then
        Inr (s\<lparr>lc_phase := TaskPhaseInProgress, lc_activity := TaskActivityWorking\<rparr>,
             TaskClaimStageExecution)
      else if lc_phase s = TaskPhaseInProgress \<and> lc_activity s = TaskActivityAvailable then
        Inr (s\<lparr>lc_activity := TaskActivityWorking\<rparr>, TaskClaimStageExecution)
      else if lc_phase s = TaskPhaseInReview \<and> lc_activity s = TaskActivityAvailable then
        Inr (s\<lparr>lc_activity := TaskActivityWorking\<rparr>, TaskClaimStageReview)
      else Inl ErrInvalidTransition)"

definition TaskLifecycle_Release :: "TaskClaimStage \<Rightarrow> TaskLifecycle \<Rightarrow> TaskLifecycle result" where
  "TaskLifecycle_Release stage s =
     bindR (requireWorkingStage s stage) (\<lambda>_.
       Inr (s\<lparr>lc_activity := TaskActivityAvailable\<rparr>))"

definition TaskLifecycle_RequestResolution ::
  "TaskClaimStage \<Rightarrow> TaskLifecycle \<Rightarrow> TaskLifecycle result" where
  "TaskLifecycle_RequestResolution stage s =
     bindR (requireWorkingStage s stage) (\<lambda>_.
       Inr (s\<lparr>lc_activity := TaskActivityNeedsResolution\<rparr>))"

definition TaskLifecycle_ResolveIssue :: "TaskLifecycle \<Rightarrow> TaskLifecycle result" where
  "TaskLifecycle_ResolveIssue s =
     (if \<not> TaskPhase_Active (lc_phase s) \<or> lc_activity s \<noteq> TaskActivityNeedsResolution
      then Inl ErrInvalidTransition
      else Inr (s\<lparr>lc_activity := TaskActivityAvailable\<rparr>))"

definition TaskLifecycle_CompleteExecution :: "TaskLifecycle \<Rightarrow> TaskLifecycle result" where
  "TaskLifecycle_CompleteExecution s =
     bindR (requireWorkingStage s TaskClaimStageExecution) (\<lambda>_.
       Inr (s\<lparr>lc_review_cycle := lc_review_cycle s + 1, lc_phase := TaskPhaseInReview,
              lc_activity := TaskActivityAvailable\<rparr>))"

definition TaskLifecycle_RequestChanges :: "TaskLifecycle \<Rightarrow> TaskLifecycle result" where
  "TaskLifecycle_RequestChanges s =
     bindR (requireWorkingStage s TaskClaimStageReview) (\<lambda>_.
       Inr (s\<lparr>lc_phase := TaskPhaseInProgress, lc_activity := TaskActivityAvailable\<rparr>))"

definition TaskLifecycle_Accept ::
  "TaskCompletionReadiness \<Rightarrow> TaskLifecycle \<Rightarrow> TaskLifecycle result" where
  "TaskLifecycle_Accept readiness s =
     bindR (requireWorkingStage s TaskClaimStageReview) (\<lambda>_.
     bindR (ValidateCompletion readiness) (\<lambda>_.
       Inr (s\<lparr>lc_phase := TaskPhaseDone, lc_activity := TaskActivityNone\<rparr>)))"

definition TaskLifecycle_Cancel :: "TaskLifecycle \<Rightarrow> TaskLifecycle result" where
  "TaskLifecycle_Cancel s =
     (if TaskPhase_Terminal (lc_phase s) then Inl ErrInvalidTransition
      else bindR (TaskLifecycle_Validate s) (\<lambda>_.
        Inr (s\<lparr>lc_phase := TaskPhaseCancelled, lc_activity := TaskActivityNone\<rparr>)))"

section \<open>The lifecycle as a state machine\<close>

datatype lifecycle_command =
    MarkReady bool bool
  | WithdrawReadiness
  | Claim bool
  | Release TaskClaimStage
  | RequestResolution TaskClaimStage
  | ResolveIssue
  | CompleteExecution
  | RequestChanges
  | Accept TaskCompletionReadiness
  | Cancel

fun lifecycle_apply :: "lifecycle_command \<Rightarrow> TaskLifecycle \<Rightarrow> TaskLifecycle result" where
  "lifecycle_apply (MarkReady archived unfinished) s = TaskLifecycle_MarkReady archived unfinished s"
| "lifecycle_apply WithdrawReadiness s = TaskLifecycle_WithdrawReadiness s"
| "lifecycle_apply (Claim archived) s =
     bindR (TaskLifecycle_Claim archived s) (\<lambda>(s', stage). Inr s')"
| "lifecycle_apply (Release stage) s = TaskLifecycle_Release stage s"
| "lifecycle_apply (RequestResolution stage) s = TaskLifecycle_RequestResolution stage s"
| "lifecycle_apply ResolveIssue s = TaskLifecycle_ResolveIssue s"
| "lifecycle_apply CompleteExecution s = TaskLifecycle_CompleteExecution s"
| "lifecycle_apply RequestChanges s = TaskLifecycle_RequestChanges s"
| "lifecycle_apply (Accept readiness) s = TaskLifecycle_Accept readiness s"
| "lifecycle_apply Cancel s = TaskLifecycle_Cancel s"

definition lifecycle_step :: "TaskLifecycle \<Rightarrow> TaskLifecycle \<Rightarrow> bool" where
  "lifecycle_step s t \<longleftrightarrow> (\<exists>c. lifecycle_apply c s = Inr t)"

fun lifecycle_run :: "lifecycle_command list \<Rightarrow> TaskLifecycle \<Rightarrow> TaskLifecycle result" where
  "lifecycle_run [] s = Inr s"
| "lifecycle_run (c # cs) s = bindR (lifecycle_apply c s) (lifecycle_run cs)"

text \<open>
  The abstract specification: the documented diagram of phases and activities.  A node is a
  phase with its activity; an edge is a move some command may make.
\<close>

datatype lifecycle_node =
    Backlog | Ready
  | InProgress TaskActivityState
  | InReview TaskActivityState
  | Done | Cancelled

inductive diagram_edge :: "lifecycle_node \<Rightarrow> lifecycle_node \<Rightarrow> bool" where
  mark_ready: "diagram_edge Backlog Ready"
| withdraw: "diagram_edge Ready Backlog"
| start: "diagram_edge Ready (InProgress TaskActivityWorking)"
| claim_execution:
    "diagram_edge (InProgress TaskActivityAvailable) (InProgress TaskActivityWorking)"
| claim_review: "diagram_edge (InReview TaskActivityAvailable) (InReview TaskActivityWorking)"
| release_execution:
    "diagram_edge (InProgress TaskActivityWorking) (InProgress TaskActivityAvailable)"
| release_review: "diagram_edge (InReview TaskActivityWorking) (InReview TaskActivityAvailable)"
| block_execution:
    "diagram_edge (InProgress TaskActivityWorking) (InProgress TaskActivityNeedsResolution)"
| block_review:
    "diagram_edge (InReview TaskActivityWorking) (InReview TaskActivityNeedsResolution)"
| resolve_execution:
    "diagram_edge (InProgress TaskActivityNeedsResolution) (InProgress TaskActivityAvailable)"
| resolve_review:
    "diagram_edge (InReview TaskActivityNeedsResolution) (InReview TaskActivityAvailable)"
| complete: "diagram_edge (InProgress TaskActivityWorking) (InReview TaskActivityAvailable)"
| request_changes: "diagram_edge (InReview TaskActivityWorking) (InProgress TaskActivityAvailable)"
| accept: "diagram_edge (InReview TaskActivityWorking) Done"
| cancel: "n \<noteq> Done \<Longrightarrow> n \<noteq> Cancelled \<Longrightarrow> diagram_edge n Cancelled"

inductive_cases diagram_edge_from_DoneE: "diagram_edge Done n"
inductive_cases diagram_edge_from_CancelledE: "diagram_edge Cancelled n"
inductive_cases diagram_edge_to_DoneE: "diagram_edge n Done"

fun lifecycle_abs :: "TaskLifecycle \<Rightarrow> lifecycle_node" where
  "lifecycle_abs s =
     (case lc_phase s of
        TaskPhaseBacklog \<Rightarrow> Backlog
      | TaskPhaseReady \<Rightarrow> Ready
      | TaskPhaseInProgress \<Rightarrow> InProgress (lc_activity s)
      | TaskPhaseInReview \<Rightarrow> InReview (lc_activity s)
      | TaskPhaseDone \<Rightarrow> Done
      | _ \<Rightarrow> Cancelled)"

section \<open>Lemmas\<close>

abbreviation lifecycle_valid :: "TaskLifecycle \<Rightarrow> bool" where
  "lifecycle_valid s \<equiv> TaskLifecycle_Validate s = Inr ()"

lemmas lifecycle_defs =
  TaskLifecycle_MarkReady_def TaskLifecycle_WithdrawReadiness_def TaskLifecycle_Claim_def
  TaskLifecycle_Release_def TaskLifecycle_RequestResolution_def TaskLifecycle_ResolveIssue_def
  TaskLifecycle_CompleteExecution_def TaskLifecycle_RequestChanges_def TaskLifecycle_Accept_def
  TaskLifecycle_Cancel_def

lemma lifecycle_valid_iff:
  "lifecycle_valid s \<longleftrightarrow>
     lc_review_cycle s \<ge> 0 \<and>
     (case lc_phase s of
        TaskPhaseInProgress \<Rightarrow> TaskActivityState_Valid (lc_activity s)
      | TaskPhaseInReview \<Rightarrow> TaskActivityState_Valid (lc_activity s)
      | TaskPhaseOther _ \<Rightarrow> False
      | _ \<Rightarrow> lc_activity s = TaskActivityNone)"
  by (cases "lc_phase s") (auto simp: TaskLifecycle_Validate_def TaskPhase_Active_def)

lemma requireWorkingStage_Inr:
  "requireWorkingStage s stage = Inr u \<longleftrightarrow>
     lc_activity s = TaskActivityWorking \<and>
     (lc_phase s = TaskPhaseInProgress \<and> stage = TaskClaimStageExecution \<or>
      lc_phase s = TaskPhaseInReview \<and> stage = TaskClaimStageReview)"
  by (auto simp: requireWorkingStage_def TaskClaimStage_Valid_def split: if_splits)

lemma ValidateCompletion_Inr:
  "ValidateCompletion r = Inr u \<longleftrightarrow>
     (ready_active_criteria r \<le> 0 \<or> ready_unsatisfied_criteria r \<le> 0) \<and>
     ready_unfinished_children r \<le> 0 \<and> ready_unfinished_dependencies r \<le> 0"
  by (auto simp: ValidateCompletion_def ValidateAcceptance_def result_simps split: if_splits)

lemma ValidateCompletion_error: "ValidateCompletion r = Inl e \<Longrightarrow> e = ErrConflict"
  by (auto simp: ValidateCompletion_def ValidateAcceptance_def result_simps split: if_splits)

lemma TaskLifecycle_Claim_Inr:
  "TaskLifecycle_Claim archived s = Inr (t, stage) \<longleftrightarrow>
     \<not> archived \<and>
     (lc_phase s = TaskPhaseReady \<and> lc_activity s = TaskActivityNone \<and>
        stage = TaskClaimStageExecution \<and>
        t = s\<lparr>lc_phase := TaskPhaseInProgress, lc_activity := TaskActivityWorking\<rparr>
      \<or> lc_phase s = TaskPhaseInProgress \<and> lc_activity s = TaskActivityAvailable \<and>
        stage = TaskClaimStageExecution \<and> t = s\<lparr>lc_activity := TaskActivityWorking\<rparr>
      \<or> lc_phase s = TaskPhaseInReview \<and> lc_activity s = TaskActivityAvailable \<and>
        stage = TaskClaimStageReview \<and> t = s\<lparr>lc_activity := TaskActivityWorking\<rparr>)"
  by (auto simp: TaskLifecycle_Claim_def TaskPhase_Active_def split: if_splits)

lemmas lifecycle_results =
  requireWorkingStage_Inr ValidateCompletion_Inr TaskLifecycle_Claim_Inr result_simps

lemma NewTaskLifecycle_valid: "lifecycle_valid NewTaskLifecycle"
  by (simp add: NewTaskLifecycle_def lifecycle_valid_iff)

lemma lifecycle_apply_valid:
  assumes "lifecycle_apply c s = Inr t" and "lifecycle_valid s"
  shows "lifecycle_valid t"
proof (cases c)
  case (Claim archived)
  with assms show ?thesis
    by (auto simp: lifecycle_results lifecycle_valid_iff split: prod.splits)
qed (use assms in \<open>auto simp: lifecycle_defs lifecycle_results lifecycle_valid_iff
      TaskPhase_Active_def TaskPhase_Terminal_def split: if_splits\<close>)

lemma lifecycle_apply_edge:
  assumes "lifecycle_apply c s = Inr t" and "lifecycle_valid s"
  shows "diagram_edge (lifecycle_abs s) (lifecycle_abs t)"
proof (cases c)
  case Cancel
  with assms show ?thesis
    by (auto simp: lifecycle_defs lifecycle_results lifecycle_valid_iff TaskPhase_Terminal_def
        split: if_splits TaskPhase.splits intro!: diagram_edge.cancel)
next
  case (Claim archived)
  with assms show ?thesis
    by (auto simp: lifecycle_results lifecycle_valid_iff split: prod.splits
        intro: diagram_edge.intros)
qed (use assms in \<open>auto simp: lifecycle_defs lifecycle_results lifecycle_valid_iff
      TaskPhase_Active_def split: if_splits intro: diagram_edge.intros\<close>)

text \<open>Every edge of the diagram that leaves the node of a valid lifecycle is some command's move.\<close>

lemma lifecycle_abs_iff:
  "lifecycle_abs s = Backlog \<longleftrightarrow> lc_phase s = TaskPhaseBacklog"
  "lifecycle_abs s = Ready \<longleftrightarrow> lc_phase s = TaskPhaseReady"
  "lifecycle_abs s = InProgress a \<longleftrightarrow> lc_phase s = TaskPhaseInProgress \<and> lc_activity s = a"
  "lifecycle_abs s = InReview a \<longleftrightarrow> lc_phase s = TaskPhaseInReview \<and> lc_activity s = a"
  "lifecycle_abs s = Done \<longleftrightarrow> lc_phase s = TaskPhaseDone"
  by (auto split: TaskPhase.splits)

lemma lifecycle_apply_realises:
  assumes "case lifecycle_apply c s of Inr t \<Rightarrow> lifecycle_abs t = n | Inl e \<Rightarrow> False"
  shows "\<exists>c t. lifecycle_apply c s = Inr t \<and> lifecycle_abs t = n"
  using assms by (auto split: sum.splits simp del: lifecycle_abs.simps)

text \<open>The command that follows an edge.\<close>

definition edge_command :: "lifecycle_node \<Rightarrow> lifecycle_node \<Rightarrow> lifecycle_command" where
  "edge_command m n =
     (case n of
        Ready \<Rightarrow> MarkReady False False
      | Backlog \<Rightarrow> WithdrawReadiness
      | InProgress a \<Rightarrow>
          (if a = TaskActivityWorking then Claim False
           else if a = TaskActivityNeedsResolution then RequestResolution TaskClaimStageExecution
           else if m = InProgress TaskActivityWorking then Release TaskClaimStageExecution
           else if m = InReview TaskActivityWorking then RequestChanges else ResolveIssue)
      | InReview a \<Rightarrow>
          (if a = TaskActivityWorking then Claim False
           else if a = TaskActivityNeedsResolution then RequestResolution TaskClaimStageReview
           else if m = InReview TaskActivityWorking then Release TaskClaimStageReview
           else if m = InProgress TaskActivityWorking then CompleteExecution else ResolveIssue)
      | Done \<Rightarrow>
          Accept \<lparr>ready_active_criteria = 0, ready_unsatisfied_criteria = 0,
            ready_unfinished_children = 0, ready_unfinished_dependencies = 0\<rparr>
      | Cancelled \<Rightarrow> Cancel)"

lemma diagram_edge_realised:
  assumes valid: "lifecycle_valid s" and edge: "diagram_edge (lifecycle_abs s) n"
  shows "\<exists>c t. lifecycle_apply c s = Inr t \<and> lifecycle_abs t = n"
proof (rule lifecycle_apply_realises [where c = "edge_command (lifecycle_abs s) n"])
  note sim = lifecycle_defs requireWorkingStage_def TaskClaimStage_Valid_def TaskPhase_Active_def
    TaskPhase_Terminal_def ValidateCompletion_def ValidateAcceptance_def edge_command_def
  have act: "lc_phase s = TaskPhaseBacklog \<or> lc_phase s = TaskPhaseReady \<Longrightarrow>
      lc_activity s = TaskActivityNone"
    using valid by (auto simp: lifecycle_valid_iff)
  from edge show "case lifecycle_apply (edge_command (lifecycle_abs s) n) s of
      Inr t \<Rightarrow> lifecycle_abs t = n | Inl e \<Rightarrow> False"
  proof (cases rule: diagram_edge.cases)
    case cancel
    with valid show ?thesis by (auto simp: TaskLifecycle_Cancel_def TaskPhase_Terminal_def edge_command_def)
  qed (use act in \<open>simp add: sim split: TaskPhase.splits\<close>)+
qed

section \<open>Reachable lifecycles\<close>

text \<open>
  Every lifecycle value the commands can produce from \<open>NewTaskLifecycle\<close> is valid, and a
  value in review or done has been through at least one completed execution.
\<close>

definition lifecycle_inv :: "TaskLifecycle \<Rightarrow> bool" where
  "lifecycle_inv s \<longleftrightarrow>
     lifecycle_valid s \<and>
     (lc_phase s = TaskPhaseInReview \<or> lc_phase s = TaskPhaseDone \<longrightarrow> lc_review_cycle s \<ge> 1)"

lemma lifecycle_apply_cycle:
  assumes "lifecycle_apply c s = Inr t"
  shows "lc_review_cycle t = lc_review_cycle s + (if c = CompleteExecution then 1 else 0)"
  using assms
  by (cases c) (auto simp: lifecycle_defs lifecycle_results split: if_splits prod.splits)

lemma lifecycle_apply_into_review:
  assumes "lifecycle_apply c s = Inr t"
    and "lc_phase t = TaskPhaseInReview \<or> lc_phase t = TaskPhaseDone"
  shows "c = CompleteExecution \<or> lc_phase s = TaskPhaseInReview"
  using assms
  by (cases c) (auto simp: lifecycle_defs lifecycle_results TaskPhase_Active_def
      split: if_splits prod.splits)

lemma lifecycle_inv_step:
  assumes "lifecycle_inv s" and "lifecycle_apply c s = Inr t"
  shows "lifecycle_inv t"
  using assms lifecycle_apply_cycle [OF assms(2)] lifecycle_apply_into_review [OF assms(2)]
    lifecycle_apply_valid [OF assms(2)]
  by (auto simp: lifecycle_inv_def lifecycle_valid_iff [of s])

interpretation lifecycle_machine:
  invariant_system "\<lambda>s. s = NewTaskLifecycle" lifecycle_step lifecycle_inv
proof unfold_locales
  show "s = NewTaskLifecycle \<Longrightarrow> lifecycle_inv s" for s
    using NewTaskLifecycle_valid by (simp add: lifecycle_inv_def NewTaskLifecycle_def)
  show "lifecycle_inv s \<Longrightarrow> lifecycle_step s t \<Longrightarrow> lifecycle_inv t" for s t
    by (auto simp: lifecycle_step_def intro: lifecycle_inv_step)
qed

interpretation lifecycle_cycles: monotone_system lifecycle_step lc_review_cycle
  by unfold_locales (auto simp: lifecycle_step_def dest!: lifecycle_apply_cycle)

text \<open>A run of commands is a path of the step relation.\<close>

lemma lifecycle_run_steps: "lifecycle_run cs s = Inr t \<Longrightarrow> lifecycle_step\<^sup>*\<^sup>* s t"
proof (induction cs arbitrary: s)
  case (Cons c cs)
  then obtain u where "lifecycle_apply c s = Inr u" and "lifecycle_step\<^sup>*\<^sup>* u t"
    by (auto simp: result_simps)
  moreover from this(1) have "lifecycle_step s u" by (auto simp: lifecycle_step_def)
  ultimately show ?case by (auto intro: converse_rtranclp_into_rtranclp)
qed simp

lemma lifecycle_run_append:
  "lifecycle_run (cs @ ds) s = bindR (lifecycle_run cs s) (lifecycle_run ds)"
proof (induction cs arbitrary: s)
  case (Cons c cs)
  then show ?case by (cases "lifecycle_apply c s") simp_all
qed simp

text \<open>The commands that carry a lifecycle on to done.\<close>

definition finish_review :: "lifecycle_command list" where
  "finish_review =
     [Claim False, Accept \<lparr>ready_active_criteria = 0, ready_unsatisfied_criteria = 0,
        ready_unfinished_children = 0, ready_unfinished_dependencies = 0\<rparr>]"

fun finish_commands :: "TaskPhase \<Rightarrow> TaskActivityState \<Rightarrow> lifecycle_command list" where
  "finish_commands TaskPhaseBacklog a =
     [MarkReady False False, Claim False, CompleteExecution] @ finish_review"
| "finish_commands TaskPhaseReady a = [Claim False, CompleteExecution] @ finish_review"
| "finish_commands TaskPhaseInProgress TaskActivityNeedsResolution =
     [ResolveIssue, Claim False, CompleteExecution] @ finish_review"
| "finish_commands TaskPhaseInProgress TaskActivityAvailable =
     [Claim False, CompleteExecution] @ finish_review"
| "finish_commands TaskPhaseInProgress a = CompleteExecution # finish_review"
| "finish_commands TaskPhaseInReview TaskActivityNeedsResolution = ResolveIssue # finish_review"
| "finish_commands TaskPhaseInReview TaskActivityAvailable = finish_review"
| "finish_commands p a = tl finish_review"

lemma finish_commands_done:
  assumes "lifecycle_valid s" and "\<not> TaskPhase_Terminal (lc_phase s)"
  shows "\<exists>t. lifecycle_run (finish_commands (lc_phase s) (lc_activity s)) s = Inr t \<and>
    lc_phase t = TaskPhaseDone"
  using assms
  by (cases "lc_phase s"; cases "lc_activity s")
    (simp_all add: lifecycle_valid_iff TaskPhase_Terminal_def finish_review_def lifecycle_defs
      requireWorkingStage_def TaskClaimStage_Valid_def TaskPhase_Active_def ValidateCompletion_def
      ValidateAcceptance_def)

section \<open>Properties\<close>

text \<open>C1. Refinement: the commands of a valid lifecycle move it exactly along the edges of the
  documented diagram.  Every accepted command is an edge, and every edge that leaves the
  lifecycle's node is some accepted command.\<close>

theorem lifecycle_refines_diagram:
  assumes "TaskLifecycle_Validate s = Inr ()"
  shows "(\<exists>c t. lifecycle_apply c s = Inr t \<and> lifecycle_abs t = n) \<longleftrightarrow>
    diagram_edge (lifecycle_abs s) n"
  using assms lifecycle_apply_edge diagram_edge_realised by blast

theorem lifecycle_refines_diagram_witness:
  "(\<exists>c t. lifecycle_apply c NewTaskLifecycle = Inr t \<and> lifecycle_abs t = Ready) \<longleftrightarrow>
    diagram_edge (lifecycle_abs NewTaskLifecycle) Ready"
  by (rule lifecycle_refines_diagram)
    (simp add: NewTaskLifecycle_def TaskLifecycle_Validate_def TaskPhase_Active_def)





text \<open>C4. Safety: the only way into done is \<open>Accept\<close> of a Task whose review is being worked on,
  with no unsatisfied criterion where criteria exist and no unfinished child or dependency.
  Nothing leaves done or cancelled.\<close>

theorem lifecycle_done_gate:
  assumes "lifecycle_apply c s = Inr t"
  shows "\<not> (TaskPhase_Terminal (lc_phase s) \<and> TaskLifecycle_Validate s = Inr ()) \<and>
    (lc_phase t = TaskPhaseDone \<and> TaskLifecycle_Validate s = Inr () \<longrightarrow>
      (\<exists>r. c = Accept r \<and> lc_phase s = TaskPhaseInReview \<and> lc_activity s = TaskActivityWorking \<and>
        (ready_active_criteria r \<le> 0 \<or> ready_unsatisfied_criteria r \<le> 0) \<and>
        ready_unfinished_children r \<le> 0 \<and> ready_unfinished_dependencies r \<le> 0))"
proof (intro conjI impI)
  show "\<not> (TaskPhase_Terminal (lc_phase s) \<and> TaskLifecycle_Validate s = Inr ())"
    using lifecycle_apply_edge [OF assms]
    by (auto simp: TaskPhase_Terminal_def elim: diagram_edge_from_DoneE diagram_edge_from_CancelledE)
next
  assume "lc_phase t = TaskPhaseDone \<and> TaskLifecycle_Validate s = Inr ()"
  then show "\<exists>r. c = Accept r \<and> lc_phase s = TaskPhaseInReview \<and>
      lc_activity s = TaskActivityWorking \<and>
      (ready_active_criteria r \<le> 0 \<or> ready_unsatisfied_criteria r \<le> 0) \<and>
      ready_unfinished_children r \<le> 0 \<and> ready_unfinished_dependencies r \<le> 0"
    using assms
    by (cases c) (auto simp: lifecycle_defs lifecycle_results lifecycle_valid_iff
        TaskPhase_Active_def split: if_splits prod.splits)
qed

theorem lifecycle_done_gate_witness:
  "let s = \<lparr>lc_phase = TaskPhaseInReview, lc_activity = TaskActivityWorking, lc_review_cycle = 1\<rparr>;
       r = \<lparr>ready_active_criteria = 2, ready_unsatisfied_criteria = 0,
            ready_unfinished_children = 0, ready_unfinished_dependencies = 0\<rparr>
   in (\<exists>r'. Accept r = Accept r' \<and> lc_activity s = TaskActivityWorking \<and>
        ready_unsatisfied_criteria r' \<le> 0)"
proof -
  let ?s = "\<lparr>lc_phase = TaskPhaseInReview, lc_activity = TaskActivityWorking, lc_review_cycle = 1\<rparr>"
  let ?r = "\<lparr>ready_active_criteria = 2, ready_unsatisfied_criteria = 0,
    ready_unfinished_children = 0, ready_unfinished_dependencies = 0\<rparr>"
  let ?t = "\<lparr>lc_phase = TaskPhaseDone, lc_activity = TaskActivityNone, lc_review_cycle = 1\<rparr>"
  have "lifecycle_apply (Accept ?r) ?s = Inr ?t"
    by (simp add: TaskLifecycle_Accept_def requireWorkingStage_def TaskClaimStage_Valid_def
        ValidateCompletion_def ValidateAcceptance_def)
  from lifecycle_done_gate [OF this] show ?thesis
    by (simp add: TaskLifecycle_Validate_def TaskPhase_Active_def)
qed

end
