(* ===== verification/Task_Domain.thy ===== *)
theory Task_Domain
  imports Task_Lifecycle
begin

text \<open>
  The Task entity: internal/domain/task.go.  The completion rules of the same file are in
  \<open>Task_Lifecycle\<close>, where \<open>Accept\<close> uses them.  A Go pointer that may be nil is an option.
\<close>

section \<open>Data\<close>

datatype TaskStatus =
    TaskStatusTodo
  | TaskStatusInProgress
  | TaskStatusInReview
  | TaskStatusDone
  | TaskStatusCancelled
  | TaskStatusOther string

fun TaskStatus_Valid :: "TaskStatus \<Rightarrow> bool" where
  "TaskStatus_Valid (TaskStatusOther _) = False"
| "TaskStatus_Valid _ = True"

datatype TaskPriority =
    TaskPriorityNone
  | TaskPriorityLow
  | TaskPriorityMedium
  | TaskPriorityHigh
  | TaskPriorityUrgent
  | TaskPriorityOther string

fun TaskPriority_Valid :: "TaskPriority \<Rightarrow> bool" where
  "TaskPriority_Valid (TaskPriorityOther _) = False"
| "TaskPriority_Valid _ = True"

datatype TaskExecutionMode =
    TaskExecutionModeHumanOnly
  | TaskExecutionModeAgentAllowed
  | TaskExecutionModeOther string

fun TaskExecutionMode_Valid :: "TaskExecutionMode \<Rightarrow> bool" where
  "TaskExecutionMode_Valid (TaskExecutionModeOther _) = False"
| "TaskExecutionMode_Valid _ = True"

record Task =
  task_id :: uuid
  task_number :: int
  task_version :: int
  task_title :: string
  task_context :: string
  task_expected_result :: string
  task_description :: string
  task_phase :: TaskPhase
  task_activity :: TaskActivityState
  task_review_cycle :: int
  task_active_issue_thread_id :: "uuid option"
  task_main_thread_id :: uuid
  task_status :: TaskStatus
  task_priority :: TaskPriority
  task_execution_mode :: TaskExecutionMode
  task_assignee_id :: "uuid option"
  task_creator_id :: uuid
  task_start_date :: "time option"
  task_due_date :: "time option"
  task_project_id :: uuid
  task_milestone_id :: "uuid option"
  task_parent_task_id :: "uuid option"
  task_created_at :: time
  task_updated_at :: time
  task_completed_at :: "time option"
  task_archived_at :: "time option"

definition TargetLifecycle :: "Task \<Rightarrow> TaskLifecycle" where
  "TargetLifecycle t =
     \<lparr>lc_phase = task_phase t, lc_activity = task_activity t,
      lc_review_cycle = task_review_cycle t\<rparr>"

definition ValidateSchedule :: "time option \<Rightarrow> time option \<Rightarrow> unit result" where
  "ValidateSchedule startDate dueDate =
     (case (startDate, dueDate) of
        (Some s, Some d) \<Rightarrow> if s > d then Inl ErrInvalidInput else Inr ()
      | _ \<Rightarrow> Inr ())"

section \<open>Patches\<close>

text \<open>
  A field that is not nullable is an option; a nullable field has its \<open>Set\<close> flag beside it.
\<close>

record TaskPatch =
  patch_title :: "string option"
  patch_context :: "string option"
  patch_expected_result :: "string option"
  patch_description :: "string option"
  patch_status :: "TaskStatus option"
  patch_priority :: "TaskPriority option"
  patch_execution_mode :: "TaskExecutionMode option"
  patch_assignee_set :: bool
  patch_assignee_id :: "uuid option"
  patch_due_date_set :: bool
  patch_due_date :: "time option"
  patch_start_date_set :: bool
  patch_start_date :: "time option"
  patch_labels_set :: bool
  patch_label_ids :: "uuid list"
  patch_project_set :: bool
  patch_project_id :: "uuid option"
  patch_milestone_set :: bool
  patch_milestone_id :: "uuid option"
  patch_parent_set :: bool
  patch_parent_task_id :: "uuid option"
  patch_dependencies_set :: bool
  patch_dependency_ids :: "uuid list"
  patch_schedule_shift_days :: "int option"

definition TaskPatch_IsEmpty :: "TaskPatch \<Rightarrow> bool" where
  "TaskPatch_IsEmpty p \<longleftrightarrow>
     patch_title p = None \<and> patch_context p = None \<and> patch_expected_result p = None \<and>
     patch_description p = None \<and> patch_status p = None \<and> patch_priority p = None \<and>
     patch_execution_mode p = None \<and>
     \<not> patch_assignee_set p \<and> \<not> patch_start_date_set p \<and> \<not> patch_due_date_set p \<and>
     \<not> patch_labels_set p \<and>
     \<not> patch_project_set p \<and> \<not> patch_milestone_set p \<and> \<not> patch_parent_set p \<and>
     \<not> patch_dependencies_set p \<and>
     patch_schedule_shift_days p = None"

section \<open>Labels and activity\<close>

text \<open>internal/domain/label.go and internal/domain/activity.go.\<close>

record Label =
  label_id :: uuid
  label_name :: string
  label_version :: int
  label_created_at :: time

datatype ActivityField =
    ActivityFieldCreated
  | ActivityFieldTitle
  | ActivityFieldContext
  | ActivityFieldExpectedResult
  | ActivityFieldDescription
  | ActivityFieldStatus
  | ActivityFieldPriority
  | ActivityFieldExecutionMode
  | ActivityFieldAssignee
  | ActivityFieldStartDate
  | ActivityFieldDueDate
  | ActivityFieldLabels
  | ActivityFieldProject
  | ActivityFieldMilestone
  | ActivityFieldParent
  | ActivityFieldDependencies
  | ActivityFieldArchived
  | ActivityFieldCodeChanges
  | ActivityFieldOther string

record Activity =
  act_id :: uuid
  act_task_id :: uuid
  act_actor_id :: uuid
  act_field :: ActivityField
  act_old_value :: "string option"
  act_new_value :: "string option"
  act_request_id :: "string option"
  act_auth_method :: "AuthenticationMethod option"
  act_api_token_id :: "uuid option"
  act_token_name :: "string option"
  act_agent_run_id :: "uuid option"
  act_created_at :: time

section \<open>Lemmas\<close>

lemma ValidateSchedule_Inr:
  "ValidateSchedule s d = Inr u \<longleftrightarrow> (\<forall>x y. s = Some x \<longrightarrow> d = Some y \<longrightarrow> x \<le> y)"
  by (auto simp: ValidateSchedule_def split: option.splits if_splits)

lemma TargetLifecycle_simps [simp]:
  "lc_phase (TargetLifecycle t) = task_phase t"
  "lc_activity (TargetLifecycle t) = task_activity t"
  "lc_review_cycle (TargetLifecycle t) = task_review_cycle t"
  by (simp_all add: TargetLifecycle_def)

end
