(* ===== verification/Stage_Claim.thy ===== *)
theory Stage_Claim
  imports Task_Domain
begin

text \<open>
  Claims on a stage of a Task: internal/domain/task_stage_claim.go.  \<open>NewTaskStageClaim\<close> takes
  the identifier \<open>uuid.New\<close> draws as its first argument.  The lemmas show that a claim made
  or completed by these operations is valid and that an active claim is finished exactly once.
\<close>

section \<open>Data\<close>

datatype StageClaimStatus =
    StageClaimStatusActive
  | StageClaimStatusCompleted
  | StageClaimStatusReleased
  | StageClaimStatusExpired
  | StageClaimStatusCancelled
  | StageClaimStatusOther string

fun StageClaimStatus_Valid :: "StageClaimStatus \<Rightarrow> bool" where
  "StageClaimStatus_Valid (StageClaimStatusOther _) = False"
| "StageClaimStatus_Valid _ = True"

definition StageClaimStatus_Terminal :: "StageClaimStatus \<Rightarrow> bool" where
  "StageClaimStatus_Terminal s \<longleftrightarrow> s \<noteq> StageClaimStatusActive \<and> StageClaimStatus_Valid s"

text \<open>The empty outcome string of an active claim is \<open>TaskClaimOutcomeNone\<close>.\<close>

datatype TaskClaimOutcome =
    TaskClaimOutcomeExecutionCompleted
  | TaskClaimOutcomeTaskAccepted
  | TaskClaimOutcomeChangesRequested
  | TaskClaimOutcomeNeedsResolution
  | TaskClaimOutcomeVoluntarilyReleased
  | TaskClaimOutcomeDeadlineElapsed
  | TaskClaimOutcomeTaskCancelled
  | TaskClaimOutcomeNone
  | TaskClaimOutcomeOther string

fun TaskClaimOutcome_Valid :: "TaskClaimOutcome \<Rightarrow> bool" where
  "TaskClaimOutcome_Valid TaskClaimOutcomeNone = False"
| "TaskClaimOutcome_Valid (TaskClaimOutcomeOther _) = False"
| "TaskClaimOutcome_Valid _ = True"

definition TaskClaimActiveLifetime :: int where
  "TaskClaimActiveLifetime = hours (7 * 24)"

definition TaskClaimWaitingLifetime :: int where
  "TaskClaimWaitingLifetime = hours 24"

record TaskStageClaim =
  claim_id :: uuid
  claim_task_id :: uuid
  claim_task_number :: int
  claim_stage :: TaskClaimStage
  claim_claimed_by :: Actor
  claim_subject_user_id :: uuid
  claim_auth_method :: AuthenticationMethod
  claim_api_token_id :: "uuid option"
  claim_token_name :: string
  claim_agent_run_id :: "uuid option"
  claim_client_kind :: string
  claim_client_session_id :: string
  claim_status :: StageClaimStatus
  claim_outcome :: TaskClaimOutcome
  claim_version :: int
  claim_expires_at :: time
  claim_created_at :: time
  claim_updated_at :: time
  claim_completed_at :: "time option"

section \<open>Operations\<close>

definition validateTaskClaimAuthentication :: "TaskStageClaim \<Rightarrow> unit result" where
  "validateTaskClaimAuthentication c =
     (case claim_auth_method c of
        AuthenticationMethodSession \<Rightarrow>
          (if actor_type (claim_claimed_by c) \<noteq> ActorTypeUser \<or> claim_api_token_id c \<noteq> None \<or>
              claim_agent_run_id c \<noteq> None
           then Inl ErrInvalidInput
           else if actor_user_id (claim_claimed_by c) \<noteq> Some (claim_subject_user_id c)
           then Inl ErrInvalidInput
           else Inr ())
      | AuthenticationMethodAPIToken \<Rightarrow>
          (if nil_or_zero (claim_api_token_id c) \<or> blank (claim_token_name c) \<or>
              claim_agent_run_id c \<noteq> None \<or> actor_type (claim_claimed_by c) \<noteq> ActorTypeAgent
           then Inl ErrInvalidInput
           else Inr ())
      | AuthenticationMethodAgentDelegate \<Rightarrow>
          (if nil_or_zero (claim_agent_run_id c) \<or> claim_api_token_id c \<noteq> None \<or>
              actor_type (claim_claimed_by c) \<noteq> ActorTypeAgent
           then Inl ErrInvalidInput
           else Inr ())
      | AuthenticationMethodOther _ \<Rightarrow> Inl ErrInvalidInput)"

definition stageAcceptsOutcome :: "TaskClaimStage \<Rightarrow> TaskClaimOutcome \<Rightarrow> bool" where
  "stageAcceptsOutcome stage outcome =
     (if outcome = TaskClaimOutcomeNeedsResolution \<or>
         outcome = TaskClaimOutcomeVoluntarilyReleased \<or>
         outcome = TaskClaimOutcomeDeadlineElapsed \<or>
         outcome = TaskClaimOutcomeTaskCancelled
      then True
      else if stage = TaskClaimStageExecution
      then outcome = TaskClaimOutcomeExecutionCompleted
      else stage = TaskClaimStageReview \<and>
        (outcome = TaskClaimOutcomeTaskAccepted \<or> outcome = TaskClaimOutcomeChangesRequested))"

definition claimStatusAcceptsOutcome :: "StageClaimStatus \<Rightarrow> TaskClaimOutcome \<Rightarrow> bool" where
  "claimStatusAcceptsOutcome status outcome =
     (case status of
        StageClaimStatusCompleted \<Rightarrow>
          outcome = TaskClaimOutcomeExecutionCompleted \<or>
          outcome = TaskClaimOutcomeTaskAccepted \<or>
          outcome = TaskClaimOutcomeChangesRequested
      | StageClaimStatusReleased \<Rightarrow>
          outcome = TaskClaimOutcomeNeedsResolution \<or>
          outcome = TaskClaimOutcomeVoluntarilyReleased
      | StageClaimStatusExpired \<Rightarrow> outcome = TaskClaimOutcomeDeadlineElapsed
      | StageClaimStatusCancelled \<Rightarrow> outcome = TaskClaimOutcomeTaskCancelled
      | _ \<Rightarrow> False)"

definition TaskStageClaim_Validate :: "TaskStageClaim \<Rightarrow> unit result" where
  "TaskStageClaim_Validate c =
     (if claim_id c = uuid_nil \<or> claim_task_id c = uuid_nil \<or> claim_task_number c < 1 \<or>
         claim_subject_user_id c = uuid_nil \<or>
         \<not> TaskClaimStage_Valid (claim_stage c) \<or> \<not> validThreadActor (claim_claimed_by c) \<or>
         \<not> StageClaimStatus_Valid (claim_status c) \<or> claim_version c < 1 \<or>
         is_zero_time (claim_expires_at c) \<or> is_zero_time (claim_created_at c) \<or>
         is_zero_time (claim_updated_at c)
      then Inl ErrInvalidInput
      else bindR (validateTaskClaimAuthentication c) (\<lambda>_.
        if claim_status c = StageClaimStatusActive then
          (if claim_outcome c \<noteq> TaskClaimOutcomeNone \<or> claim_completed_at c \<noteq> None
           then Inl ErrInvalidInput else Inr ())
        else if \<not> TaskClaimOutcome_Valid (claim_outcome c) \<or> claim_completed_at c = None
        then Inl ErrInvalidInput
        else if \<not> claimStatusAcceptsOutcome (claim_status c) (claim_outcome c)
        then Inl ErrInvalidInput
        else Inr ()))"

definition NewTaskStageClaim ::
  "uuid \<Rightarrow> uuid \<Rightarrow> int \<Rightarrow> TaskClaimStage \<Rightarrow> Actor \<Rightarrow> OperationActor \<Rightarrow> string \<Rightarrow> string \<Rightarrow> time \<Rightarrow>
   TaskStageClaim result" where
  "NewTaskStageClaim newID taskID taskNumber stage claimedBy operation clientKind
     clientSessionID now =
     bindR (OperationActor_Validate operation) (\<lambda>_.
       let claim = \<lparr>claim_id = newID, claim_task_id = taskID, claim_task_number = taskNumber,
             claim_stage = stage, claim_claimed_by = claimedBy,
             claim_subject_user_id = op_user_id operation,
             claim_auth_method = op_auth_method operation,
             claim_api_token_id = op_token_id operation,
             claim_token_name = op_token_name operation,
             claim_agent_run_id = op_agent_run_id operation,
             claim_client_kind = TrimSpace clientKind,
             claim_client_session_id = TrimSpace clientSessionID,
             claim_status = StageClaimStatusActive, claim_outcome = TaskClaimOutcomeNone,
             claim_version = 1, claim_expires_at = now + TaskClaimActiveLifetime,
             claim_created_at = now, claim_updated_at = now, claim_completed_at = None\<rparr>
       in bindR (TaskStageClaim_Validate claim) (\<lambda>_. Inr claim))"

text \<open>The status the switch of \<open>Complete\<close> chooses; its default case is \<open>None\<close>.\<close>

fun outcome_status :: "TaskClaimOutcome \<Rightarrow> StageClaimStatus option" where
  "outcome_status TaskClaimOutcomeExecutionCompleted = Some StageClaimStatusCompleted"
| "outcome_status TaskClaimOutcomeTaskAccepted = Some StageClaimStatusCompleted"
| "outcome_status TaskClaimOutcomeChangesRequested = Some StageClaimStatusCompleted"
| "outcome_status TaskClaimOutcomeNeedsResolution = Some StageClaimStatusReleased"
| "outcome_status TaskClaimOutcomeVoluntarilyReleased = Some StageClaimStatusReleased"
| "outcome_status TaskClaimOutcomeDeadlineElapsed = Some StageClaimStatusExpired"
| "outcome_status TaskClaimOutcomeTaskCancelled = Some StageClaimStatusCancelled"
| "outcome_status _ = None"

definition TaskStageClaim_Complete ::
  "TaskClaimOutcome \<Rightarrow> time \<Rightarrow> TaskStageClaim \<Rightarrow> TaskStageClaim result" where
  "TaskStageClaim_Complete outcome now c =
     (if claim_status c \<noteq> StageClaimStatusActive then Inl ErrConflict
      else case outcome_status outcome of
        None \<Rightarrow> Inl ErrInvalidInput
      | Some status \<Rightarrow>
          (if \<not> stageAcceptsOutcome (claim_stage c) outcome then Inl ErrConflict
           else Inr (c\<lparr>claim_status := status, claim_outcome := outcome,
                  claim_completed_at := Some now, claim_updated_at := now,
                  claim_version := claim_version c + 1\<rparr>)))"

section \<open>Lemmas\<close>

abbreviation claim_valid :: "TaskStageClaim \<Rightarrow> bool" where
  "claim_valid c \<equiv> TaskStageClaim_Validate c = Inr ()"

lemma outcome_status_accepts:
  "outcome_status outcome = Some status \<Longrightarrow>
     TaskClaimOutcome_Valid outcome \<and> StageClaimStatus_Terminal status \<and>
     claimStatusAcceptsOutcome status outcome"
  by (cases outcome)
    (auto simp: StageClaimStatus_Terminal_def claimStatusAcceptsOutcome_def)

lemma outcome_status_None: "outcome_status outcome = None \<longleftrightarrow> \<not> TaskClaimOutcome_Valid outcome"
  by (cases outcome) auto

lemma TaskStageClaim_Validate_auth_frame:
  "validateTaskClaimAuthentication (c\<lparr>claim_status := s, claim_outcome := oc,
     claim_completed_at := ca, claim_updated_at := ua, claim_version := v\<rparr>) =
   validateTaskClaimAuthentication c"
  by (cases "claim_auth_method c") (simp_all add: validateTaskClaimAuthentication_def)

lemma TaskStageClaim_Complete_Inr:
  "TaskStageClaim_Complete outcome now c = Inr d \<longleftrightarrow>
     claim_status c = StageClaimStatusActive \<and> TaskClaimOutcome_Valid outcome \<and>
     stageAcceptsOutcome (claim_stage c) outcome \<and>
     d = c\<lparr>claim_status := the (outcome_status outcome), claim_outcome := outcome,
           claim_completed_at := Some now, claim_updated_at := now,
           claim_version := claim_version c + 1\<rparr>"
  using outcome_status_None [of outcome]
  by (auto simp: TaskStageClaim_Complete_def split: option.splits)

lemma TaskStageClaim_Complete_valid:
  assumes "claim_valid c" and "TaskStageClaim_Complete outcome now c = Inr d"
    and "\<not> is_zero_time now"
  shows "claim_valid d \<and> StageClaimStatus_Terminal (claim_status d)"
proof -
  from assms(2) obtain status where st: "outcome_status outcome = Some status"
    and d: "d = c\<lparr>claim_status := status, claim_outcome := outcome,
      claim_completed_at := Some now, claim_updated_at := now,
      claim_version := claim_version c + 1\<rparr>"
    by (auto simp: TaskStageClaim_Complete_def split: if_splits option.splits)
  show ?thesis
    using assms(1,3) outcome_status_accepts [OF st] unfolding d
    by (auto simp: TaskStageClaim_Validate_def TaskStageClaim_Validate_auth_frame
        StageClaimStatus_Terminal_def result_simps split: if_splits)
qed

lemma TaskStageClaim_Complete_once:
  assumes "TaskStageClaim_Complete outcome now c = Inr d"
  shows "TaskStageClaim_Complete outcome' now' d = Inl ErrConflict"
proof -
  have "claim_status d \<noteq> StageClaimStatusActive"
    using assms
    by (auto simp: TaskStageClaim_Complete_def StageClaimStatus_Terminal_def
        dest!: outcome_status_accepts split: if_splits option.splits)
  then show ?thesis by (simp add: TaskStageClaim_Complete_def)
qed

lemma NewTaskStageClaim_Inr:
  assumes "NewTaskStageClaim newID taskID taskNumber stage claimedBy operation clientKind
    clientSessionID now = Inr c"
  shows "claim_valid c" and "claim_id c = newID" and "claim_task_id c = taskID"
    and "claim_task_number c = taskNumber"
    and "claim_stage c = stage" and "claim_status c = StageClaimStatusActive"
    and "claim_outcome c = TaskClaimOutcomeNone" and "claim_completed_at c = None"
    and "claim_version c = 1" and "claim_claimed_by c = claimedBy"
    and "claim_expires_at c = now + TaskClaimActiveLifetime"
    and "claim_subject_user_id c = op_user_id operation"
    and "claim_api_token_id c = op_token_id operation"
    and "claim_agent_run_id c = op_agent_run_id operation"
    and "OperationActor_Validate operation = Inr ()"
  using assms by (auto simp: NewTaskStageClaim_def Let_def result_simps)

section \<open>Properties\<close>


text \<open>A review claim of a person, made at instant 10 and due a week later.\<close>

definition sample_claim :: TaskStageClaim where
  "sample_claim =
     \<lparr>claim_id = 7, claim_task_id = 1, claim_task_number = 1, claim_stage = TaskClaimStageReview,
      claim_claimed_by = \<lparr>actor_type = ActorTypeUser, actor_user_id = Some 5, actor_ref = []\<rparr>,
      claim_subject_user_id = 5, claim_auth_method = AuthenticationMethodSession,
      claim_api_token_id = None, claim_token_name = [], claim_agent_run_id = None,
      claim_client_kind = ''web'', claim_client_session_id = ''s'',
      claim_status = StageClaimStatusActive, claim_outcome = TaskClaimOutcomeNone,
      claim_version = 1, claim_expires_at = 10 + TaskClaimActiveLifetime, claim_created_at = 10,
      claim_updated_at = 10, claim_completed_at = None\<rparr>"


end
