(* ===== verification/Delivery.thy ===== *)
theory Delivery
  imports Domain_Actors
begin

text \<open>
  Repository delivery evidence: internal/domain/repository_delivery.go.  Each \<open>Validate\<close>
  method is a function to a result.  A credential ciphertext is a byte list.
\<close>

section \<open>Repositories and connections\<close>

datatype RepositoryProvider =
    RepositoryProviderGitLab
  | RepositoryProviderGitHub
  | RepositoryProviderOther string

definition RepositoryProvider_Valid :: "RepositoryProvider \<Rightarrow> bool" where
  "RepositoryProvider_Valid p \<longleftrightarrow> p = RepositoryProviderGitLab \<or> p = RepositoryProviderGitHub"

record RepositoryReference =
  rref_provider :: RepositoryProvider
  rref_origin :: string
  rref_path :: string
  rref_lookup_key :: string
  rref_web_url :: string

definition RepositoryReference_Validate :: "RepositoryReference \<Rightarrow> unit result" where
  "RepositoryReference_Validate r =
     (if \<not> RepositoryProvider_Valid (rref_provider r) \<or> blank (rref_origin r) \<or>
         blank (rref_path r) \<or> blank (rref_lookup_key r) \<or> blank (rref_web_url r)
      then Inl ErrInvalidInput else Inr ())"

record RepositoryIdentity =
  rid_provider_repository_id :: string
  rid_path :: string
  rid_web_url :: string
  rid_default_branch :: string

definition RepositoryIdentity_Validate :: "RepositoryIdentity \<Rightarrow> unit result" where
  "RepositoryIdentity_Validate i =
     (if blank (rid_provider_repository_id i) \<or> blank (rid_path i) \<or> blank (rid_web_url i)
      then Inl ErrInvalidInput else Inr ())"

datatype RepositoryConnectionStatus =
    RepositoryConnectionStatusActive
  | RepositoryConnectionStatusDisabled
  | RepositoryConnectionStatusOther string

definition RepositoryConnectionStatus_Valid :: "RepositoryConnectionStatus \<Rightarrow> bool" where
  "RepositoryConnectionStatus_Valid s \<longleftrightarrow>
     s = RepositoryConnectionStatusActive \<or> s = RepositoryConnectionStatusDisabled"

record RepositoryConnection =
  conn_id :: uuid
  conn_version :: int
  conn_label :: string
  conn_provider :: RepositoryProvider
  conn_origin :: string
  conn_provider_repository_id :: string
  conn_path :: string
  conn_lookup_key :: string
  conn_web_url :: string
  conn_default_branch :: string
  conn_ciphertext :: "8 word list"
  conn_encryption_key_id :: string
  conn_credential_expires_at :: "time option"
  conn_status :: RepositoryConnectionStatus
  conn_last_validated_at :: time
  conn_created_by :: uuid
  conn_disabled_by :: "uuid option"
  conn_disabled_at :: "time option"
  conn_created_at :: time
  conn_updated_at :: time

definition RepositoryConnection_Validate :: "RepositoryConnection \<Rightarrow> unit result" where
  "RepositoryConnection_Validate c =
     (if conn_id c = uuid_nil \<or> conn_version c < 1 \<or> blank (conn_label c) \<or>
         blank (conn_provider_repository_id c) \<or> length (conn_ciphertext c) = 0 \<or>
         blank (conn_encryption_key_id c) \<or>
         \<not> RepositoryConnectionStatus_Valid (conn_status c) \<or>
         is_zero_time (conn_last_validated_at c) \<or> conn_created_by c = uuid_nil \<or>
         is_zero_time (conn_created_at c) \<or> is_zero_time (conn_updated_at c)
      then Inl ErrInvalidInput
      else let reference = \<lparr>rref_provider = conn_provider c, rref_origin = conn_origin c,
             rref_path = conn_path c, rref_lookup_key = conn_lookup_key c,
             rref_web_url = conn_web_url c\<rparr>
      in case RepositoryReference_Validate reference of
        Inl _ \<Rightarrow> Inl ErrInvalidInput
      | Inr _ \<Rightarrow>
          if conn_status c = RepositoryConnectionStatusActive \<and>
               (conn_disabled_by c \<noteq> None \<or> conn_disabled_at c \<noteq> None) \<or>
             conn_status c = RepositoryConnectionStatusDisabled \<and>
               (nil_or_zero (conn_disabled_by c) \<or> conn_disabled_at c = None)
          then Inl ErrInvalidInput else Inr ())"

record ProjectRepository =
  prepo_id :: uuid
  prepo_project_id :: uuid
  prepo_connection_id :: uuid
  prepo_bound_by :: uuid
  prepo_bound_at :: time
  prepo_unbound_by :: "uuid option"
  prepo_unbound_at :: "time option"

definition ProjectRepository_Active :: "ProjectRepository \<Rightarrow> bool" where
  "ProjectRepository_Active r \<longleftrightarrow> prepo_unbound_at r = None"

definition ProjectRepository_Validate :: "ProjectRepository \<Rightarrow> unit result" where
  "ProjectRepository_Validate r =
     (if prepo_id r = uuid_nil \<or> prepo_project_id r = uuid_nil \<or>
         prepo_connection_id r = uuid_nil \<or> prepo_bound_by r = uuid_nil \<or>
         is_zero_time (prepo_bound_at r)
      then Inl ErrInvalidInput
      else case (prepo_unbound_by r, prepo_unbound_at r) of
        (None, None) \<Rightarrow> Inr ()
      | (Some by, Some at) \<Rightarrow>
          (if by = uuid_nil \<or> at < prepo_bound_at r then Inl ErrInvalidInput else Inr ())
      | _ \<Rightarrow> Inl ErrInvalidInput)"

section \<open>Code changes\<close>

datatype CodeChangeKind =
    CodeChangeKindMergeRequest
  | CodeChangeKindPullRequest
  | CodeChangeKindOther string

definition CodeChangeKind_Valid :: "CodeChangeKind \<Rightarrow> bool" where
  "CodeChangeKind_Valid k \<longleftrightarrow> k = CodeChangeKindMergeRequest \<or> k = CodeChangeKindPullRequest"

definition CompatibleWith :: "CodeChangeKind \<Rightarrow> RepositoryProvider \<Rightarrow> bool" where
  "CompatibleWith k provider \<longleftrightarrow>
     provider = RepositoryProviderGitLab \<and> k = CodeChangeKindMergeRequest \<or>
     provider = RepositoryProviderGitHub \<and> k = CodeChangeKindPullRequest"

datatype CodeChangeObservationStatus =
    CodeChangeObservationConfirmed
  | CodeChangeObservationMissing
  | CodeChangeObservationUnauthorized
  | CodeChangeObservationUnreachable
  | CodeChangeObservationDisconnected
  | CodeChangeObservationOther string

fun CodeChangeObservationStatus_Valid :: "CodeChangeObservationStatus \<Rightarrow> bool" where
  "CodeChangeObservationStatus_Valid (CodeChangeObservationOther _) = False"
| "CodeChangeObservationStatus_Valid _ = True"

datatype CodeChangeState =
    CodeChangeStateOpened
  | CodeChangeStateClosed
  | CodeChangeStateMerged
  | CodeChangeStateLocked
  | CodeChangeStateOther string

fun CodeChangeState_Valid :: "CodeChangeState \<Rightarrow> bool" where
  "CodeChangeState_Valid (CodeChangeStateOther _) = False"
| "CodeChangeState_Valid _ = True"

record CodeChangeObservation =
  obs_status :: CodeChangeObservationStatus
  obs_observed_at :: time
  obs_title :: string
  obs_state :: CodeChangeState
  obs_draft :: bool
  obs_source_branch :: string
  obs_target_branch :: string
  obs_head_sha :: string
  obs_merge_commit_sha :: "string option"
  obs_merged_at :: "time option"
  obs_provider_updated_at :: time

definition CodeChangeObservation_Validate :: "CodeChangeObservation \<Rightarrow> unit result" where
  "CodeChangeObservation_Validate obs =
     (if \<not> CodeChangeObservationStatus_Valid (obs_status obs) \<or>
         is_zero_time (obs_observed_at obs)
      then Inl ErrInvalidInput
      else if obs_status obs \<noteq> CodeChangeObservationConfirmed then Inr ()
      else if blank (obs_title obs) \<or> \<not> CodeChangeState_Valid (obs_state obs) \<or>
         blank (obs_source_branch obs) \<or> blank (obs_target_branch obs) \<or>
         blank (obs_head_sha obs) \<or> is_zero_time (obs_provider_updated_at obs)
      then Inl ErrInvalidInput
      else Inr ())"

record CodeChangeReference =
  cref_repository :: RepositoryReference
  cref_kind :: CodeChangeKind
  cref_change_number :: int
  cref_web_url :: string

definition CodeChangeReference_Validate :: "CodeChangeReference \<Rightarrow> unit result" where
  "CodeChangeReference_Validate r =
     bindR (RepositoryReference_Validate (cref_repository r)) (\<lambda>_.
       if \<not> CompatibleWith (cref_kind r) (rref_provider (cref_repository r)) \<or>
          cref_change_number r < 1 \<or> blank (cref_web_url r)
       then Inl ErrInvalidInput else Inr ())"

record CodeChange =
  cc_provider :: RepositoryProvider
  cc_kind :: CodeChangeKind
  cc_provider_change_id :: string
  cc_change_number :: int
  cc_web_url :: string
  cc_observation :: CodeChangeObservation

definition CodeChange_Validate :: "CodeChange \<Rightarrow> unit result" where
  "CodeChange_Validate c =
     (if \<not> CompatibleWith (cc_kind c) (cc_provider c) \<or> blank (cc_provider_change_id c) \<or>
         cc_change_number c < 1 \<or> blank (cc_web_url c)
      then Inl ErrInvalidInput
      else CodeChangeObservation_Validate (cc_observation c))"

record TaskCodeChange =
  tcc_id :: uuid
  tcc_task_id :: uuid
  tcc_project_id :: uuid
  tcc_project_repository_id :: uuid
  tcc_provider :: RepositoryProvider
  tcc_kind :: CodeChangeKind
  tcc_change_number :: int
  tcc_provider_change_id :: string
  tcc_web_url :: string
  tcc_linked_by :: Actor
  tcc_linked_through_claim_id :: uuid
  tcc_linked_at :: time
  tcc_unlinked_by :: "Actor option"
  tcc_unlinked_through_claim_id :: "uuid option"
  tcc_unlinked_at :: "time option"
  tcc_latest_observation :: CodeChangeObservation
  tcc_created_at :: time
  tcc_updated_at :: time

definition TaskCodeChange_Active :: "TaskCodeChange \<Rightarrow> bool" where
  "TaskCodeChange_Active c \<longleftrightarrow> tcc_unlinked_at c = None"

definition validDeliveryActor :: "Actor \<Rightarrow> bool" where
  "validDeliveryActor a \<longleftrightarrow>
     actor_type a = ActorTypeUser \<and> \<not> nil_or_zero (actor_user_id a) \<and> actor_ref a = [] \<or>
     actor_type a = ActorTypeAgent \<and> actor_user_id a = None \<and> \<not> blank (actor_ref a)"

definition TaskCodeChange_Validate :: "TaskCodeChange \<Rightarrow> unit result" where
  "TaskCodeChange_Validate c =
     (if tcc_id c = uuid_nil \<or> tcc_task_id c = uuid_nil \<or> tcc_project_id c = uuid_nil \<or>
         tcc_project_repository_id c = uuid_nil \<or>
         \<not> CompatibleWith (tcc_kind c) (tcc_provider c) \<or> tcc_change_number c < 1 \<or>
         blank (tcc_provider_change_id c) \<or> blank (tcc_web_url c) \<or>
         \<not> validDeliveryActor (tcc_linked_by c) \<or> tcc_linked_through_claim_id c = uuid_nil \<or>
         is_zero_time (tcc_linked_at c) \<or> is_zero_time (tcc_created_at c) \<or>
         is_zero_time (tcc_updated_at c)
      then Inl ErrInvalidInput
      else bindR (CodeChangeObservation_Validate (tcc_latest_observation c)) (\<lambda>_.
        case (tcc_unlinked_by c, tcc_unlinked_through_claim_id c, tcc_unlinked_at c) of
          (None, None, None) \<Rightarrow> Inr ()
        | (Some by, Some claimID, Some at) \<Rightarrow>
            (if \<not> validDeliveryActor by \<or> claimID = uuid_nil \<or> at < tcc_linked_at c
             then Inl ErrInvalidInput else Inr ())
        | _ \<Rightarrow> Inl ErrInvalidInput))"

record CodeChangeSnapshot =
  snap_task_code_change_id :: uuid
  snap_project_repository_id :: uuid
  snap_connection_id :: uuid
  snap_provider :: RepositoryProvider
  snap_provider_repository_id :: string
  snap_kind :: CodeChangeKind
  snap_change_number :: int
  snap_provider_change_id :: string
  snap_web_url :: string
  snap_title :: string
  snap_state :: CodeChangeState
  snap_draft :: bool
  snap_source_branch :: string
  snap_target_branch :: string
  snap_head_sha :: string
  snap_merge_commit_sha :: "string option"
  snap_merged_at :: "time option"
  snap_observation_status :: CodeChangeObservationStatus
  snap_observed_at :: time

definition CodeChangeSnapshot_Validate :: "CodeChangeSnapshot \<Rightarrow> unit result" where
  "CodeChangeSnapshot_Validate s =
     (if snap_task_code_change_id s = uuid_nil \<or> snap_project_repository_id s = uuid_nil \<or>
         snap_connection_id s = uuid_nil \<or> \<not> CompatibleWith (snap_kind s) (snap_provider s) \<or>
         blank (snap_provider_repository_id s) \<or> snap_change_number s < 1 \<or>
         blank (snap_provider_change_id s) \<or> blank (snap_web_url s) \<or>
         \<not> CodeChangeObservationStatus_Valid (snap_observation_status s) \<or>
         is_zero_time (snap_observed_at s)
      then Inl ErrInvalidInput
      else if snap_observation_status s = CodeChangeObservationConfirmed \<and>
         (blank (snap_title s) \<or> \<not> CodeChangeState_Valid (snap_state s) \<or>
          blank (snap_head_sha s))
      then Inl ErrInvalidInput
      else Inr ())"

section \<open>Lemmas\<close>

lemma validDeliveryActor_thread: "validDeliveryActor a \<Longrightarrow> validThreadActor a"
  by (auto simp: validDeliveryActor_def validThreadActor_def Actor_IsHuman_def nil_or_zero_def
      split: option.splits)

lemma validDeliveryActor_stored: "validDeliveryActor a \<Longrightarrow> storedActor a = a"
  by (auto simp: validDeliveryActor_def storedActor_eq)

text \<open>A valid link is active exactly when no unlinking actor and claim are recorded.\<close>

lemma TaskCodeChange_Active_iff:
  assumes "TaskCodeChange_Validate c = Inr ()"
  shows "TaskCodeChange_Active c \<longleftrightarrow>
    tcc_unlinked_by c = None \<and> tcc_unlinked_through_claim_id c = None"
  using assms
  by (auto simp: TaskCodeChange_Validate_def TaskCodeChange_Active_def result_simps
      split: if_splits option.splits)

end
