(* ===== verification/Thread_Domain.thy ===== *)
theory Thread_Domain
  imports Task_Domain Delivery
begin

text \<open>
  Threads and their Items: internal/domain/thread.go.  A Main Thread is the discussion of a
  Task; an Issue Thread is opened by a request for resolution.  The empty issue type, issue
  status and phase of a Main Thread are the \<open>None\<close> constructors and \<open>TaskPhaseOther []\<close>.
\<close>

section \<open>Threads\<close>

datatype ThreadRole =
    ThreadRoleMain
  | ThreadRoleIssue
  | ThreadRoleOther string

datatype IssueThreadType =
    IssueThreadTypeDecisionRequired
  | IssueThreadTypeDependencyRequired
  | IssueThreadTypeNone
  | IssueThreadTypeOther string

definition IssueThreadType_Valid :: "IssueThreadType \<Rightarrow> bool" where
  "IssueThreadType_Valid t \<longleftrightarrow>
     t = IssueThreadTypeDecisionRequired \<or> t = IssueThreadTypeDependencyRequired"

datatype IssueThreadStatus =
    IssueThreadStatusOpen
  | IssueThreadStatusResolved
  | IssueThreadStatusNone
  | IssueThreadStatusOther string

abbreviation no_phase :: TaskPhase where
  "no_phase \<equiv> TaskPhaseOther []"

text \<open>The zero value of \<open>Actor\<close>, the opener of a Main Thread.\<close>

definition no_actor :: Actor where
  "no_actor = \<lparr>actor_type = ActorTypeOther [], actor_user_id = None, actor_ref = []\<rparr>"

record Thread =
  thread_id :: uuid
  thread_task_id :: uuid
  thread_role :: ThreadRole
  thread_issue_type :: IssueThreadType
  thread_issue_status :: IssueThreadStatus
  thread_opened_from_phase :: TaskPhase
  thread_opened_by :: Actor
  thread_resolved_by :: "Actor option"
  thread_version :: int
  thread_created_at :: time
  thread_updated_at :: time
  thread_resolved_at :: "time option"

definition Thread_Validate :: "Thread \<Rightarrow> unit result" where
  "Thread_Validate t =
     (if thread_id t = uuid_nil \<or> thread_task_id t = uuid_nil \<or> thread_version t < 1 \<or>
         is_zero_time (thread_created_at t) \<or> is_zero_time (thread_updated_at t)
      then Inl ErrInvalidInput
      else case thread_role t of
        ThreadRoleMain \<Rightarrow>
          (if thread_issue_type t \<noteq> IssueThreadTypeNone \<or>
              thread_issue_status t \<noteq> IssueThreadStatusNone \<or>
              thread_opened_from_phase t \<noteq> no_phase \<or>
              thread_resolved_by t \<noteq> None \<or> thread_resolved_at t \<noteq> None
           then Inl ErrInvalidInput else Inr ())
      | ThreadRoleIssue \<Rightarrow>
          (if \<not> IssueThreadType_Valid (thread_issue_type t) then Inl ErrWrongIssueType
           else if thread_opened_from_phase t \<noteq> TaskPhaseInProgress \<and>
                thread_opened_from_phase t \<noteq> TaskPhaseInReview \<or>
                \<not> validThreadActor (thread_opened_by t)
           then Inl ErrInvalidInput
           else case thread_issue_status t of
             IssueThreadStatusOpen \<Rightarrow>
               (if thread_resolved_by t \<noteq> None \<or> thread_resolved_at t \<noteq> None
                then Inl ErrInvalidInput else Inr ())
           | IssueThreadStatusResolved \<Rightarrow>
               (case thread_resolved_by t of
                  None \<Rightarrow> Inl ErrInvalidInput
                | Some a \<Rightarrow>
                    if \<not> validThreadActor a \<or> thread_resolved_at t = None
                    then Inl ErrInvalidInput else Inr ())
           | _ \<Rightarrow> Inl ErrInvalidInput)
      | ThreadRoleOther _ \<Rightarrow> Inl ErrInvalidInput)"

definition NewMainThread :: "uuid \<Rightarrow> uuid \<Rightarrow> time \<Rightarrow> Thread result" where
  "NewMainThread newID taskID now =
     (let thread = \<lparr>thread_id = newID, thread_task_id = taskID, thread_role = ThreadRoleMain,
            thread_issue_type = IssueThreadTypeNone,
            thread_issue_status = IssueThreadStatusNone,
            thread_opened_from_phase = no_phase, thread_opened_by = no_actor,
            thread_resolved_by = None, thread_version = 1, thread_created_at = now,
            thread_updated_at = now, thread_resolved_at = None\<rparr>
      in bindR (Thread_Validate thread) (\<lambda>_. Inr thread))"

definition NewIssueThread ::
  "uuid \<Rightarrow> uuid \<Rightarrow> IssueThreadType \<Rightarrow> TaskPhase \<Rightarrow> Actor \<Rightarrow> time \<Rightarrow> Thread result" where
  "NewIssueThread newID taskID issueType phase openedBy now =
     (if \<not> IssueThreadType_Valid issueType then Inl ErrWrongIssueType
      else let thread = \<lparr>thread_id = newID, thread_task_id = taskID,
            thread_role = ThreadRoleIssue, thread_issue_type = issueType,
            thread_issue_status = IssueThreadStatusOpen, thread_opened_from_phase = phase,
            thread_opened_by = openedBy, thread_resolved_by = None, thread_version = 1,
            thread_created_at = now, thread_updated_at = now, thread_resolved_at = None\<rparr>
      in bindR (Thread_Validate thread) (\<lambda>_. Inr thread))"

definition Thread_Resolve :: "Actor \<Rightarrow> time \<Rightarrow> Thread \<Rightarrow> Thread result" where
  "Thread_Resolve resolvedBy now t =
     (if thread_role t \<noteq> ThreadRoleIssue \<or> thread_issue_status t \<noteq> IssueThreadStatusOpen
      then Inl ErrConflict
      else if \<not> validThreadActor resolvedBy then Inl ErrInvalidInput
      else Inr (t\<lparr>thread_issue_status := IssueThreadStatusResolved,
             thread_resolved_by := Some resolvedBy, thread_resolved_at := Some now,
             thread_updated_at := now, thread_version := thread_version t + 1\<rparr>))"

section \<open>Items\<close>

datatype ThreadItemKind =
    ThreadItemKindMessage
  | ThreadItemKindProgress
  | ThreadItemKindHandoff
  | ThreadItemKindWorkSubmission
  | ThreadItemKindExecutionCompleted
  | ThreadItemKindReviewOutcome
  | ThreadItemKindResolutionRequest
  | ThreadItemKindResolution
  | ThreadItemKindIssueResolution
  | ThreadItemKindSystemEvent
  | ThreadItemKindOther string

fun ThreadItemKind_Valid :: "ThreadItemKind \<Rightarrow> bool" where
  "ThreadItemKind_Valid (ThreadItemKindOther _) = False"
| "ThreadItemKind_Valid _ = True"

definition ThreadItemKind_Immutable :: "ThreadItemKind \<Rightarrow> bool" where
  "ThreadItemKind_Immutable k \<longleftrightarrow> k \<noteq> ThreadItemKindMessage"

record IssueResolutionPayload =
  irp_issue_thread_id :: uuid
  irp_issue_type :: IssueThreadType
  irp_request :: string
  irp_resolution :: string
  irp_opened_by :: Actor
  irp_resolved_by :: Actor
  irp_opened_at :: time
  irp_resolved_at :: time

record CriterionRevisionSnapshot =
  crs_criterion_id :: uuid
  crs_revision :: int

record ExecutionCompletedPayload =
  ecp_review_cycle :: int
  ecp_submission_item_ids :: "uuid list"
  ecp_execution_check_ids :: "uuid list"
  ecp_criterion_revisions :: "CriterionRevisionSnapshot list"
  ecp_code_changes :: "CodeChangeSnapshot list"

fun validate_each :: "('a \<Rightarrow> unit result) \<Rightarrow> 'a list \<Rightarrow> unit result" where
  "validate_each f [] = Inr ()"
| "validate_each f (x # xs) = bindR (f x) (\<lambda>_. validate_each f xs)"

definition ExecutionCompletedPayload_Validate :: "ExecutionCompletedPayload \<Rightarrow> unit result" where
  "ExecutionCompletedPayload_Validate p =
     (if ecp_review_cycle p < 1 then Inl ErrInvalidInput
      else if \<exists>i \<in> set (ecp_submission_item_ids p @ ecp_execution_check_ids p). i = uuid_nil
      then Inl ErrInvalidInput
      else if \<exists>r \<in> set (ecp_criterion_revisions p). crs_criterion_id r = uuid_nil \<or>
        crs_revision r < 1
      then Inl ErrInvalidInput
      else validate_each CodeChangeSnapshot_Validate (ecp_code_changes p))"

definition IssueResolutionPayload_Validate :: "IssueResolutionPayload \<Rightarrow> unit result" where
  "IssueResolutionPayload_Validate p =
     (if irp_issue_thread_id p = uuid_nil \<or> \<not> IssueThreadType_Valid (irp_issue_type p) \<or>
         blank (irp_request p) \<or> blank (irp_resolution p) \<or>
         \<not> validThreadActor (irp_opened_by p) \<or> \<not> validThreadActor (irp_resolved_by p) \<or>
         is_zero_time (irp_opened_at p) \<or> is_zero_time (irp_resolved_at p) \<or>
         irp_resolved_at p < irp_opened_at p
      then Inl ErrInvalidInput else Inr ())"

record ThreadItem =
  item_id :: uuid
  item_thread_id :: uuid
  item_kind :: ThreadItemKind
  item_author :: Actor
  item_body :: string
  item_issue_resolution :: "IssueResolutionPayload option"
  item_execution_completed :: "ExecutionCompletedPayload option"
  item_task_stage_claim_id :: "uuid option"
  item_task_review_cycle :: "int option"
  item_reply_to_item_id :: "uuid option"
  item_mentioned_user_ids :: "uuid list"
  item_version :: int
  item_created_at :: time
  item_updated_at :: time
  item_deleted_at :: "time option"

definition validate_issue_resolution :: "ThreadItem \<Rightarrow> unit result" where
  "validate_issue_resolution i =
     (if item_kind i = ThreadItemKindIssueResolution then
        (case item_issue_resolution i of
           None \<Rightarrow> Inl ErrInvalidInput
         | Some p \<Rightarrow> IssueResolutionPayload_Validate p)
      else if item_issue_resolution i \<noteq> None then Inl ErrInvalidInput
      else Inr ())"

definition validate_execution_completed :: "ThreadItem \<Rightarrow> unit result" where
  "validate_execution_completed i =
     (if item_kind i = ThreadItemKindExecutionCompleted then
        (case item_execution_completed i of
           None \<Rightarrow> Inl ErrInvalidInput
         | Some p \<Rightarrow> ExecutionCompletedPayload_Validate p)
      else if item_execution_completed i \<noteq> None then Inl ErrInvalidInput
      else Inr ())"

text \<open>A review cycle that is nil or less than one.\<close>

definition no_cycle :: "int option \<Rightarrow> bool" where
  "no_cycle c = (case c of None \<Rightarrow> True | Some n \<Rightarrow> n < 1)"

definition validate_item_context :: "ThreadItem \<Rightarrow> unit result" where
  "validate_item_context i =
     (if item_kind i = ThreadItemKindWorkSubmission \<or>
         item_kind i = ThreadItemKindExecutionCompleted then
        (if nil_or_zero (item_task_stage_claim_id i) \<or> no_cycle (item_task_review_cycle i)
         then Inl ErrInvalidInput
         else case item_execution_completed i of
           None \<Rightarrow> Inr ()
         | Some p \<Rightarrow>
             if Some (ecp_review_cycle p) \<noteq> item_task_review_cycle i
             then Inl ErrInvalidInput else Inr ())
      else if item_kind i = ThreadItemKindProgress \<and> item_task_stage_claim_id i \<noteq> None then
        (if nil_or_zero (item_task_stage_claim_id i) \<or> no_cycle (item_task_review_cycle i)
         then Inl ErrInvalidInput else Inr ())
      else if item_task_stage_claim_id i \<noteq> None \<or> item_task_review_cycle i \<noteq> None
      then Inl ErrInvalidInput
      else Inr ())"

definition ThreadItem_Validate :: "ThreadItem \<Rightarrow> unit result" where
  "ThreadItem_Validate i =
     (if item_id i = uuid_nil \<or> item_thread_id i = uuid_nil \<or>
         \<not> ThreadItemKind_Valid (item_kind i) \<or> \<not> validThreadActor (item_author i) \<or>
         item_version i < 1 \<or> is_zero_time (item_created_at i) \<or>
         is_zero_time (item_updated_at i)
      then Inl ErrInvalidInput
      else bindR (validate_issue_resolution i) (\<lambda>_.
        bindR (validate_execution_completed i) (\<lambda>_.
        bindR (validate_item_context i) (\<lambda>_.
          if item_deleted_at i \<noteq> None then
            (if item_kind i \<noteq> ThreadItemKindMessage then Inl ErrInvalidInput else Inr ())
          else if blank (item_body i) \<and> item_kind i \<noteq> ThreadItemKindIssueResolution
          then Inl ErrInvalidInput
          else Inr ()))))"

definition ThreadItem_Edit :: "string \<Rightarrow> uuid list \<Rightarrow> time \<Rightarrow> ThreadItem \<Rightarrow> ThreadItem result" where
  "ThreadItem_Edit body mentionedUserIDs now i =
     (if ThreadItemKind_Immutable (item_kind i) \<or> item_deleted_at i \<noteq> None then Inl ErrConflict
      else if blank body then Inl ErrInvalidInput
      else Inr (i\<lparr>item_body := body, item_mentioned_user_ids := mentionedUserIDs,
             item_updated_at := now, item_version := item_version i + 1\<rparr>))"

definition ThreadItem_Delete :: "time \<Rightarrow> ThreadItem \<Rightarrow> ThreadItem result" where
  "ThreadItem_Delete now i =
     (if ThreadItemKind_Immutable (item_kind i) \<or> item_deleted_at i \<noteq> None then Inl ErrConflict
      else Inr (i\<lparr>item_deleted_at := Some now, item_body := [], item_mentioned_user_ids := [],
             item_updated_at := now, item_version := item_version i + 1\<rparr>))"

section \<open>Lemmas\<close>

abbreviation thread_valid :: "Thread \<Rightarrow> bool" where
  "thread_valid t \<equiv> Thread_Validate t = Inr ()"

abbreviation item_valid :: "ThreadItem \<Rightarrow> bool" where
  "item_valid i \<equiv> ThreadItem_Validate i = Inr ()"

lemma NewMainThread_Inr:
  assumes "NewMainThread newID taskID now = Inr t"
  shows "thread_valid t" and "thread_id t = newID" and "thread_task_id t = taskID"
    and "thread_role t = ThreadRoleMain"
  using assms by (auto simp: NewMainThread_def Let_def result_simps)

lemma NewIssueThread_Inr:
  assumes "NewIssueThread newID taskID issueType phase openedBy now = Inr t"
  shows "thread_valid t" and "thread_id t = newID" and "thread_task_id t = taskID"
    and "thread_role t = ThreadRoleIssue" and "thread_issue_status t = IssueThreadStatusOpen"
    and "thread_issue_type t = issueType"
    and "thread_opened_from_phase t = phase" and "thread_opened_by t = openedBy"
    and "thread_version t = 1" and "thread_created_at t = now"
    and "thread_updated_at t = now" and "thread_resolved_by t = None"
    and "thread_resolved_at t = None"
    and "IssueThreadType_Valid issueType" and "validThreadActor openedBy"
proof -
  from assms have valid: "thread_valid t" and ty: "IssueThreadType_Valid issueType"
    and t: "t = \<lparr>thread_id = newID, thread_task_id = taskID, thread_role = ThreadRoleIssue,
      thread_issue_type = issueType, thread_issue_status = IssueThreadStatusOpen,
      thread_opened_from_phase = phase, thread_opened_by = openedBy, thread_resolved_by = None,
      thread_version = 1, thread_created_at = now, thread_updated_at = now,
      thread_resolved_at = None\<rparr>"
    by (auto simp: NewIssueThread_def Let_def result_simps split: if_splits)
  show "thread_valid t" "IssueThreadType_Valid issueType" by (fact valid ty)+
  show "validThreadActor openedBy"
    using valid by (simp add: t Thread_Validate_def split: if_splits)
  show "thread_id t = newID" "thread_task_id t = taskID" "thread_role t = ThreadRoleIssue"
    "thread_issue_status t = IssueThreadStatusOpen" "thread_issue_type t = issueType"
    "thread_opened_from_phase t = phase" "thread_opened_by t = openedBy" "thread_version t = 1"
    "thread_created_at t = now" "thread_updated_at t = now" "thread_resolved_by t = None"
    "thread_resolved_at t = None"
    by (simp_all add: t)
qed

lemma Thread_Resolve_Inr:
  "Thread_Resolve resolvedBy now t = Inr u \<longleftrightarrow>
     thread_role t = ThreadRoleIssue \<and> thread_issue_status t = IssueThreadStatusOpen \<and>
     validThreadActor resolvedBy \<and>
     u = t\<lparr>thread_issue_status := IssueThreadStatusResolved,
           thread_resolved_by := Some resolvedBy, thread_resolved_at := Some now,
           thread_updated_at := now, thread_version := thread_version t + 1\<rparr>"
  by (auto simp: Thread_Resolve_def)

lemma Thread_Resolve_valid:
  assumes "thread_valid t" and "Thread_Resolve resolvedBy now t = Inr u" and "\<not> is_zero_time now"
  shows "thread_valid u"
  using assms by (auto simp: Thread_Resolve_Inr Thread_Validate_def split: if_splits)

lemma item_message_valid:
  assumes "item_kind i = ThreadItemKindMessage"
  shows "item_valid i \<longleftrightarrow>
    item_id i \<noteq> uuid_nil \<and> item_thread_id i \<noteq> uuid_nil \<and> validThreadActor (item_author i) \<and>
    item_version i \<ge> 1 \<and> \<not> is_zero_time (item_created_at i) \<and> \<not> is_zero_time (item_updated_at i) \<and>
    item_issue_resolution i = None \<and> item_execution_completed i = None \<and>
    item_task_stage_claim_id i = None \<and> item_task_review_cycle i = None \<and>
    (item_deleted_at i = None \<longrightarrow> \<not> blank (item_body i))"
  using assms
  by (auto simp: ThreadItem_Validate_def validate_issue_resolution_def
      validate_execution_completed_def validate_item_context_def)

lemma ThreadItem_Edit_Inr:
  "ThreadItem_Edit body mentions now i = Inr j \<longleftrightarrow>
     item_kind i = ThreadItemKindMessage \<and> item_deleted_at i = None \<and> \<not> blank body \<and>
     j = i\<lparr>item_body := body, item_mentioned_user_ids := mentions, item_updated_at := now,
           item_version := item_version i + 1\<rparr>"
  by (auto simp: ThreadItem_Edit_def ThreadItemKind_Immutable_def)

lemma ThreadItem_Delete_Inr:
  "ThreadItem_Delete now i = Inr j \<longleftrightarrow>
     item_kind i = ThreadItemKindMessage \<and> item_deleted_at i = None \<and>
     j = i\<lparr>item_deleted_at := Some now, item_body := [], item_mentioned_user_ids := [],
           item_updated_at := now, item_version := item_version i + 1\<rparr>"
  by (auto simp: ThreadItem_Delete_def ThreadItemKind_Immutable_def)

lemma ThreadItem_Edit_valid:
  assumes "item_valid i" and "ThreadItem_Edit body mentions now i = Inr j" and "\<not> is_zero_time now"
  shows "item_valid j"
  using assms by (auto simp: ThreadItem_Edit_Inr item_message_valid)

lemma ThreadItem_Delete_valid:
  assumes "item_valid i" and "ThreadItem_Delete now i = Inr j" and "\<not> is_zero_time now"
  shows "item_valid j"
  using assms by (auto simp: ThreadItem_Delete_Inr item_message_valid)

end
