(* ===== verification/Acceptance.thy ===== *)
theory Acceptance
  imports Stage_Claim
begin

text \<open>
  Acceptance criteria and checks: internal/domain/acceptance.go (its \<open>Actor\<close> is in
  \<open>Domain_Actors\<close>).  \<open>Edit\<close> and \<open>Move\<close> take the instant \<open>time.Now\<close> returns.
\<close>

section \<open>Criteria\<close>

record AcceptanceCriterion =
  crit_id :: uuid
  crit_version :: int
  crit_milestone_id :: "uuid option"
  crit_task_id :: "uuid option"
  crit_criterion :: string
  crit_verification :: string
  crit_revision :: int
  crit_position :: int
  crit_archived_at :: "time option"
  crit_created_at :: time
  crit_updated_at :: time

definition AcceptanceCriterion_Validate :: "AcceptanceCriterion \<Rightarrow> unit result" where
  "AcceptanceCriterion_Validate c =
     (if length (filter (\<lambda>ownerID. ownerID \<noteq> None) [crit_milestone_id c, crit_task_id c]) \<noteq> 1
      then Inl ErrInvalidInput
      else if blank (crit_criterion c) \<or> blank (crit_verification c) then Inl ErrInvalidInput
      else if crit_revision c < 1 \<or> crit_position c < 0 then Inl ErrInvalidInput
      else Inr ())"

definition AcceptanceCriterion_Edit ::
  "string \<Rightarrow> string \<Rightarrow> time \<Rightarrow> AcceptanceCriterion \<Rightarrow> AcceptanceCriterion" where
  "AcceptanceCriterion_Edit criterion verification now c =
     (if crit_criterion c \<noteq> criterion \<or> crit_verification c \<noteq> verification then
        c\<lparr>crit_criterion := criterion, crit_verification := verification,
          crit_revision := crit_revision c + 1, crit_updated_at := now\<rparr>
      else c)"

definition AcceptanceCriterion_Move ::
  "int \<Rightarrow> time \<Rightarrow> AcceptanceCriterion \<Rightarrow> AcceptanceCriterion" where
  "AcceptanceCriterion_Move position now c =
     (if crit_position c \<noteq> position then c\<lparr>crit_position := position, crit_updated_at := now\<rparr>
      else c)"

section \<open>Checks\<close>

datatype AcceptanceOutcome =
    AcceptanceOutcomePassed
  | AcceptanceOutcomeFailed
  | AcceptanceOutcomeUnable
  | AcceptanceOutcomeWaived
  | AcceptanceOutcomeOther string

fun AcceptanceOutcome_Valid :: "AcceptanceOutcome \<Rightarrow> bool" where
  "AcceptanceOutcome_Valid (AcceptanceOutcomeOther _) = False"
| "AcceptanceOutcome_Valid _ = True"

definition AcceptanceOutcome_Satisfies :: "AcceptanceOutcome \<Rightarrow> bool" where
  "AcceptanceOutcome_Satisfies x \<longleftrightarrow> x = AcceptanceOutcomePassed \<or> x = AcceptanceOutcomeWaived"

datatype AcceptanceCheckPurpose =
    AcceptanceCheckPurposeExecutionVerification
  | AcceptanceCheckPurposeAcceptance
  | AcceptanceCheckPurposeOther string

definition AcceptanceCheckPurpose_Valid :: "AcceptanceCheckPurpose \<Rightarrow> bool" where
  "AcceptanceCheckPurpose_Valid p \<longleftrightarrow>
     p = AcceptanceCheckPurposeExecutionVerification \<or> p = AcceptanceCheckPurposeAcceptance"

record AcceptanceCheck =
  check_id :: uuid
  check_criterion_id :: uuid
  check_criterion_revision :: int
  check_outcome :: AcceptanceOutcome
  check_evidence :: string
  check_checker :: Actor
  check_purpose :: AcceptanceCheckPurpose
  check_task_claim_id :: "uuid option"
  check_task_review_cycle :: "int option"
  check_checked_at :: time

definition validateBase :: "AcceptanceCheck \<Rightarrow> AcceptanceCriterion \<Rightarrow> unit result" where
  "validateBase c criterion =
     (if check_criterion_id c \<noteq> crit_id criterion \<or>
         check_criterion_revision c \<noteq> crit_revision criterion
      then Inl ErrConflict
      else if \<not> AcceptanceOutcome_Valid (check_outcome c) \<or> blank (check_evidence c)
      then Inl ErrInvalidInput
      else case actor_type (check_checker c) of
        ActorTypeUser \<Rightarrow>
          (if \<not> Actor_IsHuman (check_checker c) then Inl ErrInvalidInput else Inr ())
      | ActorTypeAgent \<Rightarrow>
          (if blank (actor_ref (check_checker c)) then Inl ErrInvalidInput else Inr ())
      | ActorTypeSystem \<Rightarrow>
          (if blank (actor_ref (check_checker c)) then Inl ErrInvalidInput else Inr ())
      | ActorTypeOther _ \<Rightarrow> Inl ErrInvalidInput)"

definition ValidateAgainst :: "AcceptanceCheck \<Rightarrow> AcceptanceCriterion \<Rightarrow> unit result" where
  "ValidateAgainst c criterion = validateBase c criterion"

definition ValidateForTaskClaim ::
  "AcceptanceCheck \<Rightarrow> AcceptanceCriterion \<Rightarrow> uuid \<Rightarrow> TaskClaimStage \<Rightarrow> int \<Rightarrow> unit result" where
  "ValidateForTaskClaim c criterion claimID stage reviewCycle =
     bindR (validateBase c criterion) (\<lambda>_.
       if claimID = uuid_nil \<or> check_task_claim_id c \<noteq> Some claimID \<or>
          check_task_review_cycle c \<noteq> Some reviewCycle \<or> reviewCycle < 0
       then Inl ErrConflict
       else if \<not> AcceptanceCheckPurpose_Valid (check_purpose c) \<or>
          stage = TaskClaimStageExecution \<and>
            check_purpose c \<noteq> AcceptanceCheckPurposeExecutionVerification \<or>
          stage = TaskClaimStageReview \<and> check_purpose c \<noteq> AcceptanceCheckPurposeAcceptance \<or>
          \<not> TaskClaimStage_Valid stage
       then Inl ErrConflict
       else Inr ())"

definition SatisfiesTaskReview :: "AcceptanceCheck \<Rightarrow> int \<Rightarrow> bool" where
  "SatisfiesTaskReview c reviewCycle \<longleftrightarrow>
     check_purpose c = AcceptanceCheckPurposeAcceptance \<and>
     check_task_review_cycle c = Some reviewCycle \<and>
     AcceptanceOutcome_Satisfies (check_outcome c)"

section \<open>Lemmas\<close>

lemma validateBase_Inr:
  "validateBase c criterion = Inr u \<longleftrightarrow>
     check_criterion_id c = crit_id criterion \<and>
     check_criterion_revision c = crit_revision criterion \<and>
     AcceptanceOutcome_Valid (check_outcome c) \<and> \<not> blank (check_evidence c) \<and>
     validThreadActor (check_checker c)"
  by (auto simp: validateBase_def validThreadActor_def split: ActorType.splits if_splits)

lemma ValidateForTaskClaim_Inr:
  "ValidateForTaskClaim c criterion claimID stage reviewCycle = Inr u \<longleftrightarrow>
     validateBase c criterion = Inr () \<and> claimID \<noteq> uuid_nil \<and>
     check_task_claim_id c = Some claimID \<and> check_task_review_cycle c = Some reviewCycle \<and>
     reviewCycle \<ge> 0 \<and>
     (stage = TaskClaimStageExecution \<and>
        check_purpose c = AcceptanceCheckPurposeExecutionVerification \<or>
      stage = TaskClaimStageReview \<and> check_purpose c = AcceptanceCheckPurposeAcceptance)"
  by (auto simp: ValidateForTaskClaim_def AcceptanceCheckPurpose_Valid_def TaskClaimStage_Valid_def
      result_simps split: if_splits)

lemma AcceptanceCriterion_Edit_valid:
  assumes "AcceptanceCriterion_Validate c = Inr ()" and "\<not> blank criterion" and "\<not> blank verification"
  shows "AcceptanceCriterion_Validate (AcceptanceCriterion_Edit criterion verification now c) = Inr ()"
  using assms by (auto simp: AcceptanceCriterion_Validate_def AcceptanceCriterion_Edit_def
      split: if_splits)

section \<open>Properties\<close>

text \<open>C6. Safety: an execution stage can never produce review acceptance.  A check validated for a
  claim counts for review of a cycle iff the claim is a review claim, the cycle is the claim's
  and the outcome is passed or waived; and editing the criterion's text afterwards makes the
  same check stale.\<close>

theorem review_acceptance_needs_review_claim:
  assumes "ValidateForTaskClaim c criterion claimID stage cycle = Inr ()"
  shows "(SatisfiesTaskReview c cycle' \<longleftrightarrow>
      stage = TaskClaimStageReview \<and> cycle' = cycle \<and>
      AcceptanceOutcome_Satisfies (check_outcome c)) \<and>
    (crit_criterion criterion \<noteq> text \<or> crit_verification criterion \<noteq> verification \<longrightarrow>
      ValidateForTaskClaim c (AcceptanceCriterion_Edit text verification now criterion)
        claimID stage cycle = Inl ErrConflict)"
proof (intro conjI impI)
  from assms have facts: "check_task_review_cycle c = Some cycle"
    "stage = TaskClaimStageExecution \<and>
       check_purpose c = AcceptanceCheckPurposeExecutionVerification \<or>
     stage = TaskClaimStageReview \<and> check_purpose c = AcceptanceCheckPurposeAcceptance"
    by (auto simp: ValidateForTaskClaim_Inr)
  then show "SatisfiesTaskReview c cycle' \<longleftrightarrow>
      stage = TaskClaimStageReview \<and> cycle' = cycle \<and>
      AcceptanceOutcome_Satisfies (check_outcome c)"
    by (auto simp: SatisfiesTaskReview_def)
  assume "crit_criterion criterion \<noteq> text \<or> crit_verification criterion \<noteq> verification"
  moreover from assms have "check_criterion_revision c = crit_revision criterion"
    by (auto simp: ValidateForTaskClaim_Inr validateBase_Inr)
  ultimately show "ValidateForTaskClaim c
      (AcceptanceCriterion_Edit text verification now criterion) claimID stage cycle =
      Inl ErrConflict"
    by (auto simp: ValidateForTaskClaim_def validateBase_def AcceptanceCriterion_Edit_def)
qed

definition sample_criterion :: AcceptanceCriterion where
  "sample_criterion =
     \<lparr>crit_id = 3, crit_version = 1, crit_milestone_id = None, crit_task_id = Some 1,
      crit_criterion = ''a'', crit_verification = ''b'', crit_revision = 1, crit_position = 0,
      crit_archived_at = None, crit_created_at = 1, crit_updated_at = 1\<rparr>"

definition sample_check :: AcceptanceCheck where
  "sample_check =
     \<lparr>check_id = 4, check_criterion_id = 3, check_criterion_revision = 1,
      check_outcome = AcceptanceOutcomePassed, check_evidence = ''e'',
      check_checker = \<lparr>actor_type = ActorTypeUser, actor_user_id = Some 5, actor_ref = []\<rparr>,
      check_purpose = AcceptanceCheckPurposeAcceptance, check_task_claim_id = Some 7,
      check_task_review_cycle = Some 1, check_checked_at = 2\<rparr>"

theorem review_acceptance_needs_review_claim_witness:
  "SatisfiesTaskReview sample_check 1 \<and>
   ValidateForTaskClaim sample_check (AcceptanceCriterion_Edit ''c'' ''b'' 9 sample_criterion)
     7 TaskClaimStageReview 1 = Inl ErrConflict"
proof -
  have "ValidateForTaskClaim sample_check sample_criterion 7 TaskClaimStageReview 1 = Inr ()"
    by (simp add: ValidateForTaskClaim_def validateBase_def sample_check_def sample_criterion_def
        AcceptanceCheckPurpose_Valid_def TaskClaimStage_Valid_def Actor_IsHuman_def
        TrimSpace_def go_spaces_def trim_with.simps)
  from review_acceptance_needs_review_claim [OF this] show ?thesis
    by (simp add: sample_check_def sample_criterion_def AcceptanceOutcome_Satisfies_def)
qed

end
