(* ===== verification/Project_Domain.thy ===== *)
theory Project_Domain
  imports Domain_Actors
begin

text \<open>
  Users, Projects and Milestones: internal/domain/user.go, project.go and project_membership.go.
  A method with a pointer receiver returns the updated record or its error; the instant that
  \<open>time.Now\<close> returns is an argument.  The Milestone methods form a state machine, whose time
  stamps are shown to follow its status.
\<close>

section \<open>Users\<close>

datatype UserRole =
    UserRoleSponsor
  | UserRoleEngineer
  | UserRoleTechLead
  | UserRoleSteward
  | UserRoleOther string

datatype PlatformRole =
    PlatformRoleAdmin
  | PlatformRoleMember
  | PlatformRoleOther string

datatype AccessStatus =
    AccessStatusPending
  | AccessStatusApproved
  | AccessStatusRejected
  | AccessStatusOther string

record User =
  user_id :: uuid
  user_name :: string
  user_email :: "string option"
  user_avatar_url :: "string option"
  user_platform_role :: PlatformRole
  user_access_status :: AccessStatus
  user_roles :: "UserRole list"
  user_active :: bool
  user_created_at :: time
  user_updated_at :: time

definition CanUseApplication :: "User \<Rightarrow> bool" where
  "CanUseApplication u \<longleftrightarrow> user_active u \<and> user_access_status u = AccessStatusApproved"

definition CanChangeAccessStatus :: "AccessStatus \<Rightarrow> AccessStatus \<Rightarrow> bool" where
  "CanChangeAccessStatus src dst \<longleftrightarrow>
     (if src = dst then True
      else src = AccessStatusPending \<and>
             (dst = AccessStatusApproved \<or> dst = AccessStatusRejected) \<or>
           src = AccessStatusRejected \<and> dst = AccessStatusApproved)"

fun any_role :: "UserRole \<Rightarrow> UserRole list \<Rightarrow> bool" where
  "any_role r [] = False"
| "any_role r (held # rest) = (if held = r then True else any_role r rest)"

definition HasRole :: "UserRole \<Rightarrow> User \<Rightarrow> bool" where
  "HasRole r u = any_role r (user_roles u)"

record UserRef =
  ref_id :: uuid
  ref_name :: string
  ref_email :: "string option"

section \<open>Memberships\<close>

datatype ProjectRole =
    ProjectRoleAdmin
  | ProjectRoleMember
  | ProjectRoleOther string

definition ProjectRole_Valid :: "ProjectRole \<Rightarrow> bool" where
  "ProjectRole_Valid r \<longleftrightarrow> r = ProjectRoleAdmin \<or> r = ProjectRoleMember"

record ProjectMembership =
  pm_id :: uuid
  pm_project_id :: uuid
  pm_user :: UserRef
  pm_role :: ProjectRole
  pm_active :: bool
  pm_created_at :: time
  pm_updated_at :: time

definition ProjectMembership_Validate :: "ProjectMembership \<Rightarrow> unit result" where
  "ProjectMembership_Validate m =
     (if pm_id m = uuid_nil \<or> pm_project_id m = uuid_nil \<or> ref_id (pm_user m) = uuid_nil \<or>
         \<not> ProjectRole_Valid (pm_role m)
      then Inl ErrInvalidInput else Inr ())"

record ProjectAccessSubject =
  subject_user_id :: uuid
  subject_platform_role :: PlatformRole

definition IsPlatformAdministrator :: "ProjectAccessSubject \<Rightarrow> bool" where
  "IsPlatformAdministrator s \<longleftrightarrow> subject_platform_role s = PlatformRoleAdmin"

section \<open>Projects\<close>

record Project =
  project_id :: uuid
  project_number :: int
  project_version :: int
  project_name :: string
  project_description :: string
  project_creator_id :: uuid
  project_archived_at :: "time option"
  project_created_at :: time
  project_updated_at :: time

definition Project_Validate :: "Project \<Rightarrow> unit result" where
  "Project_Validate p =
     (if blank (project_name p) then Inl ErrInvalidInput
      else if project_creator_id p = uuid_nil then Inl ErrInvalidInput
      else Inr ())"

record ProjectArchiveReadiness =
  par_open_milestones :: int
  par_unfinished_tasks :: int

definition Project_Archive :: "ProjectArchiveReadiness \<Rightarrow> time \<Rightarrow> Project \<Rightarrow> Project result" where
  "Project_Archive readiness now p =
     (if par_open_milestones readiness > 0 then Inl ErrConflict
      else if par_unfinished_tasks readiness > 0 then Inl ErrConflict
      else Inr (p\<lparr>project_archived_at := Some now, project_updated_at := now\<rparr>))"

definition Project_Restore :: "time \<Rightarrow> Project \<Rightarrow> Project" where
  "Project_Restore now p = p\<lparr>project_archived_at := None, project_updated_at := now\<rparr>"

section \<open>Milestones\<close>

datatype MilestoneStatus =
    MilestoneStatusPlanned
  | MilestoneStatusActive
  | MilestoneStatusCompleted
  | MilestoneStatusCancelled
  | MilestoneStatusOther string

fun MilestoneStatus_Valid :: "MilestoneStatus \<Rightarrow> bool" where
  "MilestoneStatus_Valid (MilestoneStatusOther _) = False"
| "MilestoneStatus_Valid _ = True"

record Milestone =
  ms_id :: uuid
  ms_project_id :: uuid
  ms_version :: int
  ms_name :: string
  ms_outcome :: string
  ms_description :: string
  ms_owner_id :: uuid
  ms_status :: MilestoneStatus
  ms_target_date :: "time option"
  ms_position :: int
  ms_completed_at :: "time option"
  ms_cancelled_at :: "time option"
  ms_created_at :: time
  ms_updated_at :: time

definition Milestone_Validate :: "Milestone \<Rightarrow> unit result" where
  "Milestone_Validate m =
     (if ms_project_id m = uuid_nil \<or> blank (ms_name m) \<or> blank (ms_outcome m) \<or>
         ms_owner_id m = uuid_nil
      then Inl ErrInvalidInput
      else if \<not> MilestoneStatus_Valid (ms_status m) \<or> ms_position m < 0 then Inl ErrInvalidInput
      else Inr ())"

record MilestoneReadiness =
  mr_active_criteria :: int
  mr_unsatisfied_criteria :: int
  mr_unfinished_tasks :: int

definition Milestone_Activate :: "MilestoneReadiness \<Rightarrow> time \<Rightarrow> Milestone \<Rightarrow> Milestone result" where
  "Milestone_Activate readiness now m =
     (if ms_status m \<noteq> MilestoneStatusPlanned then Inl ErrConflict
      else if mr_active_criteria readiness = 0 then Inl ErrConflict
      else Inr (m\<lparr>ms_status := MilestoneStatusActive, ms_updated_at := now\<rparr>))"

definition Milestone_Complete :: "MilestoneReadiness \<Rightarrow> time \<Rightarrow> Milestone \<Rightarrow> Milestone result" where
  "Milestone_Complete readiness now m =
     (if ms_status m \<noteq> MilestoneStatusActive then Inl ErrConflict
      else if mr_active_criteria readiness = 0 \<or> mr_unsatisfied_criteria readiness > 0
      then Inl ErrConflict
      else if mr_unfinished_tasks readiness > 0 then Inl ErrConflict
      else Inr (m\<lparr>ms_status := MilestoneStatusCompleted, ms_completed_at := Some now,
        ms_cancelled_at := None, ms_updated_at := now\<rparr>))"

definition Milestone_Cancel :: "MilestoneReadiness \<Rightarrow> time \<Rightarrow> Milestone \<Rightarrow> Milestone result" where
  "Milestone_Cancel readiness now m =
     (if ms_status m \<noteq> MilestoneStatusPlanned \<and> ms_status m \<noteq> MilestoneStatusActive
      then Inl ErrConflict
      else if mr_unfinished_tasks readiness > 0 then Inl ErrConflict
      else Inr (m\<lparr>ms_status := MilestoneStatusCancelled, ms_cancelled_at := Some now,
        ms_completed_at := None, ms_updated_at := now\<rparr>))"

definition Milestone_Reopen :: "Actor \<Rightarrow> string \<Rightarrow> time \<Rightarrow> Milestone \<Rightarrow> Milestone result" where
  "Milestone_Reopen actor reason now m =
     (if \<not> Actor_IsHuman actor then Inl ErrForbidden
      else if blank reason then Inl ErrInvalidInput
      else if ms_status m \<noteq> MilestoneStatusCompleted \<and> ms_status m \<noteq> MilestoneStatusCancelled
      then Inl ErrConflict
      else Inr (m\<lparr>ms_status := MilestoneStatusActive, ms_completed_at := None,
        ms_cancelled_at := None, ms_updated_at := now\<rparr>))"

section \<open>The Milestone state machine\<close>

inductive milestone_step :: "Milestone \<Rightarrow> Milestone \<Rightarrow> bool" where
  activate: "Milestone_Activate readiness now m = Inr m' \<Longrightarrow> milestone_step m m'"
| complete: "Milestone_Complete readiness now m = Inr m' \<Longrightarrow> milestone_step m m'"
| cancel: "Milestone_Cancel readiness now m = Inr m' \<Longrightarrow> milestone_step m m'"
| reopen: "Milestone_Reopen actor reason now m = Inr m' \<Longrightarrow> milestone_step m m'"

inductive_cases milestone_stepE: "milestone_step m m'"

definition milestone_fresh :: "Milestone \<Rightarrow> bool" where
  "milestone_fresh m \<longleftrightarrow>
     Milestone_Validate m = Inr () \<and> ms_status m = MilestoneStatusPlanned \<and>
     ms_completed_at m = None \<and> ms_cancelled_at m = None"

definition milestone_inv :: "Milestone \<Rightarrow> bool" where
  "milestone_inv m \<longleftrightarrow>
     Milestone_Validate m = Inr () \<and>
     (ms_completed_at m \<noteq> None \<longleftrightarrow> ms_status m = MilestoneStatusCompleted) \<and>
     (ms_cancelled_at m \<noteq> None \<longleftrightarrow> ms_status m = MilestoneStatusCancelled)"

lemmas milestone_defs =
  Milestone_Activate_def Milestone_Complete_def Milestone_Cancel_def Milestone_Reopen_def

lemma Milestone_Validate_Inr:
  "Milestone_Validate m = Inr () \<longleftrightarrow>
     ms_project_id m \<noteq> uuid_nil \<and> \<not> blank (ms_name m) \<and> \<not> blank (ms_outcome m) \<and>
     ms_owner_id m \<noteq> uuid_nil \<and> MilestoneStatus_Valid (ms_status m) \<and> ms_position m \<ge> 0"
  by (auto simp: Milestone_Validate_def)

lemma milestone_step_inv:
  assumes "milestone_inv m" and "milestone_step m m'"
  shows "milestone_inv m'"
  using assms(2,1)
  by (elim milestone_stepE)
    (simp_all add: milestone_defs milestone_inv_def Milestone_Validate_Inr split: if_splits, auto)

interpretation milestone_machine: invariant_system milestone_fresh milestone_step milestone_inv
proof
  show "milestone_inv m" if "milestone_fresh m" for m
    using that by (simp add: milestone_fresh_def milestone_inv_def)
qed (rule milestone_step_inv)

text \<open>C1.
  The time stamps of a Milestone follow its status: however its methods are applied to a newly
  planned Milestone, \<open>CompletedAt\<close> is set exactly while it is completed and \<open>CancelledAt\<close>
  exactly while it is cancelled, the Milestone stays valid, and the next step that completes it
  starts from active with at least one criterion, none unsatisfied, and no unfinished Task.
\<close>

theorem milestone_stamps_follow_status:
  assumes "reach milestone_fresh milestone_step m"
  shows "Milestone_Validate m = Inr () \<and>
    (ms_completed_at m \<noteq> None \<longleftrightarrow> ms_status m = MilestoneStatusCompleted) \<and>
    (ms_cancelled_at m \<noteq> None \<longleftrightarrow> ms_status m = MilestoneStatusCancelled) \<and>
    (Milestone_Complete readiness now m = Inr m' \<longrightarrow>
      ms_status m = MilestoneStatusActive \<and> mr_active_criteria readiness \<noteq> 0 \<and>
      mr_unsatisfied_criteria readiness \<le> 0 \<and> mr_unfinished_tasks readiness \<le> 0 \<and>
      ms_completed_at m' = Some now)"
proof -
  have "milestone_inv m" by (rule milestone_machine.inv_reach [OF assms])
  moreover have "Milestone_Complete readiness now m = Inr m' \<Longrightarrow>
      ms_status m = MilestoneStatusActive \<and> mr_active_criteria readiness \<noteq> 0 \<and>
      mr_unsatisfied_criteria readiness \<le> 0 \<and> mr_unfinished_tasks readiness \<le> 0 \<and>
      ms_completed_at m' = Some now"
    by (auto simp: Milestone_Complete_def split: if_splits)
  ultimately show ?thesis by (simp add: milestone_inv_def)
qed

definition sample_milestone :: Milestone where
  "sample_milestone =
     \<lparr>ms_id = 1, ms_project_id = 2, ms_version = 1, ms_name = ''M1'', ms_outcome = ''shipped'',
      ms_description = [], ms_owner_id = 3, ms_status = MilestoneStatusPlanned,
      ms_target_date = None, ms_position = 0, ms_completed_at = None, ms_cancelled_at = None,
      ms_created_at = 5, ms_updated_at = 5\<rparr>"

definition sample_ready :: MilestoneReadiness where
  "sample_ready = \<lparr>mr_active_criteria = 1, mr_unsatisfied_criteria = 0, mr_unfinished_tasks = 0\<rparr>"

lemma sample_milestone_active:
  "reach milestone_fresh milestone_step (sample_milestone\<lparr>ms_status := MilestoneStatusActive, ms_updated_at := 6\<rparr>)"
proof -
  have "milestone_fresh sample_milestone" by code_simp
  moreover have "Milestone_Activate sample_ready 6 sample_milestone =
      Inr (sample_milestone\<lparr>ms_status := MilestoneStatusActive, ms_updated_at := 6\<rparr>)"
    by (simp add: Milestone_Activate_def sample_milestone_def sample_ready_def)
  ultimately show ?thesis by (meson reach_init reach_step milestone_step.activate)
qed

theorem milestone_stamps_follow_status_witness:
  "\<exists>m'. Milestone_Complete sample_ready 7
      (sample_milestone\<lparr>ms_status := MilestoneStatusActive, ms_updated_at := 6\<rparr>) = Inr m' \<and>
    ms_completed_at m' = Some 7"
proof -
  let ?m = "sample_milestone\<lparr>ms_status := MilestoneStatusActive, ms_updated_at := 6\<rparr>"
  obtain m' where "Milestone_Complete sample_ready 7 ?m = Inr m'"
    by (simp add: Milestone_Complete_def sample_ready_def)
  with milestone_stamps_follow_status [OF sample_milestone_active] show ?thesis by blast
qed

text \<open>C8.
  Approval is terminal: no sequence of permitted changes of the access status leaves approved,
  and nothing returns to pending.
\<close>

theorem access_approval_terminal:
  assumes "CanChangeAccessStatus\<^sup>*\<^sup>* src dst"
  shows "(src = AccessStatusApproved \<longrightarrow> dst = AccessStatusApproved) \<and>
    (dst = AccessStatusPending \<longrightarrow> src = AccessStatusPending)"
  using assms
  by (induction rule: rtranclp_induct) (auto simp: CanChangeAccessStatus_def split: if_splits)

theorem access_approval_terminal_witness:
  "{s. CanChangeAccessStatus\<^sup>*\<^sup>* AccessStatusApproved s} = {AccessStatusApproved}"
  using access_approval_terminal [of AccessStatusApproved] by auto

end
