(* ===== verification/Legacy_Claim.thy ===== *)
theory Legacy_Claim
  imports Stage_Claim
begin

text \<open>
  The Agent-only claims that preceded stage claims: internal/domain/task_claim.go.  Their table
  is still read by internal/store/task_store.go.  A method with a pointer receiver returns the
  updated record; \<open>NewTaskClaim\<close> takes the identifier \<open>uuid.New\<close> draws.  The lifetimes are in
  \<open>Stage_Claim\<close>, which shares them.
\<close>

section \<open>Data\<close>

datatype TaskClaimStatus =
    TaskClaimStatusActive
  | TaskClaimStatusWaitingHuman
  | TaskClaimStatusSubmitted
  | TaskClaimStatusReleased
  | TaskClaimStatusExpired
  | TaskClaimStatusOther string

fun TaskClaimStatus_Valid :: "TaskClaimStatus \<Rightarrow> bool" where
  "TaskClaimStatus_Valid (TaskClaimStatusOther _) = False"
| "TaskClaimStatus_Valid _ = True"

definition TaskClaimStatus_Terminal :: "TaskClaimStatus \<Rightarrow> bool" where
  "TaskClaimStatus_Terminal s \<longleftrightarrow>
     s = TaskClaimStatusSubmitted \<or> s = TaskClaimStatusReleased \<or> s = TaskClaimStatusExpired"

record TaskClaim =
  tc_id :: uuid
  tc_task_id :: uuid
  tc_task_number :: int
  tc_claimed_by_user_id :: uuid
  tc_claimed_via_token_id :: uuid
  tc_token_name :: string
  tc_client_kind :: string
  tc_client_session_id :: string
  tc_status :: TaskClaimStatus
  tc_version :: int
  tc_expires_at :: time
  tc_terminal_reason :: string
  tc_created_at :: time
  tc_updated_at :: time
  tc_completed_at :: "time option"

section \<open>Operations\<close>

definition ValidateAgentClaim :: "Task \<Rightarrow> uuid \<Rightarrow> unit result" where
  "ValidateAgentClaim t userID =
     (if task_archived_at t \<noteq> None \<or> task_status t \<noteq> TaskStatusTodo \<or>
         task_execution_mode t \<noteq> TaskExecutionModeAgentAllowed
      then Inl ErrConflict
      else if task_assignee_id t \<noteq> Some userID then Inl ErrForbidden
      else Inr ())"

definition TaskClaim_Validate :: "TaskClaim \<Rightarrow> unit result" where
  "TaskClaim_Validate c =
     (if tc_id c = uuid_nil \<or> tc_task_id c = uuid_nil \<or> tc_task_number c < 1 \<or>
         tc_claimed_by_user_id c = uuid_nil \<or> tc_claimed_via_token_id c = uuid_nil \<or>
         blank (tc_client_kind c) \<or> blank (tc_client_session_id c) \<or>
         \<not> TaskClaimStatus_Valid (tc_status c) \<or> tc_version c < 1 \<or>
         is_zero_time (tc_expires_at c) \<or> is_zero_time (tc_created_at c) \<or>
         is_zero_time (tc_updated_at c)
      then Inl ErrInvalidInput
      else if TaskClaimStatus_Terminal (tc_status c) \<noteq> (tc_completed_at c \<noteq> None)
      then Inl ErrInvalidInput
      else Inr ())"

definition NewTaskClaim ::
  "uuid \<Rightarrow> Task \<Rightarrow> OperationActor \<Rightarrow> string \<Rightarrow> string \<Rightarrow> time \<Rightarrow> TaskClaim result" where
  "NewTaskClaim newID task actor clientKind clientSessionID now =
     bindR (ValidateAgentClaim task (op_user_id actor)) (\<lambda>_.
       case op_token_id actor of
         None \<Rightarrow> Inl ErrForbidden
       | Some tokenID \<Rightarrow>
           if op_auth_method actor \<noteq> AuthenticationMethodAPIToken \<or> tokenID = uuid_nil
           then Inl ErrForbidden
           else let clientKind = TrimSpace clientKind; clientSessionID = TrimSpace clientSessionID
             in if clientKind = [] \<or> clientSessionID = [] then Inl ErrInvalidInput
                else let claim =
                    \<lparr>tc_id = newID, tc_task_id = task_id task, tc_task_number = task_number task,
                     tc_claimed_by_user_id = op_user_id actor, tc_claimed_via_token_id = tokenID,
                     tc_token_name = op_token_name actor, tc_client_kind = clientKind,
                     tc_client_session_id = clientSessionID, tc_status = TaskClaimStatusActive,
                     tc_version = 1, tc_expires_at = now + TaskClaimActiveLifetime,
                     tc_terminal_reason = [], tc_created_at = now, tc_updated_at = now,
                     tc_completed_at = None\<rparr>
                  in bindR (TaskClaim_Validate claim) (\<lambda>_. Inr claim))"

definition TaskClaim_OwnedBy :: "uuid \<Rightarrow> string \<Rightarrow> string \<Rightarrow> TaskClaim \<Rightarrow> bool" where
  "TaskClaim_OwnedBy userID clientKind clientSessionID c \<longleftrightarrow>
     tc_claimed_by_user_id c = userID \<and> tc_client_kind c = TrimSpace clientKind \<and>
     tc_client_session_id c = TrimSpace clientSessionID"

definition TaskClaim_WaitForHuman :: "time \<Rightarrow> TaskClaim \<Rightarrow> TaskClaim result" where
  "TaskClaim_WaitForHuman now c =
     (if tc_status c \<noteq> TaskClaimStatusActive then Inl ErrConflict
      else Inr (c\<lparr>tc_status := TaskClaimStatusWaitingHuman,
        tc_expires_at := now + TaskClaimWaitingLifetime, tc_updated_at := now\<rparr>))"

definition TaskClaim_Resume :: "time \<Rightarrow> TaskClaim \<Rightarrow> TaskClaim result" where
  "TaskClaim_Resume now c =
     (if tc_status c \<noteq> TaskClaimStatusWaitingHuman then Inl ErrConflict
      else if \<not> now < tc_expires_at c then Inl ErrConflict
      else Inr (c\<lparr>tc_status := TaskClaimStatusActive,
        tc_expires_at := now + TaskClaimActiveLifetime, tc_updated_at := now\<rparr>))"

definition TaskClaim_Extend :: "time \<Rightarrow> TaskClaim \<Rightarrow> TaskClaim result" where
  "TaskClaim_Extend now c =
     (if tc_status c \<noteq> TaskClaimStatusActive then Inl ErrConflict
      else if \<not> now < tc_expires_at c then Inl ErrConflict
      else Inr (c\<lparr>tc_expires_at := now + TaskClaimActiveLifetime, tc_updated_at := now\<rparr>))"

definition TaskClaim_finish ::
  "TaskClaimStatus \<Rightarrow> string \<Rightarrow> time \<Rightarrow> TaskClaim \<Rightarrow> TaskClaim result" where
  "TaskClaim_finish status reason now c =
     (if TaskClaimStatus_Terminal (tc_status c) then Inl ErrConflict
      else Inr (c\<lparr>tc_status := status, tc_terminal_reason := TrimSpace reason,
        tc_updated_at := now, tc_completed_at := Some now\<rparr>))"

definition TaskClaim_Submit :: "time \<Rightarrow> TaskClaim \<Rightarrow> TaskClaim result" where
  "TaskClaim_Submit now c = TaskClaim_finish TaskClaimStatusSubmitted [] now c"

definition TaskClaim_Release :: "string \<Rightarrow> time \<Rightarrow> TaskClaim \<Rightarrow> TaskClaim result" where
  "TaskClaim_Release reason now c = TaskClaim_finish TaskClaimStatusReleased reason now c"

definition TaskClaim_Expire :: "time \<Rightarrow> TaskClaim \<Rightarrow> TaskClaim result" where
  "TaskClaim_Expire now c =
     (if TaskClaimStatus_Terminal (tc_status c) \<or> now < tc_expires_at c then Inl ErrConflict
      else TaskClaim_finish TaskClaimStatusExpired ''deadline_elapsed'' now c)"

section \<open>Messages\<close>

datatype TaskClaimMessageKind =
    TaskClaimMessageProgress
  | TaskClaimMessageQuestion
  | TaskClaimMessageAnswer
  | TaskClaimMessageHandoff
  | TaskClaimMessageSubmission
  | TaskClaimMessageOther string

fun TaskClaimMessageKind_Valid :: "TaskClaimMessageKind \<Rightarrow> bool" where
  "TaskClaimMessageKind_Valid (TaskClaimMessageOther _) = False"
| "TaskClaimMessageKind_Valid _ = True"

record TaskClaimMessage =
  tcm_id :: uuid
  tcm_claim_id :: uuid
  tcm_task_id :: uuid
  tcm_author :: Actor
  tcm_kind :: TaskClaimMessageKind
  tcm_body :: string
  tcm_reply_to_id :: "uuid option"
  tcm_request_id :: string
  tcm_api_token_id :: "uuid option"
  tcm_token_name :: string
  tcm_created_at :: time

definition TaskClaimMessage_Validate :: "TaskClaimMessage \<Rightarrow> unit result" where
  "TaskClaimMessage_Validate m =
     (if tcm_id m = uuid_nil \<or> tcm_claim_id m = uuid_nil \<or> tcm_task_id m = uuid_nil \<or>
         \<not> TaskClaimMessageKind_Valid (tcm_kind m) \<or> blank (tcm_body m) \<or>
         blank (tcm_request_id m) \<or> is_zero_time (tcm_created_at m)
      then Inl ErrInvalidInput
      else case actor_type (tcm_author m) of
          ActorTypeAgent \<Rightarrow>
            (if blank (actor_ref (tcm_author m)) \<or> tcm_api_token_id m = None
             then Inl ErrInvalidInput
             else if tcm_kind m = TaskClaimMessageAnswer then Inl ErrForbidden
             else Inr ())
        | ActorTypeUser \<Rightarrow>
            (if \<not> Actor_IsHuman (tcm_author m) \<or> tcm_kind m \<noteq> TaskClaimMessageAnswer \<or>
                tcm_api_token_id m \<noteq> None
             then Inl ErrForbidden else Inr ())
        | ActorTypeSystem \<Rightarrow>
            (if blank (actor_ref (tcm_author m)) \<or> tcm_api_token_id m \<noteq> None
             then Inl ErrInvalidInput else Inr ())
        | ActorTypeOther _ \<Rightarrow> Inl ErrInvalidInput)"

section \<open>The state machine\<close>

text \<open>The clock of a running server is past Go's zero time.\<close>

inductive legacy_claim_step :: "TaskClaim \<Rightarrow> TaskClaim \<Rightarrow> bool" where
  wait: "TaskClaim_WaitForHuman now c = Inr c' \<Longrightarrow> now > 0 \<Longrightarrow> legacy_claim_step c c'"
| resume: "TaskClaim_Resume now c = Inr c' \<Longrightarrow> now > 0 \<Longrightarrow> legacy_claim_step c c'"
| extend: "TaskClaim_Extend now c = Inr c' \<Longrightarrow> now > 0 \<Longrightarrow> legacy_claim_step c c'"
| submit: "TaskClaim_Submit now c = Inr c' \<Longrightarrow> now > 0 \<Longrightarrow> legacy_claim_step c c'"
| release: "TaskClaim_Release reason now c = Inr c' \<Longrightarrow> now > 0 \<Longrightarrow> legacy_claim_step c c'"
| expire: "TaskClaim_Expire now c = Inr c' \<Longrightarrow> now > 0 \<Longrightarrow> legacy_claim_step c c'"

inductive_cases legacy_claim_stepE: "legacy_claim_step c c'"

definition legacy_claim_fresh :: "TaskClaim \<Rightarrow> bool" where
  "legacy_claim_fresh c \<longleftrightarrow>
     (\<exists>newID task actor kind session now.
        NewTaskClaim newID task actor kind session now = Inr c)"

fun legacy_lifetime :: "TaskClaimStatus \<Rightarrow> int" where
  "legacy_lifetime TaskClaimStatusWaitingHuman = TaskClaimWaitingLifetime"
| "legacy_lifetime _ = TaskClaimActiveLifetime"

definition legacy_claim_inv :: "TaskClaim \<Rightarrow> bool" where
  "legacy_claim_inv c \<longleftrightarrow>
     TaskClaim_Validate c = Inr () \<and>
     (TaskClaimStatus_Terminal (tc_status c) \<or>
      tc_expires_at c = tc_updated_at c + legacy_lifetime (tc_status c))"

lemmas legacy_claim_defs =
  TaskClaim_WaitForHuman_def TaskClaim_Resume_def TaskClaim_Extend_def TaskClaim_Submit_def
  TaskClaim_Release_def TaskClaim_Expire_def TaskClaim_finish_def

lemma legacy_lifetime_pos:
  "TaskClaimActiveLifetime > 0" "TaskClaimWaitingLifetime > 0"
  by (simp_all add: TaskClaimActiveLifetime_def TaskClaimWaitingLifetime_def hours_def)

lemma NewTaskClaim_inv: "NewTaskClaim newID task actor kind session now = Inr c \<Longrightarrow> legacy_claim_inv c"
  by (auto simp: NewTaskClaim_def legacy_claim_inv_def Let_def result_simps
      split: if_splits option.splits)

lemma TaskClaim_Validate_iff:
  "TaskClaim_Validate c = Inr () \<longleftrightarrow>
     tc_id c \<noteq> uuid_nil \<and> tc_task_id c \<noteq> uuid_nil \<and> tc_task_number c \<ge> 1 \<and>
     tc_claimed_by_user_id c \<noteq> uuid_nil \<and> tc_claimed_via_token_id c \<noteq> uuid_nil \<and>
     \<not> blank (tc_client_kind c) \<and> \<not> blank (tc_client_session_id c) \<and>
     TaskClaimStatus_Valid (tc_status c) \<and> tc_version c \<ge> 1 \<and>
     \<not> is_zero_time (tc_expires_at c) \<and> \<not> is_zero_time (tc_created_at c) \<and>
     \<not> is_zero_time (tc_updated_at c) \<and>
     TaskClaimStatus_Terminal (tc_status c) = (tc_completed_at c \<noteq> None)"
  unfolding TaskClaim_Validate_def by (simp add: not_less) linarith

lemma legacy_claim_step_inv:
  assumes "legacy_claim_inv c" and "legacy_claim_step c c'"
  shows "legacy_claim_inv c'"
  using assms(2,1) legacy_lifetime_pos
  by (elim legacy_claim_stepE)
    (simp_all add: legacy_claim_defs legacy_claim_inv_def TaskClaim_Validate_iff
      TaskClaimStatus_Terminal_def split: if_splits, auto)

interpretation legacy_claim_machine:
  invariant_system legacy_claim_fresh legacy_claim_step legacy_claim_inv
proof
  show "legacy_claim_inv c" if "legacy_claim_fresh c" for c
    using that by (auto simp: legacy_claim_fresh_def intro: NewTaskClaim_inv)
qed (rule legacy_claim_step_inv)

lemma legacy_terminal_stuck: "TaskClaimStatus_Terminal (tc_status c) \<Longrightarrow> \<not> legacy_claim_step c c'"
  by (auto simp: legacy_claim_defs TaskClaimStatus_Terminal_def elim!: legacy_claim_stepE
      split: if_splits)

text \<open>C16.
  A legacy claim always is valid, its deadline is the lifetime of its status (seven days active, one
  day waiting) after its last update until it ends, and once it is submitted, released or
  expired no method changes it.
\<close>

theorem legacy_claim_deadline:
  assumes "reach legacy_claim_fresh legacy_claim_step c"
  shows "TaskClaim_Validate c = Inr () \<and>
    (if TaskClaimStatus_Terminal (tc_status c)
     then tc_completed_at c \<noteq> None \<and> (\<nexists>c'. legacy_claim_step c c')
     else tc_expires_at c = tc_updated_at c + legacy_lifetime (tc_status c))"
proof -
  have "legacy_claim_inv c" by (rule legacy_claim_machine.inv_reach [OF assms])
  then show ?thesis
    by (auto simp: legacy_claim_inv_def legacy_terminal_stuck TaskClaim_Validate_iff)
qed

definition sample_legacy_claim :: TaskClaim where
  "sample_legacy_claim =
     \<lparr>tc_id = 1, tc_task_id = 2, tc_task_number = 3, tc_claimed_by_user_id = 4,
      tc_claimed_via_token_id = 5, tc_token_name = ''ci'', tc_client_kind = ''cli'',
      tc_client_session_id = ''s1'', tc_status = TaskClaimStatusActive, tc_version = 1,
      tc_expires_at = 10 + TaskClaimActiveLifetime, tc_terminal_reason = [],
      tc_created_at = 10, tc_updated_at = 10, tc_completed_at = None\<rparr>"

definition sample_legacy_task :: Task where
  "sample_legacy_task =
     \<lparr>task_id = 2, task_number = 3, task_version = 1, task_title = ''t'', task_context = ''c'',
      task_expected_result = ''r'', task_description = [], task_phase = TaskPhaseBacklog,
      task_activity = TaskActivityNone, task_review_cycle = 0,
      task_active_issue_thread_id = None, task_main_thread_id = 9,
      task_status = TaskStatusTodo, task_priority = TaskPriorityNone,
      task_execution_mode = TaskExecutionModeAgentAllowed, task_assignee_id = Some 4,
      task_creator_id = 4, task_start_date = None, task_due_date = None, task_project_id = 8,
      task_milestone_id = None, task_parent_task_id = None, task_created_at = 1,
      task_updated_at = 1, task_completed_at = None, task_archived_at = None\<rparr>"

definition sample_token_actor :: OperationActor where
  "sample_token_actor =
     \<lparr>op_user_id = 4, op_auth_method = AuthenticationMethodAPIToken, op_token_id = Some 5,
      op_token_name = ''ci'', op_agent_run_id = None, op_request_id = ''q''\<rparr>"

lemma sample_legacy_claim_new:
  "NewTaskClaim 1 sample_legacy_task sample_token_actor ''cli'' ''s1'' 10 = Inr sample_legacy_claim"
  by code_simp

theorem legacy_claim_deadline_witness:
  "\<exists>c'. TaskClaim_WaitForHuman 20 sample_legacy_claim = Inr c' \<and>
     tc_expires_at c' = 20 + TaskClaimWaitingLifetime"
proof -
  have "reach legacy_claim_fresh legacy_claim_step sample_legacy_claim"
    using sample_legacy_claim_new by (intro reach_init, unfold legacy_claim_fresh_def) blast
  moreover obtain c' where c': "TaskClaim_WaitForHuman 20 sample_legacy_claim = Inr c'"
    by (simp add: TaskClaim_WaitForHuman_def sample_legacy_claim_def)
  ultimately have "reach legacy_claim_fresh legacy_claim_step c'"
    by (meson legacy_claim_step.wait reach_step zero_less_numeral)
  from legacy_claim_deadline [OF this] c' show ?thesis
    by (auto simp: TaskClaim_WaitForHuman_def sample_legacy_claim_def TaskClaimStatus_Terminal_def)
qed

end
