(* ===== verification/Workflow_Schema.thy ===== *)
theory Workflow_Schema
  imports Stage_Claim Thread_Domain Acceptance Project_Domain Legacy_Claim
begin

text \<open>
  The database the Task workflow runs on: the tables of migrations 0005, 0006, 0012, 0015 and
  0026 to 0032 that internal/store/task_workflow_store.go, task_stage_claim_store.go,
  task_thread_store.go and business_audit.go read and write, with their CHECK, UNIQUE and
  REFERENCES constraints.

  A table is the list of its rows.  A row of a table that is scanned into a domain struct is kept
  as that struct: the columns for an actor are the actor \<open>storedActor\<close> returns, and NULL in a
  text column that the stores write with \<open>nullIfEmpty\<close> is the empty string.  Only the columns
  of \<open>tasks\<close> that the workflow tests for NULL are options.  CHECK constraints are written in
  SQL's three-valued logic, where a constraint that evaluates to NULL holds.

  A transaction is a function from the database to an error (the transaction rolls back) or the
  new database with a result.  Every command locks its Task row first, so commands on one Task
  run one after another, as the functions compose.
\<close>

section \<open>Three-valued logic\<close>

type_synonym sql_bool = "bool option"

fun sql_and :: "sql_bool \<Rightarrow> sql_bool \<Rightarrow> sql_bool" where
  "sql_and (Some False) b = Some False"
| "sql_and a (Some False) = Some False"
| "sql_and (Some True) b = b"
| "sql_and a (Some True) = a"
| "sql_and None None = None"

fun sql_or :: "sql_bool \<Rightarrow> sql_bool \<Rightarrow> sql_bool" where
  "sql_or (Some True) b = Some True"
| "sql_or a (Some True) = Some True"
| "sql_or (Some False) b = b"
| "sql_or a (Some False) = a"
| "sql_or None None = None"

definition sql_all :: "sql_bool list \<Rightarrow> sql_bool" where
  "sql_all bs = foldr sql_and bs (Some True)"

definition sql_any :: "sql_bool list \<Rightarrow> sql_bool" where
  "sql_any bs = foldr sql_or bs (Some False)"

definition sql_in :: "'a option \<Rightarrow> 'a list \<Rightarrow> sql_bool" where
  "sql_in c vs = map_option (\<lambda>v. v \<in> set vs) c"

definition sql_not_in :: "'a option \<Rightarrow> 'a list \<Rightarrow> sql_bool" where
  "sql_not_in c vs = map_option (\<lambda>v. v \<notin> set vs) c"

abbreviation is_null :: "'a option \<Rightarrow> sql_bool" where
  "is_null c \<equiv> Some (c = None)"

abbreviation not_null :: "'a option \<Rightarrow> sql_bool" where
  "not_null c \<equiv> Some (c \<noteq> None)"

definition sql_at_least :: "int option \<Rightarrow> int \<Rightarrow> sql_bool" where
  "sql_at_least c n = map_option (\<lambda>v. v \<ge> n) c"

text \<open>\<open>btrim(c) <> ''\<close>.\<close>

definition sql_not_blank :: "string option \<Rightarrow> sql_bool" where
  "sql_not_blank c = map_option (\<lambda>s. btrim s \<noteq> []) c"

text \<open>A CHECK constraint is violated only by false.\<close>

definition sql_check :: "sql_bool \<Rightarrow> bool" where
  "sql_check b \<longleftrightarrow> b \<noteq> Some False"

section \<open>Rows\<close>

record task_row =
  t_id :: uuid
  t_number :: int
  t_version :: int
  t_title :: string
  t_context :: string
  t_expected_result :: string
  t_description :: string
  t_phase :: "TaskPhase option"
  t_activity :: "TaskActivityState option"
  t_review_cycle :: "int option"
  t_active_issue :: "uuid option"
  t_status :: TaskStatus
  t_priority :: TaskPriority
  t_execution_mode :: TaskExecutionMode
  t_assignee :: "uuid option"
  t_creator :: uuid
  t_start_date :: "time option"
  t_due_date :: "time option"
  t_project :: uuid
  t_milestone :: "uuid option"
  t_parent :: "uuid option"
  t_created_at :: time
  t_updated_at :: time
  t_completed_at :: "time option"
  t_archived_at :: "time option"

text \<open>A Thread Item with the request that wrote it; its mentions are in their own table.\<close>

record item_row =
  ir_item :: ThreadItem
  ir_request_id :: string

text \<open>The JSON documents the stores put into the audit, as the values they encode.\<close>

datatype audit_value =
    AuditLifecycle TaskLifecycle
  | AuditArchived bool
  | AuditTask task_row "uuid list" "uuid list" "int option"
  | AuditMoved uuid "uuid option" "uuid option"
  | AuditSchedule "time option" "time option" "(uuid \<times> int) option"

record audit_row =
  audit_id :: uuid
  audit_occurred_at :: time
  audit_actor :: OperationActor
  audit_entity_type :: string
  audit_entity_id :: uuid
  audit_entity_number :: "int option"
  audit_action :: string
  audit_old_value :: "audit_value option"
  audit_new_value :: "audit_value option"

record db =
  tasks :: "task_row list"
  threads :: "Thread list"
  items :: "item_row list"
  mentions :: "(uuid \<times> uuid) list"
  claims :: "TaskStageClaim list"
  criteria :: "AcceptanceCriterion list"
  checks :: "AcceptanceCheck list"
  dependencies :: "(uuid \<times> uuid) list"
  code_changes :: "TaskCodeChange list"
  audits :: "audit_row list"
  users :: "User list"
  api_tokens :: "uuid list"
  agent_runs :: "uuid list"
  projects :: "Project list"
  milestones :: "Milestone list"
  labels :: "Label list"
  task_labels :: "(uuid \<times> uuid) list"
  activity :: "Activity list"
  legacy_claims :: "TaskClaim list"

text \<open>A nullable column that references a key.\<close>

definition refs :: "uuid list \<Rightarrow> uuid option \<Rightarrow> bool" where
  "refs keys c = (case c of None \<Rightarrow> True | Some k \<Rightarrow> k \<in> set keys)"

abbreviation users_ref :: "db \<Rightarrow> uuid option \<Rightarrow> bool" where
  "users_ref d c \<equiv> refs (map user_id (users d)) c"

lemma refs_simps [simp]:
  "refs keys None"
  "refs keys (Some k) \<longleftrightarrow> k \<in> set keys"
  by (simp_all add: refs_def)

section \<open>PostgreSQL errors\<close>

datatype pg_error =
    unique_violation string
  | foreign_key_violation
  | check_violation
  | other_violation

fun mapPgError :: "pg_error \<Rightarrow> error" where
  "mapPgError (unique_violation c) =
     (if c = ''task_stage_claims_one_active_per_task'' then ErrActiveClaim
      else if c = ''task_threads_one_open_issue_per_task'' then ErrActiveIssue
      else ErrConflict)"
| "mapPgError foreign_key_violation = ErrInvalidInput"
| "mapPgError check_violation = ErrInvalidInput"
| "mapPgError other_violation = ErrOther"

section \<open>Constraints of the tables\<close>

text \<open>\<open>tasks_target_lifecycle_shape\<close> and \<open>tasks_active_issue_shape\<close>.\<close>

definition tasks_target_lifecycle_shape :: "task_row \<Rightarrow> sql_bool" where
  "tasks_target_lifecycle_shape r =
     sql_or
       (sql_all [is_null (t_phase r), is_null (t_activity r), is_null (t_review_cycle r)])
       (sql_all
         [sql_in (t_phase r) [TaskPhaseBacklog, TaskPhaseReady, TaskPhaseInProgress,
            TaskPhaseInReview, TaskPhaseDone, TaskPhaseCancelled],
          sql_at_least (t_review_cycle r) 0,
          sql_any
            [sql_and (sql_in (t_phase r) [TaskPhaseBacklog, TaskPhaseReady])
               (is_null (t_activity r)),
             sql_and (sql_in (t_phase r) [TaskPhaseInProgress, TaskPhaseInReview])
               (sql_in (t_activity r)
                 [TaskActivityAvailable, TaskActivityWorking, TaskActivityNeedsResolution]),
             sql_and (sql_in (t_phase r) [TaskPhaseDone, TaskPhaseCancelled])
               (is_null (t_activity r))]])"

definition tasks_active_issue_shape :: "task_row \<Rightarrow> sql_bool" where
  "tasks_active_issue_shape r =
     sql_any
       [sql_and (is_null (t_phase r)) (is_null (t_active_issue r)),
        sql_all [sql_in (t_phase r) [TaskPhaseBacklog, TaskPhaseReady], is_null (t_activity r),
          is_null (t_active_issue r)],
        sql_and (sql_in (t_phase r) [TaskPhaseInProgress, TaskPhaseInReview])
          (sql_or
            (sql_and (sql_in (t_activity r) [TaskActivityNeedsResolution])
              (not_null (t_active_issue r)))
            (sql_and (sql_in (t_activity r) [TaskActivityAvailable, TaskActivityWorking])
              (is_null (t_active_issue r)))),
        sql_and (sql_in (t_phase r) [TaskPhaseDone, TaskPhaseCancelled])
          (is_null (t_active_issue r))]"

definition task_row_checks :: "task_row \<Rightarrow> bool" where
  "task_row_checks r \<longleftrightarrow>
     sql_check (tasks_target_lifecycle_shape r) \<and> sql_check (tasks_active_issue_shape r) \<and>
     (case (t_start_date r, t_due_date r) of (Some s, Some e) \<Rightarrow> s \<le> e | _ \<Rightarrow> True) \<and>
     t_parent r \<noteq> Some (t_id r) \<and> TaskStatus_Valid (t_status r) \<and>
     (t_execution_mode r = TaskExecutionModeHumanOnly \<or>
      t_execution_mode r = TaskExecutionModeAgentAllowed)"

text \<open>The author, opener and resolver columns of threads and items.\<close>

definition actor_shape :: "Actor \<Rightarrow> sql_bool" where
  "actor_shape a =
     sql_or
       (sql_all [Some (actor_type a = ActorTypeUser), not_null (actor_user_id a),
          is_null (nullIfEmpty (actor_ref a))])
       (sql_all [Some (actor_type a = ActorTypeAgent \<or> actor_type a = ActorTypeSystem),
          is_null (actor_user_id a), sql_not_blank (nullIfEmpty (actor_ref a))])"

text \<open>
  The CHECKs of \<open>task_threads\<close> for a row of role issue, the only role the application writes;
  main rows are written by the trigger of \<open>tasks\<close>.
\<close>

definition issue_thread_checks :: "Thread \<Rightarrow> bool" where
  "issue_thread_checks t \<longleftrightarrow>
     thread_role t = ThreadRoleIssue \<and>
     IssueThreadType_Valid (thread_issue_type t) \<and>
     (thread_issue_status t = IssueThreadStatusOpen \<or>
      thread_issue_status t = IssueThreadStatusResolved) \<and>
     (thread_opened_from_phase t = TaskPhaseInProgress \<or>
      thread_opened_from_phase t = TaskPhaseInReview) \<and>
     thread_version t > 0 \<and>
     sql_check (sql_and (actor_shape (thread_opened_by t))
       (sql_or
         (Some (thread_issue_status t = IssueThreadStatusOpen \<and> thread_resolved_by t = None \<and>
            thread_resolved_at t = None))
         (sql_and
           (Some (thread_issue_status t = IssueThreadStatusResolved \<and>
              thread_resolved_at t \<noteq> None))
           (case thread_resolved_by t of None \<Rightarrow> None | Some a \<Rightarrow> actor_shape a))))"

definition item_kind_is_delivery :: "ThreadItemKind \<Rightarrow> bool" where
  "item_kind_is_delivery k \<longleftrightarrow>
     k = ThreadItemKindWorkSubmission \<or> k = ThreadItemKindExecutionCompleted"

definition item_has_payload :: "ThreadItem \<Rightarrow> bool" where
  "item_has_payload i \<longleftrightarrow> item_issue_resolution i \<noteq> None \<or> item_execution_completed i \<noteq> None"

definition item_checks :: "ThreadItem \<Rightarrow> string \<Rightarrow> bool" where
  "item_checks i requestID \<longleftrightarrow>
     ThreadItemKind_Valid (item_kind i) \<and>
     sql_check (actor_shape (item_author i)) \<and>
     btrim requestID \<noteq> [] \<and> item_version i > 0 \<and>
     (item_deleted_at i = None \<or> item_kind i = ThreadItemKindMessage) \<and>
     (item_kind i = ThreadItemKindIssueResolution \<longrightarrow> item_has_payload i) \<and>
     (item_kind i = ThreadItemKindExecutionCompleted \<longrightarrow> item_has_payload i) \<and>
     (item_body i \<noteq> [] \<or> item_has_payload i \<or>
      item_kind i = ThreadItemKindMessage \<and> item_deleted_at i \<noteq> None) \<and>
     sql_check (sql_any
       [sql_all [Some (item_kind_is_delivery (item_kind i)),
          not_null (item_task_stage_claim_id i), sql_at_least (item_task_review_cycle i) 1],
        sql_and (Some (item_kind i = ThreadItemKindProgress))
          (sql_or
            (sql_and (is_null (item_task_stage_claim_id i)) (is_null (item_task_review_cycle i)))
            (sql_and (not_null (item_task_stage_claim_id i))
              (sql_at_least (item_task_review_cycle i) 1))),
        sql_all [Some (item_kind i \<noteq> ThreadItemKindProgress \<and>
            \<not> item_kind_is_delivery (item_kind i)),
          is_null (item_task_stage_claim_id i), is_null (item_task_review_cycle i)]])"

text \<open>The outcome column of a claim, NULL for the empty outcome.\<close>

definition outcome_col :: "TaskClaimOutcome \<Rightarrow> TaskClaimOutcome option" where
  "outcome_col x = (if x = TaskClaimOutcomeNone then None else Some x)"

definition claim_auth_shape :: "TaskStageClaim \<Rightarrow> sql_bool" where
  "claim_auth_shape c =
     sql_any
       [Some (claim_auth_method c = AuthenticationMethodSession \<and>
          actor_type (claim_claimed_by c) = ActorTypeUser \<and> claim_api_token_id c = None \<and>
          nullIfEmpty (claim_token_name c) = None \<and> claim_agent_run_id c = None),
        sql_and
          (Some (claim_auth_method c = AuthenticationMethodAPIToken \<and>
             actor_type (claim_claimed_by c) = ActorTypeAgent \<and> claim_api_token_id c \<noteq> None \<and>
             claim_agent_run_id c = None))
          (sql_not_blank (nullIfEmpty (claim_token_name c))),
        Some (claim_auth_method c = AuthenticationMethodAgentDelegate \<and>
          actor_type (claim_claimed_by c) = ActorTypeAgent \<and> claim_api_token_id c = None \<and>
          nullIfEmpty (claim_token_name c) = None \<and> claim_agent_run_id c \<noteq> None)]"

definition claim_actor_shape :: "TaskStageClaim \<Rightarrow> sql_bool" where
  "claim_actor_shape c =
     (let a = claim_claimed_by c in
      sql_or
        (sql_all [Some (actor_type a = ActorTypeUser),
           sql_in (actor_user_id a) [claim_subject_user_id c],
           is_null (nullIfEmpty (actor_ref a))])
        (sql_all [Some (actor_type a = ActorTypeAgent), is_null (actor_user_id a),
           sql_not_blank (nullIfEmpty (actor_ref a))]))"

definition claim_outcome_shape :: "TaskStageClaim \<Rightarrow> bool" where
  "claim_outcome_shape c \<longleftrightarrow>
     (let oc = outcome_col (claim_outcome c) in
      sql_check (sql_in oc
        [TaskClaimOutcomeExecutionCompleted, TaskClaimOutcomeTaskAccepted,
         TaskClaimOutcomeChangesRequested, TaskClaimOutcomeNeedsResolution,
         TaskClaimOutcomeVoluntarilyReleased, TaskClaimOutcomeDeadlineElapsed,
         TaskClaimOutcomeTaskCancelled]) \<and>
      (if claim_status c = StageClaimStatusActive
       then oc = None \<and> claim_completed_at c = None
       else oc \<noteq> None \<and> claim_completed_at c \<noteq> None) \<and>
      sql_check (sql_any
        [sql_and (Some (claim_status c = StageClaimStatusCompleted))
           (sql_in oc [TaskClaimOutcomeExecutionCompleted, TaskClaimOutcomeTaskAccepted,
              TaskClaimOutcomeChangesRequested]),
         sql_and (Some (claim_status c = StageClaimStatusReleased))
           (sql_in oc [TaskClaimOutcomeNeedsResolution, TaskClaimOutcomeVoluntarilyReleased]),
         sql_and (Some (claim_status c = StageClaimStatusExpired))
           (sql_in oc [TaskClaimOutcomeDeadlineElapsed]),
         sql_and (Some (claim_status c = StageClaimStatusCancelled))
           (sql_in oc [TaskClaimOutcomeTaskCancelled]),
         Some (claim_status c = StageClaimStatusActive)]) \<and>
      sql_check (sql_any
        [sql_and (Some (claim_stage c = TaskClaimStageExecution))
           (sql_not_in oc [TaskClaimOutcomeTaskAccepted, TaskClaimOutcomeChangesRequested]),
         sql_and (Some (claim_stage c = TaskClaimStageReview))
           (sql_not_in oc [TaskClaimOutcomeExecutionCompleted]),
         is_null oc]))"

definition claim_checks :: "TaskStageClaim \<Rightarrow> bool" where
  "claim_checks c \<longleftrightarrow>
     TaskClaimStage_Valid (claim_stage c) \<and>
     (actor_type (claim_claimed_by c) = ActorTypeUser \<or>
      actor_type (claim_claimed_by c) = ActorTypeAgent) \<and>
     StageClaimStatus_Valid (claim_status c) \<and> claim_version c > 0 \<and>
     claim_expires_at c > claim_created_at c \<and>
     sql_check (claim_actor_shape c) \<and> sql_check (claim_auth_shape c) \<and> claim_outcome_shape c"

text \<open>The purpose column of a check, NULL for a check outside the Task workflow.\<close>

definition purpose_col :: "AcceptanceCheckPurpose \<Rightarrow> AcceptanceCheckPurpose option" where
  "purpose_col p = (if p = AcceptanceCheckPurposeOther [] then None else Some p)"

definition check_checks :: "AcceptanceCheck \<Rightarrow> bool" where
  "check_checks k \<longleftrightarrow>
     check_criterion_revision k > 0 \<and> AcceptanceOutcome_Valid (check_outcome k) \<and>
     btrim (check_evidence k) \<noteq> [] \<and>
     sql_check (sql_or
       (sql_and (Some (actor_type (check_checker k) = ActorTypeUser))
         (not_null (actor_user_id (check_checker k))))
       (sql_all [Some (actor_type (check_checker k) = ActorTypeAgent \<or>
            actor_type (check_checker k) = ActorTypeSystem),
          is_null (actor_user_id (check_checker k)),
          sql_not_blank (nullIfEmpty (actor_ref (check_checker k)))])) \<and>
     (actor_type (check_checker k) = ActorTypeUser \<or> btrim (actor_ref (check_checker k)) \<noteq> []) \<and>
     sql_check (sql_or
       (sql_all [is_null (purpose_col (check_purpose k)), is_null (check_task_claim_id k),
          is_null (check_task_review_cycle k)])
       (sql_all [sql_in (purpose_col (check_purpose k))
            [AcceptanceCheckPurposeExecutionVerification, AcceptanceCheckPurposeAcceptance],
          not_null (check_task_claim_id k), sql_at_least (check_task_review_cycle k) 0]))"

section \<open>Statements\<close>

text \<open>
  INSERT: CHECK constraints, then the unique indexes in the order they were created, then the
  foreign keys.
\<close>

definition insert_claim_row :: "TaskStageClaim \<Rightarrow> db \<Rightarrow> pg_error + db" where
  "insert_claim_row c d =
     (if \<not> claim_checks c then Inl check_violation
      else if claim_id c \<in> set (map claim_id (claims d))
      then Inl (unique_violation ''task_stage_claims_pkey'')
      else if claim_status c = StageClaimStatusActive \<and>
        (\<exists>e \<in> set (claims d). claim_task_id e = claim_task_id c \<and>
           claim_status e = StageClaimStatusActive)
      then Inl (unique_violation ''task_stage_claims_one_active_per_task'')
      else if claim_task_id c \<notin> set (map t_id (tasks d)) \<or>
        \<not> users_ref d (actor_user_id (claim_claimed_by c)) \<or>
        \<not> users_ref d (Some (claim_subject_user_id c)) \<or>
        \<not> refs (api_tokens d) (claim_api_token_id c) \<or>
        \<not> refs (agent_runs d) (claim_agent_run_id c)
      then Inl foreign_key_violation
      else Inr (d\<lparr>claims := claims d @ [c]\<rparr>))"

definition insert_thread_row :: "Thread \<Rightarrow> db \<Rightarrow> pg_error + db" where
  "insert_thread_row t d =
     (if \<not> issue_thread_checks t then Inl check_violation
      else if thread_id t \<in> set (map thread_id (threads d))
      then Inl (unique_violation ''task_threads_pkey'')
      else if thread_issue_status t = IssueThreadStatusOpen \<and>
        (\<exists>e \<in> set (threads d). thread_task_id e = thread_task_id t \<and>
           thread_role e = ThreadRoleIssue \<and> thread_issue_status e = IssueThreadStatusOpen)
      then Inl (unique_violation ''task_threads_one_open_issue_per_task'')
      else if thread_task_id t \<notin> set (map t_id (tasks d)) \<or>
        \<not> users_ref d (actor_user_id (thread_opened_by t))
      then Inl foreign_key_violation
      else Inr (d\<lparr>threads := threads d @ [t]\<rparr>))"

definition insert_item_row :: "item_row \<Rightarrow> db \<Rightarrow> pg_error + db" where
  "insert_item_row r d =
     (let i = ir_item r in
      if \<not> item_checks i (ir_request_id r) then Inl check_violation
      else if item_id i \<in> set (map (item_id \<circ> ir_item) (items d))
      then Inl (unique_violation ''task_thread_items_pkey'')
      else if item_kind i = ThreadItemKindResolutionRequest \<and>
        (\<exists>e \<in> set (items d). item_thread_id (ir_item e) = item_thread_id i \<and>
           item_kind (ir_item e) = ThreadItemKindResolutionRequest)
      then Inl (unique_violation ''task_thread_items_one_issue_request'')
      else if item_kind i = ThreadItemKindResolution \<and>
        (\<exists>e \<in> set (items d). item_thread_id (ir_item e) = item_thread_id i \<and>
           item_kind (ir_item e) = ThreadItemKindResolution)
      then Inl (unique_violation ''task_thread_items_one_issue_resolution'')
      else if item_thread_id i \<notin> set (map thread_id (threads d)) \<or>
        \<not> users_ref d (actor_user_id (item_author i)) \<or>
        \<not> refs (map (item_id \<circ> ir_item) (items d)) (item_reply_to_item_id i) \<or>
        \<not> refs (map claim_id (claims d)) (item_task_stage_claim_id i)
      then Inl foreign_key_violation
      else Inr (d\<lparr>items := items d @ [r]\<rparr>))"

definition insert_check_row :: "AcceptanceCheck \<Rightarrow> db \<Rightarrow> pg_error + db" where
  "insert_check_row k d =
     (if \<not> check_checks k then Inl check_violation
      else if check_id k \<in> set (map check_id (checks d))
      then Inl (unique_violation ''acceptance_checks_pkey'')
      else if check_criterion_id k \<notin> set (map crit_id (criteria d)) \<or>
        \<not> users_ref d (actor_user_id (check_checker k)) \<or>
        \<not> refs (map claim_id (claims d)) (check_task_claim_id k)
      then Inl foreign_key_violation
      else Inr (d\<lparr>checks := checks d @ [k]\<rparr>))"

text \<open>
  UPDATE: the number of rows that match, with the rows rewritten; an error if a rewritten row
  violates a constraint.
\<close>

text \<open>
  A foreign key is checked when its columns change.  \<open>milestone_ref\<close> is the composite key
  \<open>tasks_project_milestone_fk\<close>, and the trigger \<open>tasks_prevent_project_change\<close> raises a check
  violation.
\<close>

definition milestone_ref :: "db \<Rightarrow> uuid \<Rightarrow> uuid option \<Rightarrow> bool" where
  "milestone_ref d project c =
     (case c of None \<Rightarrow> True
      | Some m \<Rightarrow> (project, m) \<in> set (map (\<lambda>x. (ms_project_id x, ms_id x)) (milestones d)))"

definition task_refs_kept :: "db \<Rightarrow> task_row \<Rightarrow> task_row \<Rightarrow> bool" where
  "task_refs_kept d r r' \<longleftrightarrow>
     (t_active_issue r' = t_active_issue r \<or>
      refs (map thread_id (threads d)) (t_active_issue r')) \<and>
     (t_assignee r' = t_assignee r \<or> users_ref d (t_assignee r')) \<and>
     (t_milestone r' = t_milestone r \<or> milestone_ref d (t_project r') (t_milestone r')) \<and>
     (t_parent r' = t_parent r \<or> refs (map t_id (tasks d)) (t_parent r'))"

definition update_task_rows ::
  "(task_row \<Rightarrow> bool) \<Rightarrow> (task_row \<Rightarrow> task_row) \<Rightarrow> db \<Rightarrow> pg_error + (db \<times> nat)" where
  "update_task_rows p f d =
     (let rows = filter p (tasks d) in
      if \<exists>r \<in> set rows. t_project (f r) \<noteq> t_project r then Inl check_violation
      else if \<exists>r \<in> set rows. \<not> task_row_checks (f r) then Inl check_violation
      else if \<exists>r \<in> set rows. \<not> task_refs_kept d r (f r) then Inl foreign_key_violation
      else Inr (d\<lparr>tasks := update_where p f (tasks d)\<rparr>, length rows))"

definition update_claim_rows ::
  "(TaskStageClaim \<Rightarrow> bool) \<Rightarrow> (TaskStageClaim \<Rightarrow> TaskStageClaim) \<Rightarrow> db \<Rightarrow>
   pg_error + (db \<times> nat)" where
  "update_claim_rows p f d =
     (let rows = filter p (claims d) in
      if \<exists>r \<in> set rows. \<not> claim_checks (f r) then Inl check_violation
      else if \<exists>r \<in> set rows. claim_status (f r) = StageClaimStatusActive \<and>
        (\<exists>e \<in> set (claims d). claim_id e \<noteq> claim_id r \<and> claim_task_id e = claim_task_id r \<and>
           claim_status e = StageClaimStatusActive)
      then Inl (unique_violation ''task_stage_claims_one_active_per_task'')
      else Inr (d\<lparr>claims := update_where p f (claims d)\<rparr>, length rows))"

definition update_thread_rows ::
  "(Thread \<Rightarrow> bool) \<Rightarrow> (Thread \<Rightarrow> Thread) \<Rightarrow> db \<Rightarrow> pg_error + (db \<times> nat)" where
  "update_thread_rows p f d =
     (let rows = filter p (threads d) in
      if \<exists>r \<in> set rows. \<not> issue_thread_checks (f r) then Inl check_violation
      else if \<exists>r \<in> set rows.
        \<not> users_ref d (case thread_resolved_by (f r) of None \<Rightarrow> None | Some a \<Rightarrow> actor_user_id a)
      then Inl foreign_key_violation
      else Inr (d\<lparr>threads := update_where p f (threads d)\<rparr>, length rows))"

text \<open>An error of the database, as the stores return it.\<close>

definition mapPg :: "pg_error + 'a \<Rightarrow> 'a result" where
  "mapPg x = (case x of Inl e \<Rightarrow> Inl (mapPgError e) | Inr a \<Rightarrow> Inr a)"

lemma mapPg_simps [simp]:
  "mapPg (Inl e) = Inl (mapPgError e)"
  "mapPg (Inr x) = Inr x"
  "mapPg m = Inr y \<longleftrightarrow> m = Inr y"
  by (auto simp: mapPg_def split: sum.splits)

end
