(* ===== verification/Workflow_Store.thy ===== *)
theory Workflow_Store
  imports Workflow_Schema
begin

text \<open>
  The commands of internal/store/task_workflow_store.go with the statements they share from
  task_stage_claim_store.go, task_thread_store.go and business_audit.go.  A command is a function
  of the identifiers it draws, its arguments and the database; \<open>ids k\<close> is what the k-th call
  of \<open>uuid.New\<close> in the text of the command returns.  Nothing is assumed of \<open>ids\<close>: a
  collision is the unique violation the database reports.  The JSON of typed payloads and of the
  audit is kept as the value it encodes.
\<close>

section \<open>Reading\<close>

record TaskWorkflowSnapshot =
  ws_task_id :: uuid
  ws_task_number :: int
  ws_version :: int
  ws_lifecycle :: TaskLifecycle
  ws_active_issue :: "uuid option"
  ws_main_thread_id :: uuid
  ws_archived_at :: "time option"

record workflowTask = TaskWorkflowSnapshot +
  wt_project_id :: uuid

definition snapshot_of :: "workflowTask \<Rightarrow> TaskWorkflowSnapshot" where
  "snapshot_of task = TaskWorkflowSnapshot.truncate task"

definition scanWorkflowTask :: "task_row \<Rightarrow> uuid option \<Rightarrow> workflowTask result" where
  "scanWorkflowTask r mainThreadID =
     (case (t_phase r, t_review_cycle r, mainThreadID) of
        (Some phase, Some reviewCycle, Some main) \<Rightarrow>
          (let lifecycle = \<lparr>lc_phase = phase,
                 lc_activity = (case t_activity r of None \<Rightarrow> TaskActivityNone | Some a \<Rightarrow> a),
                 lc_review_cycle = reviewCycle\<rparr>
           in bindR (TaskLifecycle_Validate lifecycle) (\<lambda>_.
             Inr \<lparr>ws_task_id = t_id r, ws_task_number = t_number r, ws_version = t_version r,
                  ws_lifecycle = lifecycle, ws_active_issue = t_active_issue r,
                  ws_main_thread_id = main, ws_archived_at = t_archived_at r,
                  wt_project_id = t_project r\<rparr>))
      | _ \<Rightarrow> Inl ErrMigrationRequired)"

definition main_thread_id :: "db \<Rightarrow> uuid \<Rightarrow> uuid option" where
  "main_thread_id d taskID =
     map_option thread_id
       (find (\<lambda>t. thread_task_id t = taskID \<and> thread_role t = ThreadRoleMain) (threads d))"

definition lockWorkflowTask :: "int \<Rightarrow> db \<Rightarrow> workflowTask result" where
  "lockWorkflowTask taskNumber d =
     (case find (\<lambda>r. t_number r = taskNumber) (tasks d) of
        None \<Rightarrow> Inl ErrNotFound
      | Some r \<Rightarrow> scanWorkflowTask r (main_thread_id d (t_id r)))"

definition TaskWorkflowStore_Get :: "int \<Rightarrow> db \<Rightarrow> TaskWorkflowSnapshot result" where
  "TaskWorkflowStore_Get taskNumber d =
     (case find (\<lambda>r. t_number r = taskNumber) (tasks d) of
        None \<Rightarrow> Inl ErrNotFound
      | Some r \<Rightarrow>
          bindR (scanWorkflowTask r (main_thread_id d (t_id r))) (\<lambda>task. Inr (snapshot_of task)))"

definition lockActiveTaskStageClaim :: "uuid \<Rightarrow> db \<Rightarrow> TaskStageClaim result" where
  "lockActiveTaskStageClaim taskID d =
     (case find (\<lambda>c. claim_task_id c = taskID \<and> claim_status c = StageClaimStatusActive)
          (claims d) of
        None \<Rightarrow> Inl ErrConflict
      | Some c \<Rightarrow> Inr c)"

definition lockIssueThread :: "uuid \<Rightarrow> uuid \<Rightarrow> db \<Rightarrow> Thread result" where
  "lockIssueThread taskID threadID d =
     (case find (\<lambda>t. thread_id t = threadID \<and> thread_task_id t = taskID \<and>
          thread_role t = ThreadRoleIssue) (threads d) of
        None \<Rightarrow> Inl ErrNotFound
      | Some t \<Rightarrow> Inr t)"

definition getIssueRequest :: "uuid \<Rightarrow> db \<Rightarrow> ThreadItem result" where
  "getIssueRequest threadID d =
     (case find (\<lambda>r. item_thread_id (ir_item r) = threadID \<and>
          item_kind (ir_item r) = ThreadItemKindResolutionRequest) (items d) of
        None \<Rightarrow> Inl ErrConflict
      | Some r \<Rightarrow> Inr (ir_item r))"

definition lockTaskAcceptanceCriterion :: "uuid \<Rightarrow> uuid \<Rightarrow> db \<Rightarrow> AcceptanceCriterion result" where
  "lockTaskAcceptanceCriterion taskID criterionID d =
     (case find (\<lambda>c. crit_id c = criterionID \<and> crit_task_id c = Some taskID \<and>
          crit_archived_at c = None) (criteria d) of
        None \<Rightarrow> Inl ErrNotFound
      | Some c \<Rightarrow> Inr c)"

section \<open>Writing\<close>

definition insertTaskStageClaim :: "TaskStageClaim \<Rightarrow> db \<Rightarrow> db result" where
  "insertTaskStageClaim claim d =
     bindR (TaskStageClaim_Validate claim) (\<lambda>_.
       mapPg (insert_claim_row
         (claim\<lparr>claim_claimed_by := storedActor (claim_claimed_by claim)\<rparr>) d))"

definition updateTaskStageClaim :: "TaskStageClaim \<Rightarrow> int \<Rightarrow> db \<Rightarrow> db result" where
  "updateTaskStageClaim claim expectedVersion d =
     bindR (mapPg (update_claim_rows
       (\<lambda>c. claim_id c = claim_id claim \<and> claim_version c = expectedVersion)
       (\<lambda>c. c\<lparr>claim_status := claim_status claim, claim_outcome := claim_outcome claim,
          claim_version := claim_version claim, claim_updated_at := claim_updated_at claim,
          claim_completed_at := claim_completed_at claim\<rparr>) d))
       (\<lambda>(d', n). if n \<noteq> 1 then Inl ErrConflict else Inr d')"

definition insertTaskThreadItem :: "ThreadItem \<Rightarrow> string \<Rightarrow> db \<Rightarrow> db result" where
  "insertTaskThreadItem item requestID d =
     bindR (ThreadItem_Validate item) (\<lambda>_.
       mapPg (insert_item_row
         \<lparr>ir_item = item\<lparr>item_author := storedActor (item_author item),
            item_mentioned_user_ids := []\<rparr>,
          ir_request_id = requestID\<rparr> d))"

definition insertWorkflowItem ::
  "uuid \<Rightarrow> uuid \<Rightarrow> ThreadItemKind \<Rightarrow> Actor \<Rightarrow> string \<Rightarrow> IssueResolutionPayload option \<Rightarrow>
   string \<Rightarrow> time \<Rightarrow> db \<Rightarrow> db result" where
  "insertWorkflowItem newID threadID kind author body payload requestID now d =
     insertTaskThreadItem
       \<lparr>item_id = newID, item_thread_id = threadID, item_kind = kind, item_author = author,
        item_body = body, item_issue_resolution = payload, item_execution_completed = None,
        item_task_stage_claim_id = None, item_task_review_cycle = None,
        item_reply_to_item_id = None, item_mentioned_user_ids = [], item_version = 1,
        item_created_at = now, item_updated_at = now, item_deleted_at = None\<rparr> requestID d"

definition delivery_item ::
  "uuid \<Rightarrow> uuid \<Rightarrow> ThreadItemKind \<Rightarrow> Actor \<Rightarrow> string \<Rightarrow> uuid \<Rightarrow> int \<Rightarrow>
   ExecutionCompletedPayload option \<Rightarrow> time \<Rightarrow> ThreadItem" where
  "delivery_item newID threadID kind author body claimID reviewCycle payload now =
     \<lparr>item_id = newID, item_thread_id = threadID, item_kind = kind, item_author = author,
      item_body = body, item_issue_resolution = None, item_execution_completed = payload,
      item_task_stage_claim_id = Some claimID, item_task_review_cycle = Some reviewCycle,
      item_reply_to_item_id = None, item_mentioned_user_ids = [], item_version = 1,
      item_created_at = now, item_updated_at = now, item_deleted_at = None\<rparr>"

definition insertDeliveryWorkflowItem ::
  "uuid \<Rightarrow> uuid \<Rightarrow> ThreadItemKind \<Rightarrow> Actor \<Rightarrow> string \<Rightarrow> uuid \<Rightarrow> int \<Rightarrow>
   ExecutionCompletedPayload option \<Rightarrow> string \<Rightarrow> time \<Rightarrow> db \<Rightarrow> (db \<times> ThreadItem) result" where
  "insertDeliveryWorkflowItem newID threadID kind author body claimID reviewCycle payload
     requestID now d =
     (let item = delivery_item newID threadID kind author body claimID reviewCycle payload now
      in bindR (insertTaskThreadItem item requestID d) (\<lambda>d'. Inr (d', item)))"

definition insertIssueThread :: "Thread \<Rightarrow> db \<Rightarrow> db result" where
  "insertIssueThread issue d =
     bindR (Thread_Validate issue) (\<lambda>_.
       mapPg (insert_thread_row
         (issue\<lparr>thread_opened_by := storedActor (thread_opened_by issue)\<rparr>) d))"

definition persistResolvedIssue :: "Thread \<Rightarrow> int \<Rightarrow> db \<Rightarrow> db result" where
  "persistResolvedIssue issue expectedVersion d =
     (case thread_resolved_by issue of
        None \<Rightarrow> Inl ErrInvalidInput
      | Some resolvedBy \<Rightarrow>
          bindR (mapPg (update_thread_rows
            (\<lambda>t. thread_id t = thread_id issue \<and> thread_version t = expectedVersion \<and>
               thread_issue_status t = IssueThreadStatusOpen)
            (\<lambda>t. t\<lparr>thread_issue_status := thread_issue_status issue,
               thread_resolved_by := Some (storedActor resolvedBy),
               thread_version := thread_version issue,
               thread_updated_at := thread_updated_at issue,
               thread_resolved_at := thread_resolved_at issue\<rparr>) d))
            (\<lambda>(d', n). if n \<noteq> 1 then Inl ErrConflict else Inr d'))"

definition persistWorkflowTask ::
  "workflowTask \<Rightarrow> int \<Rightarrow> time \<Rightarrow> db \<Rightarrow> (db \<times> workflowTask) result" where
  "persistWorkflowTask task expectedVersion now d =
     bindR (TaskLifecycle_Validate (ws_lifecycle task)) (\<lambda>_.
       let task' = task\<lparr>ws_version := expectedVersion + 1\<rparr>;
           lifecycle = ws_lifecycle task;
           activity = (if lc_activity lifecycle = TaskActivityNone then None
                       else Some (lc_activity lifecycle));
           completedAt = (if lc_phase lifecycle = TaskPhaseDone then Some now else None)
       in bindR (mapPg (update_task_rows
            (\<lambda>r. t_id r = ws_task_id task \<and> t_version r = expectedVersion)
            (\<lambda>r. r\<lparr>t_phase := Some (lc_phase lifecycle), t_activity := activity,
               t_review_cycle := Some (lc_review_cycle lifecycle),
               t_active_issue := ws_active_issue task, t_version := ws_version task',
               t_updated_at := now, t_completed_at := completedAt\<rparr>) d))
          (\<lambda>(d', n). if n \<noteq> 1 then Inl ErrConflict else Inr (d', task')))"

text \<open>\<open>business_audit_events_auth_shape\<close>.\<close>

definition audit_auth_shape :: "OperationActor \<Rightarrow> bool" where
  "audit_auth_shape a \<longleftrightarrow>
     op_auth_method a = AuthenticationMethodSession \<and> op_token_id a = None \<and>
       op_agent_run_id a = None \<or>
     op_auth_method a = AuthenticationMethodAPIToken \<and> op_token_id a \<noteq> None \<and>
       op_agent_run_id a = None \<or>
     op_auth_method a = AuthenticationMethodAgentDelegate \<and> op_token_id a = None \<and>
       op_agent_run_id a \<noteq> None"

definition InsertBusinessAudit :: "uuid \<Rightarrow> audit_row \<Rightarrow> db \<Rightarrow> db result" where
  "InsertBusinessAudit newID event d =
     bindR (OperationActor_Validate (audit_actor event)) (\<lambda>_.
       let event' = (if audit_id event = uuid_nil then event\<lparr>audit_id := newID\<rparr> else event)
       in if is_zero_time (audit_occurred_at event') then Inl ErrOther
          else if audit_entity_id event' = uuid_nil \<or> audit_entity_type event' = [] \<or>
            audit_action event' = []
          then Inl ErrOther
          else if \<not> audit_auth_shape (audit_actor event') \<or>
            audit_id event' \<in> set (map audit_id (audits d)) \<or>
            op_user_id (audit_actor event') \<notin> set (map user_id (users d)) \<or>
            \<not> refs (api_tokens d) (op_token_id (audit_actor event'))
          then Inl ErrOther
          else Inr (d\<lparr>audits := audits d @ [event']\<rparr>))"

definition insertWorkflowAudit ::
  "uuid \<Rightarrow> workflowTask \<Rightarrow> OperationActor \<Rightarrow> string \<Rightarrow> time \<Rightarrow> db \<Rightarrow> db result" where
  "insertWorkflowAudit newID task operation action now d =
     InsertBusinessAudit newID
       \<lparr>audit_id = uuid_nil, audit_occurred_at = now, audit_actor = operation,
        audit_entity_type = ''task'', audit_entity_id = ws_task_id task,
        audit_entity_number = Some (ws_task_number task), audit_action = action,
        audit_old_value = None, audit_new_value = Some (AuditLifecycle (ws_lifecycle task))\<rparr> d"

section \<open>Guards shared by the commands\<close>

definition check_version :: "workflowTask \<Rightarrow> int \<Rightarrow> unit result" where
  "check_version task expectedVersion =
     (if ws_version task \<noteq> expectedVersion then Inl (VersionConflictError (ws_version task))
      else Inr ())"

definition validateClaimActor :: "TaskStageClaim \<Rightarrow> Actor \<Rightarrow> OperationActor \<Rightarrow> unit result" where
  "validateClaimActor claim actor operation =
     bindR (validateThreadOperationActor actor operation) (\<lambda>_.
       if claim_subject_user_id claim \<noteq> op_user_id operation \<or>
          claim_auth_method claim \<noteq> op_auth_method operation \<or>
          actor_type (claim_claimed_by claim) \<noteq> actor_type actor \<or>
          actor_ref (claim_claimed_by claim) \<noteq> actor_ref actor \<or>
          \<not> sameOptionalUUID (actor_user_id (claim_claimed_by claim)) (actor_user_id actor) \<or>
          \<not> sameOptionalUUID (claim_api_token_id claim) (op_token_id operation) \<or>
          \<not> sameOptionalUUID (claim_agent_run_id claim) (op_agent_run_id operation)
       then Inl ErrForbidden else Inr ())"

definition lockOwnedWorkflowClaim ::
  "int \<Rightarrow> uuid \<Rightarrow> int \<Rightarrow> int \<Rightarrow> Actor \<Rightarrow> OperationActor \<Rightarrow> db \<Rightarrow>
   (workflowTask \<times> TaskStageClaim) result" where
  "lockOwnedWorkflowClaim taskNumber claimID expectedTaskVersion expectedClaimVersion actor
     operation d =
     bindR (lockWorkflowTask taskNumber d) (\<lambda>task.
     bindR (check_version task expectedTaskVersion) (\<lambda>_.
     bindR (lockActiveTaskStageClaim (ws_task_id task) d) (\<lambda>claim.
       if claim_id claim \<noteq> claimID \<or> claim_version claim \<noteq> expectedClaimVersion
       then Inl ErrConflict
       else bindR (validateClaimActor claim actor operation) (\<lambda>_. Inr (task, claim)))))"

section \<open>Commands on readiness\<close>

definition unfinished_row :: "task_row \<Rightarrow> bool" where
  "unfinished_row r \<longleftrightarrow>
     (case t_phase r of None \<Rightarrow> True | Some p \<Rightarrow> p \<noteq> TaskPhaseDone \<and> p \<noteq> TaskPhaseCancelled)"

definition has_unfinished_dependencies :: "uuid \<Rightarrow> db \<Rightarrow> bool" where
  "has_unfinished_dependencies taskID d \<longleftrightarrow>
     (\<exists>e \<in> set (dependencies d). fst e = taskID \<and>
        (\<exists>r \<in> set (tasks d). t_id r = snd e \<and> unfinished_row r))"

definition simpleLifecycleCommand ::
  "(nat \<Rightarrow> uuid) \<Rightarrow> int \<Rightarrow> int \<Rightarrow> OperationActor \<Rightarrow> time \<Rightarrow> string \<Rightarrow> string \<Rightarrow>
   (workflowTask \<Rightarrow> db \<Rightarrow> TaskLifecycle result) \<Rightarrow> db \<Rightarrow>
   (db \<times> TaskWorkflowSnapshot) result" where
  "simpleLifecycleCommand ids taskNumber expectedVersion operation now action eventBody mutate d =
     bindR (OperationActor_Validate operation) (\<lambda>_.
     bindR (lockWorkflowTask taskNumber d) (\<lambda>task.
     bindR (check_version task expectedVersion) (\<lambda>_.
     bindR (mutate task d) (\<lambda>lifecycle.
     bindR (persistWorkflowTask (task\<lparr>ws_lifecycle := lifecycle\<rparr>) expectedVersion now d)
       (\<lambda>(d1, task1).
     bindR (insertWorkflowItem (ids 0) (ws_main_thread_id task1) ThreadItemKindSystemEvent
       workflowSystemActor eventBody None (op_request_id operation) now d1) (\<lambda>d2.
     bindR (insertWorkflowAudit (ids 1) task1 operation action now d2) (\<lambda>d3.
       Inr (d3, snapshot_of task1))))))))"

definition TaskWorkflowStore_MarkReady ::
  "(nat \<Rightarrow> uuid) \<Rightarrow> int \<Rightarrow> int \<Rightarrow> OperationActor \<Rightarrow> time \<Rightarrow> db \<Rightarrow>
   (db \<times> TaskWorkflowSnapshot) result" where
  "TaskWorkflowStore_MarkReady ids taskNumber expectedVersion operation now d =
     bindR (OperationActor_Validate operation) (\<lambda>_.
       simpleLifecycleCommand ids taskNumber expectedVersion operation now ''marked_ready''
         ''Task marked ready''
         (\<lambda>task d. TaskLifecycle_MarkReady (ws_archived_at task \<noteq> None)
            (has_unfinished_dependencies (ws_task_id task) d) (ws_lifecycle task)) d)"

definition TaskWorkflowStore_WithdrawReadiness ::
  "(nat \<Rightarrow> uuid) \<Rightarrow> int \<Rightarrow> int \<Rightarrow> string \<Rightarrow> OperationActor \<Rightarrow> time \<Rightarrow> db \<Rightarrow>
   (db \<times> TaskWorkflowSnapshot) result" where
  "TaskWorkflowStore_WithdrawReadiness ids taskNumber expectedVersion reason operation now d =
     (if blank reason then Inl ErrInvalidInput
      else simpleLifecycleCommand ids taskNumber expectedVersion operation now
        ''readiness_withdrawn'' (''Readiness withdrawn: '' @ reason)
        (\<lambda>task d. TaskLifecycle_WithdrawReadiness (ws_lifecycle task)) d)"

section \<open>Claiming and expiry\<close>

definition expireDueWorkflowClaim ::
  "uuid \<Rightarrow> workflowTask \<Rightarrow> OperationActor \<Rightarrow> time \<Rightarrow> db \<Rightarrow> (db \<times> workflowTask) result" where
  "expireDueWorkflowClaim newID task operation now d =
     (if lc_activity (ws_lifecycle task) \<noteq> TaskActivityWorking then Inr (d, task)
      else bindR (lockActiveTaskStageClaim (ws_task_id task) d) (\<lambda>claim.
        if claim_expires_at claim > now then Inr (d, task)
        else bindR (TaskStageClaim_Complete TaskClaimOutcomeDeadlineElapsed now claim) (\<lambda>claim1.
        bindR (updateTaskStageClaim claim1 (claim_version claim) d) (\<lambda>d1.
        bindR (TaskLifecycle_Release (claim_stage claim1) (ws_lifecycle task)) (\<lambda>lifecycle.
        bindR (insertWorkflowItem newID (ws_main_thread_id task) ThreadItemKindSystemEvent
          workflowSystemActor (TaskClaimStage_string (claim_stage claim1) @ '' Claim expired'')
          None (op_request_id operation) now d1) (\<lambda>d2.
          Inr (d2, task\<lparr>ws_lifecycle := lifecycle\<rparr>)))))))"

definition TaskWorkflowStore_Claim ::
  "(nat \<Rightarrow> uuid) \<Rightarrow> int \<Rightarrow> int \<Rightarrow> Actor \<Rightarrow> OperationActor \<Rightarrow> string \<Rightarrow> string \<Rightarrow> time \<Rightarrow> db \<Rightarrow>
   (db \<times> TaskWorkflowSnapshot \<times> TaskStageClaim) result" where
  "TaskWorkflowStore_Claim ids taskNumber expectedVersion claimedBy operation clientKind
     clientSessionID now d =
     bindR (validateThreadOperationActor claimedBy operation) (\<lambda>_.
     bindR (lockWorkflowTask taskNumber d) (\<lambda>task.
     bindR (check_version task expectedVersion) (\<lambda>_.
     bindR (expireDueWorkflowClaim (ids 0) task operation now d) (\<lambda>(d1, task1).
     bindR (TaskLifecycle_Claim (ws_archived_at task1 \<noteq> None) (ws_lifecycle task1))
       (\<lambda>(lifecycle, stage).
     bindR (NewTaskStageClaim (ids 1) (ws_task_id task1) (ws_task_number task1) stage claimedBy
       operation clientKind clientSessionID now) (\<lambda>claim.
     bindR (insertTaskStageClaim claim d1) (\<lambda>d2.
     bindR (persistWorkflowTask (task1\<lparr>ws_lifecycle := lifecycle\<rparr>) expectedVersion now d2)
       (\<lambda>(d3, task2).
     bindR (insertWorkflowItem (ids 2) (ws_main_thread_id task2) ThreadItemKindSystemEvent
       workflowSystemActor (TaskClaimStage_string stage @ '' Claim started'') None
       (op_request_id operation) now d3) (\<lambda>d4.
     bindR (insertWorkflowAudit (ids 3) task2 operation ''claimed'' now d4) (\<lambda>d5.
       Inr (d5, snapshot_of task2, claim)))))))))))"

definition TaskWorkflowStore_ExpireDueClaim ::
  "(nat \<Rightarrow> uuid) \<Rightarrow> int \<Rightarrow> OperationActor \<Rightarrow> time \<Rightarrow> db \<Rightarrow> (db \<times> bool) result" where
  "TaskWorkflowStore_ExpireDueClaim ids taskNumber operation now d =
     bindR (OperationActor_Validate operation) (\<lambda>_.
     bindR (lockWorkflowTask taskNumber d) (\<lambda>task.
       if lc_activity (ws_lifecycle task) \<noteq> TaskActivityWorking then Inr (d, False)
       else bindR (expireDueWorkflowClaim (ids 0) task operation now d) (\<lambda>(d1, task1).
         if lc_activity (ws_lifecycle task1) = lc_activity (ws_lifecycle task)
         then Inr (d, False)
         else bindR (persistWorkflowTask task1 (ws_version task) now d1) (\<lambda>(d2, task2).
         bindR (insertWorkflowAudit (ids 1) task2 operation ''claim_expired'' now d2) (\<lambda>d3.
           Inr (d3, True))))))"

section \<open>Finishing a claim\<close>

fun TaskClaimOutcome_string :: "TaskClaimOutcome \<Rightarrow> string" where
  "TaskClaimOutcome_string TaskClaimOutcomeExecutionCompleted = ''execution_completed''"
| "TaskClaimOutcome_string TaskClaimOutcomeTaskAccepted = ''task_accepted''"
| "TaskClaimOutcome_string TaskClaimOutcomeChangesRequested = ''changes_requested''"
| "TaskClaimOutcome_string TaskClaimOutcomeNeedsResolution = ''needs_resolution''"
| "TaskClaimOutcome_string TaskClaimOutcomeVoluntarilyReleased = ''voluntarily_released''"
| "TaskClaimOutcome_string TaskClaimOutcomeDeadlineElapsed = ''deadline_elapsed''"
| "TaskClaimOutcome_string TaskClaimOutcomeTaskCancelled = ''task_cancelled''"
| "TaskClaimOutcome_string TaskClaimOutcomeNone = []"
| "TaskClaimOutcome_string (TaskClaimOutcomeOther s) = s"

definition finishClaim ::
  "(nat \<Rightarrow> uuid) \<Rightarrow> int \<Rightarrow> uuid \<Rightarrow> int \<Rightarrow> int \<Rightarrow> TaskClaimOutcome \<Rightarrow> ThreadItemKind \<Rightarrow> string \<Rightarrow>
   Actor \<Rightarrow> OperationActor \<Rightarrow> time \<Rightarrow> (TaskLifecycle \<Rightarrow> TaskStageClaim \<Rightarrow> TaskLifecycle result) \<Rightarrow>
   db \<Rightarrow> (db \<times> TaskWorkflowSnapshot \<times> TaskStageClaim) result" where
  "finishClaim ids taskNumber claimID expectedTaskVersion expectedClaimVersion outcome itemKind
     body actor operation now mutate d =
     bindR (validateThreadOperationActor actor operation) (\<lambda>_.
     bindR (lockOwnedWorkflowClaim taskNumber claimID expectedTaskVersion expectedClaimVersion
       actor operation d) (\<lambda>(task, claim).
     bindR (mutate (ws_lifecycle task) claim) (\<lambda>lifecycle.
     bindR (TaskStageClaim_Complete outcome now claim) (\<lambda>claim1.
     bindR (updateTaskStageClaim claim1 (claim_version claim) d) (\<lambda>d1.
     bindR (persistWorkflowTask (task\<lparr>ws_lifecycle := lifecycle\<rparr>) expectedTaskVersion now d1)
       (\<lambda>(d2, task1).
     bindR (insertWorkflowItem (ids 0) (ws_main_thread_id task1) itemKind actor body None
       (op_request_id operation) now d2) (\<lambda>d3.
     bindR (insertWorkflowAudit (ids 1) task1 operation (TaskClaimOutcome_string outcome) now d3)
       (\<lambda>d4.
       Inr (d4, snapshot_of task1, claim1)))))))))"

definition TaskWorkflowStore_ReleaseClaim ::
  "(nat \<Rightarrow> uuid) \<Rightarrow> int \<Rightarrow> uuid \<Rightarrow> int \<Rightarrow> int \<Rightarrow> string \<Rightarrow> Actor \<Rightarrow> OperationActor \<Rightarrow> time \<Rightarrow> db \<Rightarrow>
   (db \<times> TaskWorkflowSnapshot \<times> TaskStageClaim) result" where
  "TaskWorkflowStore_ReleaseClaim ids taskNumber claimID expectedTaskVersion expectedClaimVersion
     handoff actor operation now d =
     (if blank handoff then Inl ErrInvalidInput
      else finishClaim ids taskNumber claimID expectedTaskVersion expectedClaimVersion
        TaskClaimOutcomeVoluntarilyReleased ThreadItemKindHandoff handoff actor operation now
        (\<lambda>lifecycle claim. TaskLifecycle_Release (claim_stage claim) lifecycle) d)"

definition TaskWorkflowStore_RequestChanges ::
  "(nat \<Rightarrow> uuid) \<Rightarrow> int \<Rightarrow> uuid \<Rightarrow> int \<Rightarrow> int \<Rightarrow> string \<Rightarrow> Actor \<Rightarrow> OperationActor \<Rightarrow> time \<Rightarrow> db \<Rightarrow>
   (db \<times> TaskWorkflowSnapshot \<times> TaskStageClaim) result" where
  "TaskWorkflowStore_RequestChanges ids taskNumber claimID expectedTaskVersion
     expectedClaimVersion reason actor operation now d =
     (if blank reason then Inl ErrInvalidInput
      else finishClaim ids taskNumber claimID expectedTaskVersion expectedClaimVersion
        TaskClaimOutcomeChangesRequested ThreadItemKindReviewOutcome reason actor operation now
        (\<lambda>lifecycle claim. TaskLifecycle_RequestChanges lifecycle) d)"

section \<open>Delivery\<close>

definition TaskWorkflowStore_RecordWorkSubmission ::
  "(nat \<Rightarrow> uuid) \<Rightarrow> int \<Rightarrow> uuid \<Rightarrow> int \<Rightarrow> int \<Rightarrow> string \<Rightarrow> Actor \<Rightarrow> OperationActor \<Rightarrow> time \<Rightarrow> db \<Rightarrow>
   (db \<times> TaskWorkflowSnapshot \<times> TaskStageClaim \<times> ThreadItem) result" where
  "TaskWorkflowStore_RecordWorkSubmission ids taskNumber claimID expectedTaskVersion
     expectedClaimVersion summary actor operation now d =
     (if blank summary then Inl ErrInvalidInput
      else bindR (validateThreadOperationActor actor operation) (\<lambda>_.
      bindR (lockOwnedWorkflowClaim taskNumber claimID expectedTaskVersion expectedClaimVersion
        actor operation d) (\<lambda>(task, claim).
        if lc_phase (ws_lifecycle task) \<noteq> TaskPhaseInProgress \<or>
           lc_activity (ws_lifecycle task) \<noteq> TaskActivityWorking \<or>
           claim_stage claim \<noteq> TaskClaimStageExecution
        then Inl ErrConflict
        else bindR (insertDeliveryWorkflowItem (ids 0) (ws_main_thread_id task)
          ThreadItemKindWorkSubmission actor summary (claim_id claim)
          (lc_review_cycle (ws_lifecycle task) + 1) None (op_request_id operation) now d)
          (\<lambda>(d1, item).
        bindR (insertWorkflowAudit (ids 1) task operation ''work_submission_recorded'' now d1)
          (\<lambda>d2.
          Inr (d2, snapshot_of task, claim, item))))))"

text \<open>The loop over the prepared snapshots: each is valid and none repeats an earlier one.\<close>

fun prepare_snapshots :: "uuid list \<Rightarrow> CodeChangeSnapshot list \<Rightarrow> uuid list result" where
  "prepare_snapshots seen [] = Inr seen"
| "prepare_snapshots seen (s # ss) =
     bindR (CodeChangeSnapshot_Validate s) (\<lambda>_.
       if snap_task_code_change_id s \<in> set seen then Inl ErrInvalidInput
       else prepare_snapshots (snap_task_code_change_id s # seen) ss)"

definition active_code_changes :: "uuid \<Rightarrow> db \<Rightarrow> uuid list" where
  "active_code_changes taskID d =
     map tcc_id (filter (\<lambda>c. tcc_task_id c = taskID \<and> tcc_unlinked_at c = None)
       (code_changes d))"

definition pending_submissions :: "uuid \<Rightarrow> int \<Rightarrow> db \<Rightarrow> uuid list" where
  "pending_submissions threadID reviewCycle d =
     map item_id (sort_key (\<lambda>i. (item_created_at i, item_id i))
       (filter (\<lambda>i. item_thread_id i = threadID \<and> item_kind i = ThreadItemKindWorkSubmission \<and>
          item_task_review_cycle i = Some reviewCycle) (map ir_item (items d))))"

definition execution_checks :: "uuid \<Rightarrow> int \<Rightarrow> db \<Rightarrow> uuid list" where
  "execution_checks taskID cycle d =
     map check_id (sort_key (\<lambda>k. (check_checked_at k, check_id k))
       (filter (\<lambda>k. check_purpose k = AcceptanceCheckPurposeExecutionVerification \<and>
          check_task_review_cycle k = Some cycle \<and>
          (\<exists>c \<in> set (criteria d). crit_id c = check_criterion_id k \<and>
             crit_task_id c = Some taskID)) (checks d)))"

definition criterion_snapshots :: "uuid \<Rightarrow> db \<Rightarrow> CriterionRevisionSnapshot list" where
  "criterion_snapshots taskID d =
     map (\<lambda>c. \<lparr>crs_criterion_id = crit_id c, crs_revision = crit_revision c\<rparr>)
       (sort_key (\<lambda>c. (crit_position c, crit_id c))
         (filter (\<lambda>c. crit_task_id c = Some taskID \<and> crit_archived_at c = None) (criteria d)))"

definition executionCompletionPayload ::
  "workflowTask \<Rightarrow> int \<Rightarrow> CodeChangeSnapshot list \<Rightarrow> db \<Rightarrow> ExecutionCompletedPayload result" where
  "executionCompletionPayload task reviewCycle codeChanges d =
     (let active = active_code_changes (ws_task_id task) d in
      if length active \<noteq> length codeChanges then Inl ErrConflict
      else bindR (prepare_snapshots [] codeChanges) (\<lambda>prepared.
        if \<exists>i \<in> set active. i \<notin> set prepared then Inl ErrConflict
        else let payload =
               \<lparr>ecp_review_cycle = reviewCycle,
                ecp_submission_item_ids =
                  pending_submissions (ws_main_thread_id task) reviewCycle d,
                ecp_execution_check_ids = execution_checks (ws_task_id task) (reviewCycle - 1) d,
                ecp_criterion_revisions = criterion_snapshots (ws_task_id task) d,
                ecp_code_changes = codeChanges\<rparr>
             in bindR (ExecutionCompletedPayload_Validate payload) (\<lambda>_. Inr payload)))"

definition TaskWorkflowStore_CompleteExecutionWithDelivery ::
  "(nat \<Rightarrow> uuid) \<Rightarrow> int \<Rightarrow> uuid \<Rightarrow> int \<Rightarrow> int \<Rightarrow> string \<Rightarrow> CodeChangeSnapshot list \<Rightarrow> Actor \<Rightarrow>
   OperationActor \<Rightarrow> time \<Rightarrow> db \<Rightarrow>
   (db \<times> TaskWorkflowSnapshot \<times> TaskStageClaim \<times> ThreadItem) result" where
  "TaskWorkflowStore_CompleteExecutionWithDelivery ids taskNumber claimID expectedTaskVersion
     expectedClaimVersion summary codeChanges actor operation now d =
     (if blank summary then Inl ErrInvalidInput
      else bindR (validateThreadOperationActor actor operation) (\<lambda>_.
      bindR (lockOwnedWorkflowClaim taskNumber claimID expectedTaskVersion expectedClaimVersion
        actor operation d) (\<lambda>(task, claim).
      bindR (TaskLifecycle_CompleteExecution (ws_lifecycle task)) (\<lambda>lifecycle.
      bindR (executionCompletionPayload (task\<lparr>ws_lifecycle := lifecycle\<rparr>)
        (lc_review_cycle lifecycle) codeChanges d) (\<lambda>payload.
      bindR (TaskStageClaim_Complete TaskClaimOutcomeExecutionCompleted now claim) (\<lambda>claim1.
      bindR (updateTaskStageClaim claim1 (claim_version claim) d) (\<lambda>d1.
      bindR (persistWorkflowTask (task\<lparr>ws_lifecycle := lifecycle\<rparr>) expectedTaskVersion now d1)
        (\<lambda>(d2, task1).
      bindR (insertDeliveryWorkflowItem (ids 0) (ws_main_thread_id task1)
        ThreadItemKindExecutionCompleted actor summary (claim_id claim1)
        (lc_review_cycle lifecycle) (Some payload) (op_request_id operation) now d2)
        (\<lambda>(d3, item).
      bindR (insertWorkflowAudit (ids 1) task1 operation ''execution_completed'' now d3) (\<lambda>d4.
        Inr (d4, snapshot_of task1, claim1, item)))))))))))"

definition TaskWorkflowStore_CompleteExecution ::
  "(nat \<Rightarrow> uuid) \<Rightarrow> int \<Rightarrow> uuid \<Rightarrow> int \<Rightarrow> int \<Rightarrow> string \<Rightarrow> Actor \<Rightarrow> OperationActor \<Rightarrow> time \<Rightarrow> db \<Rightarrow>
   (db \<times> TaskWorkflowSnapshot \<times> TaskStageClaim \<times> ThreadItem) result" where
  "TaskWorkflowStore_CompleteExecution ids taskNumber claimID expectedTaskVersion
     expectedClaimVersion summary actor operation now d =
     TaskWorkflowStore_CompleteExecutionWithDelivery ids taskNumber claimID expectedTaskVersion
       expectedClaimVersion summary [] actor operation now d"

section \<open>Issues\<close>

fun IssueThreadType_string :: "IssueThreadType \<Rightarrow> string" where
  "IssueThreadType_string IssueThreadTypeDecisionRequired = ''decision_required''"
| "IssueThreadType_string IssueThreadTypeDependencyRequired = ''dependency_required''"
| "IssueThreadType_string IssueThreadTypeNone = []"
| "IssueThreadType_string (IssueThreadTypeOther s) = s"

definition TaskWorkflowStore_RequestResolution ::
  "(nat \<Rightarrow> uuid) \<Rightarrow> int \<Rightarrow> uuid \<Rightarrow> int \<Rightarrow> int \<Rightarrow> IssueThreadType \<Rightarrow> string \<Rightarrow> Actor \<Rightarrow>
   OperationActor \<Rightarrow> time \<Rightarrow> db \<Rightarrow>
   (db \<times> TaskWorkflowSnapshot \<times> TaskStageClaim \<times> Thread) result" where
  "TaskWorkflowStore_RequestResolution ids taskNumber claimID expectedTaskVersion
     expectedClaimVersion issueType request actor operation now d =
     (if \<not> IssueThreadType_Valid issueType then Inl ErrWrongIssueType
      else if blank request then Inl ErrInvalidInput
      else bindR (validateThreadOperationActor actor operation) (\<lambda>_.
      bindR (lockOwnedWorkflowClaim taskNumber claimID expectedTaskVersion expectedClaimVersion
        actor operation d) (\<lambda>(task, claim).
      bindR (NewIssueThread (ids 0) (ws_task_id task) issueType (lc_phase (ws_lifecycle task))
        actor now) (\<lambda>issue.
      bindR (TaskLifecycle_RequestResolution (claim_stage claim) (ws_lifecycle task))
        (\<lambda>lifecycle.
      bindR (insertIssueThread issue d) (\<lambda>d1.
      bindR (insertWorkflowItem (ids 1) (thread_id issue) ThreadItemKindResolutionRequest actor
        request None (op_request_id operation) now d1) (\<lambda>d2.
      bindR (TaskStageClaim_Complete TaskClaimOutcomeNeedsResolution now claim) (\<lambda>claim1.
      bindR (updateTaskStageClaim claim1 (claim_version claim) d2) (\<lambda>d3.
      bindR (persistWorkflowTask
        (task\<lparr>ws_lifecycle := lifecycle, ws_active_issue := Some (thread_id issue)\<rparr>)
        expectedTaskVersion now d3) (\<lambda>(d4, task1).
      bindR (insertWorkflowItem (ids 2) (ws_main_thread_id task1) ThreadItemKindSystemEvent
        workflowSystemActor
        (''Resolution requested in '' @ IssueThreadType_string issueType @ '' Issue Thread'')
        None (op_request_id operation) now d4) (\<lambda>d5.
      bindR (insertWorkflowAudit (ids 3) task1 operation ''resolution_requested'' now d5) (\<lambda>d6.
        Inr (d6, snapshot_of task1, claim1, issue)))))))))))))"

text \<open>
  What \<open>ResolveIssue\<close> and \<open>CancelTask\<close> both write for an issue: the resolution item, the
  resolved thread, and its summary on the Main Thread.
\<close>

definition resolve_issue_thread ::
  "uuid \<Rightarrow> uuid \<Rightarrow> workflowTask \<Rightarrow> Thread \<Rightarrow> ThreadItem \<Rightarrow> string \<Rightarrow> Actor \<Rightarrow> OperationActor \<Rightarrow>
   time \<Rightarrow> db \<Rightarrow> (db \<times> Thread) result" where
  "resolve_issue_thread itemID summaryID task issue requestItem resolution actor operation now d =
     bindR (insertWorkflowItem itemID (thread_id issue) ThreadItemKindResolution actor resolution
       None (op_request_id operation) now d) (\<lambda>d1.
     bindR (Thread_Resolve actor now issue) (\<lambda>issue1.
     bindR (persistResolvedIssue issue1 (thread_version issue) d1) (\<lambda>d2.
     bindR (insertWorkflowItem summaryID (ws_main_thread_id task) ThreadItemKindIssueResolution
       workflowSystemActor []
       (Some \<lparr>irp_issue_thread_id = thread_id issue1, irp_issue_type = thread_issue_type issue1,
          irp_request = item_body requestItem, irp_resolution = resolution,
          irp_opened_by = thread_opened_by issue1, irp_resolved_by = actor,
          irp_opened_at = thread_created_at issue1, irp_resolved_at = now\<rparr>)
       (op_request_id operation) now d2) (\<lambda>d3.
       Inr (d3, issue1)))))"

definition TaskWorkflowStore_ResolveIssue ::
  "(nat \<Rightarrow> uuid) \<Rightarrow> int \<Rightarrow> int \<Rightarrow> uuid \<Rightarrow> int \<Rightarrow> string \<Rightarrow> Actor \<Rightarrow> OperationActor \<Rightarrow> time \<Rightarrow> db \<Rightarrow>
   (db \<times> TaskWorkflowSnapshot \<times> Thread) result" where
  "TaskWorkflowStore_ResolveIssue ids taskNumber expectedTaskVersion issueThreadID
     expectedThreadVersion resolution actor operation now d =
     (if blank resolution then Inl ErrInvalidInput
      else bindR (validateThreadOperationActor actor operation) (\<lambda>_.
      bindR (lockWorkflowTask taskNumber d) (\<lambda>task.
      bindR (check_version task expectedTaskVersion) (\<lambda>_.
        if ws_active_issue task \<noteq> Some issueThreadID then Inl ErrConflict
        else bindR (lockIssueThread (ws_task_id task) issueThreadID d) (\<lambda>issue.
          if thread_version issue \<noteq> expectedThreadVersion \<or>
             thread_opened_from_phase issue \<noteq> lc_phase (ws_lifecycle task)
          then Inl ErrConflict
          else bindR (getIssueRequest (thread_id issue) d) (\<lambda>requestItem.
          bindR (resolve_issue_thread (ids 0) (ids 1) task issue requestItem resolution actor
            operation now d) (\<lambda>(d1, issue1).
          bindR (TaskLifecycle_ResolveIssue (ws_lifecycle task)) (\<lambda>lifecycle.
          bindR (persistWorkflowTask
            (task\<lparr>ws_lifecycle := lifecycle, ws_active_issue := None\<rparr>)
            expectedTaskVersion now d1) (\<lambda>(d2, task1).
          bindR (insertWorkflowAudit (ids 2) task1 operation ''issue_resolved'' now d2) (\<lambda>d3.
            Inr (d3, snapshot_of task1, issue1)))))))))))"

section \<open>Acceptance\<close>

definition TaskWorkflowStore_RecordAcceptanceCheck ::
  "(nat \<Rightarrow> uuid) \<Rightarrow> int \<Rightarrow> uuid \<Rightarrow> int \<Rightarrow> int \<Rightarrow> AcceptanceCheck \<Rightarrow> Actor \<Rightarrow> OperationActor \<Rightarrow>
   time \<Rightarrow> db \<Rightarrow> (db \<times> AcceptanceCheck) result" where
  "TaskWorkflowStore_RecordAcceptanceCheck ids taskNumber claimID expectedTaskVersion
     expectedClaimVersion check actor operation now d =
     bindR (validateThreadOperationActor actor operation) (\<lambda>_.
     bindR (lockWorkflowTask taskNumber d) (\<lambda>task.
     bindR (check_version task expectedTaskVersion) (\<lambda>_.
       if lc_activity (ws_lifecycle task) \<noteq> TaskActivityWorking then Inl ErrConflict
       else bindR (lockActiveTaskStageClaim (ws_task_id task) d) (\<lambda>claim.
         if claim_id claim \<noteq> claimID \<or> claim_version claim \<noteq> expectedClaimVersion
         then Inl ErrConflict
         else bindR (validateClaimActor claim actor operation) (\<lambda>_.
           let checker = (if actor_type (check_checker check) = ActorTypeOther [] then actor
                          else check_checker check)
           in if actor_type checker \<noteq> actor_type actor \<or> actor_ref checker \<noteq> actor_ref actor \<or>
                \<not> sameOptionalUUID (actor_user_id checker) (actor_user_id actor)
              then Inl ErrForbidden
              else bindR (lockTaskAcceptanceCriterion (ws_task_id task)
                (check_criterion_id check) d) (\<lambda>criterion.
                let cycle = lc_review_cycle (ws_lifecycle task);
                    check1 = check\<lparr>check_id := ids 0, check_checker := checker,
                      check_task_claim_id := Some (claim_id claim),
                      check_task_review_cycle := Some cycle, check_checked_at := now,
                      check_purpose :=
                        (if claim_stage claim = TaskClaimStageExecution
                         then AcceptanceCheckPurposeExecutionVerification
                         else AcceptanceCheckPurposeAcceptance)\<rparr>
                in bindR (ValidateForTaskClaim check1 criterion (claim_id claim)
                     (claim_stage claim) cycle) (\<lambda>_.
                   bindR (mapPg (insert_check_row
                     (check1\<lparr>check_checker := storedActor checker\<rparr>) d)) (\<lambda>d1.
                   bindR (insertWorkflowAudit (ids 1) task operation
                     ''acceptance_check_recorded'' now d1) (\<lambda>d2.
                     Inr (d2, check1))))))))))"

definition criterion_satisfied :: "AcceptanceCriterion \<Rightarrow> int \<Rightarrow> db \<Rightarrow> bool" where
  "criterion_satisfied c reviewCycle d \<longleftrightarrow>
     (\<exists>k \<in> set (checks d). check_criterion_id k = crit_id c \<and>
        check_criterion_revision k = crit_revision c \<and>
        check_purpose k = AcceptanceCheckPurposeAcceptance \<and>
        check_task_review_cycle k = Some reviewCycle \<and>
        (check_outcome k = AcceptanceOutcomePassed \<or> check_outcome k = AcceptanceOutcomeWaived))"

definition active_criteria :: "uuid \<Rightarrow> db \<Rightarrow> AcceptanceCriterion list" where
  "active_criteria taskID d =
     filter (\<lambda>c. crit_task_id c = Some taskID \<and> crit_archived_at c = None) (criteria d)"

definition taskCompletionReadinessForCycle :: "uuid \<Rightarrow> int \<Rightarrow> db \<Rightarrow> TaskCompletionReadiness" where
  "taskCompletionReadinessForCycle taskID reviewCycle d =
     \<lparr>ready_active_criteria = int (length (active_criteria taskID d)),
      ready_unsatisfied_criteria =
        int (length (filter (\<lambda>c. \<not> criterion_satisfied c reviewCycle d)
          (active_criteria taskID d))),
      ready_unfinished_children =
        int (length (remdups (map t_id
          (filter (\<lambda>r. t_parent r = Some taskID \<and> unfinished_row r) (tasks d))))),
      ready_unfinished_dependencies =
        int (length (remdups (map t_id
          (filter (\<lambda>r. (taskID, t_id r) \<in> set (dependencies d) \<and> unfinished_row r)
            (tasks d)))))\<rparr>"

definition TaskWorkflowStore_AcceptTask ::
  "(nat \<Rightarrow> uuid) \<Rightarrow> int \<Rightarrow> uuid \<Rightarrow> int \<Rightarrow> int \<Rightarrow> string \<Rightarrow> Actor \<Rightarrow> OperationActor \<Rightarrow> time \<Rightarrow> db \<Rightarrow>
   (db \<times> TaskWorkflowSnapshot \<times> TaskStageClaim) result" where
  "TaskWorkflowStore_AcceptTask ids taskNumber claimID expectedTaskVersion expectedClaimVersion
     summary actor operation now d =
     (if blank summary then Inl ErrInvalidInput
      else bindR (validateThreadOperationActor actor operation) (\<lambda>_.
      bindR (lockOwnedWorkflowClaim taskNumber claimID expectedTaskVersion expectedClaimVersion
        actor operation d) (\<lambda>(task, claim).
      bindR (TaskLifecycle_Accept
        (taskCompletionReadinessForCycle (ws_task_id task) (lc_review_cycle (ws_lifecycle task)) d)
        (ws_lifecycle task)) (\<lambda>lifecycle.
      bindR (TaskStageClaim_Complete TaskClaimOutcomeTaskAccepted now claim) (\<lambda>claim1.
      bindR (updateTaskStageClaim claim1 (claim_version claim) d) (\<lambda>d1.
      bindR (persistWorkflowTask (task\<lparr>ws_lifecycle := lifecycle\<rparr>) expectedTaskVersion now d1)
        (\<lambda>(d2, task1).
      bindR (insertWorkflowItem (ids 0) (ws_main_thread_id task1) ThreadItemKindReviewOutcome
        actor summary None (op_request_id operation) now d2) (\<lambda>d3.
      bindR (insertWorkflowAudit (ids 1) task1 operation ''task_accepted'' now d3) (\<lambda>d4.
        Inr (d4, snapshot_of task1, claim1))))))))))"

section \<open>Cancellation\<close>

record CancelTaskResult =
  cancel_task :: TaskWorkflowSnapshot
  cancel_ended_claim :: "TaskStageClaim option"
  cancel_resolved_issue :: "Thread option"

definition cancel_claim ::
  "workflowTask \<Rightarrow> time \<Rightarrow> db \<Rightarrow> (db \<times> TaskStageClaim option) result" where
  "cancel_claim task now d =
     (if lc_activity (ws_lifecycle task) = TaskActivityWorking then
        bindR (lockActiveTaskStageClaim (ws_task_id task) d) (\<lambda>claim.
        bindR (TaskStageClaim_Complete TaskClaimOutcomeTaskCancelled now claim) (\<lambda>claim1.
        bindR (updateTaskStageClaim claim1 (claim_version claim) d) (\<lambda>d1.
          Inr (d1, Some claim1))))
      else Inr (d, None))"

definition cancel_issue ::
  "uuid \<Rightarrow> uuid \<Rightarrow> workflowTask \<Rightarrow> string \<Rightarrow> Actor \<Rightarrow> OperationActor \<Rightarrow> time \<Rightarrow> db \<Rightarrow>
   (db \<times> workflowTask \<times> Thread option) result" where
  "cancel_issue itemID summaryID task reason actor operation now d =
     (if lc_activity (ws_lifecycle task) = TaskActivityNeedsResolution then
        (case ws_active_issue task of
           None \<Rightarrow> Inl ErrConflict
         | Some issueID \<Rightarrow>
             bindR (lockIssueThread (ws_task_id task) issueID d) (\<lambda>issue.
             bindR (getIssueRequest (thread_id issue) d) (\<lambda>requestItem.
             bindR (resolve_issue_thread itemID summaryID task issue requestItem
               (''Task cancelled: '' @ reason) actor operation now d) (\<lambda>(d1, issue1).
               Inr (d1, task\<lparr>ws_active_issue := None\<rparr>, Some issue1)))))
      else Inr (d, task, None))"

definition TaskWorkflowStore_CancelTask ::
  "(nat \<Rightarrow> uuid) \<Rightarrow> int \<Rightarrow> int \<Rightarrow> string \<Rightarrow> Actor \<Rightarrow> OperationActor \<Rightarrow> time \<Rightarrow> db \<Rightarrow>
   (db \<times> CancelTaskResult) result" where
  "TaskWorkflowStore_CancelTask ids taskNumber expectedTaskVersion reason actor operation now d =
     (if blank reason then Inl ErrInvalidInput
      else bindR (validateThreadOperationActor actor operation) (\<lambda>_.
      bindR (lockWorkflowTask taskNumber d) (\<lambda>task.
      bindR (check_version task expectedTaskVersion) (\<lambda>_.
      bindR (cancel_claim task now d) (\<lambda>(d1, endedClaim).
      bindR (cancel_issue (ids 0) (ids 1) task reason actor operation now d1)
        (\<lambda>(d2, task1, resolvedIssue).
      bindR (TaskLifecycle_Cancel (ws_lifecycle task1)) (\<lambda>lifecycle.
      bindR (persistWorkflowTask (task1\<lparr>ws_lifecycle := lifecycle\<rparr>) expectedTaskVersion now d2)
        (\<lambda>(d3, task2).
      bindR (insertWorkflowItem (ids 2) (ws_main_thread_id task2) ThreadItemKindSystemEvent
        workflowSystemActor (''Task cancelled: '' @ reason) None (op_request_id operation) now d3)
        (\<lambda>d4.
      bindR (insertWorkflowAudit (ids 3) task2 operation ''task_cancelled'' now d4) (\<lambda>d5.
        Inr (d5, \<lparr>cancel_task = snapshot_of task2, cancel_ended_claim = endedClaim,
          cancel_resolved_issue = resolvedIssue\<rparr>)))))))))))"

end
