(* ===== verification/Workflow_Effects.thy ===== *)
theory Workflow_Effects
  imports Workflow_Store
begin

text \<open>
  What the statements of \<open>Workflow_Store\<close> do to the database, and the invariant they keep.

  \<open>wf_base\<close> is what holds of every table on its own: keys, valid claims and issue threads, one
  Main Thread per classified Task.  \<open>coupled\<close> ties a Task row to its active claim and its open
  issue.  Inside a command the Task it works on is uncoupled for a while, so the statement lemmas
  preserve \<open>wf_but X\<close>, the invariant with the coupling of the Tasks in \<open>X\<close> suspended.
\<close>

section \<open>The invariant\<close>

definition active_claims :: "db \<Rightarrow> uuid \<Rightarrow> TaskStageClaim list" where
  "active_claims d taskID =
     filter (\<lambda>c. claim_task_id c = taskID \<and> claim_status c = StageClaimStatusActive) (claims d)"

definition open_issues :: "db \<Rightarrow> uuid \<Rightarrow> Thread list" where
  "open_issues d taskID =
     filter (\<lambda>t. thread_task_id t = taskID \<and> thread_role t = ThreadRoleIssue \<and>
       thread_issue_status t = IssueThreadStatusOpen) (threads d)"

definition main_threads :: "db \<Rightarrow> uuid \<Rightarrow> Thread list" where
  "main_threads d taskID =
     filter (\<lambda>t. thread_task_id t = taskID \<and> thread_role t = ThreadRoleMain) (threads d)"

fun phase_stage :: "TaskPhase \<Rightarrow> TaskClaimStage" where
  "phase_stage TaskPhaseInReview = TaskClaimStageReview"
| "phase_stage _ = TaskClaimStageExecution"

definition row_lifecycle :: "task_row \<Rightarrow> TaskLifecycle option" where
  "row_lifecycle r =
     (case (t_phase r, t_review_cycle r) of
        (Some p, Some n) \<Rightarrow>
          Some \<lparr>lc_phase = p,
                lc_activity = (case t_activity r of None \<Rightarrow> TaskActivityNone | Some a \<Rightarrow> a),
                lc_review_cycle = n\<rparr>
      | _ \<Rightarrow> None)"

definition row_shape :: "task_row \<Rightarrow> bool" where
  "row_shape r \<longleftrightarrow>
     (case row_lifecycle r of
        None \<Rightarrow> t_phase r = None \<and> t_activity r = None \<and> t_review_cycle r = None
      | Some l \<Rightarrow> lifecycle_valid l \<and> t_activity r \<noteq> Some TaskActivityNone)"

definition claim_coupled :: "db \<Rightarrow> task_row \<Rightarrow> bool" where
  "claim_coupled d r \<longleftrightarrow>
     (if t_activity r = Some TaskActivityWorking
      then \<exists>c. active_claims d (t_id r) = [c] \<and> t_phase r \<noteq> None \<and>
        claim_stage c = phase_stage (the (t_phase r))
      else active_claims d (t_id r) = [])"

definition issue_coupled :: "db \<Rightarrow> task_row \<Rightarrow> bool" where
  "issue_coupled d r \<longleftrightarrow>
     (if t_activity r = Some TaskActivityNeedsResolution
      then \<exists>t. open_issues d (t_id r) = [t] \<and> t_active_issue r = Some (thread_id t) \<and>
        t_phase r = Some (thread_opened_from_phase t) \<and>
        (\<exists>q \<in> set (items d). item_thread_id (ir_item q) = thread_id t \<and>
           item_kind (ir_item q) = ThreadItemKindResolutionRequest)
      else open_issues d (t_id r) = [] \<and> t_active_issue r = None)"

definition coupled :: "db \<Rightarrow> task_row \<Rightarrow> bool" where
  "coupled d r \<longleftrightarrow> row_shape r \<and> claim_coupled d r \<and> issue_coupled d r"

definition wf_keys :: "db \<Rightarrow> bool" where
  "wf_keys d \<longleftrightarrow>
     distinct (map t_id (tasks d)) \<and> distinct (map t_number (tasks d)) \<and>
     distinct (map thread_id (threads d)) \<and> distinct (map claim_id (claims d)) \<and>
     distinct (map (item_id \<circ> ir_item) (items d))"

definition wf_rows :: "db \<Rightarrow> bool" where
  "wf_rows d \<longleftrightarrow>
     (\<forall>c \<in> set (claims d). claim_valid c \<and> claim_task_id c \<in> t_id ` set (tasks d)) \<and>
     (\<forall>t \<in> set (threads d). (thread_role t = ThreadRoleIssue \<longrightarrow> thread_valid t) \<and>
        thread_task_id t \<in> t_id ` set (tasks d)) \<and>
     (\<forall>q \<in> set (items d). item_thread_id (ir_item q) \<in> thread_id ` set (threads d)) \<and>
     (\<forall>r \<in> set (tasks d). t_phase r \<noteq> None \<longrightarrow> (\<exists>m. main_threads d (t_id r) = [m]))"

definition wf_but :: "uuid set \<Rightarrow> db \<Rightarrow> bool" where
  "wf_but X d \<longleftrightarrow>
     wf_keys d \<and> wf_rows d \<and> (\<forall>r \<in> set (tasks d). t_id r \<notin> X \<longrightarrow> coupled d r)"

abbreviation wf_db :: "db \<Rightarrow> bool" where
  "wf_db d \<equiv> wf_but {} d"

lemma wf_but_mono: "wf_but X d \<Longrightarrow> X \<subseteq> Y \<Longrightarrow> wf_but Y d"
  by (auto simp: wf_but_def)

lemma wf_but_close:
  assumes "wf_but {taskID} d" and "\<And>r. r \<in> set (tasks d) \<Longrightarrow> t_id r = taskID \<Longrightarrow> coupled d r"
  shows "wf_db d"
  using assms by (auto simp: wf_but_def)

text \<open>The coupling of a row reads only its claims, its issues and the request items.\<close>

lemma coupled_cong:
  assumes "active_claims d' (t_id r) = active_claims d (t_id r)"
    and "open_issues d' (t_id r) = open_issues d (t_id r)"
    and "set (items d) \<subseteq> set (items d')"
    and "coupled d r"
  shows "coupled d' r"
  using assms by (auto simp: coupled_def claim_coupled_def issue_coupled_def split: if_splits)

lemma view_frames:
  "active_claims (d\<lparr>tasks := a\<rparr>) i = active_claims d i"
  "active_claims (d\<lparr>threads := b\<rparr>) i = active_claims d i"
  "active_claims (d\<lparr>items := c\<rparr>) i = active_claims d i"
  "active_claims (d\<lparr>checks := e\<rparr>) i = active_claims d i"
  "active_claims (d\<lparr>mentions := h\<rparr>) i = active_claims d i"
  "active_claims (d\<lparr>audits := f\<rparr>) i = active_claims d i"
  "open_issues (d\<lparr>tasks := a\<rparr>) i = open_issues d i"
  "open_issues (d\<lparr>claims := g\<rparr>) i = open_issues d i"
  "open_issues (d\<lparr>items := c\<rparr>) i = open_issues d i"
  "open_issues (d\<lparr>checks := e\<rparr>) i = open_issues d i"
  "open_issues (d\<lparr>mentions := h\<rparr>) i = open_issues d i"
  "open_issues (d\<lparr>audits := f\<rparr>) i = open_issues d i"
  "main_threads (d\<lparr>tasks := a\<rparr>) i = main_threads d i"
  "main_threads (d\<lparr>claims := g\<rparr>) i = main_threads d i"
  "main_threads (d\<lparr>items := c\<rparr>) i = main_threads d i"
  "main_threads (d\<lparr>checks := e\<rparr>) i = main_threads d i"
  "main_threads (d\<lparr>mentions := h\<rparr>) i = main_threads d i"
  "main_threads (d\<lparr>audits := f\<rparr>) i = main_threads d i"
  by (simp_all add: active_claims_def open_issues_def main_threads_def)

section \<open>Items and audit\<close>

definition stored_item :: "ThreadItem \<Rightarrow> string \<Rightarrow> item_row" where
  "stored_item item requestID =
     \<lparr>ir_item = item\<lparr>item_author := storedActor (item_author item),
        item_mentioned_user_ids := []\<rparr>,
      ir_request_id = requestID\<rparr>"

lemma stored_item_simps [simp]:
  "item_id (ir_item (stored_item i q)) = item_id i"
  "item_thread_id (ir_item (stored_item i q)) = item_thread_id i"
  "item_kind (ir_item (stored_item i q)) = item_kind i"
  by (simp_all add: stored_item_def)

lemma insertTaskThreadItem_effect:
  assumes "insertTaskThreadItem item requestID d = Inr d'"
  shows "d' = d\<lparr>items := items d @ [stored_item item requestID]\<rparr>"
    and "item_valid item" and "item_id item \<notin> item_id ` ir_item ` set (items d)"
    and "item_thread_id item \<in> thread_id ` set (threads d)"
  using assms
  by (auto simp: insertTaskThreadItem_def insert_item_row_def stored_item_def Let_def result_simps
      split: if_splits)

lemma wf_but_items:
  assumes "wf_but X d" and "item_id (ir_item q) \<notin> item_id ` ir_item ` set (items d)"
    and "item_thread_id (ir_item q) \<in> thread_id ` set (threads d)"
  shows "wf_but X (d\<lparr>items := items d @ [q]\<rparr>)"
proof -
  have "coupled (d\<lparr>items := items d @ [q]\<rparr>) r" if "coupled d r" for r
    using that by (rule coupled_cong [rotated 3]) (simp_all add: view_frames subset_iff)
  with assms show ?thesis
    by (auto simp: wf_but_def wf_keys_def wf_rows_def view_frames image_image)
qed

lemma insertTaskThreadItem_wf:
  "wf_but X d \<Longrightarrow> insertTaskThreadItem item requestID d = Inr d' \<Longrightarrow> wf_but X d'"
  using insertTaskThreadItem_effect [of item requestID d d'] wf_but_items by auto

lemma InsertBusinessAudit_effect:
  assumes "InsertBusinessAudit newID event d = Inr d'"
  shows "\<exists>e. d' = d\<lparr>audits := audits d @ [e]\<rparr>"
  using assms by (auto simp: InsertBusinessAudit_def Let_def result_simps split: if_splits)

lemma wf_but_audits: "wf_but X (d\<lparr>audits := a\<rparr>) = wf_but X d"
proof -
  have "coupled (d\<lparr>audits := a\<rparr>) r = coupled d r" for r
    by (simp add: coupled_def claim_coupled_def issue_coupled_def view_frames)
  then show ?thesis by (simp add: wf_but_def wf_keys_def wf_rows_def view_frames)
qed

lemma wf_but_checks: "wf_but X (d\<lparr>checks := a\<rparr>) = wf_but X d"
proof -
  have "coupled (d\<lparr>checks := a\<rparr>) r = coupled d r" for r
    by (simp add: coupled_def claim_coupled_def issue_coupled_def view_frames)
  then show ?thesis by (simp add: wf_but_def wf_keys_def wf_rows_def view_frames)
qed

section \<open>Claims\<close>

lemma complete_claim_effect:
  assumes keys: "wf_keys d" and mem: "claim \<in> set (claims d)"
    and complete: "TaskStageClaim_Complete outcome now claim = Inr claim1"
    and update: "updateTaskStageClaim claim1 (claim_version claim) d = Inr d'"
  shows "d' = d\<lparr>claims := update_where (\<lambda>c. claim_id c = claim_id claim) (\<lambda>c. claim1) (claims d)\<rparr>"
proof -
  let ?p = "\<lambda>c. claim_id c = claim_id claim1 \<and> claim_version c = claim_version claim"
  let ?f = "\<lambda>c. c\<lparr>claim_status := claim_status claim1, claim_outcome := claim_outcome claim1,
    claim_version := claim_version claim1, claim_updated_at := claim_updated_at claim1,
    claim_completed_at := claim_completed_at claim1\<rparr>"
  have d': "d' = d\<lparr>claims := update_where ?p ?f (claims d)\<rparr>"
    using update by (auto simp: updateTaskStageClaim_def update_claim_rows_def Let_def result_simps
        split: if_splits)
  have claim1: "claim_id claim1 = claim_id claim" "?f claim = claim1"
    using complete by (auto simp: TaskStageClaim_Complete_Inr)
  have "(if ?p c then ?f c else c) = (if claim_id c = claim_id claim then claim1 else c)"
    if "c \<in> set (claims d)" for c
  proof (cases "claim_id c = claim_id claim")
    case True
    then have "c = claim"
      using keys mem that distinct_key_inj [of claim_id "claims d" c claim] by (auto simp: wf_keys_def)
    with claim1 show ?thesis by simp
  qed (simp add: claim1)
  then show ?thesis unfolding d' update_where_def by (simp cong: map_cong)
qed

lemma complete_claim_active:
  assumes "TaskStageClaim_Complete outcome now claim = Inr claim1"
  shows "claim_status claim1 \<noteq> StageClaimStatusActive" and "claim_id claim1 = claim_id claim"
    and "claim_task_id claim1 = claim_task_id claim" and "claim_stage claim1 = claim_stage claim"
    and "claim_status claim = StageClaimStatusActive"
  using assms
  by (auto simp: TaskStageClaim_Complete_def StageClaimStatus_Terminal_def
      dest!: outcome_status_accepts split: if_splits option.splits)

lemma active_claims_complete:
  assumes "claim_status claim1 \<noteq> StageClaimStatusActive"
  shows "active_claims (d\<lparr>claims := update_where (\<lambda>c. claim_id c = k) (\<lambda>c. claim1) (claims d)\<rparr>) i =
    filter (\<lambda>c. claim_id c \<noteq> k) (active_claims d i)"
proof -
  have "filter (\<lambda>c. claim_task_id c = i \<and> claim_status c = StageClaimStatusActive)
      (update_where (\<lambda>c. claim_id c = k) (\<lambda>c. claim1) (claims d)) =
    filter (\<lambda>c. (claim_task_id c = i \<and> claim_status c = StageClaimStatusActive) \<and>
      claim_id c \<noteq> k) (claims d)"
    using assms by (subst filter_update_where_remove) simp_all
  then show ?thesis by (simp add: active_claims_def)
qed

text \<open>Completing the claim of a Task suspends that Task only.\<close>

lemma complete_claim_wf:
  assumes wf: "wf_but {taskID} d" and mem: "claim \<in> set (claims d)"
    and task: "claim_task_id claim = taskID" and now: "\<not> is_zero_time now"
    and complete: "TaskStageClaim_Complete outcome now claim = Inr claim1"
    and update: "updateTaskStageClaim claim1 (claim_version claim) d = Inr d'"
  shows "wf_but {taskID} d'"
    and "active_claims d' taskID = filter (\<lambda>c. claim_id c \<noteq> claim_id claim) (active_claims d taskID)"
    and "d' = d\<lparr>claims := claims d'\<rparr>"
proof -
  have keys: "wf_keys d" and rows: "wf_rows d"
    and others: "\<And>r. r \<in> set (tasks d) \<Longrightarrow> t_id r \<noteq> taskID \<Longrightarrow> coupled d r"
    using wf by (auto simp: wf_but_def)
  let ?cs = "update_where (\<lambda>c. claim_id c = claim_id claim) (\<lambda>c. claim1) (claims d)"
  have d': "d' = d\<lparr>claims := ?cs\<rparr>" by (rule complete_claim_effect [OF keys mem complete update])
  note claim1 = complete_claim_active [OF complete]
  have active: "active_claims d' i = filter (\<lambda>c. claim_id c \<noteq> claim_id claim) (active_claims d i)" for i
    unfolding d' by (rule active_claims_complete [OF claim1(1)])
  show "active_claims d' taskID =
      filter (\<lambda>c. claim_id c \<noteq> claim_id claim) (active_claims d taskID)" by (rule active)
  show "d' = d\<lparr>claims := claims d'\<rparr>" by (simp add: d')
  have same: "active_claims d' i = active_claims d i" if "i \<noteq> taskID" for i
  proof -
    have "claim_id c \<noteq> claim_id claim" if "c \<in> set (active_claims d i)" for c
      using that \<open>i \<noteq> taskID\<close> keys mem task distinct_key_inj [of claim_id "claims d" c claim]
      by (auto simp: active_claims_def wf_keys_def)
    then show ?thesis by (simp add: active filter_id_conv)
  qed
  have "coupled d' r" if "r \<in> set (tasks d)" "t_id r \<noteq> taskID" for r
  proof (rule coupled_cong)
    show "coupled d r" by (rule others [OF that])
    show "active_claims d' (t_id r) = active_claims d (t_id r)" by (rule same [OF that(2)])
  qed (simp_all add: d' view_frames)
  moreover have "wf_keys d'"
  proof -
    have "map claim_id ?cs = map claim_id (claims d)"
      by (simp add: update_where_def comp_def claim1(2) cong: if_cong)
    with keys show ?thesis by (simp add: wf_keys_def d')
  qed
  moreover have "wf_rows d'"
    using rows mem task TaskStageClaim_Complete_valid [OF _ complete now] claim1(3)
    by (auto simp: wf_rows_def d' view_frames table_simps)
  ultimately show "wf_but {taskID} d'" by (auto simp: wf_but_def d')
qed

lemma stored_claim_valid:
  assumes "claim_valid c"
  shows "claim_valid (c\<lparr>claim_claimed_by := storedActor (claim_claimed_by c)\<rparr>)"
proof -
  have "validateTaskClaimAuthentication (c\<lparr>claim_claimed_by := storedActor (claim_claimed_by c)\<rparr>) =
      validateTaskClaimAuthentication c"
    by (cases "claim_auth_method c"; cases "actor_type (claim_claimed_by c)")
      (simp_all add: validateTaskClaimAuthentication_def storedActor_eq)
  then have "TaskStageClaim_Validate (c\<lparr>claim_claimed_by := storedActor (claim_claimed_by c)\<rparr>) =
      TaskStageClaim_Validate c"
    unfolding TaskStageClaim_Validate_def by simp
  with assms show ?thesis by simp
qed

lemma insertTaskStageClaim_wf:
  assumes wf: "wf_but {taskID} d" and ins: "insertTaskStageClaim claim d = Inr d'"
    and task: "claim_task_id claim = taskID" and act: "claim_status claim = StageClaimStatusActive"
  shows "wf_but {taskID} d'"
    and "active_claims d' taskID = active_claims d taskID @
      [claim\<lparr>claim_claimed_by := storedActor (claim_claimed_by claim)\<rparr>]"
    and "d' = d\<lparr>claims := claims d'\<rparr>"
proof -
  let ?c = "claim\<lparr>claim_claimed_by := storedActor (claim_claimed_by claim)\<rparr>"
  have d': "d' = d\<lparr>claims := claims d @ [?c]\<rparr>" and valid: "claim_valid claim"
    and fresh: "claim_id claim \<notin> claim_id ` set (claims d)"
    and fk: "taskID \<in> t_id ` set (tasks d)"
    using ins task
    by (auto simp: insertTaskStageClaim_def insert_claim_row_def result_simps split: if_splits)
  show "active_claims d' taskID = active_claims d taskID @ [?c]"
    using task act by (simp add: active_claims_def d')
  show "d' = d\<lparr>claims := claims d'\<rparr>" by (simp add: d')
  have "coupled d' r" if "r \<in> set (tasks d)" "t_id r \<noteq> taskID" for r
  proof (rule coupled_cong)
    show "coupled d r" using wf that by (auto simp: wf_but_def)
    show "active_claims d' (t_id r) = active_claims d (t_id r)"
      using that task by (simp add: active_claims_def d')
  qed (simp_all add: d' view_frames)
  with wf fresh fk stored_claim_valid [OF valid] task show "wf_but {taskID} d'"
    by (auto simp: wf_but_def wf_keys_def wf_rows_def d' view_frames)
qed

section \<open>Issue threads\<close>

lemma stored_thread_valid:
  assumes "thread_valid t"
  shows "thread_valid (t\<lparr>thread_opened_by := storedActor (thread_opened_by t)\<rparr>)"
proof -
  have "Thread_Validate (t\<lparr>thread_opened_by := storedActor (thread_opened_by t)\<rparr>) = Thread_Validate t"
    by (cases "thread_role t"; cases "thread_issue_status t"; cases "thread_resolved_by t")
      (simp_all add: Thread_Validate_def)
  with assms show ?thesis by simp
qed

lemma insertIssueThread_wf:
  assumes wf: "wf_but {taskID} d" and ins: "insertIssueThread issue d = Inr d'"
    and task: "thread_task_id issue = taskID" and role: "thread_role issue = ThreadRoleIssue"
    and opn: "thread_issue_status issue = IssueThreadStatusOpen"
  shows "wf_but {taskID} d'"
    and "open_issues d' taskID = open_issues d taskID @
      [issue\<lparr>thread_opened_by := storedActor (thread_opened_by issue)\<rparr>]"
    and "d' = d\<lparr>threads := threads d'\<rparr>"
    and "main_threads d' i = main_threads d i"
proof -
  let ?t = "issue\<lparr>thread_opened_by := storedActor (thread_opened_by issue)\<rparr>"
  have d': "d' = d\<lparr>threads := threads d @ [?t]\<rparr>" and valid: "thread_valid issue"
    and fresh: "thread_id issue \<notin> thread_id ` set (threads d)"
    and fk: "taskID \<in> t_id ` set (tasks d)"
    using ins task
    by (auto simp: insertIssueThread_def insert_thread_row_def result_simps split: if_splits)
  show "open_issues d' taskID = open_issues d taskID @ [?t]"
    using task role opn by (simp add: open_issues_def d')
  show "d' = d\<lparr>threads := threads d'\<rparr>" by (simp add: d')
  show main: "main_threads d' i = main_threads d i" for i
    using role by (simp add: main_threads_def d')
  have "coupled d' r" if "r \<in> set (tasks d)" "t_id r \<noteq> taskID" for r
  proof (rule coupled_cong)
    show "coupled d r" using wf that by (auto simp: wf_but_def)
    show "open_issues d' (t_id r) = open_issues d (t_id r)"
      using that task by (simp add: open_issues_def d')
  qed (simp_all add: d' view_frames)
  moreover have "wf_rows d'"
    using wf fk stored_thread_valid [OF valid] task main
    by (auto simp: wf_but_def wf_rows_def d')
  ultimately show "wf_but {taskID} d'"
    using wf fresh by (auto simp: wf_but_def wf_keys_def d')
qed

text \<open>The row \<open>persistResolvedIssue\<close> leaves for a resolved issue.\<close>

definition stored_resolved :: "Thread \<Rightarrow> Thread" where
  "stored_resolved t = t\<lparr>thread_resolved_by := map_option storedActor (thread_resolved_by t)\<rparr>"

lemma stored_resolved_simps [simp]:
  "thread_id (stored_resolved t) = thread_id t"
  "thread_task_id (stored_resolved t) = thread_task_id t"
  "thread_role (stored_resolved t) = thread_role t"
  "thread_issue_status (stored_resolved t) = thread_issue_status t"
  by (simp_all add: stored_resolved_def)

lemma stored_resolved_valid: "thread_valid t \<Longrightarrow> thread_valid (stored_resolved t)"
  by (cases "thread_resolved_by t")
    (auto simp: stored_resolved_def Thread_Validate_def split: if_splits ThreadRole.splits
      IssueThreadStatus.splits)

lemma persistResolvedIssue_effect:
  assumes keys: "wf_keys d" and mem: "issue \<in> set (threads d)"
    and res: "Thread_Resolve actor now issue = Inr issue1"
    and persist: "persistResolvedIssue issue1 (thread_version issue) d = Inr d'"
  shows "d' = d\<lparr>threads :=
    update_where (\<lambda>t. thread_id t = thread_id issue) (\<lambda>t. stored_resolved issue1) (threads d)\<rparr>"
proof -
  let ?p = "\<lambda>t. thread_id t = thread_id issue1 \<and> thread_version t = thread_version issue \<and>
    thread_issue_status t = IssueThreadStatusOpen"
  let ?f = "\<lambda>t. t\<lparr>thread_issue_status := thread_issue_status issue1,
    thread_resolved_by := Some (storedActor actor), thread_version := thread_version issue1,
    thread_updated_at := thread_updated_at issue1, thread_resolved_at := thread_resolved_at issue1\<rparr>"
  note r = res [unfolded Thread_Resolve_Inr]
  have d': "d' = d\<lparr>threads := update_where ?p ?f (threads d)\<rparr>"
    using persist r
    by (auto simp: persistResolvedIssue_def update_thread_rows_def Let_def result_simps
        split: if_splits)
  have "(if ?p t then ?f t else t) = (if thread_id t = thread_id issue then stored_resolved issue1 else t)"
    if "t \<in> set (threads d)" for t
  proof (cases "thread_id t = thread_id issue")
    case True
    then have "t = issue"
      using keys mem that distinct_key_inj [of thread_id "threads d" t issue]
      by (auto simp: wf_keys_def)
    with r show ?thesis by (simp add: stored_resolved_def)
  qed (use r in simp)
  then show ?thesis unfolding d' update_where_def by (simp cong: map_cong)
qed

lemma open_issues_resolve:
  assumes "thread_issue_status t' \<noteq> IssueThreadStatusOpen"
  shows "open_issues (d\<lparr>threads := update_where (\<lambda>t. thread_id t = k) (\<lambda>t. t') (threads d)\<rparr>) i =
    filter (\<lambda>t. thread_id t \<noteq> k) (open_issues d i)"
proof -
  have "filter (\<lambda>t. thread_task_id t = i \<and> thread_role t = ThreadRoleIssue \<and>
      thread_issue_status t = IssueThreadStatusOpen)
      (update_where (\<lambda>t. thread_id t = k) (\<lambda>t. t') (threads d)) =
    filter (\<lambda>t. (thread_task_id t = i \<and> thread_role t = ThreadRoleIssue \<and>
      thread_issue_status t = IssueThreadStatusOpen) \<and> thread_id t \<noteq> k) (threads d)"
    using assms by (subst filter_update_where_remove) simp_all
  then show ?thesis by (simp add: open_issues_def)
qed

lemma persistResolvedIssue_wf:
  assumes wf: "wf_but {taskID} d" and mem: "issue \<in> set (threads d)"
    and task: "thread_task_id issue = taskID" and now: "\<not> is_zero_time now"
    and res: "Thread_Resolve actor now issue = Inr issue1"
    and persist: "persistResolvedIssue issue1 (thread_version issue) d = Inr d'"
  shows "wf_but {taskID} d'"
    and "open_issues d' taskID = filter (\<lambda>t. thread_id t \<noteq> thread_id issue) (open_issues d taskID)"
    and "d' = d\<lparr>threads := threads d'\<rparr>"
    and "main_threads d' i = main_threads d i"
proof -
  have keys: "wf_keys d" and rows: "wf_rows d"
    and others: "\<And>r. r \<in> set (tasks d) \<Longrightarrow> t_id r \<noteq> taskID \<Longrightarrow> coupled d r"
    using wf by (auto simp: wf_but_def)
  let ?t = "stored_resolved issue1"
  let ?ts = "update_where (\<lambda>t. thread_id t = thread_id issue) (\<lambda>t. ?t) (threads d)"
  have d': "d' = d\<lparr>threads := ?ts\<rparr>" by (rule persistResolvedIssue_effect [OF keys mem res persist])
  have i1: "thread_role issue1 = ThreadRoleIssue" "thread_id issue1 = thread_id issue"
    "thread_task_id issue1 = taskID" "thread_issue_status issue1 \<noteq> IssueThreadStatusOpen"
    "thread_role issue = ThreadRoleIssue"
    using res task by (auto simp: Thread_Resolve_Inr)
  have inj: "t = issue" if "t \<in> set (threads d)" "thread_id t = thread_id issue" for t
    using keys mem that distinct_key_inj [of thread_id "threads d" t issue] by (auto simp: wf_keys_def)
  have opn: "open_issues d' j = filter (\<lambda>t. thread_id t \<noteq> thread_id issue) (open_issues d j)" for j
    unfolding d' by (rule open_issues_resolve) (simp add: i1)
  show "open_issues d' taskID =
      filter (\<lambda>t. thread_id t \<noteq> thread_id issue) (open_issues d taskID)" by (rule opn)
  show "d' = d\<lparr>threads := threads d'\<rparr>" by (simp add: d')
  show main: "main_threads d' j = main_threads d j" for j
  proof -
    have "filter (\<lambda>t. thread_task_id t = j \<and> thread_role t = ThreadRoleMain) ?ts =
        filter (\<lambda>t. thread_task_id t = j \<and> thread_role t = ThreadRoleMain) (threads d)"
      by (rule filter_update_where_frame) (use inj i1 in fastforce)
    then show ?thesis by (simp add: main_threads_def d')
  qed
  have "coupled d' r" if "r \<in> set (tasks d)" "t_id r \<noteq> taskID" for r
  proof (rule coupled_cong)
    show "coupled d r" by (rule others [OF that])
    have "thread_id t \<noteq> thread_id issue" if "t \<in> set (open_issues d (t_id r))" for t
      using that inj [of t] task \<open>t_id r \<noteq> taskID\<close> by (auto simp: open_issues_def)
    then show "open_issues d' (t_id r) = open_issues d (t_id r)" by (simp add: opn filter_id_conv)
  qed (simp_all add: d' view_frames)
  moreover have "wf_keys d'"
  proof -
    have "map thread_id ?ts = map thread_id (threads d)"
      by (simp add: update_where_def comp_def i1 cong: if_cong)
    with keys show ?thesis by (simp add: wf_keys_def d')
  qed
  moreover have "wf_rows d'"
  proof -
    have "thread_valid issue1" "thread_task_id issue1 \<in> t_id ` set (tasks d)"
      using rows mem task i1 Thread_Resolve_valid [OF _ res now] by (auto simp: wf_rows_def)
    moreover have "thread_id ` set ?ts = thread_id ` set (threads d)"
      by (rule image_update_where) (simp add: i1)
    ultimately show ?thesis
      using rows main stored_resolved_valid i1 mem task
      by (auto simp: wf_rows_def d' table_simps)
  qed
  ultimately show "wf_but {taskID} d'" by (auto simp: wf_but_def d')
qed

section \<open>The Task row\<close>

text \<open>The row \<open>persistWorkflowTask\<close> leaves.\<close>

definition persisted :: "workflowTask \<Rightarrow> int \<Rightarrow> time \<Rightarrow> task_row \<Rightarrow> task_row" where
  "persisted task expectedVersion now r =
     r\<lparr>t_phase := Some (lc_phase (ws_lifecycle task)),
       t_activity := (if lc_activity (ws_lifecycle task) = TaskActivityNone then None
                      else Some (lc_activity (ws_lifecycle task))),
       t_review_cycle := Some (lc_review_cycle (ws_lifecycle task)),
       t_active_issue := ws_active_issue task, t_version := expectedVersion + 1,
       t_updated_at := now,
       t_completed_at := (if lc_phase (ws_lifecycle task) = TaskPhaseDone then Some now else None)\<rparr>"

lemma persisted_simps [simp]:
  "t_id (persisted task v now r) = t_id r"
  "t_number (persisted task v now r) = t_number r"
  "t_version (persisted task v now r) = v + 1"
  "t_phase (persisted task v now r) = Some (lc_phase (ws_lifecycle task))"
  "t_active_issue (persisted task v now r) = ws_active_issue task"
  "t_parent (persisted task v now r) = t_parent r"
  "t_project (persisted task v now r) = t_project r"
  "row_lifecycle (persisted task v now r) = Some (ws_lifecycle task)"
  "t_activity (persisted task v now r) \<noteq> Some TaskActivityNone"
  by (simp_all add: persisted_def row_lifecycle_def)

text \<open>A Task as a command holds it, and its coupling to claims and issues.\<close>

definition task_coupled :: "db \<Rightarrow> workflowTask \<Rightarrow> bool" where
  "task_coupled d task \<longleftrightarrow>
     (if lc_activity (ws_lifecycle task) = TaskActivityWorking
      then \<exists>c. active_claims d (ws_task_id task) = [c] \<and>
        claim_stage c = phase_stage (lc_phase (ws_lifecycle task))
      else active_claims d (ws_task_id task) = []) \<and>
     (if lc_activity (ws_lifecycle task) = TaskActivityNeedsResolution
      then \<exists>t. open_issues d (ws_task_id task) = [t] \<and> ws_active_issue task = Some (thread_id t) \<and>
        lc_phase (ws_lifecycle task) = thread_opened_from_phase t \<and>
        (\<exists>q \<in> set (items d). item_thread_id (ir_item q) = thread_id t \<and>
           item_kind (ir_item q) = ThreadItemKindResolutionRequest)
      else open_issues d (ws_task_id task) = [] \<and> ws_active_issue task = None)"

lemma row_lifecycle_Some:
  "row_lifecycle r = Some l \<longleftrightarrow>
     t_phase r = Some (lc_phase l) \<and> t_review_cycle r = Some (lc_review_cycle l) \<and>
     lc_activity l = (case t_activity r of None \<Rightarrow> TaskActivityNone | Some a \<Rightarrow> a)"
  by (cases l) (auto simp: row_lifecycle_def split: option.splits)

lemma coupled_task:
  assumes "row_lifecycle r = Some (ws_lifecycle task)" and "t_id r = ws_task_id task"
    and "t_active_issue r = ws_active_issue task"
  shows "coupled d r \<longleftrightarrow> lifecycle_valid (ws_lifecycle task) \<and> t_activity r \<noteq> Some TaskActivityNone \<and>
    task_coupled d task"
proof -
  have "row_shape r \<longleftrightarrow> lifecycle_valid (ws_lifecycle task) \<and> t_activity r \<noteq> Some TaskActivityNone"
    using assms(1) by (simp add: row_shape_def)
  moreover have "claim_coupled d r \<and> issue_coupled d r \<longleftrightarrow> task_coupled d task"
    if "t_activity r \<noteq> Some TaskActivityNone"
    using assms that
    by (cases "t_activity r")
      (auto simp: claim_coupled_def issue_coupled_def task_coupled_def row_lifecycle_Some)
  ultimately show ?thesis by (auto simp: coupled_def)
qed

lemma persistWorkflowTask_eq:
  "persistWorkflowTask task v now d =
     bindR (TaskLifecycle_Validate (ws_lifecycle task)) (\<lambda>_.
       bindR (mapPg (update_task_rows
         (\<lambda>r. t_id r = ws_task_id task \<and> t_version r = v) (persisted task v now) d))
         (\<lambda>(d', n). if n \<noteq> 1 then Inl ErrConflict else Inr (d', task\<lparr>ws_version := v + 1\<rparr>)))"
  by (simp add: persistWorkflowTask_def persisted_def [abs_def] Let_def)

lemma wf_keys_tasks: "wf_keys d \<Longrightarrow> distinct (map t_id (tasks d))"
  by (simp add: wf_keys_def)

lemma persistWorkflowTask_rows:
  assumes keys: "distinct (map t_id (tasks d))"
    and persist: "persistWorkflowTask task v now d = Inr (d', task')"
  shows "task' = task\<lparr>ws_version := v + 1\<rparr>" and "lifecycle_valid (ws_lifecycle task)"
    and "d' = d\<lparr>tasks := update_where (\<lambda>r. t_id r = ws_task_id task) (persisted task v now) (tasks d)\<rparr>"
    and "\<exists>r \<in> set (tasks d). t_id r = ws_task_id task \<and> t_version r = v"
proof -
  let ?p = "\<lambda>r. t_id r = ws_task_id task \<and> t_version r = v"
  have d': "d' = d\<lparr>tasks := update_where ?p (persisted task v now) (tasks d)\<rparr>"
    and count: "length (filter ?p (tasks d)) = 1"
    and rest: "task' = task\<lparr>ws_version := v + 1\<rparr>" "lifecycle_valid (ws_lifecycle task)"
    using persist
    by (auto simp: persistWorkflowTask_eq update_task_rows_def Let_def result_simps
        split: if_splits)
  show "task' = task\<lparr>ws_version := v + 1\<rparr>" "lifecycle_valid (ws_lifecycle task)"
    by (rule rest)+
  from count have "filter ?p (tasks d) \<noteq> []" by auto
  then obtain r where r: "r \<in> set (tasks d)" "t_id r = ws_task_id task" "t_version r = v"
    by (auto simp: filter_empty_conv)
  then show "\<exists>r \<in> set (tasks d). t_id r = ws_task_id task \<and> t_version r = v" by blast
  have "?p x = (t_id x = ws_task_id task)" if "x \<in> set (tasks d)" for x
    using r that keys distinct_key_inj [of t_id "tasks d" x r] by auto
  then show "d' = d\<lparr>tasks :=
      update_where (\<lambda>r. t_id r = ws_task_id task) (persisted task v now) (tasks d)\<rparr>"
    unfolding d' update_where_def by (simp cong: map_cong)
qed

lemmas persistWorkflowTask_effect =
  persistWorkflowTask_rows [OF wf_keys_tasks]

lemma wf_but_persisted:
  assumes wf: "wf_but {ws_task_id task} d" and main: "\<exists>m. main_threads d (ws_task_id task) = [m]"
    and d': "d' = d\<lparr>tasks :=
      update_where (\<lambda>r. t_id r = ws_task_id task) (persisted task v now) (tasks d)\<rparr>"
  shows "wf_but {ws_task_id task} d'"
    and "r \<in> set (tasks d') \<Longrightarrow> t_id r = ws_task_id task \<Longrightarrow> \<exists>r0. r = persisted task v now r0"
proof -
  show "r \<in> set (tasks d') \<Longrightarrow> t_id r = ws_task_id task \<Longrightarrow> \<exists>r0. r = persisted task v now r0"
    by (auto simp: d' table_simps split: if_splits)
  have ids: "t_id ` set (tasks d') = t_id ` set (tasks d)"
    by (simp add: d' image_update_where)
  have "coupled d' r" if "r \<in> set (tasks d')" "t_id r \<noteq> ws_task_id task" for r
  proof (rule coupled_cong)
    have "r \<in> set (tasks d)" using that by (auto simp: d' table_simps split: if_splits)
    with that show "coupled d r" using wf by (auto simp: wf_but_def)
  qed (simp_all add: d' view_frames)
  moreover have "wf_keys d'"
    using wf by (simp add: wf_but_def wf_keys_def d' map_update_where)
  moreover have "wf_rows d'"
    using wf main ids
    by (auto simp: wf_but_def wf_rows_def d' view_frames table_simps split: if_splits)
  ultimately show "wf_but {ws_task_id task} d'" by (auto simp: wf_but_def)
qed

text \<open>At the end of a command: the invariant holds once the written Task is coupled.\<close>

lemma wf_finish:
  assumes "wf_but {ws_task_id task} d" and "lifecycle_valid (ws_lifecycle task)"
    and "\<And>r. r \<in> set (tasks d) \<Longrightarrow> t_id r = ws_task_id task \<Longrightarrow> \<exists>r0. r = persisted task v now r0"
    and "task_coupled d task"
  shows "wf_db d"
proof (rule wf_but_close [OF assms(1)])
  fix r assume "r \<in> set (tasks d)" "t_id r = ws_task_id task"
  moreover then obtain r0 where "r = persisted task v now r0" using assms(3) by blast
  ultimately show "coupled d r" using assms(2,4) by (simp add: coupled_task [of "persisted task v now r0" task])
qed

lemma lockWorkflowTask_Inr:
  assumes wf: "wf_db d" and lock: "lockWorkflowTask taskNumber d = Inr task"
  shows "lifecycle_valid (ws_lifecycle task)" and "task_coupled d task"
    and "\<exists>m. main_threads d (ws_task_id task) = [m] \<and> thread_id m = ws_main_thread_id task"
    and "wf_but {ws_task_id task} d"
    and "\<exists>r \<in> set (tasks d). t_number r = taskNumber \<and> t_id r = ws_task_id task \<and>
      t_version r = ws_version task \<and> row_lifecycle r = Some (ws_lifecycle task) \<and>
      t_archived_at r = ws_archived_at task \<and> t_active_issue r = ws_active_issue task"
    and "ws_task_number task = taskNumber"
proof -
  obtain r where r: "r \<in> set (tasks d)" "t_number r = taskNumber"
    and scan: "scanWorkflowTask r (main_thread_id d (t_id r)) = Inr task"
    using lock by (auto simp: lockWorkflowTask_def dest!: find_SomeD split: option.splits)
  then obtain m where m: "main_thread_id d (t_id r) = Some m"
    by (auto simp: scanWorkflowTask_def split: option.splits)
  have task: "t_id r = ws_task_id task" "t_version r = ws_version task"
    "row_lifecycle r = Some (ws_lifecycle task)" "t_archived_at r = ws_archived_at task"
    "t_active_issue r = ws_active_issue task" "ws_main_thread_id task = m"
    "ws_task_number task = t_number r"
    using scan m
    by (auto simp: scanWorkflowTask_def row_lifecycle_def Let_def result_simps
        split: option.splits)
  have coupled: "coupled d r" using wf r by (auto simp: wf_but_def)
  then show "lifecycle_valid (ws_lifecycle task)" "task_coupled d task"
    using task by (simp_all add: coupled_task [of r task])
  show "wf_but {ws_task_id task} d" using wf by (rule wf_but_mono) simp
  show "\<exists>r \<in> set (tasks d). t_number r = taskNumber \<and> t_id r = ws_task_id task \<and>
      t_version r = ws_version task \<and> row_lifecycle r = Some (ws_lifecycle task) \<and>
      t_archived_at r = ws_archived_at task \<and> t_active_issue r = ws_active_issue task"
    using r task by blast
  show "ws_task_number task = taskNumber" using task r by simp
  have "\<exists>mt. main_threads d (ws_task_id task) = [mt]"
    using wf r task by (auto simp: wf_but_def wf_rows_def row_lifecycle_Some)
  moreover have "m \<in> thread_id ` set (main_threads d (ws_task_id task))"
    using m task by (force simp: main_thread_id_def main_threads_def dest!: find_SomeD)
  ultimately show "\<exists>mt. main_threads d (ws_task_id task) = [mt] \<and> thread_id mt = ws_main_thread_id task"
    using task by auto
qed

lemma lockActiveTaskStageClaim_Inr:
  assumes "lockActiveTaskStageClaim taskID d = Inr claim"
  shows "claim \<in> set (claims d)" and "claim_task_id claim = taskID"
    and "claim_status claim = StageClaimStatusActive" and "claim \<in> set (active_claims d taskID)"
  using assms
  by (auto simp: lockActiveTaskStageClaim_def active_claims_def dest!: find_SomeD
      split: option.splits)

lemma lockIssueThread_Inr:
  assumes "lockIssueThread taskID threadID d = Inr issue"
  shows "issue \<in> set (threads d)" and "thread_task_id issue = taskID"
    and "thread_id issue = threadID" and "thread_role issue = ThreadRoleIssue"
  using assms by (auto simp: lockIssueThread_def dest!: find_SomeD split: option.splits)

end
