(* ===== verification/Workflow_Invariant.thy ===== *)
theory Workflow_Invariant
  imports Workflow_Effects
begin

text \<open>
  Every command of the workflow store preserves the invariant of \<open>Workflow_Effects\<close>.  Each
  proof follows the command: the lock gives a coupled Task, the statements before the Task row
  is written keep \<open>wf_but\<close>, the Task as it will be written is shown coupled, and the item and
  audit statements after that leave the view of every Task alone.
\<close>

section \<open>Statements that leave the view alone\<close>

definition same_view :: "db \<Rightarrow> db \<Rightarrow> bool" where
  "same_view d d' \<longleftrightarrow>
     tasks d' = tasks d \<and> claims d' = claims d \<and> threads d' = threads d \<and>
     set (items d) \<subseteq> set (items d')"

lemma same_view_refl [simp]: "same_view d d"
  by (simp add: same_view_def)

lemma same_view_trans: "same_view d d' \<Longrightarrow> same_view d' d'' \<Longrightarrow> same_view d d''"
  by (auto simp: same_view_def)

lemma same_view_views:
  assumes "same_view d d'"
  shows "active_claims d' i = active_claims d i" and "open_issues d' i = open_issues d i"
    and "main_threads d' i = main_threads d i"
  using assms by (simp_all add: same_view_def active_claims_def open_issues_def main_threads_def)

lemma task_coupled_mono:
  assumes "active_claims d' (ws_task_id task) = active_claims d (ws_task_id task)"
    and "open_issues d' (ws_task_id task) = open_issues d (ws_task_id task)"
    and "set (items d) \<subseteq> set (items d')" and "task_coupled d task"
  shows "task_coupled d' task"
  using assms by (auto simp: task_coupled_def split: if_splits)

lemma insertTaskThreadItem_view:
  assumes "insertTaskThreadItem item requestID d = Inr d'"
  shows "same_view d d'" and "wf_but X d \<Longrightarrow> wf_but X d'"
    and "stored_item item requestID \<in> set (items d')" and "\<not> is_zero_time (item_created_at item)"
proof -
  note e = insertTaskThreadItem_effect [OF assms]
  show "same_view d d'" "stored_item item requestID \<in> set (items d')"
    using e(1) by (auto simp: same_view_def)
  show "wf_but X d \<Longrightarrow> wf_but X d'" using assms by (rule insertTaskThreadItem_wf [rotated])
  show "\<not> is_zero_time (item_created_at item)"
    using e(2) by (auto simp: ThreadItem_Validate_def split: if_splits)
qed

lemma insertWorkflowItem_view:
  assumes "insertWorkflowItem newID threadID kind author body payload requestID now d = Inr d'"
  shows "same_view d d'" and "wf_but X d \<Longrightarrow> wf_but X d'" and "\<not> is_zero_time now"
    and "\<exists>q \<in> set (items d'). item_thread_id (ir_item q) = threadID \<and> item_kind (ir_item q) = kind"
  using insertTaskThreadItem_view [OF assms [unfolded insertWorkflowItem_def]]
  by (force dest: bspec)+

lemma insertDeliveryWorkflowItem_view:
  assumes "insertDeliveryWorkflowItem newID threadID kind author body claimID cycle payload
    requestID now d = Inr (d', item)"
  shows "same_view d d'" and "wf_but X d \<Longrightarrow> wf_but X d'" and "\<not> is_zero_time now"
proof -
  have "insertTaskThreadItem item requestID d = Inr d'" "item_created_at item = now"
    using assms by (auto simp: insertDeliveryWorkflowItem_def delivery_item_def Let_def result_simps)
  then show "same_view d d'" "wf_but X d \<Longrightarrow> wf_but X d'" "\<not> is_zero_time now"
    using insertTaskThreadItem_view by blast+
qed

lemma insertWorkflowAudit_view:
  assumes "insertWorkflowAudit newID task operation action now d = Inr d'"
  shows "same_view d d'" and "wf_but X d \<Longrightarrow> wf_but X d'"
  using InsertBusinessAudit_effect [OF assms [unfolded insertWorkflowAudit_def]]
  by (auto simp: same_view_def wf_but_audits)

text \<open>The Task is written, then items and audit follow.\<close>

lemma persist_tail_wf:
  assumes wf: "wf_but {ws_task_id task} d"
    and main: "\<exists>m. main_threads d (ws_task_id task) = [m]"
    and coupled: "task_coupled d task"
    and persist: "persistWorkflowTask task v now d = Inr (d1, task1)"
    and tail: "same_view d1 d2" "wf_but {ws_task_id task} d1 \<Longrightarrow> wf_but {ws_task_id task} d2"
  shows "wf_db d2"
proof -
  have keys: "wf_keys d" using wf by (simp add: wf_but_def)
  note e = persistWorkflowTask_effect [OF keys persist]
  note p = wf_but_persisted [OF wf main e(3)]
  have view: "active_claims d2 i = active_claims d i" "open_issues d2 i = open_issues d i" for i
    by (simp_all add: same_view_views [OF tail(1)] e(3) view_frames)
  have "set (items d) \<subseteq> set (items d2)" using tail(1) e(3) by (auto simp: same_view_def)
  then have "task_coupled d2 task"
    by (rule task_coupled_mono [OF view _ coupled])
  moreover have "\<exists>r0. r = persisted task v now r0" if "r \<in> set (tasks d2)" "t_id r = ws_task_id task" for r
    using that p(2) tail(1) by (auto simp: same_view_def)
  ultimately show ?thesis using tail(2) [OF p(1)] e(2) by (intro wf_finish)
qed

section \<open>Coupling before the write\<close>

lemma owned_claim:
  assumes "task_coupled d task" and "lockActiveTaskStageClaim (ws_task_id task) d = Inr claim"
  shows "active_claims d (ws_task_id task) = [claim]"
    and "lc_activity (ws_lifecycle task) = TaskActivityWorking"
    and "claim_stage claim = phase_stage (lc_phase (ws_lifecycle task))"
    and "open_issues d (ws_task_id task) = []" and "ws_active_issue task = None"
  using assms lockActiveTaskStageClaim_Inr(4) [OF assms(2)]
  by (auto simp: task_coupled_def split: if_splits)

text \<open>A Task neither worked on nor blocked.\<close>

definition idle :: "TaskLifecycle \<Rightarrow> bool" where
  "idle l \<longleftrightarrow> lc_activity l \<noteq> TaskActivityWorking \<and> lc_activity l \<noteq> TaskActivityNeedsResolution"

lemma task_coupled_idle:
  "idle (ws_lifecycle task) \<Longrightarrow>
     task_coupled d task \<longleftrightarrow>
       active_claims d (ws_task_id task) = [] \<and> open_issues d (ws_task_id task) = [] \<and>
       ws_active_issue task = None"
  by (auto simp: task_coupled_def idle_def)

lemma lifecycle_idle:
  "TaskLifecycle_MarkReady archived unfinished l = Inr l' \<Longrightarrow> idle l \<and> idle l'"
  "TaskLifecycle_WithdrawReadiness l = Inr l' \<Longrightarrow> idle l \<and> idle l'"
  "TaskLifecycle_Release stage l = Inr l' \<Longrightarrow> idle l'"
  "TaskLifecycle_ResolveIssue l = Inr l' \<Longrightarrow> idle l'"
  "TaskLifecycle_CompleteExecution l = Inr l' \<Longrightarrow> idle l'"
  "TaskLifecycle_RequestChanges l = Inr l' \<Longrightarrow> idle l'"
  "TaskLifecycle_Accept readiness l = Inr l' \<Longrightarrow> idle l'"
  "TaskLifecycle_Cancel l = Inr l' \<Longrightarrow> idle l'"
  by (auto simp: idle_def lifecycle_defs lifecycle_results split: if_splits)

section \<open>Readiness\<close>

lemma simpleLifecycleCommand_wf:
  assumes wf: "wf_db d"
    and idle: "\<And>task l. mutate task d = Inr l \<Longrightarrow> idle (ws_lifecycle task) \<and> idle l"
    and run: "simpleLifecycleCommand ids taskNumber v operation now action body mutate d =
      Inr (d', out)"
  shows "wf_db d'"
proof -
  obtain task l d1 task1 d2 where lock: "lockWorkflowTask taskNumber d = Inr task"
    and mut: "mutate task d = Inr l"
    and persist: "persistWorkflowTask (task\<lparr>ws_lifecycle := l\<rparr>) v now d = Inr (d1, task1)"
    and item: "insertWorkflowItem (ids 0) (ws_main_thread_id task1) ThreadItemKindSystemEvent
      workflowSystemActor body None (op_request_id operation) now d1 = Inr d2"
    and audit: "insertWorkflowAudit (ids 1) task1 operation action now d2 = Inr d'"
    using run by (auto simp: simpleLifecycleCommand_def result_simps split: prod.splits)
  note lk = lockWorkflowTask_Inr [OF wf lock]
  have "task_coupled d (task\<lparr>ws_lifecycle := l\<rparr>)"
    using lk(2) idle [OF mut] by (simp add: task_coupled_idle)
  then show ?thesis
    using lk(3,4) persist insertWorkflowItem_view [OF item] insertWorkflowAudit_view [OF audit]
    by (intro persist_tail_wf [of "task\<lparr>ws_lifecycle := l\<rparr>" d v now d1 task1 d'])
      (auto intro: same_view_trans)
qed

lemma MarkReady_wf:
  assumes "wf_db d" and "TaskWorkflowStore_MarkReady ids n v operation now d = Inr (d', out)"
  shows "wf_db d'"
  using assms
  by (auto simp: TaskWorkflowStore_MarkReady_def result_simps
      elim!: simpleLifecycleCommand_wf [rotated 2] dest: lifecycle_idle)

lemma WithdrawReadiness_wf:
  assumes "wf_db d"
    and "TaskWorkflowStore_WithdrawReadiness ids n v reason operation now d = Inr (d', out)"
  shows "wf_db d'"
  using assms
  by (auto simp: TaskWorkflowStore_WithdrawReadiness_def split: if_splits
      elim!: simpleLifecycleCommand_wf [rotated 2] dest: lifecycle_idle)

section \<open>Finishing a claim\<close>

text \<open>Once the active claim is completed the Task is coupled to any idle lifecycle.\<close>

lemma complete_owned_claim:
  assumes wf: "wf_but {ws_task_id task} d" and coupled: "task_coupled d task"
    and lock: "lockActiveTaskStageClaim (ws_task_id task) d = Inr claim"
    and complete: "TaskStageClaim_Complete outcome now claim = Inr claim1"
    and update: "updateTaskStageClaim claim1 (claim_version claim) d = Inr d'"
    and now: "\<not> is_zero_time now"
  shows "wf_but {ws_task_id task} d'"
    and "idle l \<Longrightarrow> task_coupled d' (task\<lparr>ws_lifecycle := l\<rparr>)"
    and "active_claims d' (ws_task_id task) = []"
    and "d' = d\<lparr>claims := claims d'\<rparr>"
proof -
  note lk = lockActiveTaskStageClaim_Inr [OF lock]
  note own = owned_claim [OF coupled lock]
  note c = complete_claim_wf [OF wf lk(1,2) now complete update]
  show "wf_but {ws_task_id task} d'" by (rule c(1))
  show d': "d' = d\<lparr>claims := claims d'\<rparr>" by (rule c(3))
  show act: "active_claims d' (ws_task_id task) = []" using c(2) own(1) by simp
  have "open_issues d' i = open_issues d i" for i by (subst d') (simp add: view_frames)
  with act own(4,5) show "idle l \<Longrightarrow> task_coupled d' (task\<lparr>ws_lifecycle := l\<rparr>)"
    by (simp add: task_coupled_idle)
qed

lemma lockOwnedWorkflowClaim_Inr:
  "lockOwnedWorkflowClaim n claimID v cv actor operation d = Inr (task, claim) \<longleftrightarrow>
     lockWorkflowTask n d = Inr task \<and> ws_version task = v \<and>
     lockActiveTaskStageClaim (ws_task_id task) d = Inr claim \<and> claim_id claim = claimID \<and>
     claim_version claim = cv \<and> validateClaimActor claim actor operation = Inr ()"
  by (auto simp: lockOwnedWorkflowClaim_def check_version_def result_simps split: if_splits)

lemma main_threads_claims: "d' = d\<lparr>claims := claims d'\<rparr> \<Longrightarrow> main_threads d' i = main_threads d i"
  by (metis view_frames(14))

text \<open>
  The shape of \<open>finishClaim\<close>, \<open>CompleteExecutionWithDelivery\<close> and \<open>AcceptTask\<close>: an owned claim
  is completed, the Task is written with an idle lifecycle, and statements follow that leave the
  view alone.
\<close>

lemma finish_owned_wf:
  assumes wf: "wf_db d"
    and owned: "lockOwnedWorkflowClaim n claimID v cv actor operation d = Inr (task, claim)"
    and idle: "idle l"
    and complete: "TaskStageClaim_Complete outcome now claim = Inr claim1"
    and update: "updateTaskStageClaim claim1 (claim_version claim) d = Inr d1"
    and persist: "persistWorkflowTask (task\<lparr>ws_lifecycle := l\<rparr>) v now d1 = Inr (d2, task1)"
    and tail: "same_view d2 d'" "wf_but {ws_task_id task} d2 \<Longrightarrow> wf_but {ws_task_id task} d'"
    and now: "\<not> is_zero_time now"
  shows "wf_db d'"
proof -
  from owned have lock: "lockWorkflowTask n d = Inr task"
    and lockc: "lockActiveTaskStageClaim (ws_task_id task) d = Inr claim"
    by (simp_all add: lockOwnedWorkflowClaim_Inr)
  note lk = lockWorkflowTask_Inr [OF wf lock]
  note c = complete_owned_claim [OF lk(4,2) lockc complete update now]
  show ?thesis
    using c(1) c(2) [OF idle] lk(3) persist tail main_threads_claims [OF c(4)]
    by (intro persist_tail_wf [of "task\<lparr>ws_lifecycle := l\<rparr>" d1 v now d2 task1 d']) auto
qed

lemma finishClaim_wf:
  assumes wf: "wf_db d" and idle: "\<And>l0 c l. mutate l0 c = Inr l \<Longrightarrow> idle l"
    and run: "finishClaim ids n claimID v cv outcome kind body actor operation now mutate d =
      Inr (d', out)"
  shows "wf_db d'"
proof -
  obtain task claim l claim1 d1 d2 task1 d3
    where owned: "lockOwnedWorkflowClaim n claimID v cv actor operation d = Inr (task, claim)"
    and mut: "mutate (ws_lifecycle task) claim = Inr l"
    and complete: "TaskStageClaim_Complete outcome now claim = Inr claim1"
    and update: "updateTaskStageClaim claim1 (claim_version claim) d = Inr d1"
    and persist: "persistWorkflowTask (task\<lparr>ws_lifecycle := l\<rparr>) v now d1 = Inr (d2, task1)"
    and item: "insertWorkflowItem (ids 0) (ws_main_thread_id task1) kind actor body None
      (op_request_id operation) now d2 = Inr d3"
    and audit: "insertWorkflowAudit (ids 1) task1 operation (TaskClaimOutcome_string outcome) now d3
      = Inr d'"
    using run by (auto simp: finishClaim_def result_simps split: prod.splits)
  note item = insertWorkflowItem_view [OF item] and audit = insertWorkflowAudit_view [OF audit]
  show ?thesis
    by (rule finish_owned_wf [OF wf owned idle [OF mut] complete update persist])
      (use item audit in \<open>auto intro: same_view_trans\<close>)
qed

lemma ReleaseClaim_wf:
  assumes "wf_db d"
    and "TaskWorkflowStore_ReleaseClaim ids n c v cv handoff actor operation now d = Inr (d', out)"
  shows "wf_db d'"
  using assms
  by (auto simp: TaskWorkflowStore_ReleaseClaim_def split: if_splits
      elim!: finishClaim_wf [rotated 2] dest: lifecycle_idle)

lemma RequestChanges_wf:
  assumes "wf_db d"
    and "TaskWorkflowStore_RequestChanges ids n c v cv reason actor operation now d = Inr (d', out)"
  shows "wf_db d'"
  using assms
  by (auto simp: TaskWorkflowStore_RequestChanges_def split: if_splits
      elim!: finishClaim_wf [rotated 2] dest: lifecycle_idle)

lemma CompleteExecutionWithDelivery_wf:
  assumes wf: "wf_db d"
    and run: "TaskWorkflowStore_CompleteExecutionWithDelivery ids n claimID v cv summary changes
      actor operation now d = Inr (d', out)"
  shows "wf_db d'"
proof -
  obtain task claim l claim1 d1 d2 task1 d3 payload it
    where owned: "lockOwnedWorkflowClaim n claimID v cv actor operation d = Inr (task, claim)"
    and mut: "TaskLifecycle_CompleteExecution (ws_lifecycle task) = Inr l"
    and complete: "TaskStageClaim_Complete TaskClaimOutcomeExecutionCompleted now claim = Inr claim1"
    and update: "updateTaskStageClaim claim1 (claim_version claim) d = Inr d1"
    and persist: "persistWorkflowTask (task\<lparr>ws_lifecycle := l\<rparr>) v now d1 = Inr (d2, task1)"
    and item: "insertDeliveryWorkflowItem (ids 0) (ws_main_thread_id task1)
      ThreadItemKindExecutionCompleted actor summary (claim_id claim1) (lc_review_cycle l)
      (Some payload) (op_request_id operation) now d2 = Inr (d3, it)"
    and audit: "insertWorkflowAudit (ids 1) task1 operation ''execution_completed'' now d3 = Inr d'"
    using run
    by (auto simp: TaskWorkflowStore_CompleteExecutionWithDelivery_def result_simps
        split: prod.splits if_splits)
  note item = insertDeliveryWorkflowItem_view [OF item] and audit = insertWorkflowAudit_view [OF audit]
  show ?thesis
    by (rule finish_owned_wf [OF wf owned lifecycle_idle(5) [OF mut] complete update persist])
      (use item audit in \<open>auto intro: same_view_trans\<close>)
qed

lemma AcceptTask_wf:
  assumes wf: "wf_db d"
    and run: "TaskWorkflowStore_AcceptTask ids n claimID v cv summary actor operation now d =
      Inr (d', out)"
  shows "wf_db d'"
proof -
  obtain task claim l claim1 d1 d2 task1 d3 readiness
    where owned: "lockOwnedWorkflowClaim n claimID v cv actor operation d = Inr (task, claim)"
    and mut: "TaskLifecycle_Accept readiness (ws_lifecycle task) = Inr l"
    and complete: "TaskStageClaim_Complete TaskClaimOutcomeTaskAccepted now claim = Inr claim1"
    and update: "updateTaskStageClaim claim1 (claim_version claim) d = Inr d1"
    and persist: "persistWorkflowTask (task\<lparr>ws_lifecycle := l\<rparr>) v now d1 = Inr (d2, task1)"
    and item: "insertWorkflowItem (ids 0) (ws_main_thread_id task1) ThreadItemKindReviewOutcome
      actor summary None (op_request_id operation) now d2 = Inr d3"
    and audit: "insertWorkflowAudit (ids 1) task1 operation ''task_accepted'' now d3 = Inr d'"
    using run
    by (auto simp: TaskWorkflowStore_AcceptTask_def result_simps split: prod.splits if_splits)
  note item = insertWorkflowItem_view [OF item] and audit = insertWorkflowAudit_view [OF audit]
  show ?thesis
    by (rule finish_owned_wf [OF wf owned lifecycle_idle(7) [OF mut] complete update persist])
      (use item audit in \<open>auto intro: same_view_trans\<close>)
qed

section \<open>Commands that write no Task row\<close>

lemma RecordWorkSubmission_wf:
  assumes wf: "wf_db d"
    and run: "TaskWorkflowStore_RecordWorkSubmission ids n claimID v cv summary actor operation now d
      = Inr (d', out)"
  shows "wf_db d' \<and> same_view d d'"
proof -
  obtain task and claim :: TaskStageClaim and d1 it where
    item: "insertDeliveryWorkflowItem (ids 0) (ws_main_thread_id task)
      ThreadItemKindWorkSubmission actor summary (claim_id claim)
      (lc_review_cycle (ws_lifecycle task) + 1) None (op_request_id operation) now d = Inr (d1, it)"
    and audit: "insertWorkflowAudit (ids 1) task operation ''work_submission_recorded'' now d1 = Inr d'"
    using run
    by (auto simp: TaskWorkflowStore_RecordWorkSubmission_def result_simps
        split: prod.splits if_splits)
  note item = insertDeliveryWorkflowItem_view [OF item] and audit = insertWorkflowAudit_view [OF audit]
  show ?thesis using wf item audit by (auto intro: same_view_trans)
qed

lemma insert_check_row_view:
  assumes "insert_check_row k d = Inr d'"
  shows "same_view d d'" and "wf_but X d \<Longrightarrow> wf_but X d'" and "d' = d\<lparr>checks := checks d @ [k]\<rparr>"
proof -
  show d': "d' = d\<lparr>checks := checks d @ [k]\<rparr>"
    using assms by (auto simp: insert_check_row_def split: if_splits)
  show "same_view d d'" by (simp add: d' same_view_def)
  show "wf_but X d \<Longrightarrow> wf_but X d'" by (simp add: d' wf_but_checks)
qed

lemma RecordAcceptanceCheck_wf:
  assumes wf: "wf_db d"
    and run: "TaskWorkflowStore_RecordAcceptanceCheck ids n claimID v cv check actor operation now d
      = Inr (d', out)"
  shows "wf_db d' \<and> same_view d d'"
proof -
  obtain task k d1 where
    item: "insert_check_row k d = Inr d1"
    and audit: "insertWorkflowAudit (ids 1) task operation ''acceptance_check_recorded'' now d1 = Inr d'"
    using run
    by (auto simp: TaskWorkflowStore_RecordAcceptanceCheck_def Let_def result_simps
        split: prod.splits if_splits)
  note item = insert_check_row_view [OF item] and audit = insertWorkflowAudit_view [OF audit]
  show ?thesis using wf item audit by (auto intro: same_view_trans)
qed

section \<open>Issues\<close>

lemma RequestResolution_wf:
  assumes wf: "wf_db d"
    and run: "TaskWorkflowStore_RequestResolution ids n claimID v cv issueType request actor
      operation now d = Inr (d', out)"
  shows "wf_db d'"
proof -
  obtain task claim issue l d1 d2 claim1 d3 d4 task1 d5 body
    where owned: "lockOwnedWorkflowClaim n claimID v cv actor operation d = Inr (task, claim)"
    and new: "NewIssueThread (ids 0) (ws_task_id task) issueType (lc_phase (ws_lifecycle task))
      actor now = Inr issue"
    and mut: "TaskLifecycle_RequestResolution (claim_stage claim) (ws_lifecycle task) = Inr l"
    and insert: "insertIssueThread issue d = Inr d1"
    and request: "insertWorkflowItem (ids 1) (thread_id issue) ThreadItemKindResolutionRequest actor
      request None (op_request_id operation) now d1 = Inr d2"
    and complete: "TaskStageClaim_Complete TaskClaimOutcomeNeedsResolution now claim = Inr claim1"
    and update: "updateTaskStageClaim claim1 (claim_version claim) d2 = Inr d3"
    and persist: "persistWorkflowTask
      (task\<lparr>ws_lifecycle := l, ws_active_issue := Some (thread_id issue)\<rparr>) v now d3 = Inr (d4, task1)"
    and item: "insertWorkflowItem (ids 2) (ws_main_thread_id task1) ThreadItemKindSystemEvent
      workflowSystemActor body None (op_request_id operation) now d4 = Inr d5"
    and audit: "insertWorkflowAudit (ids 3) task1 operation ''resolution_requested'' now d5 = Inr d'"
    using run
    by (auto simp: TaskWorkflowStore_RequestResolution_def result_simps
        split: prod.splits if_splits)
  from owned have lock: "lockWorkflowTask n d = Inr task"
    and lockc: "lockActiveTaskStageClaim (ws_task_id task) d = Inr claim"
    by (simp_all add: lockOwnedWorkflowClaim_Inr)
  let ?i = "ws_task_id task"
  let ?task = "task\<lparr>ws_lifecycle := l, ws_active_issue := Some (thread_id issue)\<rparr>"
  note lk = lockWorkflowTask_Inr [OF wf lock]
  note own = owned_claim [OF lk(2) lockc]
  note nw = NewIssueThread_Inr [OF new]
  note ins = insertIssueThread_wf [OF lk(4) insert nw(3-5)]
  note req = insertWorkflowItem_view [OF request]
  have act2: "active_claims d2 ?i = [claim]"
    using own(1) by (simp add: same_view_views [OF req(1)]) (subst ins(3), simp add: view_frames)
  then have "claim \<in> set (active_claims d2 ?i)" by simp
  then have mem2: "claim \<in> set (claims d2)" "claim_task_id claim = ?i"
    by (auto simp: active_claims_def)
  note c = complete_claim_wf [OF req(2) [OF ins(1)] mem2 req(3) complete update]
  have "open_issues d3 ?i = open_issues d1 ?i"
    by (subst c(3)) (simp add: view_frames same_view_views [OF req(1)])
  then have opn: "open_issues d3 ?i =
      [issue\<lparr>thread_opened_by := storedActor (thread_opened_by issue)\<rparr>]"
    using ins(2) own(4) by simp
  have "items d3 = items d2" by (subst c(3)) simp
  moreover have "lc_activity l = TaskActivityNeedsResolution" "lc_phase l = lc_phase (ws_lifecycle task)"
    using mut by (auto simp: TaskLifecycle_RequestResolution_def result_simps)
  ultimately have "task_coupled d3 ?task"
    using opn c(2) act2 nw(7) req(4) by (simp add: task_coupled_def)
  moreover have "main_threads d3 ?i = main_threads d ?i"
    by (simp add: main_threads_claims [OF c(3)] same_view_views [OF req(1)] ins(4))
  ultimately show ?thesis
    using lk(3) c(1) persist insertWorkflowItem_view [OF item] insertWorkflowAudit_view [OF audit]
    by (intro persist_tail_wf [of ?task d3 v now d4 task1 d']) (auto intro: same_view_trans)
qed

text \<open>
  The part that \<open>ResolveIssue\<close> and \<open>CancelTask\<close> share closes the one open issue of a blocked
  Task, after which the Task is coupled to any idle lifecycle with no active issue.
\<close>

lemma resolve_issue_thread_wf:
  assumes wf: "wf_but {ws_task_id task} d" and coupled: "task_coupled d task"
    and blocked: "lc_activity (ws_lifecycle task) = TaskActivityNeedsResolution"
    and lock: "lockIssueThread (ws_task_id task) issueID d = Inr issue"
    and active: "ws_active_issue task = Some issueID"
    and run: "resolve_issue_thread itemID summaryID task issue req resolution actor operation now d
      = Inr (d', issue1)"
  shows "wf_but {ws_task_id task} d'"
    and "idle l \<Longrightarrow> task_coupled d' (task\<lparr>ws_lifecycle := l, ws_active_issue := None\<rparr>)"
    and "main_threads d' i = main_threads d i"
proof -
  let ?i = "ws_task_id task"
  obtain d1 d2 payload where
    item: "insertWorkflowItem itemID (thread_id issue) ThreadItemKindResolution actor resolution
       None (op_request_id operation) now d = Inr d1"
    and res: "Thread_Resolve actor now issue = Inr issue1"
    and persist: "persistResolvedIssue issue1 (thread_version issue) d1 = Inr d2"
    and summary: "insertWorkflowItem summaryID (ws_main_thread_id task) ThreadItemKindIssueResolution
       workflowSystemActor [] payload (op_request_id operation) now d2 = Inr d'"
    using run by (auto simp: resolve_issue_thread_def result_simps)
  note it = insertWorkflowItem_view [OF item] and sm = insertWorkflowItem_view [OF summary]
  note lk = lockIssueThread_Inr [OF lock]
  have mem: "issue \<in> set (threads d1)" using lk(1) it(1) by (simp add: same_view_def)
  note p = persistResolvedIssue_wf [OF it(2) [OF wf] mem lk(2) it(3) res persist]
  show "wf_but {?i} d'" by (rule sm(2) [OF p(1)])
  show "main_threads d' i = main_threads d i"
    by (simp add: same_view_views [OF sm(1)] p(4) same_view_views [OF it(1)])
  obtain t where t: "open_issues d ?i = [t]" "thread_id t = issueID"
    using coupled blocked active by (auto simp: task_coupled_def)
  have "open_issues d' ?i = []"
    using p(2) t lk(3) by (simp add: same_view_views [OF sm(1)] same_view_views [OF it(1)])
  moreover have "active_claims d' ?i = []"
  proof -
    have "active_claims d2 ?i = active_claims d ?i"
      by (subst p(3)) (simp add: view_frames same_view_views [OF it(1)])
    then show ?thesis
      using coupled blocked by (simp add: same_view_views [OF sm(1)] task_coupled_def)
  qed
  ultimately show "idle l \<Longrightarrow> task_coupled d' (task\<lparr>ws_lifecycle := l, ws_active_issue := None\<rparr>)"
    by (simp add: task_coupled_idle)
qed

lemma ResolveIssue_wf:
  assumes wf: "wf_db d"
    and run: "TaskWorkflowStore_ResolveIssue ids n v issueID tv resolution actor operation now d =
      Inr (d', out)"
  shows "wf_db d'"
proof -
  obtain task issue req d1 issue1 l d2 task1
    where lock: "lockWorkflowTask n d = Inr task"
    and active: "ws_active_issue task = Some issueID"
    and locki: "lockIssueThread (ws_task_id task) issueID d = Inr issue"
    and resolve: "resolve_issue_thread (ids 0) (ids 1) task issue req resolution actor operation now
      d = Inr (d1, issue1)"
    and mut: "TaskLifecycle_ResolveIssue (ws_lifecycle task) = Inr l"
    and persist: "persistWorkflowTask (task\<lparr>ws_lifecycle := l, ws_active_issue := None\<rparr>) v now d1
      = Inr (d2, task1)"
    and audit: "insertWorkflowAudit (ids 2) task1 operation ''issue_resolved'' now d2 = Inr d'"
    using run
    by (auto simp: TaskWorkflowStore_ResolveIssue_def result_simps split: prod.splits if_splits)
  note lk = lockWorkflowTask_Inr [OF wf lock]
  have "lc_activity (ws_lifecycle task) = TaskActivityNeedsResolution"
    using mut by (auto simp: TaskLifecycle_ResolveIssue_def split: if_splits)
  note r = resolve_issue_thread_wf [OF lk(4,2) this locki active resolve]
  show ?thesis
    using r(1) r(2) [OF lifecycle_idle(4) [OF mut]] r(3) lk(3) persist
      insertWorkflowAudit_view [OF audit]
    by (intro persist_tail_wf [of "task\<lparr>ws_lifecycle := l, ws_active_issue := None\<rparr>" d1 v now d2 task1 d'])
      auto
qed

section \<open>Cancellation\<close>

text \<open>
  Ending the claim of a worked-on Task and resolving the issue of a blocked one leave the Task
  with neither.
\<close>

lemma cancel_parts_wf:
  assumes wf: "wf_but {ws_task_id task} d" and coupled: "task_coupled d task"
    and claim: "cancel_claim task now d = Inr (d1, ended)"
    and issue: "cancel_issue itemID summaryID task reason actor operation now d1 =
      Inr (d2, task1, resolved)"
    and now: "\<not> is_zero_time now" and idle: "idle l"
  shows "wf_but {ws_task_id task} d2 \<and> task_coupled d2 (task1\<lparr>ws_lifecycle := l\<rparr>) \<and>
    main_threads d2 i = main_threads d i \<and> ws_task_id task1 = ws_task_id task"
proof (cases "lc_activity (ws_lifecycle task) = TaskActivityWorking")
  case True
  obtain c c1 where lock: "lockActiveTaskStageClaim (ws_task_id task) d = Inr c"
    and complete: "TaskStageClaim_Complete TaskClaimOutcomeTaskCancelled now c = Inr c1"
    and update: "updateTaskStageClaim c1 (claim_version c) d = Inr d1"
    using claim True by (auto simp: cancel_claim_def result_simps)
  note c = complete_owned_claim [OF wf coupled lock complete update now]
  have "d2 = d1" "task1 = task" using issue True by (auto simp: cancel_issue_def)
  with c idle main_threads_claims [OF c(4)] show ?thesis by simp
next
  case False
  then have d1: "d1 = d" using claim by (simp add: cancel_claim_def)
  show ?thesis
  proof (cases "lc_activity (ws_lifecycle task) = TaskActivityNeedsResolution")
    case True
    obtain k t req t1 where active: "ws_active_issue task = Some k"
      and lock: "lockIssueThread (ws_task_id task) k d = Inr t"
      and resolve: "resolve_issue_thread itemID summaryID task t req (''Task cancelled: '' @ reason)
        actor operation now d = Inr (d2, t1)"
      and task1: "task1 = task\<lparr>ws_active_issue := None\<rparr>"
      using issue True unfolding d1
      by (auto simp: cancel_issue_def result_simps split: option.splits)
    note r = resolve_issue_thread_wf [OF wf coupled True lock active resolve]
    have "task1\<lparr>ws_lifecycle := l\<rparr> = task\<lparr>ws_lifecycle := l, ws_active_issue := None\<rparr>"
      by (simp add: task1)
    with r(2) [OF idle] have "task_coupled d2 (task1\<lparr>ws_lifecycle := l\<rparr>)" by (simp only:)
    moreover have "ws_task_id task1 = ws_task_id task" by (simp add: task1)
    ultimately show ?thesis using r(1,3) by blast
  next
    case idle0: False
    with False issue have "d2 = d" "task1 = task" by (simp_all add: cancel_issue_def d1)
    moreover have "task_coupled d (task\<lparr>ws_lifecycle := l\<rparr>)"
      using coupled idle False idle0 by (simp add: task_coupled_idle) (simp add: task_coupled_def)
    ultimately show ?thesis using wf by simp
  qed
qed

lemma CancelTask_wf:
  assumes wf: "wf_db d"
    and run: "TaskWorkflowStore_CancelTask ids n v reason actor operation now d = Inr (d', out)"
  shows "wf_db d'"
proof -
  obtain task d1 ended d2 task1 resolved l d3 task2 d4
    where lock: "lockWorkflowTask n d = Inr task"
    and claim: "cancel_claim task now d = Inr (d1, ended)"
    and issue: "cancel_issue (ids 0) (ids 1) task reason actor operation now d1 =
      Inr (d2, task1, resolved)"
    and mut: "TaskLifecycle_Cancel (ws_lifecycle task1) = Inr l"
    and persist: "persistWorkflowTask (task1\<lparr>ws_lifecycle := l\<rparr>) v now d2 = Inr (d3, task2)"
    and item: "insertWorkflowItem (ids 2) (ws_main_thread_id task2) ThreadItemKindSystemEvent
      workflowSystemActor (''Task cancelled: '' @ reason) None (op_request_id operation) now d3
      = Inr d4"
    and audit: "insertWorkflowAudit (ids 3) task2 operation ''task_cancelled'' now d4 = Inr d'"
    using run
    by (auto simp: TaskWorkflowStore_CancelTask_def result_simps split: prod.splits if_splits)
  note it = insertWorkflowItem_view [OF item] and au = insertWorkflowAudit_view [OF audit]
  note lk = lockWorkflowTask_Inr [OF wf lock]
  note parts = cancel_parts_wf [OF lk(4,2) claim issue it(3) lifecycle_idle(8) [OF mut]]
  show ?thesis
    using parts lk(3) persist it au
    by (intro persist_tail_wf [of "task1\<lparr>ws_lifecycle := l\<rparr>" d2 v now d3 task2 d'])
      (auto intro: same_view_trans)
qed

section \<open>Claiming and expiry\<close>

lemma expireDueWorkflowClaim_cases:
  assumes run: "expireDueWorkflowClaim newID task operation now d = Inr (d1, task1)"
  obtains (unchanged) "d1 = d" and "task1 = task"
  | (expired) claim claim1 d2 l where
    "lockActiveTaskStageClaim (ws_task_id task) d = Inr claim"
    and "claim_expires_at claim \<le> now"
    and "TaskStageClaim_Complete TaskClaimOutcomeDeadlineElapsed now claim = Inr claim1"
    and "updateTaskStageClaim claim1 (claim_version claim) d = Inr d2"
    and "TaskLifecycle_Release (claim_stage claim1) (ws_lifecycle task) = Inr l"
    and "insertWorkflowItem newID (ws_main_thread_id task) ThreadItemKindSystemEvent
      workflowSystemActor (TaskClaimStage_string (claim_stage claim1) @ '' Claim expired'') None
      (op_request_id operation) now d2 = Inr d1"
    and "task1 = task\<lparr>ws_lifecycle := l\<rparr>"
proof (cases "lc_activity (ws_lifecycle task) = TaskActivityWorking")
  case False
  with run unchanged show thesis by (simp add: expireDueWorkflowClaim_def)
next
  case True
  then obtain claim where lock: "lockActiveTaskStageClaim (ws_task_id task) d = Inr claim"
    using run by (auto simp: expireDueWorkflowClaim_def result_simps)
  show thesis
  proof (cases "claim_expires_at claim > now")
    case True
    with run lock unchanged show thesis
      by (simp add: expireDueWorkflowClaim_def split: if_splits)
  next
    case False
    with run lock True show thesis
      by (simp add: expireDueWorkflowClaim_def result_simps) (elim exE conjE, rule expired, auto)
  qed
qed

lemma expireDueWorkflowClaim_wf:
  assumes wf: "wf_but {ws_task_id task} d" and coupled: "task_coupled d task"
    and run: "expireDueWorkflowClaim newID task operation now d = Inr (d1, task1)"
  shows "wf_but {ws_task_id task} d1 \<and> task_coupled d1 task1 \<and>
    ws_task_id task1 = ws_task_id task \<and> ws_version task1 = ws_version task \<and>
    (\<forall>i. main_threads d1 i = main_threads d i) \<and>
    (d1 = d \<and> task1 = task \<or> idle (ws_lifecycle task1))"
  using run
proof (cases rule: expireDueWorkflowClaim_cases)
  case unchanged
  with wf coupled show ?thesis by simp
next
  case (expired claim claim1 d2 l)
  note lock = expired(1) and complete = expired(3) and update = expired(4) and mut = expired(5)
    and item = expired(6) and task1 = expired(7)
  note it = insertWorkflowItem_view [OF item]
  note c = complete_owned_claim [OF wf coupled lock complete update it(3)]
  have idle: "idle l" by (rule lifecycle_idle(3) [OF mut])
  have "task_coupled d1 task1"
    unfolding task1 using c(2) [OF idle] it(1)
    by (intro task_coupled_mono [of d1 _ d2]) (auto simp: same_view_views same_view_def)
  with c(1) it(2) idle main_threads_claims [OF c(4)] show ?thesis
    by (simp add: task1 same_view_views [OF it(1)])
qed

lemma Claim_wf:
  assumes wf: "wf_db d"
    and run: "TaskWorkflowStore_Claim ids n v claimedBy operation kind session now d = Inr (d', out)"
  shows "wf_db d'"
proof -
  obtain task d1 task1 l stage claim d2 d3 task2 d4 body
    where lock: "lockWorkflowTask n d = Inr task"
    and expire: "expireDueWorkflowClaim (ids 0) task operation now d = Inr (d1, task1)"
    and mut: "TaskLifecycle_Claim (ws_archived_at task1 \<noteq> None) (ws_lifecycle task1) = Inr (l, stage)"
    and new: "NewTaskStageClaim (ids 1) (ws_task_id task1) (ws_task_number task1) stage claimedBy
      operation kind session now = Inr claim"
    and insert: "insertTaskStageClaim claim d1 = Inr d2"
    and persist: "persistWorkflowTask (task1\<lparr>ws_lifecycle := l\<rparr>) v now d2 = Inr (d3, task2)"
    and item: "insertWorkflowItem (ids 2) (ws_main_thread_id task2) ThreadItemKindSystemEvent
      workflowSystemActor body None (op_request_id operation) now d3 = Inr d4"
    and audit: "insertWorkflowAudit (ids 3) task2 operation ''claimed'' now d4 = Inr d'"
    using run by (auto simp: TaskWorkflowStore_Claim_def result_simps split: prod.splits)
  note lk = lockWorkflowTask_Inr [OF wf lock]
  note ex = expireDueWorkflowClaim_wf [OF lk(4,2) expire]
  then have i: "ws_task_id task1 = ws_task_id task" by simp
  note nw = NewTaskStageClaim_Inr [OF new]
  have wf1: "wf_but {ws_task_id task1} d1" using ex i by simp
  note ins = insertTaskStageClaim_wf [OF wf1 insert nw(3) nw(6)]
  have l: "idle (ws_lifecycle task1)" "lc_activity l = TaskActivityWorking"
    "stage = phase_stage (lc_phase l)"
    using mut by (auto simp: TaskLifecycle_Claim_Inr idle_def)
  have none: "active_claims d1 (ws_task_id task1) = []" "open_issues d1 (ws_task_id task1) = []"
    "ws_active_issue task1 = None"
    using ex l(1) task_coupled_idle [of task1 d1] by auto
  have "open_issues d2 j = open_issues d1 j" for j by (subst ins(3)) (simp add: view_frames)
  then have "task_coupled d2 (task1\<lparr>ws_lifecycle := l\<rparr>)"
    using ins(2) none l nw(5) by (simp add: task_coupled_def)
  moreover have "\<exists>m. main_threads d2 (ws_task_id task1) = [m]"
    using ex lk(3) i by (auto simp: main_threads_claims [OF ins(3)])
  ultimately show ?thesis
    using ins(1) persist insertWorkflowItem_view [OF item] insertWorkflowAudit_view [OF audit]
    by (intro persist_tail_wf [of "task1\<lparr>ws_lifecycle := l\<rparr>" d2 v now d3 task2 d'])
      (auto intro: same_view_trans)
qed

lemma ExpireDueClaim_wf:
  assumes wf: "wf_db d"
    and run: "TaskWorkflowStore_ExpireDueClaim ids n operation now d = Inr (d', out)"
  shows "wf_db d'"
proof (cases out)
  case False
  with run have "d' = d"
    by (auto simp: TaskWorkflowStore_ExpireDueClaim_def result_simps split: if_splits prod.splits)
  with wf show ?thesis by simp
next
  case True
  with run obtain task d1 task1 d2 task2 where lock: "lockWorkflowTask n d = Inr task"
    and expire: "expireDueWorkflowClaim (ids 0) task operation now d = Inr (d1, task1)"
    and changed: "lc_activity (ws_lifecycle task1) \<noteq> lc_activity (ws_lifecycle task)"
    and persist: "persistWorkflowTask task1 (ws_version task) now d1 = Inr (d2, task2)"
    and audit: "insertWorkflowAudit (ids 1) task2 operation ''claim_expired'' now d2 = Inr d'"
    by (auto simp: TaskWorkflowStore_ExpireDueClaim_def result_simps split: if_splits prod.splits)
  note lk = lockWorkflowTask_Inr [OF wf lock]
  note ex = expireDueWorkflowClaim_wf [OF lk(4,2) expire]
  then show ?thesis
    using ex lk(3) persist insertWorkflowAudit_view [OF audit]
    by (intro persist_tail_wf [of task1 d1 "ws_version task" now d2 task2 d']) auto
qed

end
