(* ===== verification/Workflow_System.thy ===== *)
theory Workflow_System
  imports Workflow_Invariant
begin

text \<open>
  The workflow store as one transition system.  A \<open>workflow_command\<close> is a call of a method of
  \<open>TaskWorkflowStore\<close> with all its arguments (the identifiers it draws included), and
  \<open>workflow_apply\<close> is its effect on the database.  Each command is shown to change at most one
  Task row, and that row by a run of lifecycle commands: the detailed store refines the
  lifecycle of \<open>Task_Lifecycle\<close>.
\<close>

section \<open>Commands\<close>

datatype workflow_command =
    WMarkReady "nat \<Rightarrow> uuid" int int OperationActor time
  | WWithdrawReadiness "nat \<Rightarrow> uuid" int int string OperationActor time
  | WClaim "nat \<Rightarrow> uuid" int int Actor OperationActor string string time
  | WExpireDueClaim "nat \<Rightarrow> uuid" int OperationActor time
  | WReleaseClaim "nat \<Rightarrow> uuid" int uuid int int string Actor OperationActor time
  | WRecordWorkSubmission "nat \<Rightarrow> uuid" int uuid int int string Actor OperationActor time
  | WCompleteExecution "nat \<Rightarrow> uuid" int uuid int int string "CodeChangeSnapshot list" Actor
      OperationActor time
  | WRequestChanges "nat \<Rightarrow> uuid" int uuid int int string Actor OperationActor time
  | WRequestResolution "nat \<Rightarrow> uuid" int uuid int int IssueThreadType string Actor
      OperationActor time
  | WResolveIssue "nat \<Rightarrow> uuid" int int uuid int string Actor OperationActor time
  | WRecordAcceptanceCheck "nat \<Rightarrow> uuid" int uuid int int AcceptanceCheck Actor OperationActor
      time
  | WAcceptTask "nat \<Rightarrow> uuid" int uuid int int string Actor OperationActor time
  | WCancelTask "nat \<Rightarrow> uuid" int int string Actor OperationActor time

definition state_of :: "(db \<times> 'a) result \<Rightarrow> db result" where
  "state_of m = bindR m (\<lambda>(d, out). Inr d)"

lemma state_of_Inr [simp]: "state_of m = Inr d \<longleftrightarrow> (\<exists>out. m = Inr (d, out))"
  by (auto simp: state_of_def result_simps)

fun workflow_apply :: "workflow_command \<Rightarrow> db \<Rightarrow> db result" where
  "workflow_apply (WMarkReady ids n v operation now) d =
     state_of (TaskWorkflowStore_MarkReady ids n v operation now d)"
| "workflow_apply (WWithdrawReadiness ids n v reason operation now) d =
     state_of (TaskWorkflowStore_WithdrawReadiness ids n v reason operation now d)"
| "workflow_apply (WClaim ids n v claimedBy operation kind session now) d =
     state_of (TaskWorkflowStore_Claim ids n v claimedBy operation kind session now d)"
| "workflow_apply (WExpireDueClaim ids n operation now) d =
     state_of (TaskWorkflowStore_ExpireDueClaim ids n operation now d)"
| "workflow_apply (WReleaseClaim ids n claimID v cv handoff actor operation now) d =
     state_of (TaskWorkflowStore_ReleaseClaim ids n claimID v cv handoff actor operation now d)"
| "workflow_apply (WRecordWorkSubmission ids n claimID v cv summary actor operation now) d =
     state_of (TaskWorkflowStore_RecordWorkSubmission ids n claimID v cv summary actor operation
       now d)"
| "workflow_apply (WCompleteExecution ids n claimID v cv summary changes actor operation now) d =
     state_of (TaskWorkflowStore_CompleteExecutionWithDelivery ids n claimID v cv summary changes
       actor operation now d)"
| "workflow_apply (WRequestChanges ids n claimID v cv reason actor operation now) d =
     state_of (TaskWorkflowStore_RequestChanges ids n claimID v cv reason actor operation now d)"
| "workflow_apply (WRequestResolution ids n claimID v cv issueType request actor operation now) d =
     state_of (TaskWorkflowStore_RequestResolution ids n claimID v cv issueType request actor
       operation now d)"
| "workflow_apply (WResolveIssue ids n v issueID tv resolution actor operation now) d =
     state_of (TaskWorkflowStore_ResolveIssue ids n v issueID tv resolution actor operation now d)"
| "workflow_apply (WRecordAcceptanceCheck ids n claimID v cv check actor operation now) d =
     state_of (TaskWorkflowStore_RecordAcceptanceCheck ids n claimID v cv check actor operation
       now d)"
| "workflow_apply (WAcceptTask ids n claimID v cv summary actor operation now) d =
     state_of (TaskWorkflowStore_AcceptTask ids n claimID v cv summary actor operation now d)"
| "workflow_apply (WCancelTask ids n v reason actor operation now) d =
     state_of (TaskWorkflowStore_CancelTask ids n v reason actor operation now d)"

text \<open>The number of the Task a command names and the version it expects.\<close>

fun command_number :: "workflow_command \<Rightarrow> int" where
  "command_number (WMarkReady ids n v operation now) = n"
| "command_number (WWithdrawReadiness ids n v reason operation now) = n"
| "command_number (WClaim ids n v claimedBy operation kind session now) = n"
| "command_number (WExpireDueClaim ids n operation now) = n"
| "command_number (WReleaseClaim ids n claimID v cv handoff actor operation now) = n"
| "command_number (WRecordWorkSubmission ids n claimID v cv summary actor operation now) = n"
| "command_number (WCompleteExecution ids n claimID v cv summary changes actor operation now) = n"
| "command_number (WRequestChanges ids n claimID v cv reason actor operation now) = n"
| "command_number (WRequestResolution ids n claimID v cv issueType request actor operation now) = n"
| "command_number (WResolveIssue ids n v issueID tv resolution actor operation now) = n"
| "command_number (WRecordAcceptanceCheck ids n claimID v cv check actor operation now) = n"
| "command_number (WAcceptTask ids n claimID v cv summary actor operation now) = n"
| "command_number (WCancelTask ids n v reason actor operation now) = n"

fun command_version :: "workflow_command \<Rightarrow> int option" where
  "command_version (WMarkReady ids n v operation now) = Some v"
| "command_version (WWithdrawReadiness ids n v reason operation now) = Some v"
| "command_version (WClaim ids n v claimedBy operation kind session now) = Some v"
| "command_version (WExpireDueClaim ids n operation now) = None"
| "command_version (WReleaseClaim ids n claimID v cv handoff actor operation now) = Some v"
| "command_version (WRecordWorkSubmission ids n claimID v cv summary actor operation now) = Some v"
| "command_version (WCompleteExecution ids n claimID v cv summary changes actor operation now) =
     Some v"
| "command_version (WRequestChanges ids n claimID v cv reason actor operation now) = Some v"
| "command_version (WRequestResolution ids n claimID v cv issueType request actor operation now) =
     Some v"
| "command_version (WResolveIssue ids n v issueID tv resolution actor operation now) = Some v"
| "command_version (WRecordAcceptanceCheck ids n claimID v cv check actor operation now) = Some v"
| "command_version (WAcceptTask ids n claimID v cv summary actor operation now) = Some v"
| "command_version (WCancelTask ids n v reason actor operation now) = Some v"

lemma workflow_apply_wf: "workflow_apply c d = Inr d' \<Longrightarrow> wf_db d \<Longrightarrow> wf_db d'"
  by (cases c)
    (auto dest: MarkReady_wf WithdrawReadiness_wf Claim_wf ExpireDueClaim_wf ReleaseClaim_wf
      RecordWorkSubmission_wf CompleteExecutionWithDelivery_wf RequestChanges_wf
      RequestResolution_wf ResolveIssue_wf RecordAcceptanceCheck_wf AcceptTask_wf CancelTask_wf)

section \<open>What the statements leave alone\<close>

text \<open>Every table that no statement of the workflow writes.\<close>

definition rest :: "db \<Rightarrow> db" where
  "rest d = d\<lparr>tasks := [], threads := [], items := [], claims := [], checks := [], audits := []\<rparr>"

lemma rest_updates [simp]:
  "rest (d\<lparr>tasks := a\<rparr>) = rest d" "rest (d\<lparr>threads := b\<rparr>) = rest d"
  "rest (d\<lparr>items := i\<rparr>) = rest d" "rest (d\<lparr>claims := c\<rparr>) = rest d"
  "rest (d\<lparr>checks := k\<rparr>) = rest d" "rest (d\<lparr>audits := e\<rparr>) = rest d"
  by (simp_all add: rest_def)

lemma rest_fields:
  assumes "rest d' = rest d"
  shows "dependencies d' = dependencies d" "criteria d' = criteria d" "users d' = users d"
    "projects d' = projects d" "milestones d' = milestones d" "labels d' = labels d"
    "task_labels d' = task_labels d" "activity d' = activity d" "api_tokens d' = api_tokens d"
    "agent_runs d' = agent_runs d" "code_changes d' = code_changes d"
    "legacy_claims d' = legacy_claims d" "mentions d' = mentions d"
  using assms [THEN arg_cong, of dependencies] assms [THEN arg_cong, of criteria]
    assms [THEN arg_cong, of users] assms [THEN arg_cong, of projects]
    assms [THEN arg_cong, of milestones] assms [THEN arg_cong, of labels]
    assms [THEN arg_cong, of task_labels] assms [THEN arg_cong, of activity]
    assms [THEN arg_cong, of api_tokens] assms [THEN arg_cong, of agent_runs]
    assms [THEN arg_cong, of code_changes] assms [THEN arg_cong, of legacy_claims]
    assms [THEN arg_cong, of mentions]
  by (simp_all add: rest_def)

definition core :: "db \<Rightarrow> task_row list \<times> db" where
  "core d = (tasks d, rest d)"

lemma core_eq: "core d' = core d \<longleftrightarrow> tasks d' = tasks d \<and> rest d' = rest d"
  by (simp add: core_def)

named_theorems core_frames \<open>statements that leave Task rows and the rest of the database alone\<close>

lemma updateTaskStageClaim_core [core_frames]:
  "updateTaskStageClaim c v d = Inr d' \<Longrightarrow> core d' = core d"
  by (auto simp: updateTaskStageClaim_def update_claim_rows_def core_def Let_def result_simps
      split: if_splits)

lemma insertTaskStageClaim_core [core_frames]:
  "insertTaskStageClaim c d = Inr d' \<Longrightarrow> core d' = core d"
  by (auto simp: insertTaskStageClaim_def insert_claim_row_def core_def result_simps
      split: if_splits)

lemma insertTaskThreadItem_core: "insertTaskThreadItem i q d = Inr d' \<Longrightarrow> core d' = core d"
  by (drule insertTaskThreadItem_effect(1)) (simp add: core_def)

lemma insertWorkflowItem_core [core_frames]:
  "insertWorkflowItem newID t k a b p q now d = Inr d' \<Longrightarrow> core d' = core d"
  by (auto simp: insertWorkflowItem_def dest: insertTaskThreadItem_core)

lemma insertDeliveryWorkflowItem_core [core_frames]:
  "insertDeliveryWorkflowItem newID t k a b c y p q now d = Inr (d', it) \<Longrightarrow> core d' = core d"
  by (auto simp: insertDeliveryWorkflowItem_def Let_def result_simps dest: insertTaskThreadItem_core)

lemma insertIssueThread_core [core_frames]:
  "insertIssueThread t d = Inr d' \<Longrightarrow> core d' = core d"
  by (auto simp: insertIssueThread_def insert_thread_row_def core_def result_simps
      split: if_splits)

lemma persistResolvedIssue_core [core_frames]:
  "persistResolvedIssue t v d = Inr d' \<Longrightarrow> core d' = core d"
  by (auto simp: persistResolvedIssue_def update_thread_rows_def core_def Let_def result_simps
      split: if_splits option.splits)

lemma insertWorkflowAudit_core [core_frames]:
  "insertWorkflowAudit newID task operation action now d = Inr d' \<Longrightarrow> core d' = core d"
  unfolding insertWorkflowAudit_def by (drule InsertBusinessAudit_effect) (auto simp: core_def)

lemma insert_check_row_core [core_frames]: "insert_check_row k d = Inr d' \<Longrightarrow> core d' = core d"
  by (auto simp: insert_check_row_def core_def split: if_splits)

lemma resolve_issue_thread_core [core_frames]:
  "resolve_issue_thread a b task issue req res actor operation now d = Inr (d', t) \<Longrightarrow>
   core d' = core d"
  by (auto simp: resolve_issue_thread_def result_simps dest!: core_frames)

lemma cancel_claim_core [core_frames]: "cancel_claim task now d = Inr (d', c) \<Longrightarrow> core d' = core d"
  by (auto simp: cancel_claim_def result_simps split: if_splits dest!: core_frames)

lemma cancel_issue_core [core_frames]:
  "cancel_issue a b task reason actor operation now d = Inr (d', task', t) \<Longrightarrow>
   core d' = core d"
  by (auto simp: cancel_issue_def result_simps split: if_splits option.splits dest!: core_frames)

lemma cancel_issue_task:
  "cancel_issue a b task reason actor operation now d = Inr (d', task', t) \<Longrightarrow>
   \<exists>issue. task' = task\<lparr>ws_active_issue := issue\<rparr>"
  by (auto simp: cancel_issue_def result_simps split: if_splits option.splits
      intro: exI [of _ "ws_active_issue task"])

section \<open>The store refines the lifecycle\<close>

text \<open>
  What the store writes for a run \<open>cs\<close> of lifecycle commands: the one row of the Task gets the
  lifecycle the run ends in, its next version and the time of the command.
\<close>

definition moves ::
  "lifecycle_command list \<Rightarrow> workflowTask \<Rightarrow> time \<Rightarrow> db \<Rightarrow> db \<Rightarrow> bool" where
  "moves cs task now d d' \<longleftrightarrow>
     (\<exists>task1. ws_task_id task1 = ws_task_id task \<and>
        lifecycle_run cs (ws_lifecycle task) = Inr (ws_lifecycle task1) \<and>
        tasks d' = update_where (\<lambda>r. t_id r = ws_task_id task)
          (persisted task1 (ws_version task) now) (tasks d)) \<and>
     rest d' = rest d"

lemma movesI:
  assumes "distinct (map t_id (tasks d))" and "core d1 = core d"
    and "persistWorkflowTask task1 (ws_version task) now d1 = Inr (d2, task2)"
    and "core d' = core d2"
    and "ws_task_id task1 = ws_task_id task"
    and "lifecycle_run cs (ws_lifecycle task) = Inr (ws_lifecycle task1)"
  shows "moves cs task now d d'"
proof -
  have t: "tasks d1 = tasks d" "rest d1 = rest d" using assms(2) by (simp_all add: core_eq)
  have d2: "d2 = d1\<lparr>tasks := update_where (\<lambda>r. t_id r = ws_task_id task1)
      (persisted task1 (ws_version task) now) (tasks d1)\<rparr>"
    using persistWorkflowTask_rows(3) [OF _ assms(3)] assms(1) t(1) by simp
  have "tasks d' = tasks d2" "rest d' = rest d2" using assms(4) by (simp_all add: core_eq)
  with d2 t assms(5,6) show ?thesis unfolding moves_def by auto
qed

text \<open>The lifecycle commands each workflow command stands for.\<close>

fun lifecycle_commands ::
  "workflow_command \<Rightarrow> workflowTask \<Rightarrow> db \<Rightarrow> lifecycle_command list set" where
  "lifecycle_commands (WMarkReady ids n v operation now) task d =
     {[MarkReady (ws_archived_at task \<noteq> None)
        (has_unfinished_dependencies (ws_task_id task) d)]}"
| "lifecycle_commands (WWithdrawReadiness ids n v reason operation now) task d =
     {[WithdrawReadiness]}"
| "lifecycle_commands (WClaim ids n v claimedBy operation kind session now) task d =
     {[Claim (ws_archived_at task \<noteq> None)]} \<union>
     {[Release stage, Claim (ws_archived_at task \<noteq> None)] | stage. True}"
| "lifecycle_commands (WExpireDueClaim ids n operation now) task d = {[Release stage] | stage. True}"
| "lifecycle_commands (WReleaseClaim ids n claimID v cv handoff actor operation now) task d =
     {[Release stage] | stage. True}"
| "lifecycle_commands (WRecordWorkSubmission ids n claimID v cv summary actor operation now) task
     d = {}"
| "lifecycle_commands (WCompleteExecution ids n claimID v cv summary changes actor operation now)
     task d = {[CompleteExecution]}"
| "lifecycle_commands (WRequestChanges ids n claimID v cv reason actor operation now) task d =
     {[RequestChanges]}"
| "lifecycle_commands (WRequestResolution ids n claimID v cv issueType request actor operation
     now) task d = {[RequestResolution stage] | stage. True}"
| "lifecycle_commands (WResolveIssue ids n v issueID tv resolution actor operation now) task d =
     {[ResolveIssue]}"
| "lifecycle_commands (WRecordAcceptanceCheck ids n claimID v cv check actor operation now) task d =
     {}"
| "lifecycle_commands (WAcceptTask ids n claimID v cv summary actor operation now) task d =
     {[Accept (taskCompletionReadinessForCycle (ws_task_id task)
        (lc_review_cycle (ws_lifecycle task)) d)]}"
| "lifecycle_commands (WCancelTask ids n v reason actor operation now) task d = {[Cancel]}"

text \<open>The commands that may succeed without a change of the Task row.\<close>

fun may_keep_task :: "workflow_command \<Rightarrow> bool" where
  "may_keep_task (WExpireDueClaim ids n operation now) = True"
| "may_keep_task (WRecordWorkSubmission ids n claimID v cv summary actor operation now) = True"
| "may_keep_task (WRecordAcceptanceCheck ids n claimID v cv check actor operation now) = True"
| "may_keep_task c = False"

fun command_time :: "workflow_command \<Rightarrow> time" where
  "command_time (WMarkReady ids n v operation now) = now"
| "command_time (WWithdrawReadiness ids n v reason operation now) = now"
| "command_time (WClaim ids n v claimedBy operation kind session now) = now"
| "command_time (WExpireDueClaim ids n operation now) = now"
| "command_time (WReleaseClaim ids n claimID v cv handoff actor operation now) = now"
| "command_time (WRecordWorkSubmission ids n claimID v cv summary actor operation now) = now"
| "command_time (WCompleteExecution ids n claimID v cv summary changes actor operation now) = now"
| "command_time (WRequestChanges ids n claimID v cv reason actor operation now) = now"
| "command_time (WRequestResolution ids n claimID v cv issueType request actor operation now) =
     now"
| "command_time (WResolveIssue ids n v issueID tv resolution actor operation now) = now"
| "command_time (WRecordAcceptanceCheck ids n claimID v cv check actor operation now) = now"
| "command_time (WAcceptTask ids n claimID v cv summary actor operation now) = now"
| "command_time (WCancelTask ids n v reason actor operation now) = now"

definition refines :: "workflow_command \<Rightarrow> workflowTask \<Rightarrow> db \<Rightarrow> db \<Rightarrow> bool" where
  "refines c task d d' \<longleftrightarrow>
     lockWorkflowTask (command_number c) d = Inr task \<and>
     command_version c \<in> {None, Some (ws_version task)} \<and>
     (may_keep_task c \<and> core d' = core d \<or>
      (\<exists>cs \<in> lifecycle_commands c task d. moves cs task (command_time c) d d'))"

lemma check_version_Inr [simp]: "check_version task v = Inr u \<longleftrightarrow> ws_version task = v"
  by (simp add: check_version_def)

lemma simpleLifecycleCommand_moves:
  assumes keys: "distinct (map t_id (tasks d))"
    and run: "simpleLifecycleCommand ids n v operation now action body mutate d = Inr (d', out)"
  obtains task l where "lockWorkflowTask n d = Inr task" and "ws_version task = v"
    and "mutate task d = Inr l"
    and "\<And>cs. lifecycle_run cs (ws_lifecycle task) = Inr l \<Longrightarrow> moves cs task now d d'"
proof -
  obtain task l d1 task1 d2 where lock: "lockWorkflowTask n d = Inr task" "ws_version task = v"
    and mut: "mutate task d = Inr l"
    and persist: "persistWorkflowTask (task\<lparr>ws_lifecycle := l\<rparr>) v now d = Inr (d1, task1)"
    and item: "insertWorkflowItem (ids 0) (ws_main_thread_id task1) ThreadItemKindSystemEvent
      workflowSystemActor body None (op_request_id operation) now d1 = Inr d2"
    and audit: "insertWorkflowAudit (ids 1) task1 operation action now d2 = Inr d'"
    using run by (auto simp: simpleLifecycleCommand_def result_simps split: prod.splits)
  have "core d' = core d1" using item audit by (auto dest!: core_frames)
  with lock persist have "lifecycle_run cs (ws_lifecycle task) = Inr l \<Longrightarrow> moves cs task now d d'"
    for cs by (auto intro!: movesI [OF keys])
  with that lock mut show thesis by blast
qed

lemma finishClaim_moves:
  assumes keys: "distinct (map t_id (tasks d))"
    and run: "finishClaim ids n claimID v cv outcome itemKind body actor operation now mutate d =
    Inr (d', out)"
  obtains task claim l where "lockWorkflowTask n d = Inr task" and "ws_version task = v"
    and "mutate (ws_lifecycle task) claim = Inr l"
    and "\<And>cs. lifecycle_run cs (ws_lifecycle task) = Inr l \<Longrightarrow> moves cs task now d d'"
proof -
  obtain task claim l claim1 d1 d2 task1 d3
    where lock: "lockWorkflowTask n d = Inr task" "ws_version task = v"
    and mut: "mutate (ws_lifecycle task) claim = Inr l"
    and update: "updateTaskStageClaim claim1 (claim_version claim) d = Inr d1"
    and persist: "persistWorkflowTask (task\<lparr>ws_lifecycle := l\<rparr>) v now d1 = Inr (d2, task1)"
    and item: "insertWorkflowItem (ids 0) (ws_main_thread_id task1) itemKind actor body None
      (op_request_id operation) now d2 = Inr d3"
    and audit: "insertWorkflowAudit (ids 1) task1 operation (TaskClaimOutcome_string outcome) now
      d3 = Inr d'"
    using run by (auto simp: finishClaim_def lockOwnedWorkflowClaim_Inr result_simps
      split: prod.splits)
  have "core d' = core d2" using item audit by (auto dest!: core_frames)
  with lock persist updateTaskStageClaim_core [OF update]
  have "lifecycle_run cs (ws_lifecycle task) = Inr l \<Longrightarrow> moves cs task now d d'" for cs
    by (auto intro!: movesI [OF keys])
  with that lock mut show thesis by blast
qed

lemma CompleteExecution_moves:
  assumes keys: "distinct (map t_id (tasks d))"
    and run: "TaskWorkflowStore_CompleteExecutionWithDelivery ids n claimID v cv summary codeChanges
      actor operation now d = Inr (d', out)"
  obtains task where "lockWorkflowTask n d = Inr task" and "ws_version task = v"
    and "moves [CompleteExecution] task now d d'"
proof -
  obtain task l claim1 cv1 d1 d2 task1 d3 payload item
    where lock: "lockWorkflowTask n d = Inr task" "ws_version task = v"
    and mut: "TaskLifecycle_CompleteExecution (ws_lifecycle task) = Inr l"
    and update: "updateTaskStageClaim claim1 cv1 d = Inr d1"
    and persist: "persistWorkflowTask (task\<lparr>ws_lifecycle := l\<rparr>) v now d1 = Inr (d2, task1)"
    and item: "insertDeliveryWorkflowItem (ids 0) (ws_main_thread_id task1)
      ThreadItemKindExecutionCompleted actor summary (claim_id claim1) (lc_review_cycle l)
      (Some payload) (op_request_id operation) now d2 = Inr (d3, item)"
    and audit: "insertWorkflowAudit (ids 1) task1 operation ''execution_completed'' now d3 = Inr d'"
    using run
    by (auto simp: TaskWorkflowStore_CompleteExecutionWithDelivery_def lockOwnedWorkflowClaim_Inr
        result_simps split: prod.splits if_splits)
  have "core d' = core d2" using item audit by (auto dest!: core_frames)
  with lock persist updateTaskStageClaim_core [OF update] mut
  have "moves [CompleteExecution] task now d d'" by (auto intro!: movesI [OF keys])
  with that lock show thesis by blast
qed

lemma AcceptTask_moves:
  assumes keys: "distinct (map t_id (tasks d))"
    and run: "TaskWorkflowStore_AcceptTask ids n claimID v cv summary actor operation now d =
      Inr (d', out)"
  obtains task where "lockWorkflowTask n d = Inr task" and "ws_version task = v"
    and "moves [Accept (taskCompletionReadinessForCycle (ws_task_id task)
      (lc_review_cycle (ws_lifecycle task)) d)] task now d d'"
proof -
  obtain task l claim1 cv1 d1 d2 task1 d3
    where lock: "lockWorkflowTask n d = Inr task" "ws_version task = v"
    and mut: "TaskLifecycle_Accept (taskCompletionReadinessForCycle (ws_task_id task)
      (lc_review_cycle (ws_lifecycle task)) d) (ws_lifecycle task) = Inr l"
    and update: "updateTaskStageClaim claim1 cv1 d = Inr d1"
    and persist: "persistWorkflowTask (task\<lparr>ws_lifecycle := l\<rparr>) v now d1 = Inr (d2, task1)"
    and item: "insertWorkflowItem (ids 0) (ws_main_thread_id task1) ThreadItemKindReviewOutcome
      actor summary None (op_request_id operation) now d2 = Inr d3"
    and audit: "insertWorkflowAudit (ids 1) task1 operation ''task_accepted'' now d3 = Inr d'"
    using run
    by (auto simp: TaskWorkflowStore_AcceptTask_def lockOwnedWorkflowClaim_Inr result_simps
        split: prod.splits if_splits)
  have "core d' = core d2" using item audit by (auto dest!: core_frames)
  with lock persist updateTaskStageClaim_core [OF update] mut
  have "moves [Accept (taskCompletionReadinessForCycle (ws_task_id task)
      (lc_review_cycle (ws_lifecycle task)) d)] task now d d'"
    by (auto intro!: movesI [OF keys])
  with that lock show thesis by blast
qed

lemma RequestResolution_moves:
  assumes keys: "distinct (map t_id (tasks d))"
    and run: "TaskWorkflowStore_RequestResolution ids n claimID v cv issueType request actor
      operation now d = Inr (d', out)"
  obtains task stage where "lockWorkflowTask n d = Inr task" and "ws_version task = v"
    and "moves [RequestResolution stage] task now d d'"
proof -
  obtain task issue l d1 d2 claim1 d3 d4 task1 d5 and claim :: TaskStageClaim
    where lock: "lockWorkflowTask n d = Inr task" "ws_version task = v"
    and mut: "TaskLifecycle_RequestResolution (claim_stage claim) (ws_lifecycle task) = Inr l"
    and thread: "insertIssueThread issue d = Inr d1"
    and req: "insertWorkflowItem (ids 1) (thread_id issue) ThreadItemKindResolutionRequest actor
      request None (op_request_id operation) now d1 = Inr d2"
    and update: "updateTaskStageClaim claim1 (claim_version claim) d2 = Inr d3"
    and persist: "persistWorkflowTask
      (task\<lparr>ws_lifecycle := l, ws_active_issue := Some (thread_id issue)\<rparr>) v now d3 = Inr (d4, task1)"
    and item: "insertWorkflowItem (ids 2) (ws_main_thread_id task1) ThreadItemKindSystemEvent
      workflowSystemActor
      (''Resolution requested in '' @ IssueThreadType_string issueType @ '' Issue Thread'')
      None (op_request_id operation) now d4 = Inr d5"
    and audit: "insertWorkflowAudit (ids 3) task1 operation ''resolution_requested'' now d5 = Inr d'"
    using run
    by (simp add: TaskWorkflowStore_RequestResolution_def lockOwnedWorkflowClaim_Inr result_simps
        split: prod.splits if_splits) blast
  have "core d3 = core d" using thread req update by (auto dest!: core_frames)
  moreover have "core d' = core d4" using item audit by (auto dest!: core_frames)
  ultimately have "moves [RequestResolution (claim_stage claim)] task now d d'"
    using lock persist mut by (auto intro!: movesI [OF keys])
  with that lock show thesis by blast
qed

lemma ResolveIssue_moves:
  assumes keys: "distinct (map t_id (tasks d))"
    and run: "TaskWorkflowStore_ResolveIssue ids n v issueID tv resolution actor operation now d =
      Inr (d', out)"
  obtains task where "lockWorkflowTask n d = Inr task" and "ws_version task = v"
    and "moves [ResolveIssue] task now d d'"
proof -
  obtain task issue requestItem l d1 issue1 d2 task1
    where lock: "lockWorkflowTask n d = Inr task" "ws_version task = v"
    and resolve: "resolve_issue_thread (ids 0) (ids 1) task issue requestItem resolution actor
      operation now d = Inr (d1, issue1)"
    and mut: "TaskLifecycle_ResolveIssue (ws_lifecycle task) = Inr l"
    and persist: "persistWorkflowTask (task\<lparr>ws_lifecycle := l, ws_active_issue := None\<rparr>) v now
      d1 = Inr (d2, task1)"
    and audit: "insertWorkflowAudit (ids 2) task1 operation ''issue_resolved'' now d2 = Inr d'"
    using run
    by (auto simp: TaskWorkflowStore_ResolveIssue_def result_simps split: prod.splits if_splits)
  have "core d1 = core d" using resolve by (auto dest!: core_frames)
  moreover have "core d' = core d2" using audit by (auto dest!: core_frames)
  ultimately have "moves [ResolveIssue] task now d d'"
    using lock persist mut by (auto intro!: movesI [OF keys])
  with that lock show thesis by blast
qed

lemma CancelTask_moves:
  assumes keys: "distinct (map t_id (tasks d))"
    and run: "TaskWorkflowStore_CancelTask ids n v reason actor operation now d = Inr (d', out)"
  obtains task where "lockWorkflowTask n d = Inr task" and "ws_version task = v"
    and "moves [Cancel] task now d d'"
proof -
  obtain task d1 ended d2 task1 resolved l d3 task2 d4
    where lock: "lockWorkflowTask n d = Inr task" "ws_version task = v"
    and claim: "cancel_claim task now d = Inr (d1, ended)"
    and issue: "cancel_issue (ids 0) (ids 1) task reason actor operation now d1 =
      Inr (d2, task1, resolved)"
    and mut: "TaskLifecycle_Cancel (ws_lifecycle task1) = Inr l"
    and persist: "persistWorkflowTask (task1\<lparr>ws_lifecycle := l\<rparr>) v now d2 = Inr (d3, task2)"
    and item: "insertWorkflowItem (ids 2) (ws_main_thread_id task2) ThreadItemKindSystemEvent
      workflowSystemActor (''Task cancelled: '' @ reason) None (op_request_id operation) now d3 =
      Inr d4"
    and audit: "insertWorkflowAudit (ids 3) task2 operation ''task_cancelled'' now d4 = Inr d'"
    using run
    by (simp add: TaskWorkflowStore_CancelTask_def result_simps split: prod.splits if_splits) blast
  have "core d2 = core d" using claim issue by (auto dest!: core_frames)
  moreover have "core d' = core d3" using item audit by (auto dest!: core_frames)
  moreover have "ws_task_id task1 = ws_task_id task" "ws_lifecycle task1 = ws_lifecycle task"
    using cancel_issue_task [OF issue] by auto
  ultimately have "moves [Cancel] task now d d'"
    using lock persist mut by (auto intro!: movesI [OF keys])
  with that lock show thesis by blast
qed

lemma expireDueWorkflowClaim_moves:
  assumes "expireDueWorkflowClaim newID task operation now d = Inr (d1, task1)"
  shows "core d1 = core d \<and> ws_task_id task1 = ws_task_id task \<and>
    ws_archived_at task1 = ws_archived_at task \<and>
    (task1 = task \<or> (\<exists>stage. TaskLifecycle_Release stage (ws_lifecycle task) = Inr (ws_lifecycle task1)))"
  using assms
  by (cases rule: expireDueWorkflowClaim_cases) (auto dest!: core_frames)

lemma Claim_moves:
  assumes keys: "distinct (map t_id (tasks d))"
    and run: "TaskWorkflowStore_Claim ids n v claimedBy operation kind session now d = Inr (d', out)"
  obtains task cs where "lockWorkflowTask n d = Inr task" and "ws_version task = v"
    and "moves (cs @ [Claim (ws_archived_at task \<noteq> None)]) task now d d'"
    and "cs = [] \<or> (\<exists>stage. cs = [Release stage])"
proof -
  obtain task d1 task1 l stage claim d2 d3 task2 d4 body
    where lock: "lockWorkflowTask n d = Inr task" "ws_version task = v"
    and expire: "expireDueWorkflowClaim (ids 0) task operation now d = Inr (d1, task1)"
    and mut: "TaskLifecycle_Claim (ws_archived_at task1 \<noteq> None) (ws_lifecycle task1) = Inr (l, stage)"
    and insert: "insertTaskStageClaim claim d1 = Inr d2"
    and persist: "persistWorkflowTask (task1\<lparr>ws_lifecycle := l\<rparr>) v now d2 = Inr (d3, task2)"
    and item: "insertWorkflowItem (ids 2) (ws_main_thread_id task2) ThreadItemKindSystemEvent
      workflowSystemActor body None (op_request_id operation) now d3 = Inr d4"
    and audit: "insertWorkflowAudit (ids 3) task2 operation ''claimed'' now d4 = Inr d'"
    using run by (auto simp: TaskWorkflowStore_Claim_def result_simps split: prod.splits)
  note ex = expireDueWorkflowClaim_moves [OF expire]
  have c: "core d2 = core d" using insert ex by (auto dest!: core_frames)
  have c': "core d' = core d3" using item audit by (auto dest!: core_frames)
  obtain cs where cs: "lifecycle_run cs (ws_lifecycle task) = Inr (ws_lifecycle task1)"
    "cs = [] \<or> (\<exists>stage. cs = [Release stage])"
  proof (cases "task1 = task")
    case True
    then show thesis by (intro that [of "[]"]) auto
  next
    case False
    then obtain s where "TaskLifecycle_Release s (ws_lifecycle task) = Inr (ws_lifecycle task1)"
      using ex by blast
    then show thesis by (intro that [of "[Release s]"]) auto
  qed
  have "lifecycle_run (cs @ [Claim (ws_archived_at task \<noteq> None)]) (ws_lifecycle task) = Inr l"
    using mut ex by (simp add: lifecycle_run_append cs(1))
  with ex have "moves (cs @ [Claim (ws_archived_at task \<noteq> None)]) task now d d'"
    by (intro movesI [OF keys c persist [folded lock(2)] c']) auto
  with that lock cs show thesis by blast
qed

lemma ExpireDueClaim_moves:
  assumes keys: "distinct (map t_id (tasks d))"
    and run: "TaskWorkflowStore_ExpireDueClaim ids n operation now d = Inr (d', out)"
  obtains task where "lockWorkflowTask n d = Inr task"
    and "\<not> out \<and> d' = d \<or> out \<and> (\<exists>stage. moves [Release stage] task now d d')"
proof (cases out)
  case False
  with run that show thesis
    by (auto simp: TaskWorkflowStore_ExpireDueClaim_def result_simps split: if_splits prod.splits)
next
  case True
  with run obtain task d1 task1 d2 task2 where lock: "lockWorkflowTask n d = Inr task"
    and expire: "expireDueWorkflowClaim (ids 0) task operation now d = Inr (d1, task1)"
    and changed: "lc_activity (ws_lifecycle task1) \<noteq> lc_activity (ws_lifecycle task)"
    and persist: "persistWorkflowTask task1 (ws_version task) now d1 = Inr (d2, task2)"
    and audit: "insertWorkflowAudit (ids 1) task2 operation ''claim_expired'' now d2 = Inr d'"
    by (auto simp: TaskWorkflowStore_ExpireDueClaim_def result_simps split: if_splits prod.splits)
  note ex = expireDueWorkflowClaim_moves [OF expire]
  with changed obtain s where
    "TaskLifecycle_Release s (ws_lifecycle task) = Inr (ws_lifecycle task1)" by auto
  with ex persist insertWorkflowAudit_core [OF audit] have "moves [Release s] task now d d'"
    by (intro movesI [OF keys _ persist]) (auto simp: result_simps)
  with that lock True show thesis by blast
qed

lemma RecordWorkSubmission_keeps:
  assumes "TaskWorkflowStore_RecordWorkSubmission ids n claimID v cv summary actor operation now d =
    Inr (d', out)"
  shows "\<exists>task. lockWorkflowTask n d = Inr task \<and> ws_version task = v \<and> core d' = core d"
  using assms
  by (auto simp: TaskWorkflowStore_RecordWorkSubmission_def lockOwnedWorkflowClaim_Inr result_simps
      split: if_splits prod.splits dest!: core_frames)

lemma RecordAcceptanceCheck_keeps:
  assumes "TaskWorkflowStore_RecordAcceptanceCheck ids n claimID v cv check actor operation now d =
    Inr (d', out)"
  shows "\<exists>task. lockWorkflowTask n d = Inr task \<and> ws_version task = v \<and> core d' = core d"
  using assms
  by (auto simp: TaskWorkflowStore_RecordAcceptanceCheck_def Let_def result_simps
      split: if_splits prod.splits dest!: core_frames)

lemma workflow_apply_refines:
  assumes keys: "distinct (map t_id (tasks d))" and run: "workflow_apply c d = Inr d'"
  shows "\<exists>task. refines c task d d'"
proof (cases c)
  case (WMarkReady ids n v operation now)
  with run obtain out where "simpleLifecycleCommand ids n v operation now ''marked_ready''
      ''Task marked ready'' (\<lambda>task d. TaskLifecycle_MarkReady (ws_archived_at task \<noteq> None)
        (has_unfinished_dependencies (ws_task_id task) d) (ws_lifecycle task)) d = Inr (d', out)"
    by (auto simp: TaskWorkflowStore_MarkReady_def result_simps)
  with WMarkReady show ?thesis
    by (elim simpleLifecycleCommand_moves [OF keys]) (auto simp: refines_def)
next
  case (WWithdrawReadiness ids n v reason operation now)
  with run obtain out where "simpleLifecycleCommand ids n v operation now ''readiness_withdrawn''
      (''Readiness withdrawn: '' @ reason)
      (\<lambda>task d. TaskLifecycle_WithdrawReadiness (ws_lifecycle task)) d = Inr (d', out)"
    by (auto simp: TaskWorkflowStore_WithdrawReadiness_def split: if_splits)
  with WWithdrawReadiness show ?thesis
    by (elim simpleLifecycleCommand_moves [OF keys]) (auto simp: refines_def)
next
  case (WReleaseClaim ids n claimID v cv handoff actor operation now)
  with run obtain out where "finishClaim ids n claimID v cv TaskClaimOutcomeVoluntarilyReleased
      ThreadItemKindHandoff handoff actor operation now
      (\<lambda>lifecycle claim. TaskLifecycle_Release (claim_stage claim) lifecycle) d = Inr (d', out)"
    by (auto simp: TaskWorkflowStore_ReleaseClaim_def split: if_splits)
  then obtain task l and claim :: TaskStageClaim
    where t: "lockWorkflowTask n d = Inr task" "ws_version task = v"
    and mut: "TaskLifecycle_Release (claim_stage claim) (ws_lifecycle task) = Inr l"
    and mv: "\<And>cs. lifecycle_run cs (ws_lifecycle task) = Inr l \<Longrightarrow> moves cs task now d d'"
    by (rule finishClaim_moves [OF keys]) blast
  from mut have "moves [Release (claim_stage claim)] task now d d'" by (intro mv) simp
  with t WReleaseClaim show ?thesis by (auto simp: refines_def)
next
  case (WRequestChanges ids n claimID v cv reason actor operation now)
  with run obtain out where "finishClaim ids n claimID v cv TaskClaimOutcomeChangesRequested
      ThreadItemKindReviewOutcome reason actor operation now
      (\<lambda>lifecycle claim. TaskLifecycle_RequestChanges lifecycle) d = Inr (d', out)"
    by (auto simp: TaskWorkflowStore_RequestChanges_def split: if_splits)
  with WRequestChanges show ?thesis
    by (elim finishClaim_moves [OF keys]) (auto simp: refines_def)
next
  case (WClaim ids n v claimedBy operation kind session now)
  with run obtain out where
    "TaskWorkflowStore_Claim ids n v claimedBy operation kind session now d = Inr (d', out)"
    by auto
  with WClaim show ?thesis by (elim Claim_moves [OF keys]) (fastforce simp: refines_def)
next
  case (WExpireDueClaim ids n operation now)
  with run obtain out where "TaskWorkflowStore_ExpireDueClaim ids n operation now d = Inr (d', out)"
    by auto
  with WExpireDueClaim show ?thesis
    by (elim ExpireDueClaim_moves [OF keys]) (fastforce simp: refines_def)
next
  case (WRecordWorkSubmission ids n claimID v cv summary actor operation now)
  with run show ?thesis by (auto simp: refines_def dest!: RecordWorkSubmission_keeps)
next
  case (WRecordAcceptanceCheck ids n claimID v cv check actor operation now)
  with run show ?thesis by (auto simp: refines_def dest!: RecordAcceptanceCheck_keeps)
next
  case (WCompleteExecution ids n claimID v cv summary changes actor operation now)
  with run show ?thesis
    by (auto simp: refines_def elim!: CompleteExecution_moves [OF keys])
next
  case (WRequestResolution ids n claimID v cv issueType request actor operation now)
  with run show ?thesis
    by (auto simp: refines_def elim!: RequestResolution_moves [OF keys])
next
  case (WResolveIssue ids n v issueID tv resolution actor operation now)
  with run show ?thesis by (auto simp: refines_def elim!: ResolveIssue_moves [OF keys])
next
  case (WAcceptTask ids n claimID v cv summary actor operation now)
  with run show ?thesis by (auto simp: refines_def elim!: AcceptTask_moves [OF keys])
next
  case (WCancelTask ids n v reason actor operation now)
  with run show ?thesis by (auto simp: refines_def elim!: CancelTask_moves [OF keys])
qed

end
