(* ===== verification/Task_Graph.thy ===== *)
theory Task_Graph
  imports Main
begin

text \<open>
  Dependency edges between Tasks as a list of pairs, and the recursive query
  (\<open>WITH RECURSIVE reachable\<close>) by which internal/store/task_store.go and the trigger
  \<open>validate_task_dependency\<close> of migration 0015 look for a cycle.  The query is shown to compute
  the transitive closure, and replacing the outgoing edges of one node by targets that do not
  reach it keeps the graph acyclic.
\<close>

section \<open>The recursive query\<close>

text \<open>The rows that one evaluation of the recursive term adds to the working set.\<close>

definition new_rows :: "('a \<times> 'a) list \<Rightarrow> 'a list \<Rightarrow> 'a list" where
  "new_rows edges rows =
     remdups (filter (\<lambda>x. x \<notin> set rows) (map snd (filter (\<lambda>e. fst e \<in> set rows) edges)))"

lemma set_new_rows:
  "set (new_rows edges rows) = {y. (\<exists>x \<in> set rows. (x, y) \<in> set edges) \<and> y \<notin> set rows}"
  by (force simp: new_rows_def)

lemma new_rows_Nil: "new_rows edges rows = [] \<longleftrightarrow> (\<forall>x \<in> set rows. \<forall>y. (x, y) \<in> set edges \<longrightarrow> y \<in> set rows)"
  using arg_cong [of "new_rows edges rows" "[]" set]
  by (auto simp: set_new_rows simp flip: set_empty)

function close_rows :: "('a \<times> 'a) list \<Rightarrow> 'a list \<Rightarrow> 'a list" where
  "close_rows edges rows =
     (let found = new_rows edges rows
      in if found = [] then rows else close_rows edges (rows @ found))"
  by pat_completeness auto
termination
proof (relation "measure (\<lambda>(edges, rows). card (snd ` set edges - set rows))", goal_cases)
  case (2 edges rows found)
  then obtain x where x: "x \<in> set found" by (meson list.set_sel(1))
  have "set found \<subseteq> snd ` set edges - set rows"
    using 2 by (force simp: set_new_rows)
  with x have "x \<in> snd ` set edges - set rows" "x \<notin> snd ` set edges - set (rows @ found)" by auto
  then have "snd ` set edges - set (rows @ found) \<subset> snd ` set edges - set rows" by auto
  then show ?case by (simp add: psubset_card_mono)
qed simp

declare close_rows.simps [simp del]

definition reachable :: "('a \<times> 'a) list \<Rightarrow> 'a \<Rightarrow> 'a list" where
  "reachable edges start =
     close_rows edges (remdups (map snd (filter (\<lambda>e. fst e = start) edges)))"

section \<open>The query computes the closure\<close>

lemma close_rows_closed:
  "x \<in> set (close_rows edges rows) \<Longrightarrow> (x, y) \<in> set edges \<Longrightarrow> y \<in> set (close_rows edges rows)"
proof (induction edges rows rule: close_rows.induct)
  case (1 edges rows)
  show ?case
  proof (cases "new_rows edges rows = []")
    case True
    with 1(2,3) show ?thesis by (auto simp: close_rows.simps [of edges rows] new_rows_Nil)
  next
    case False
    with 1 show ?thesis by (simp add: close_rows.simps [of edges rows])
  qed
qed

lemma close_rows_superset: "set rows \<subseteq> set (close_rows edges rows)"
proof (induction edges rows rule: close_rows.induct)
  case (1 edges rows)
  then show ?case
    by (cases "new_rows edges rows = []") (auto simp: close_rows.simps [of edges rows] Let_def)
qed

lemma close_rows_sound:
  "y \<in> set (close_rows edges rows) \<Longrightarrow> \<exists>x \<in> set rows. (x, y) \<in> (set edges)\<^sup>*"
proof (induction edges rows rule: close_rows.induct)
  case (1 edges rows)
  show ?case
  proof (cases "new_rows edges rows = []")
    case True
    with 1(2) show ?thesis by (auto simp: close_rows.simps [of edges rows])
  next
    case False
    with 1(2) have "y \<in> set (close_rows edges (rows @ new_rows edges rows))"
      by (simp add: close_rows.simps [of edges rows])
    then obtain x where x: "x \<in> set (rows @ new_rows edges rows)" "(x, y) \<in> (set edges)\<^sup>*"
      using 1(1) False by blast
    then show ?thesis by (auto simp: set_new_rows intro: converse_rtrancl_into_rtrancl)
  qed
qed

lemma set_close_rows: "set (close_rows edges rows) = {y. \<exists>x \<in> set rows. (x, y) \<in> (set edges)\<^sup>*}"
proof
  have "y \<in> set (close_rows edges rows)" if "(x, y) \<in> (set edges)\<^sup>*" "x \<in> set rows" for x y
    using that by (induction rule: rtrancl_induct) (use close_rows_superset close_rows_closed in fast)+
  then show "{y. \<exists>x \<in> set rows. (x, y) \<in> (set edges)\<^sup>*} \<subseteq> set (close_rows edges rows)" by blast
qed (use close_rows_sound in fast)

lemma set_reachable: "set (reachable edges start) = {y. (start, y) \<in> (set edges)\<^sup>+}"
proof -
  have "set (reachable edges start) = {y. \<exists>x. (start, x) \<in> set edges \<and> (x, y) \<in> (set edges)\<^sup>*}"
    by (force simp: reachable_def set_close_rows)
  then show ?thesis by (auto dest: tranclD intro: rtrancl_into_trancl2)
qed

section \<open>Replacing the edges of one node\<close>

text \<open>Deleting the edges of a node and inserting new ones.\<close>

definition replace_out :: "'a \<Rightarrow> 'a list \<Rightarrow> ('a \<times> 'a) list \<Rightarrow> ('a \<times> 'a) list" where
  "replace_out t targets edges = filter (\<lambda>e. fst e \<noteq> t) edges @ map (Pair t) targets"

lemma set_replace_out:
  "set (replace_out t targets edges) = {e \<in> set edges. fst e \<noteq> t} \<union> {t} \<times> set targets"
  by (auto simp: replace_out_def)

text \<open>A path with the new edges either avoids them or ends after its last use of one.\<close>

lemma trancl_with_targets:
  assumes "(a, b) \<in> (E \<union> {t} \<times> D)\<^sup>+"
  shows "(a, b) \<in> E\<^sup>+ \<or> (a, t) \<in> E\<^sup>* \<and> (\<exists>d \<in> D. (d, b) \<in> E\<^sup>*)"
  using assms
proof (induction rule: trancl_induct)
  case (base y)
  then show ?case by auto
next
  case (step y z)
  then show ?case
    by (cases "(y, z) \<in> E") (auto intro: trancl_into_trancl rtrancl_into_rtrancl trancl_into_rtrancl)
qed

lemma acyclic_targets:
  assumes "acyclic E" and "\<And>d. d \<in> D \<Longrightarrow> d \<noteq> t \<and> (d, t) \<notin> E\<^sup>+"
  shows "acyclic (E \<union> {t} \<times> D)"
proof (unfold acyclic_def, intro allI notI)
  fix x assume "(x, x) \<in> (E \<union> {t} \<times> D)\<^sup>+"
  with assms(1) obtain d where "(x, t) \<in> E\<^sup>*" "d \<in> D" "(d, x) \<in> E\<^sup>*"
    by (auto dest: trancl_with_targets simp: acyclic_def)
  then have "(d, t) \<in> E\<^sup>*" by (blast intro: rtrancl_trans)
  with assms(2) [OF \<open>d \<in> D\<close>] show False by (simp add: rtrancl_eq_or_trancl)
qed

lemma acyclic_replace_out:
  assumes "acyclic (set edges)"
    and "\<And>d. d \<in> set targets \<Longrightarrow> d \<noteq> t \<and> t \<notin> set (reachable edges d)"
  shows "acyclic (set (replace_out t targets edges))"
  unfolding set_replace_out
proof (rule acyclic_targets)
  let ?E = "{e \<in> set edges. fst e \<noteq> t}"
  have sub: "?E \<subseteq> set edges" by blast
  show "acyclic ?E" by (rule acyclic_subset [OF assms(1) sub])
  show "d \<noteq> t \<and> (d, t) \<notin> ?E\<^sup>+" if "d \<in> set targets" for d
    using assms(2) [OF that] trancl_mono [OF _ sub] by (auto simp: set_reachable)
qed

end
