(* ===== verification/Go_Text.thy ===== *)
theory Go_Text
  imports Pactline_Prelude
begin

unbundle bit_operations_syntax

text \<open>
  The textual forms the stores compare and log: decimal numbers (\<open>strconv.FormatInt\<close>),
  identifiers (\<open>uuid.UUID.String\<close>) and calendar dates (\<open>time.Time.Format\<close> with the layout
  2006-01-02).  Each is shown injective, so two values differ exactly when their texts do.
\<close>

section \<open>Decimal numbers\<close>

definition digit :: "nat \<Rightarrow> char" where
  "digit n = char_of (48 + n mod 10)"

fun decimal :: "nat \<Rightarrow> string" where
  "decimal n = (if n < 10 then [digit n] else decimal (n div 10) @ [digit n])"

declare decimal.simps [simp del]

definition FormatInt :: "int \<Rightarrow> string" where
  "FormatInt i = (if i < 0 then CHR ''-'' # decimal (nat (- i)) else decimal (nat i))"

text \<open>\<open>appendInt\<close>: padded with zeros to a width.\<close>

definition padded :: "nat \<Rightarrow> nat \<Rightarrow> string" where
  "padded w n = replicate (w - length (decimal n)) (digit 0) @ decimal n"

text \<open>The value of a digit string.\<close>

definition digit_value :: "char \<Rightarrow> nat" where
  "digit_value c = of_char c - 48"

definition decimal_value :: "string \<Rightarrow> nat" where
  "decimal_value s = foldl (\<lambda>v c. 10 * v + digit_value c) 0 s"

lemma digit_value_digit [simp]: "digit_value (digit n) = n mod 10"
  by (simp add: digit_value_def digit_def)

lemma decimal_value_snoc: "decimal_value (s @ [c]) = 10 * decimal_value s + digit_value c"
  by (simp add: decimal_value_def)

lemma decimal_value_decimal [simp]: "decimal_value (decimal n) = n"
proof (induction n rule: decimal.induct)
  case (1 n)
  show ?case
  proof (cases "n < 10")
    case True
    then show ?thesis by (simp add: decimal.simps [of n] decimal_value_def)
  next
    case False
    with 1 show ?thesis by (simp add: decimal.simps [of n] decimal_value_snoc)
  qed
qed

lemma decimal_value_zeros: "decimal_value (replicate k (digit 0) @ s) = decimal_value s"
proof -
  have "foldl (\<lambda>v c. 10 * v + digit_value c) 0 (replicate k (digit 0)) = (0::nat)"
    by (induction k) simp_all
  then show ?thesis by (simp add: decimal_value_def)
qed

lemma decimal_value_padded [simp]: "decimal_value (padded w n) = n"
  by (simp add: padded_def decimal_value_zeros)

lemma decimal_inject [simp]: "decimal m = decimal n \<longleftrightarrow> m = n"
  by (metis decimal_value_decimal)

lemma digit_not_minus [simp]: "digit n \<noteq> CHR ''-''"
proof
  assume "digit n = CHR ''-''"
  then have "of_char (digit n) = (45::nat)" by simp
  then show False by (simp add: digit_def)
qed

lemma digit_decimal: "c \<in> set (decimal n) \<Longrightarrow> \<exists>k. c = digit k"
proof (induction n rule: decimal.induct)
  case (1 n)
  then show ?case by (cases "n < 10") (auto simp: decimal.simps [of n])
qed

lemma FormatInt_inject [simp]: "FormatInt i = FormatInt j \<longleftrightarrow> i = j"
proof -
  have "decimal m \<noteq> CHR ''-'' # s" "CHR ''-'' # s \<noteq> decimal m" for m s
    using digit_decimal [of "CHR ''-''" m] by (metis digit_not_minus list.set_intros(1))+
  then show ?thesis by (auto simp: FormatInt_def)
qed

section \<open>Identifiers\<close>

definition hex_digit :: "nat \<Rightarrow> char" where
  "hex_digit n = (if n < 10 then char_of (48 + n) else char_of (87 + n))"

definition nibble :: "uuid \<Rightarrow> nat \<Rightarrow> nat" where
  "nibble u i = unat u div 16 ^ (31 - i) mod 16"

text \<open>Evaluated on the bits of the identifier.\<close>

lemma nibble_code [code]: "nibble u i = nat (take_bit 4 (drop_bit (4 * (31 - i)) (uint u)))"
proof -
  have "int (unat u div 16 ^ (31 - i) mod 16) = take_bit 4 (drop_bit (4 * (31 - i)) (uint u))"
    by (simp add: take_bit_eq_mod drop_bit_eq_div power_mult zdiv_int zmod_int)
  then show ?thesis by (simp add: nibble_def)
qed

definition hex :: "uuid \<Rightarrow> string" where
  "hex u = map (\<lambda>i. hex_digit (nibble u i)) [0..<32]"

definition uuid_String :: "uuid \<Rightarrow> string" where
  "uuid_String u =
     (let h = hex u in
      take 8 h @ ''-'' @ take 4 (drop 8 h) @ ''-'' @ take 4 (drop 12 h) @ ''-'' @
      take 4 (drop 16 h) @ ''-'' @ drop 20 h)"

lemma hex_digit_code: "k < 16 \<Longrightarrow> of_char (hex_digit k) = (if k < 10 then 48 + k else 87 + k :: nat)"
  unfolding hex_digit_def of_char_of if_distrib [of of_char] by simp
lemma hex_digit_inject:
  assumes "m < 16" "n < 16" "hex_digit m = hex_digit n"
  shows "m = n"
  using hex_digit_code [OF assms(1)] hex_digit_code [OF assms(2)]
  unfolding assms(3) by (cases "m < 10"; cases "n < 10") simp_all

text \<open>A number below a power of sixteen is determined by its digits.\<close>

lemma digits_determine:
  fixes a b :: nat
  assumes "a < 16 ^ k" "b < 16 ^ k" "\<And>i. i < k \<Longrightarrow> a div 16 ^ i mod 16 = b div 16 ^ i mod 16"
  shows "a = b"
  using assms
proof (induction k arbitrary: a b)
  case (Suc k)
  have "a div 16 = b div 16"
  proof (rule Suc.IH)
    show "a div 16 < 16 ^ k" "b div 16 < 16 ^ k" using Suc.prems by (simp_all add: less_mult_imp_div_less)
    show "a div 16 div 16 ^ i mod 16 = b div 16 div 16 ^ i mod 16" if "i < k" for i
      using Suc.prems(3) [of "Suc i"] that by (simp add: div_mult2_eq)
  qed
  moreover have "a mod 16 = b mod 16" using Suc.prems(3) [of 0] by simp
  ultimately show ?case by (metis mult_div_mod_eq)
qed simp

lemma hex_inject [simp]: "hex u = hex v \<longleftrightarrow> u = v"
proof
  assume eq: "hex u = hex v"
  have "unat u = unat v"
  proof (rule digits_determine [where k = 32])
    show "unat u < 16 ^ 32" "unat v < 16 ^ 32"
      using unsigned_less [of u] unsigned_less [of v] by simp_all
    fix i :: nat assume "i < 32"
    then have "hex u ! (31 - i) = hex v ! (31 - i)" "31 - i < 32" "31 - (31 - i) = i"
      using eq by auto
    then have "hex_digit (unat u div 16 ^ i mod 16) = hex_digit (unat v div 16 ^ i mod 16)"
      by (simp add: hex_def nibble_def)
    then show "unat u div 16 ^ i mod 16 = unat v div 16 ^ i mod 16"
      by (rule hex_digit_inject [rotated 2]) simp_all
  qed
  then show "u = v" by (rule unsigned_word_eqI)
qed simp

lemma hex_length [simp]: "length (hex u) = 32"
  by (simp add: hex_def)

text \<open>The digits are recovered from the text by dropping the hyphens.\<close>

lemma uuid_String_hex:
  "take 8 (uuid_String u) @ take 4 (drop 9 (uuid_String u)) @ take 4 (drop 14 (uuid_String u)) @
   take 4 (drop 19 (uuid_String u)) @ drop 24 (uuid_String u) = hex u"
proof -
  have cut: "take n (drop m h) @ drop (n + m) h = drop m h" for n m and h :: string
    by (metis append_take_drop_id drop_drop)
  have "take 8 h @ take 4 (drop 8 h) @ take 4 (drop 12 h) @ take 4 (drop 16 h) @ drop 20 h = h"
    for h :: string
    using cut [of 4 16 h] cut [of 4 12 h] cut [of 4 8 h] cut [of 8 0 h]
    by (simp del: append_take_drop_id)
  from this [of "hex u"] show ?thesis by (simp add: uuid_String_def Let_def)
qed

lemma uuid_String_inject [simp]: "uuid_String u = uuid_String v \<longleftrightarrow> u = v"
  by (metis uuid_String_hex hex_inject)

lemma uuid_String_not_Nil [simp]: "uuid_String u \<noteq> []"
  by (simp add: uuid_String_def Let_def)

section \<open>Dates\<close>

definition day_micros :: int where
  "day_micros = hours 24"

definition AddDays :: "int \<Rightarrow> time \<Rightarrow> time" where
  "AddDays n t = t + n * day_micros"

text \<open>
  The year and the day of the year, counted from zero, of a day counted from the first of
  January of year one: whole cycles of 400, 100 and 4 years, then years, as \<open>absDate\<close> of the
  package time computes them.
\<close>

definition clipped :: "int \<Rightarrow> int" where
  "clipped n = n - n div 4"

definition year_day :: "int \<Rightarrow> int \<times> int" where
  "year_day day =
     (let r400 = day mod 146097;
          n100 = clipped (r400 div 36524); r100 = r400 - 36524 * n100;
          n4 = r100 div 1461; r4 = r100 - 1461 * n4;
          n1 = clipped (r4 div 365)
      in (1 + 400 * (day div 146097) + 100 * n100 + 4 * n4 + n1, r4 - 365 * n1))"

definition leap :: "int \<Rightarrow> bool" where
  "leap y \<longleftrightarrow> y mod 4 = 0 \<and> (y mod 100 \<noteq> 0 \<or> y mod 400 = 0)"

definition month_lengths :: "int \<Rightarrow> int list" where
  "month_lengths y = [31, if leap y then 29 else 28, 31, 30, 31, 30, 31, 31, 30, 31, 30, 31]"

fun month_day :: "int list \<Rightarrow> nat \<Rightarrow> int \<Rightarrow> nat \<times> int" where
  "month_day [] month n = (month, n + 1)"
| "month_day (len # rest) month n =
     (if n < len then (month, n + 1) else month_day rest (Suc month) (n - len))"

definition civil :: "int \<Rightarrow> int \<times> nat \<times> int" where
  "civil day =
     (let (y, n) = year_day day; (m, d) = month_day (month_lengths y) 1 n in (y, m, d))"

definition date_String :: "time \<Rightarrow> string" where
  "date_String t =
     (let (y, m, d) = civil (t div day_micros)
      in (if y < 0 then CHR ''-'' # padded 4 (nat (- y)) else padded 4 (nat y)) @
         ''-'' @ padded 2 m @ ''-'' @ padded 2 (nat d))"

text \<open>The day of a year and a day of the year, and of a month and a day of the month.\<close>

definition day_of :: "int \<times> int \<Rightarrow> int" where
  "day_of = (\<lambda>(y, n).
     let z = y - 1 in 146097 * (z div 400) + 36524 * (z mod 400 div 100) +
       1461 * (z mod 100 div 4) + 365 * (z mod 4) + n)"

lemma div_mod_split:
  fixes c k r :: int
  assumes "0 \<le> r" "r < c"
  shows "(c * k + r) div c = k \<and> (c * k + r) mod c = r"
  using assms by simp

lemma clipped_bounds: "0 \<le> n \<Longrightarrow> n \<le> 4 \<Longrightarrow> 0 \<le> clipped n \<and> clipped n \<le> 3 \<and> clipped n \<le> n \<and>
   clipped n = (if n = 4 then 3 else n)"
  unfolding clipped_def by (cases "n = 4") auto

lemma day_of_year_day: "day_of (year_day day) = day" and year_day_bounds: "0 \<le> snd (year_day day)"
proof -
  define r400 where "r400 = day mod 146097"
  have r400: "0 \<le> r400" "r400 \<le> 146096" by (simp_all add: r400_def)
  define n100 where "n100 = clipped (r400 div 36524)"
  define r100 where "r100 = r400 - 36524 * n100"
  have n100: "0 \<le> n100" "n100 \<le> 3" "n100 \<le> r400 div 36524"
    "n100 = (if r400 div 36524 = 4 then 3 else r400 div 36524)"
    using clipped_bounds [of "r400 div 36524"] r400 by (auto simp: n100_def)
  have "0 \<le> r100" using n100(3) r400 unfolding r100_def by linarith
  moreover have "r100 \<le> 36524"
    using n100(4) r400 unfolding r100_def by (cases "r400 div 36524 = 4") simp_all
  ultimately have r100: "0 \<le> r100" "r100 \<le> 36524" .
  define n4 where "n4 = r100 div 1461"
  define r4 where "r4 = r100 - 1461 * n4"
  have n4: "0 \<le> n4" "n4 \<le> 24" using r100 unfolding n4_def by linarith+
  have r4: "0 \<le> r4" "r4 \<le> 1460" using r100 unfolding r4_def n4_def by linarith+
  define n1 where "n1 = clipped (r4 div 365)"
  have n1: "0 \<le> n1" "n1 \<le> 3" "n1 \<le> r4 div 365"
    using clipped_bounds [of "r4 div 365"] r4 by (auto simp: n1_def)
  have yd: "year_day day = (1 + 400 * (day div 146097) + 100 * n100 + 4 * n4 + n1, r4 - 365 * n1)"
    by (simp add: year_day_def Let_def flip: r400_def n100_def r100_def n4_def r4_def n1_def)
  show "0 \<le> snd (year_day day)" using n1(3) r4 by (simp add: yd)
  define z where "z = 400 * (day div 146097) + 100 * n100 + 4 * n4 + n1"
  have z: "z div 400 = day div 146097" "z mod 400 div 100 = n100" "z mod 100 div 4 = n4" "z mod 4 = n1"
  proof -
    have low: "0 \<le> 4 * n4 + n1" "4 * n4 + n1 < 100" using n4 n1 by linarith+
    then have mid: "0 \<le> 100 * n100 + (4 * n4 + n1)" "100 * n100 + (4 * n4 + n1) < 400"
      using n100 by linarith+
    have "z = 400 * (day div 146097) + (100 * n100 + (4 * n4 + n1))" by (simp add: z_def)
    then have z400: "z div 400 = day div 146097" "z mod 400 = 100 * n100 + (4 * n4 + n1)"
      using div_mod_split [OF mid, of "day div 146097"] by simp_all
    have "z = 100 * (4 * (day div 146097) + n100) + (4 * n4 + n1)" by (simp add: z_def)
    then have z100: "z mod 100 = 4 * n4 + n1"
      using div_mod_split [OF low, of "4 * (day div 146097) + n100"] by simp
    have "z = 4 * (100 * (day div 146097) + 25 * n100 + n4) + n1" by (simp add: z_def)
    then show "z mod 4 = n1"
      using div_mod_split [of n1 4 "100 * (day div 146097) + 25 * n100 + n4"] n1 by simp
    show "z div 400 = day div 146097" by (rule z400)
    show "z mod 400 div 100 = n100" unfolding z400 using div_mod_split [OF low, of n100] by simp
    show "z mod 100 div 4 = n4" unfolding z100 using div_mod_split [of n1 4 n4] n1 by simp
  qed
  have yz: "year_day day = (1 + z, r4 - 365 * n1)" by (simp add: yd z_def)
  have "day_of (year_day day) = 146097 * (z div 400) + 36524 * (z mod 400 div 100) +
      1461 * (z mod 100 div 4) + 365 * (z mod 4) + (r4 - 365 * n1)"
    by (simp add: yz day_of_def Let_def)
  also have "\<dots> = 146097 * (day div 146097) + r400" unfolding z by (simp add: r4_def r100_def)
  also have "\<dots> = day" by (simp add: r400_def)
  finally show "day_of (year_day day) = day" .
qed

fun day_in_year :: "int list \<Rightarrow> nat \<Rightarrow> nat \<times> int \<Rightarrow> int" where
  "day_in_year lens month (m, d) = sum_list (take (m - month) lens) + d - 1"

lemma month_day_month: "fst (month_day lens month n) \<ge> month"
  by (induction lens month n rule: month_day.induct) (auto intro: Suc_leD)

lemma day_in_year_month_day: "day_in_year lens month (month_day lens month n) = n"
proof (induction lens month n rule: month_day.induct)
  case (2 len rest month n)
  show ?case
  proof (cases "n < len")
    case False
    obtain m d where md: "month_day rest (Suc month) (n - len) = (m, d)" by fastforce
    with month_day_month [of "Suc month" rest "n - len"] have "Suc month \<le> m" by simp
    then have "take (m - month) (len # rest) = len # take (m - Suc month) rest"
      by (simp flip: Suc_diff_Suc [OF Suc_le_lessD])
    with 2 False md show ?thesis by simp
  qed simp
qed simp

lemma civil_inject: "civil a = civil b \<longleftrightarrow> a = b"
proof
  assume eq: "civil a = civil b"
  obtain y n y' n' where yn: "year_day a = (y, n)" "year_day b = (y', n')" by fastforce
  from eq yn have "y = y'" and md: "month_day (month_lengths y) 1 n = month_day (month_lengths y) 1 n'"
    by (auto simp: civil_def Let_def split: prod.splits)
  then have "n = n'" by (metis day_in_year_month_day)
  with \<open>y = y'\<close> yn have "day_of (year_day a) = day_of (year_day b)" by simp
  then show "a = b" by (simp add: day_of_year_day)
qed simp

lemma month_day_positive: "0 \<le> n \<Longrightarrow> 0 < snd (month_day lens month n)"
  by (induction lens month n rule: month_day.induct) auto

lemma append_sep_inject:
  "c \<notin> set a \<Longrightarrow> c \<notin> set b \<Longrightarrow> a @ c # x = b @ c # y \<longleftrightarrow> a = b \<and> x = y"
  by (induction a arbitrary: b) (case_tac b; force)+

lemma padded_no_minus: "CHR ''-'' \<notin> set (padded w n)"
  using digit_decimal by (auto simp: padded_def) (metis digit_not_minus)+

lemma padded_inject [simp]: "padded w m = padded w n \<longleftrightarrow> m = n"
  by (metis decimal_value_padded)

lemma padded_starts: "padded w n @ x \<noteq> CHR ''-'' # y" "CHR ''-'' # y \<noteq> padded w n @ x"
proof -
  have "padded w n \<noteq> []" by (simp add: padded_def decimal.simps [of n])
  then show "padded w n @ x \<noteq> CHR ''-'' # y" "CHR ''-'' # y \<noteq> padded w n @ x"
    using padded_no_minus [of w n] by (cases "padded w n"; auto)+
qed

lemma civil_day_positive: "0 < snd (snd (civil day))"
  by (simp add: civil_def Let_def split_beta month_day_positive year_day_bounds)

lemma date_String_inject: "date_String s = date_String t \<longleftrightarrow> s div day_micros = t div day_micros"
proof -
  obtain y m d y' m' d' where c: "civil (s div day_micros) = (y, m, d)"
    "civil (t div day_micros) = (y', m', d')" by (metis surj_pair)
  have "0 < d" "0 < d'"
    using c civil_day_positive [of "s div day_micros"] civil_day_positive [of "t div day_micros"] by auto
  moreover have "date_String s = date_String t \<longleftrightarrow> y = y' \<and> m = m' \<and> nat d = nat d'"
    by (cases "y < 0"; cases "y' < 0")
      (auto simp: date_String_def c append_sep_inject padded_no_minus padded_starts)
  ultimately have "date_String s = date_String t \<longleftrightarrow>
      civil (s div day_micros) = civil (t div day_micros)"
    using c by auto
  then show ?thesis by (simp add: civil_inject)
qed

end
