(* ===== verification/Task_Store.thy ===== *)
theory Task_Store
  imports Workflow_Store Task_Graph Go_Text
begin

text \<open>
  Creating, editing, archiving and reading Tasks: internal/store/task_store.go (its list and
  pagination are in \<open>Task_List\<close>), with the constraint triggers of migrations 0015, 0026 and
  0027 that the transaction runs into.

  \<open>ids k\<close> is what the k-th draw of an identifier returns; a loop over the children of a Task
  draws from an arithmetic progression, so no two draws share an index.  \<open>now\<close> is the clock of
  the server and \<open>dbnow\<close> the \<open>now()\<close> of the transaction, one reading each per command.
  \<open>collation\<close> is the order of names in the database.  Log output is not modelled.
\<close>

section \<open>Text of the columns\<close>

fun TaskStatus_string :: "TaskStatus \<Rightarrow> string" where
  "TaskStatus_string TaskStatusTodo = ''todo''"
| "TaskStatus_string TaskStatusInProgress = ''in_progress''"
| "TaskStatus_string TaskStatusInReview = ''in_review''"
| "TaskStatus_string TaskStatusDone = ''done''"
| "TaskStatus_string TaskStatusCancelled = ''cancelled''"
| "TaskStatus_string (TaskStatusOther s) = s"

fun TaskPriority_string :: "TaskPriority \<Rightarrow> string" where
  "TaskPriority_string TaskPriorityNone = ''none''"
| "TaskPriority_string TaskPriorityLow = ''low''"
| "TaskPriority_string TaskPriorityMedium = ''medium''"
| "TaskPriority_string TaskPriorityHigh = ''high''"
| "TaskPriority_string TaskPriorityUrgent = ''urgent''"
| "TaskPriority_string (TaskPriorityOther s) = s"

fun TaskExecutionMode_string :: "TaskExecutionMode \<Rightarrow> string" where
  "TaskExecutionMode_string TaskExecutionModeHumanOnly = ''human_only''"
| "TaskExecutionMode_string TaskExecutionModeAgentAllowed = ''agent_allowed''"
| "TaskExecutionMode_string (TaskExecutionModeOther s) = s"

definition strPtrOrNil :: "string \<Rightarrow> string option" where
  "strPtrOrNil s = (if s = [] then None else Some s)"

definition uuidPtrString :: "uuid option \<Rightarrow> string" where
  "uuidPtrString c = (case c of None \<Rightarrow> [] | Some u \<Rightarrow> uuid_String u)"

definition datePtrString :: "time option \<Rightarrow> string" where
  "datePtrString c = (case c of None \<Rightarrow> [] | Some t \<Rightarrow> date_String t)"

text \<open>\<open>sort.Strings\<close> on byte strings, and \<open>strings.Join\<close>.\<close>

fun bytes_le :: "string \<Rightarrow> string \<Rightarrow> bool" where
  "bytes_le [] t = True"
| "bytes_le (a # s) [] = False"
| "bytes_le (a # s) (b # t) =
     ((of_char a :: nat) < of_char b \<or> a = b \<and> bytes_le s t)"

fun insert_by :: "('k \<Rightarrow> 'k \<Rightarrow> bool) \<Rightarrow> ('a \<Rightarrow> 'k) \<Rightarrow> 'a \<Rightarrow> 'a list \<Rightarrow> 'a list" where
  "insert_by le key x [] = [x]"
| "insert_by le key x (y # ys) =
     (if le (key x) (key y) then x # y # ys else y # insert_by le key x ys)"

definition sort_by :: "('k \<Rightarrow> 'k \<Rightarrow> bool) \<Rightarrow> ('a \<Rightarrow> 'k) \<Rightarrow> 'a list \<Rightarrow> 'a list" where
  "sort_by le key xs = foldr (insert_by le key) xs []"

fun Join :: "string list \<Rightarrow> string \<Rightarrow> string" where
  "Join [] sep = []"
| "Join [s] sep = s"
| "Join (s # t # rest) sep = s @ sep @ Join (t # rest) sep"

definition uuidListString :: "uuid list \<Rightarrow> string" where
  "uuidListString ids = Join (sort_by bytes_le (\<lambda>s. s) (map uuid_String ids)) '',''"

definition uuidPtrsEqual :: "uuid option \<Rightarrow> uuid option \<Rightarrow> bool" where
  "uuidPtrsEqual left right =
     (case (left, right) of
        (Some a, Some b) \<Rightarrow> a = b
      | _ \<Rightarrow> left = None \<and> right = None)"

lemma uuidPtrsEqual_eq [simp]: "uuidPtrsEqual a b \<longleftrightarrow> a = b"
  by (auto simp: uuidPtrsEqual_def split: option.splits)

section \<open>Reading\<close>

record ProjectRef =
  pref_id :: uuid
  pref_number :: int
  pref_name :: string

record MilestoneRef =
  mref_id :: uuid
  mref_name :: string

record TaskRelationRef =
  rel_id :: uuid
  rel_number :: int
  rel_title :: string
  rel_phase :: TaskPhase
  rel_archived :: bool
  rel_milestone :: "MilestoneRef option"

record TaskAgentWorkSummary =
  work_claim_id :: uuid
  work_status :: TaskClaimStatus
  work_token_name :: string
  work_client_kind :: string
  work_updated_at :: time
  work_completed_at :: "time option"

record TaskWithRelations =
  twr_task :: Task
  twr_creator :: UserRef
  twr_assignee :: "UserRef option"
  twr_project :: ProjectRef
  twr_milestone :: "MilestoneRef option"
  twr_labels :: "Label list"
  twr_parent :: "TaskRelationRef option"
  twr_children :: "TaskRelationRef list"
  twr_dependencies :: "TaskRelationRef list"
  twr_dependents :: "TaskRelationRef list"
  twr_agent_work :: "TaskAgentWorkSummary option"
  twr_blocked :: bool

definition user_ref :: "User \<Rightarrow> UserRef" where
  "user_ref u = \<lparr>ref_id = user_id u, ref_name = user_name u, ref_email = user_email u\<rparr>"

definition milestone_of :: "db \<Rightarrow> uuid option \<Rightarrow> MilestoneRef option" where
  "milestone_of d c =
     map_option (\<lambda>m. \<lparr>mref_id = ms_id m, mref_name = ms_name m\<rparr>)
       (find (\<lambda>m. c = Some (ms_id m)) (milestones d))"

definition relation_ref :: "db \<Rightarrow> task_row \<Rightarrow> TaskRelationRef" where
  "relation_ref d r =
     \<lparr>rel_id = t_id r, rel_number = t_number r, rel_title = t_title r,
      rel_phase = (case t_phase r of None \<Rightarrow> no_phase | Some p \<Rightarrow> p),
      rel_archived = (t_archived_at r \<noteq> None), rel_milestone = milestone_of d (t_milestone r)\<rparr>"

text \<open>Tasks related to a Task, in the order of their numbers.\<close>

definition related :: "db \<Rightarrow> (task_row \<Rightarrow> bool) \<Rightarrow> TaskRelationRef list" where
  "related d p = map (relation_ref d) (sort_key t_number (filter p (tasks d)))"

definition agent_work :: "db \<Rightarrow> task_row \<Rightarrow> TaskAgentWorkSummary option" where
  "agent_work d r =
     (let unfinished = (\<lambda>c. tc_status c = TaskClaimStatusActive \<or>
            tc_status c = TaskClaimStatusWaitingHuman);
          shown = filter (\<lambda>c. tc_task_id c = t_id r \<and>
            (unfinished c \<or>
             tc_status c = TaskClaimStatusSubmitted \<and> t_status r = TaskStatusInReview))
            (legacy_claims d)
      in case sort_key (\<lambda>c. (if unfinished c then 0 else 1 :: int, - tc_updated_at c,
             - uint (tc_id c))) shown of
           [] \<Rightarrow> None
         | c # _ \<Rightarrow> Some \<lparr>work_claim_id = tc_id c, work_status = tc_status c,
             work_token_name = tc_token_name c, work_client_kind = tc_client_kind c,
             work_updated_at = tc_updated_at c, work_completed_at = tc_completed_at c\<rparr>)"

definition task_of :: "task_row \<Rightarrow> TaskPhase \<Rightarrow> int \<Rightarrow> uuid \<Rightarrow> Task" where
  "task_of r phase cycle main =
     \<lparr>task_id = t_id r, task_number = t_number r, task_version = t_version r,
      task_title = t_title r, task_context = t_context r,
      task_expected_result = t_expected_result r, task_description = t_description r,
      task_phase = phase,
      task_activity = (case t_activity r of None \<Rightarrow> TaskActivityNone | Some a \<Rightarrow> a),
      task_review_cycle = cycle, task_active_issue_thread_id = t_active_issue r,
      task_main_thread_id = main, task_status = t_status r, task_priority = t_priority r,
      task_execution_mode = t_execution_mode r, task_assignee_id = t_assignee r,
      task_creator_id = t_creator r, task_start_date = t_start_date r,
      task_due_date = t_due_date r, task_project_id = t_project r,
      task_milestone_id = t_milestone r, task_parent_task_id = t_parent r,
      task_created_at = t_created_at r, task_updated_at = t_updated_at r,
      task_completed_at = t_completed_at r, task_archived_at = t_archived_at r\<rparr>"

definition blocked_by :: "TaskRelationRef list \<Rightarrow> bool" where
  "blocked_by rs \<longleftrightarrow>
     (\<exists>x \<in> set rs. rel_phase x \<noteq> TaskPhaseDone \<and> rel_phase x \<noteq> TaskPhaseCancelled)"

text \<open>
  The row of the query for one Task; the inner joins to the creator and the Project yield no row
  when either is missing.
\<close>

definition scanTaskWithRelations ::
  "(string \<Rightarrow> string \<Rightarrow> bool) \<Rightarrow> db \<Rightarrow> task_row \<Rightarrow> TaskWithRelations result option" where
  "scanTaskWithRelations collation d r =
     (case (find (\<lambda>u. user_id u = t_creator r) (users d),
            find (\<lambda>p. project_id p = t_project r) (projects d)) of
        (Some creator, Some project) \<Rightarrow>
          Some (case (t_phase r, t_review_cycle r, main_thread_id d (t_id r)) of
            (Some phase, Some cycle, Some main) \<Rightarrow>
              (let deps = related d (\<lambda>x. (t_id r, t_id x) \<in> set (dependencies d)) in
               Inr \<lparr>twr_task = task_of r phase cycle main, twr_creator = user_ref creator,
                 twr_assignee = map_option user_ref
                   (find (\<lambda>u. t_assignee r = Some (user_id u)) (users d)),
                 twr_project = \<lparr>pref_id = project_id project, pref_number = project_number project,
                   pref_name = project_name project\<rparr>,
                 twr_milestone = milestone_of d (t_milestone r),
                 twr_labels = sort_by collation label_name
                   (filter (\<lambda>l. (t_id r, label_id l) \<in> set (task_labels d)) (labels d)),
                 twr_parent = map_option (relation_ref d)
                   (find (\<lambda>x. t_parent r = Some (t_id x)) (tasks d)),
                 twr_children = related d (\<lambda>x. t_parent x = Some (t_id r)),
                 twr_dependencies = deps,
                 twr_dependents = related d (\<lambda>x. (t_id x, t_id r) \<in> set (dependencies d)),
                 twr_agent_work = agent_work d r,
                 twr_blocked = blocked_by deps\<rparr>)
          | _ \<Rightarrow> Inl ErrMigrationRequired)
      | _ \<Rightarrow> None)"

definition select_task ::
  "(string \<Rightarrow> string \<Rightarrow> bool) \<Rightarrow> (task_row \<Rightarrow> bool) \<Rightarrow> db \<Rightarrow> TaskWithRelations result option" where
  "select_task collation p d =
     (case find p (tasks d) of None \<Rightarrow> None | Some r \<Rightarrow> scanTaskWithRelations collation d r)"

definition TaskStore_GetByNumber ::
  "(string \<Rightarrow> string \<Rightarrow> bool) \<Rightarrow> int \<Rightarrow> db \<Rightarrow> TaskWithRelations result" where
  "TaskStore_GetByNumber collation number d =
     (case select_task collation (\<lambda>r. t_number r = number) d of
        None \<Rightarrow> Inl ErrNotFound | Some x \<Rightarrow> x)"

definition TaskStore_GetByID ::
  "(string \<Rightarrow> string \<Rightarrow> bool) \<Rightarrow> uuid \<Rightarrow> db \<Rightarrow> TaskWithRelations result" where
  "TaskStore_GetByID collation taskID d =
     (case select_task collation (\<lambda>r. t_id r = taskID) d of
        None \<Rightarrow> Inl ErrNotFound | Some x \<Rightarrow> x)"

text \<open>Inside a transaction a missing row is an error that is not translated.\<close>

definition reread ::
  "(string \<Rightarrow> string \<Rightarrow> bool) \<Rightarrow> uuid \<Rightarrow> db \<Rightarrow> TaskWithRelations result" where
  "reread collation taskID d =
     (case select_task collation (\<lambda>r. t_id r = taskID) d of
        None \<Rightarrow> Inl ErrOther | Some x \<Rightarrow> x)"

section \<open>Activity\<close>

definition insertActivity ::
  "uuid \<Rightarrow> uuid \<Rightarrow> OperationActor \<Rightarrow> ActivityField \<Rightarrow> string option \<Rightarrow> string option \<Rightarrow> time \<Rightarrow>
   db \<Rightarrow> db result" where
  "insertActivity newID taskID actor field oldValue newValue dbnow d =
     (if \<not> audit_auth_shape actor \<or> newID \<in> set (map act_id (activity d)) \<or>
         taskID \<notin> set (map t_id (tasks d)) \<or>
         op_user_id actor \<notin> set (map user_id (users d)) \<or>
         \<not> refs (api_tokens d) (op_token_id actor)
      then Inl ErrOther
      else Inr (d\<lparr>activity := activity d @
        [\<lparr>act_id = newID, act_task_id = taskID, act_actor_id = op_user_id actor,
          act_field = field, act_old_value = oldValue, act_new_value = newValue,
          act_request_id = Some (op_request_id actor),
          act_auth_method = Some (op_auth_method actor),
          act_api_token_id = op_token_id actor,
          act_token_name = nullIfEmpty (op_token_name actor),
          act_agent_run_id = op_agent_run_id actor, act_created_at = dbnow\<rparr>]\<rparr>))"

definition recordFieldChange ::
  "uuid \<Rightarrow> uuid \<Rightarrow> OperationActor \<Rightarrow> ActivityField \<Rightarrow> string \<Rightarrow> string \<Rightarrow> time \<Rightarrow> db \<Rightarrow>
   db result" where
  "recordFieldChange newID taskID actor field oldVal newVal dbnow d =
     (if oldVal = newVal then Inr d
      else insertActivity newID taskID actor field (strPtrOrNil oldVal) (strPtrOrNil newVal)
        dbnow d)"

text \<open>A run of \<open>recordFieldChange\<close> calls, the k-th drawing \<open>ids k\<close>.\<close>

fun record_changes ::
  "(nat \<Rightarrow> uuid) \<Rightarrow> uuid \<Rightarrow> OperationActor \<Rightarrow> time \<Rightarrow>
   (ActivityField \<times> string \<times> string) list \<Rightarrow> db \<Rightarrow> db result" where
  "record_changes ids taskID actor dbnow [] d = Inr d"
| "record_changes ids taskID actor dbnow ((field, oldVal, newVal) # rest) d =
     bindR (recordFieldChange (ids 0) taskID actor field oldVal newVal dbnow d)
       (record_changes (\<lambda>k. ids (Suc k)) taskID actor dbnow rest)"

end
