(* ===== verification/Task_Commands.thy ===== *)
theory Task_Commands
  imports Task_Store
begin

text \<open>
  The commands of internal/store/task_store.go that change Tasks: \<open>CreateWithOperation\<close>,
  \<open>updateWithExpectedVersion\<close> and \<open>setArchivedWithExpectedVersion\<close> with their helpers, and the
  checks the database makes when the transaction commits.
\<close>

section \<open>Relationship guards\<close>

definition validateParentAssignment ::
  "uuid \<Rightarrow> uuid option \<Rightarrow> uuid \<Rightarrow> uuid option \<Rightarrow> TaskStatus \<Rightarrow> db \<Rightarrow> unit result" where
  "validateParentAssignment taskID parentID projectID milestoneID status d =
     (case parentID of
        None \<Rightarrow> Inr ()
      | Some p \<Rightarrow>
          if p = taskID then Inl ErrInvalidInput
          else case find (\<lambda>r. t_id r = p) (tasks d) of
              None \<Rightarrow> Inl ErrNotFound
            | Some parent \<Rightarrow>
                if t_archived_at parent \<noteq> None then Inl ErrConflict
                else if t_parent parent \<noteq> None then Inl ErrConflict
                else if t_project parent \<noteq> projectID \<or>
                  \<not> uuidPtrsEqual (t_milestone parent) milestoneID
                then Inl ErrConflict
                else if \<exists>r \<in> set (tasks d). t_parent r = Some taskID then Inl ErrConflict
                else if t_status parent = TaskStatusDone \<and> status \<noteq> TaskStatusDone \<and>
                  status \<noteq> TaskStatusCancelled
                then Inl ErrConflict
                else if (taskID, p) \<in> set (dependencies d) \<or> (p, taskID) \<in> set (dependencies d)
                then Inl ErrConflict
                else Inr ())"

text \<open>The loop over the requested dependencies.\<close>

fun validate_dependencies ::
  "uuid \<Rightarrow> uuid \<Rightarrow> uuid option \<Rightarrow> db \<Rightarrow> uuid list \<Rightarrow> uuid list \<Rightarrow> unit result" where
  "validate_dependencies taskID projectID parentID d seen [] = Inr ()"
| "validate_dependencies taskID projectID parentID d seen (dependencyID # rest) =
     (if dependencyID = taskID then Inl ErrInvalidInput
      else if dependencyID \<in> set seen then Inl ErrInvalidInput
      else case find (\<lambda>r. t_id r = dependencyID) (tasks d) of
          None \<Rightarrow> Inl ErrNotFound
        | Some dependency \<Rightarrow>
            if t_archived_at dependency \<noteq> None then Inl ErrConflict
            else if t_project dependency \<noteq> projectID then Inl ErrConflict
            else if parentID = Some dependencyID \<or> t_parent dependency = Some taskID
            then Inl ErrConflict
            else if taskID \<in> set (reachable (dependencies d) dependencyID) then Inl ErrConflict
            else validate_dependencies taskID projectID parentID d (dependencyID # seen) rest)"

definition validateDependencyAssignments ::
  "uuid \<Rightarrow> uuid \<Rightarrow> uuid option \<Rightarrow> uuid list \<Rightarrow> db \<Rightarrow> unit result" where
  "validateDependencyAssignments taskID projectID parentID dependencyIDs d =
     validate_dependencies taskID projectID parentID d [] dependencyIDs"

definition validateExistingDependenciesForProject :: "uuid \<Rightarrow> uuid \<Rightarrow> db \<Rightarrow> unit result" where
  "validateExistingDependenciesForProject taskID projectID d =
     (if \<exists>e \<in> set (dependencies d). (fst e = taskID \<or> snd e = taskID) \<and>
        (\<exists>r \<in> set (tasks d). t_id r = (if fst e = taskID then snd e else fst e) \<and>
           t_project r \<noteq> projectID)
      then Inl ErrConflict else Inr ())"

definition taskDependencyIDs :: "uuid \<Rightarrow> db \<Rightarrow> uuid list" where
  "taskDependencyIDs taskID d = sort (map snd (filter (\<lambda>e. fst e = taskID) (dependencies d)))"

definition countUnfinishedTasks :: "uuid list \<Rightarrow> db \<Rightarrow> int" where
  "countUnfinishedTasks taskIDs d =
     (if taskIDs = [] then 0
      else int (count_where (\<lambda>r. t_id r \<in> set taskIDs \<and> unfinished_row r) (tasks d)))"

section \<open>Relationship writes\<close>

fun insert_dependencies :: "uuid \<Rightarrow> uuid list \<Rightarrow> db \<Rightarrow> pg_error + db" where
  "insert_dependencies taskID [] d = Inr d"
| "insert_dependencies taskID (dependencyID # rest) d =
     (if taskID = dependencyID then Inl check_violation
      else if (taskID, dependencyID) \<in> set (dependencies d)
      then Inl (unique_violation ''task_dependencies_pkey'')
      else if taskID \<notin> set (map t_id (tasks d)) \<or> dependencyID \<notin> set (map t_id (tasks d))
      then Inl foreign_key_violation
      else insert_dependencies taskID rest
        (d\<lparr>dependencies := dependencies d @ [(taskID, dependencyID)]\<rparr>))"

definition replaceTaskDependencies :: "uuid \<Rightarrow> uuid list \<Rightarrow> db \<Rightarrow> db result" where
  "replaceTaskDependencies taskID dependencyIDs d =
     mapPg (insert_dependencies taskID dependencyIDs
       (d\<lparr>dependencies := filter (\<lambda>e. fst e \<noteq> taskID) (dependencies d)\<rparr>))"

fun insert_labels :: "uuid \<Rightarrow> uuid list \<Rightarrow> db \<Rightarrow> pg_error + db" where
  "insert_labels taskID [] d = Inr d"
| "insert_labels taskID (labelID # rest) d =
     (if (taskID, labelID) \<in> set (task_labels d) then insert_labels taskID rest d
      else if taskID \<notin> set (map t_id (tasks d)) \<or> labelID \<notin> set (map label_id (labels d))
      then Inl foreign_key_violation
      else insert_labels taskID rest (d\<lparr>task_labels := task_labels d @ [(taskID, labelID)]\<rparr>))"

definition replaceTaskLabels :: "uuid \<Rightarrow> uuid list \<Rightarrow> db \<Rightarrow> db result" where
  "replaceTaskLabels taskID labelIDs d =
     mapPg (insert_labels taskID labelIDs
       (d\<lparr>task_labels := filter (\<lambda>e. fst e \<noteq> taskID) (task_labels d)\<rparr>))"

definition labelNamesForTask :: "(string \<Rightarrow> string \<Rightarrow> bool) \<Rightarrow> uuid \<Rightarrow> db \<Rightarrow> string list" where
  "labelNamesForTask collation taskID d =
     sort_by collation (\<lambda>s. s)
       (map label_name (filter (\<lambda>l. (taskID, label_id l) \<in> set (task_labels d)) (labels d)))"

section \<open>Commit\<close>

text \<open>
  The deferred triggers \<open>validate_task_relationships\<close> and \<open>validate_task_dependency\<close> run when
  the transaction commits, for every Task row that was inserted or had a relationship column
  updated, and for every dependency that was inserted.
\<close>

definition validate_task_relationships :: "task_row \<Rightarrow> db \<Rightarrow> bool" where
  "validate_task_relationships r d \<longleftrightarrow>
     (case t_parent r of
        Some p \<Rightarrow>
          (case find (\<lambda>x. t_id x = p) (tasks d) of
             None \<Rightarrow> False
           | Some parent \<Rightarrow>
               t_parent parent = None \<and>
               \<not> (\<exists>c \<in> set (tasks d). t_parent c = Some (t_id r)) \<and>
               t_project parent = t_project r \<and> t_milestone parent = t_milestone r)
      | None \<Rightarrow>
          \<not> (\<exists>c \<in> set (tasks d). t_parent c = Some (t_id r) \<and>
               (t_project c \<noteq> t_project r \<or> t_milestone c \<noteq> t_milestone r))) \<and>
     \<not> (\<exists>e \<in> set (dependencies d). (fst e = t_id r \<or> snd e = t_id r) \<and>
          (\<exists>x \<in> set (tasks d). t_id x = (if fst e = t_id r then snd e else fst e) \<and>
             t_project x \<noteq> t_project r)) \<and>
     (case t_parent r of
        None \<Rightarrow> True
      | Some p \<Rightarrow> (t_id r, p) \<notin> set (dependencies d) \<and> (p, t_id r) \<notin> set (dependencies d))"

definition validate_task_dependency :: "uuid \<times> uuid \<Rightarrow> db \<Rightarrow> bool" where
  "validate_task_dependency e d \<longleftrightarrow>
     (let task = find (\<lambda>x. t_id x = fst e) (tasks d);
          predecessor = find (\<lambda>x. t_id x = snd e) (tasks d)
      in sql_check (sql_and
           (case (task, predecessor) of
              (Some a, Some b) \<Rightarrow> Some (t_project a = t_project b)
            | _ \<Rightarrow> None)
           (Some (\<not> (Option.bind task t_parent = Some (snd e) \<or>
              Option.bind predecessor t_parent = Some (fst e))))) \<and>
         fst e \<notin> set (reachable (dependencies d) (snd e)))"

definition commit :: "task_row list \<Rightarrow> (uuid \<times> uuid) list \<Rightarrow> db \<Rightarrow> unit result" where
  "commit rows edges d =
     (if (\<forall>r \<in> set rows. validate_task_relationships r d) \<and>
         (\<forall>e \<in> set edges. validate_task_dependency e d)
      then Inr () else Inl ErrOther)"

section \<open>Creating a Task\<close>

definition main_thread :: "uuid \<Rightarrow> uuid \<Rightarrow> time \<Rightarrow> Thread" where
  "main_thread newID taskID now =
     \<lparr>thread_id = newID, thread_task_id = taskID, thread_role = ThreadRoleMain,
      thread_issue_type = IssueThreadTypeNone, thread_issue_status = IssueThreadStatusNone,
      thread_opened_from_phase = no_phase, thread_opened_by = no_actor,
      thread_resolved_by = None, thread_version = 1, thread_created_at = now,
      thread_updated_at = now, thread_resolved_at = None\<rparr>"

text \<open>INSERT INTO tasks, with the trigger \<open>tasks_create_main_thread\<close>.\<close>

definition insert_task_row :: "uuid \<Rightarrow> task_row \<Rightarrow> db \<Rightarrow> pg_error + db" where
  "insert_task_row mainID r d =
     (if \<not> task_row_checks r then Inl check_violation
      else if t_id r \<in> set (map t_id (tasks d)) then Inl (unique_violation ''tasks_pkey'')
      else if t_number r \<in> set (map t_number (tasks d))
      then Inl (unique_violation ''idx_tasks_number'')
      else if t_creator r \<notin> set (map user_id (users d)) \<or> \<not> users_ref d (t_assignee r) \<or>
        t_project r \<notin> set (map project_id (projects d)) \<or>
        \<not> milestone_ref d (t_project r) (t_milestone r) \<or>
        \<not> refs (t_id r # map t_id (tasks d)) (t_parent r)
      then Inl foreign_key_violation
      else if t_phase r = None then Inr (d\<lparr>tasks := tasks d @ [r]\<rparr>)
      else if mainID \<in> set (map thread_id (threads d))
      then Inl (unique_violation ''task_threads_pkey'')
      else if \<exists>t \<in> set (threads d). thread_task_id t = t_id r \<and> thread_role t = ThreadRoleMain
      then Inl (unique_violation ''task_threads_one_main_per_task'')
      else Inr (d\<lparr>tasks := tasks d @ [r],
        threads := threads d @ [main_thread mainID (t_id r) (t_created_at r)]\<rparr>))"

text \<open>The defaults and the checks before the transaction.\<close>

definition prepare_task :: "uuid \<Rightarrow> OperationActor \<Rightarrow> Task \<Rightarrow> Task result" where
  "prepare_task newID actor t =
     bindR (OperationActor_Validate actor) (\<lambda>_.
       if task_creator_id t \<noteq> op_user_id actor then Inl ErrForbidden
       else let t1 = (if task_id t = uuid_nil then t\<lparr>task_id := newID\<rparr> else t) in
         if blank (task_title t1) then Inl ErrInvalidInput
         else if blank (task_context t1) then Inl ErrInvalidInput
         else if blank (task_expected_result t1) then Inl ErrInvalidInput
         else let t2 = t1\<lparr>
               task_status := (if task_status t1 = TaskStatusOther [] then TaskStatusTodo
                               else task_status t1),
               task_priority := (if task_priority t1 = TaskPriorityOther [] then TaskPriorityNone
                                 else task_priority t1),
               task_execution_mode :=
                 (if task_execution_mode t1 = TaskExecutionModeOther []
                  then TaskExecutionModeHumanOnly else task_execution_mode t1)\<rparr> in
           if \<not> TaskStatus_Valid (task_status t2) then Inl ErrInvalidInput
           else if \<not> TaskPriority_Valid (task_priority t2) then Inl ErrInvalidInput
           else if \<not> TaskExecutionMode_Valid (task_execution_mode t2) then Inl ErrInvalidInput
           else if task_project_id t2 = uuid_nil then Inl ErrInvalidInput
           else bindR (ValidateSchedule (task_start_date t2) (task_due_date t2)) (\<lambda>_. Inr t2))"

text \<open>The inserted row: the columns not named take the defaults of the table.\<close>

definition new_task_row :: "int \<Rightarrow> time \<Rightarrow> time option \<Rightarrow> Task \<Rightarrow> task_row" where
  "new_task_row number dbnow completedAt t =
     \<lparr>t_id = task_id t, t_number = number, t_version = 1, t_title = task_title t,
      t_context = task_context t, t_expected_result = task_expected_result t,
      t_description = task_description t, t_phase = Some TaskPhaseBacklog, t_activity = None,
      t_review_cycle = Some 0, t_active_issue = None, t_status = task_status t,
      t_priority = task_priority t, t_execution_mode = task_execution_mode t,
      t_assignee = task_assignee_id t, t_creator = task_creator_id t,
      t_start_date = task_start_date t, t_due_date = task_due_date t,
      t_project = task_project_id t, t_milestone = task_milestone_id t,
      t_parent = task_parent_task_id t, t_created_at = dbnow, t_updated_at = dbnow,
      t_completed_at = completedAt, t_archived_at = None\<rparr>"

definition TaskStore_CreateWithOperation ::
  "(string \<Rightarrow> string \<Rightarrow> bool) \<Rightarrow> (nat \<Rightarrow> uuid) \<Rightarrow> int \<Rightarrow> time \<Rightarrow> time \<Rightarrow> Task \<Rightarrow> uuid list \<Rightarrow>
   uuid list \<Rightarrow> OperationActor \<Rightarrow> db \<Rightarrow> (db \<times> TaskWithRelations) result" where
  "TaskStore_CreateWithOperation collation ids number now dbnow task labelIDs dependencyIDs actor
     d =
     bindR (prepare_task (ids 0) actor task) (\<lambda>t.
     bindR (validateParentAssignment (task_id t) (task_parent_task_id t) (task_project_id t)
       (task_milestone_id t) (task_status t) d) (\<lambda>_.
     bindR (validateDependencyAssignments (task_id t) (task_project_id t) (task_parent_task_id t)
       dependencyIDs d) (\<lambda>_.
     bindR (if task_status t = TaskStatusDone
       then ValidateCompletion
         \<lparr>ready_active_criteria = 0, ready_unsatisfied_criteria = 0,
          ready_unfinished_children = 0,
          ready_unfinished_dependencies = countUnfinishedTasks dependencyIDs d\<rparr>
       else Inr ()) (\<lambda>_.
     let row = new_task_row number dbnow
           (if task_status t = TaskStatusDone then Some now else None) t in
     bindR (mapPg (insert_task_row (ids 1) row d)) (\<lambda>d1.
     bindR (if labelIDs = [] then Inr d1 else replaceTaskLabels (task_id t) labelIDs d1) (\<lambda>d2.
     bindR (replaceTaskDependencies (task_id t) dependencyIDs d2) (\<lambda>d3.
     bindR (insertActivity (ids 2) (task_id t) actor ActivityFieldCreated None
       (Some (TaskStatus_string (task_status t))) dbnow d3) (\<lambda>d4.
     bindR (InsertBusinessAudit (ids 3)
       \<lparr>audit_id = uuid_nil, audit_occurred_at = now, audit_actor = actor,
        audit_entity_type = ''task'', audit_entity_id = task_id t,
        audit_entity_number = Some number, audit_action = ''created'',
        audit_old_value = None,
        audit_new_value = Some (AuditTask row dependencyIDs labelIDs None)\<rparr> d4) (\<lambda>d5.
     bindR (reread collation (task_id t) d5) (\<lambda>out.
     bindR (commit [row] (map (Pair (task_id t)) dependencyIDs) d5) (\<lambda>_.
       Inr (d5, out))))))))))))"

definition TaskStore_Create ::
  "(string \<Rightarrow> string \<Rightarrow> bool) \<Rightarrow> (nat \<Rightarrow> uuid) \<Rightarrow> int \<Rightarrow> time \<Rightarrow> time \<Rightarrow> Task \<Rightarrow> uuid list \<Rightarrow>
   db \<Rightarrow> (db \<times> TaskWithRelations) result" where
  "TaskStore_Create collation ids number now dbnow t labelIDs d =
     TaskStore_CreateWithOperation collation ids number now dbnow t labelIDs []
       (SessionOperation (task_creator_id t) ''internal'') d"

section \<open>Editing a Task\<close>

definition text_missing :: "string option \<Rightarrow> bool" where
  "text_missing c = (case c of None \<Rightarrow> False | Some s \<Rightarrow> blank s)"

definition or_old :: "'a option \<Rightarrow> 'a \<Rightarrow> 'a" where
  "or_old c old = (case c of None \<Rightarrow> old | Some new \<Rightarrow> new)"

definition shift_dates :: "int \<Rightarrow> task_row \<Rightarrow> task_row" where
  "shift_dates days r =
     r\<lparr>t_start_date := map_option (AddDays days) (t_start_date r),
       t_due_date := map_option (AddDays days) (t_due_date r)\<rparr>"

definition scheduled :: "task_row \<Rightarrow> bool" where
  "scheduled r \<longleftrightarrow> t_start_date r \<noteq> None \<or> t_due_date r \<noteq> None"

definition patch_schedule :: "TaskPatch \<Rightarrow> db \<Rightarrow> task_row \<Rightarrow> task_row result" where
  "patch_schedule p d r =
     (case patch_schedule_shift_days p of
        None \<Rightarrow> Inr r
      | Some days \<Rightarrow>
          if days = 0 then Inl ErrInvalidInput
          else if patch_start_date_set p \<or> patch_due_date_set p then Inl ErrInvalidInput
          else if \<not> scheduled r \<and>
            \<not> (\<exists>c \<in> set (tasks d). t_parent c = Some (t_id r) \<and> scheduled c)
          then Inl ErrConflict
          else Inr (shift_dates days r))"

text \<open>The fields a patch sets, in the order they are checked.\<close>

definition apply_patch :: "TaskPatch \<Rightarrow> db \<Rightarrow> task_row \<Rightarrow> task_row result" where
  "apply_patch p d r =
     (if text_missing (patch_title p) then Inl ErrInvalidInput
      else if text_missing (patch_context p) then Inl ErrInvalidInput
      else if text_missing (patch_expected_result p) then Inl ErrInvalidInput
      else if (case patch_status p of None \<Rightarrow> False | Some x \<Rightarrow> \<not> TaskStatus_Valid x)
      then Inl ErrInvalidInput
      else if (case patch_priority p of None \<Rightarrow> False | Some x \<Rightarrow> \<not> TaskPriority_Valid x)
      then Inl ErrInvalidInput
      else if (case patch_execution_mode p of None \<Rightarrow> False | Some x \<Rightarrow> \<not> TaskExecutionMode_Valid x)
      then Inl ErrInvalidInput
      else bindR (patch_schedule p d
          (r\<lparr>t_title := or_old (patch_title p) (t_title r),
             t_context := or_old (patch_context p) (t_context r),
             t_expected_result := or_old (patch_expected_result p) (t_expected_result r),
             t_description := or_old (patch_description p) (t_description r),
             t_status := or_old (patch_status p) (t_status r),
             t_priority := or_old (patch_priority p) (t_priority r),
             t_execution_mode := or_old (patch_execution_mode p) (t_execution_mode r),
             t_assignee := (if patch_assignee_set p then patch_assignee_id p else t_assignee r),
             t_start_date :=
               (if patch_start_date_set p then patch_start_date p else t_start_date r),
             t_due_date := (if patch_due_date_set p then patch_due_date p else t_due_date r)\<rparr>))
        (\<lambda>r1.
        if patch_project_set p then Inl ErrConflict
        else let r2 = r1\<lparr>
              t_milestone := (if patch_milestone_set p then patch_milestone_id p
                              else t_milestone r1),
              t_parent := (if patch_parent_set p then patch_parent_task_id p else t_parent r1)\<rparr>
          in if t_project r2 = uuid_nil then Inl ErrInvalidInput
             else bindR (ValidateSchedule (t_start_date r2) (t_due_date r2)) (\<lambda>_. Inr r2)))"

definition moved :: "task_row \<Rightarrow> task_row \<Rightarrow> bool" where
  "moved r new \<longleftrightarrow>
     t_project r \<noteq> t_project new \<or> \<not> uuidPtrsEqual (t_milestone r) (t_milestone new)"

definition update_dependencies :: "TaskPatch \<Rightarrow> task_row \<Rightarrow> task_row \<Rightarrow> db \<Rightarrow> db result" where
  "update_dependencies p r new d =
     (if patch_dependencies_set p then
        bindR (validateDependencyAssignments (t_id r) (t_project new) (t_parent new)
          (patch_dependency_ids p) d) (\<lambda>_.
          if t_phase r = Some TaskPhaseReady \<and>
             countUnfinishedTasks (patch_dependency_ids p) d > 0
          then Inl ErrInvalidTransition
          else replaceTaskDependencies (t_id r) (patch_dependency_ids p) d)
      else if t_project r \<noteq> t_project new then
        bindR (validateExistingDependenciesForProject (t_id r) (t_project new) d) (\<lambda>_. Inr d)
      else Inr d)"

text \<open>The latest submission of a legacy claim and the latest check that may count after it.\<close>

definition latest_submission :: "uuid \<Rightarrow> db \<Rightarrow> time option" where
  "latest_submission taskID d =
     (case sort_key (\<lambda>c. (case tc_completed_at c of None \<Rightarrow> (0, 0) | Some t \<Rightarrow> (1 :: int, - t),
            - uint (tc_id c)))
         (filter (\<lambda>c. tc_task_id c = taskID \<and> tc_status c = TaskClaimStatusSubmitted)
           (legacy_claims d)) of
        [] \<Rightarrow> None
      | c # _ \<Rightarrow> tc_completed_at c)"

definition latest_outcome ::
  "AcceptanceCriterion \<Rightarrow> time option \<Rightarrow> db \<Rightarrow> AcceptanceOutcome option" where
  "latest_outcome c submission d =
     (case sort_key (\<lambda>k. (- check_checked_at k, - uint (check_id k)))
         (filter (\<lambda>k. check_criterion_id k = crit_id c \<and>
            check_criterion_revision k = crit_revision c \<and>
            (case submission of
               None \<Rightarrow> True
             | Some t \<Rightarrow> actor_type (check_checker k) = ActorTypeUser \<and> check_checked_at k \<ge> t))
           (checks d)) of
        [] \<Rightarrow> None
      | k # _ \<Rightarrow> Some (check_outcome k))"

definition legacy_readiness :: "uuid \<Rightarrow> db \<Rightarrow> TaskCompletionReadiness" where
  "legacy_readiness taskID d =
     (let active = active_criteria taskID d; submission = latest_submission taskID d in
      \<lparr>ready_active_criteria = int (length active),
       ready_unsatisfied_criteria =
         int (count_where (\<lambda>c. case latest_outcome c submission d of
             None \<Rightarrow> True
           | Some x \<Rightarrow> x \<noteq> AcceptanceOutcomePassed \<and> x \<noteq> AcceptanceOutcomeWaived) active),
       ready_unfinished_children =
         int (count_where (\<lambda>r. t_parent r = Some taskID \<and> unfinished_row r) (tasks d)),
       ready_unfinished_dependencies =
         int (count_where (\<lambda>e. fst e = taskID \<and>
             (\<exists>r \<in> set (tasks d). t_id r = snd e \<and> unfinished_row r)) (dependencies d))\<rparr>)"

definition update_completion :: "TaskPatch \<Rightarrow> time \<Rightarrow> task_row \<Rightarrow> task_row \<Rightarrow> db \<Rightarrow> time option result"
  where
  "update_completion p now r new d =
     (if t_status new = TaskStatusDone \<and>
         (t_status r \<noteq> TaskStatusDone \<or> patch_dependencies_set p) then
        bindR (ValidateCompletion (legacy_readiness (t_id r) d)) (\<lambda>_.
          Inr (if t_status r \<noteq> TaskStatusDone then Some now else t_completed_at r))
      else if t_status r = TaskStatusDone \<and> t_status new \<noteq> TaskStatusDone then Inr None
      else Inr (t_completed_at r))"

text \<open>Children follow their parent to another Milestone, and shift with its schedule.\<close>

definition children_of :: "uuid \<Rightarrow> db \<Rightarrow> task_row list" where
  "children_of taskID d = sort_key t_number (filter (\<lambda>c. t_parent c = Some taskID) (tasks d))"

definition touch :: "time \<Rightarrow> task_row \<Rightarrow> task_row" where
  "touch dbnow r = r\<lparr>t_version := t_version r + 1, t_updated_at := dbnow\<rparr>"

fun move_children ::
  "(nat \<Rightarrow> uuid) \<Rightarrow> uuid \<Rightarrow> uuid \<Rightarrow> uuid option \<Rightarrow> OperationActor \<Rightarrow> time \<Rightarrow> time \<Rightarrow>
   task_row list \<Rightarrow> db \<Rightarrow> db result" where
  "move_children ids parentID projectID milestoneID actor now dbnow [] d = Inr d"
| "move_children ids parentID projectID milestoneID actor now dbnow (child # rest) d =
     bindR (mapPg (update_task_rows (\<lambda>r. t_id r = t_id child)
       (\<lambda>r. touch dbnow (r\<lparr>t_project := projectID, t_milestone := milestoneID\<rparr>)) d))
       (\<lambda>(d1, _).
     bindR (record_changes ids (t_id child) actor dbnow
       [(ActivityFieldProject, uuid_String (t_project child), uuid_String projectID),
        (ActivityFieldMilestone, uuidPtrString (t_milestone child), uuidPtrString milestoneID)]
       d1) (\<lambda>d2.
     bindR (InsertBusinessAudit (ids 2)
       \<lparr>audit_id = uuid_nil, audit_occurred_at = now, audit_actor = actor,
        audit_entity_type = ''task'', audit_entity_id = t_id child,
        audit_entity_number = Some (t_number child), audit_action = ''moved_with_parent'',
        audit_old_value = Some (AuditMoved (t_project child) (t_milestone child) None),
        audit_new_value = Some (AuditMoved projectID milestoneID (Some parentID))\<rparr> d2) (\<lambda>d3.
       move_children (\<lambda>k. ids (k + 8)) parentID projectID milestoneID actor now dbnow rest
         d3)))"

definition moveTaskChildren ::
  "(nat \<Rightarrow> uuid) \<Rightarrow> uuid \<Rightarrow> uuid \<Rightarrow> uuid option \<Rightarrow> OperationActor \<Rightarrow> time \<Rightarrow> time \<Rightarrow> db \<Rightarrow>
   db result" where
  "moveTaskChildren ids parentID projectID milestoneID actor now dbnow d =
     (let children = children_of parentID d; group = parentID # map t_id children in
      case children of
        [] \<Rightarrow> Inr d
      | child # _ \<Rightarrow>
          if t_project child \<noteq> projectID \<and>
            (\<exists>e \<in> set (dependencies d). (fst e \<in> set group) \<noteq> (snd e \<in> set group))
          then Inl ErrConflict
          else move_children ids parentID projectID milestoneID actor now dbnow children d)"

fun shift_children ::
  "(nat \<Rightarrow> uuid) \<Rightarrow> uuid \<Rightarrow> int \<Rightarrow> OperationActor \<Rightarrow> time \<Rightarrow> time \<Rightarrow> task_row list \<Rightarrow> db \<Rightarrow>
   db result" where
  "shift_children ids parentID days actor now dbnow [] d = Inr d"
| "shift_children ids parentID days actor now dbnow (child # rest) d =
     (let shifted = shift_dates days child in
      bindR (mapPg (update_task_rows (\<lambda>r. t_id r = t_id child)
        (\<lambda>r. touch dbnow (r\<lparr>t_start_date := t_start_date shifted,
           t_due_date := t_due_date shifted\<rparr>)) d)) (\<lambda>(d1, _).
      bindR (record_changes ids (t_id child) actor dbnow
        [(ActivityFieldStartDate, datePtrString (t_start_date child),
          datePtrString (t_start_date shifted)),
         (ActivityFieldDueDate, datePtrString (t_due_date child),
          datePtrString (t_due_date shifted))] d1) (\<lambda>d2.
      bindR (InsertBusinessAudit (ids 2)
        \<lparr>audit_id = uuid_nil, audit_occurred_at = now, audit_actor = actor,
         audit_entity_type = ''task'', audit_entity_id = t_id child,
         audit_entity_number = Some (t_number child),
         audit_action = ''schedule_shifted_with_parent'',
         audit_old_value = Some (AuditSchedule (t_start_date child) (t_due_date child) None),
         audit_new_value = Some (AuditSchedule (t_start_date shifted) (t_due_date shifted)
           (Some (parentID, days)))\<rparr> d2) (\<lambda>d3.
        shift_children (\<lambda>k. ids (k + 8)) parentID days actor now dbnow rest d3))))"

definition shiftTaskChildrenSchedules ::
  "(nat \<Rightarrow> uuid) \<Rightarrow> uuid \<Rightarrow> int \<Rightarrow> OperationActor \<Rightarrow> time \<Rightarrow> time \<Rightarrow> db \<Rightarrow> db result" where
  "shiftTaskChildrenSchedules ids parentID days actor now dbnow d =
     shift_children ids parentID days actor now dbnow
       (filter scheduled (children_of parentID d)) d"

text \<open>UPDATE of the Task itself: the columns it names, the version and the time of update.\<close>

definition set_columns :: "time \<Rightarrow> time option \<Rightarrow> task_row \<Rightarrow> task_row \<Rightarrow> task_row" where
  "set_columns dbnow completedAt new r =
     touch dbnow (r\<lparr>t_title := t_title new, t_context := t_context new,
       t_expected_result := t_expected_result new, t_description := t_description new,
       t_status := t_status new, t_priority := t_priority new,
       t_execution_mode := t_execution_mode new, t_assignee := t_assignee new,
       t_start_date := t_start_date new, t_due_date := t_due_date new,
       t_project := t_project new, t_milestone := t_milestone new, t_parent := t_parent new,
       t_completed_at := completedAt\<rparr>)"

definition update_row :: "time \<Rightarrow> time option \<Rightarrow> task_row \<Rightarrow> task_row \<Rightarrow> db \<Rightarrow> db result" where
  "update_row dbnow completedAt r new d =
     bindR (mapPg (update_task_rows (\<lambda>x. t_id x = t_id r \<and> t_version x = t_version r)
       (set_columns dbnow completedAt new) d))
       (\<lambda>(d1, n). if n = 0 then Inl ErrOther else Inr d1)"

definition field_changes :: "task_row \<Rightarrow> task_row \<Rightarrow> (ActivityField \<times> string \<times> string) list" where
  "field_changes r new =
     [(ActivityFieldTitle, t_title r, t_title new),
      (ActivityFieldContext, t_context r, t_context new),
      (ActivityFieldExpectedResult, t_expected_result r, t_expected_result new),
      (ActivityFieldDescription, t_description r, t_description new),
      (ActivityFieldStatus, TaskStatus_string (t_status r), TaskStatus_string (t_status new)),
      (ActivityFieldPriority, TaskPriority_string (t_priority r),
       TaskPriority_string (t_priority new)),
      (ActivityFieldExecutionMode, TaskExecutionMode_string (t_execution_mode r),
       TaskExecutionMode_string (t_execution_mode new)),
      (ActivityFieldAssignee, uuidPtrString (t_assignee r), uuidPtrString (t_assignee new)),
      (ActivityFieldStartDate, datePtrString (t_start_date r), datePtrString (t_start_date new)),
      (ActivityFieldDueDate, datePtrString (t_due_date r), datePtrString (t_due_date new)),
      (ActivityFieldProject, uuid_String (t_project r), uuid_String (t_project new)),
      (ActivityFieldMilestone, uuidPtrString (t_milestone r), uuidPtrString (t_milestone new)),
      (ActivityFieldParent, uuidPtrString (t_parent r), uuidPtrString (t_parent new))]"

definition update_labels ::
  "(string \<Rightarrow> string \<Rightarrow> bool) \<Rightarrow> uuid \<Rightarrow> TaskPatch \<Rightarrow> uuid \<Rightarrow> OperationActor \<Rightarrow> time \<Rightarrow> db \<Rightarrow>
   db result" where
  "update_labels collation newID p taskID actor dbnow d =
     (if patch_labels_set p then
        bindR (replaceTaskLabels taskID (patch_label_ids p) d) (\<lambda>d1.
          recordFieldChange newID taskID actor ActivityFieldLabels
            (Join (labelNamesForTask collation taskID d) '', '')
            (Join (labelNamesForTask collation taskID d1) '', '') dbnow d1)
      else Inr d)"

text \<open>What follows a parent: its children when it moved, and their dates when it was shifted.\<close>

definition update_children ::
  "(nat \<Rightarrow> uuid) \<Rightarrow> TaskPatch \<Rightarrow> task_row \<Rightarrow> task_row \<Rightarrow> OperationActor \<Rightarrow> time \<Rightarrow> time \<Rightarrow> db \<Rightarrow>
   db result" where
  "update_children ids p r new actor now dbnow d =
     bindR (if t_parent r = None \<and> moved r new
       then moveTaskChildren ids (t_id r) (t_project new) (t_milestone new) actor now dbnow d
       else Inr d) (\<lambda>d1.
     case patch_schedule_shift_days p of
       Some days \<Rightarrow>
         if t_parent r = None
         then shiftTaskChildrenSchedules (\<lambda>k. ids (4 + k)) (t_id r) days actor now dbnow d1
         else Inr d1
     | None \<Rightarrow> Inr d1)"

definition new_dependency_ids :: "TaskPatch \<Rightarrow> uuid list \<Rightarrow> uuid list" where
  "new_dependency_ids p oldIDs = (if patch_dependencies_set p then patch_dependency_ids p else oldIDs)"

definition dependency_changes ::
  "TaskPatch \<Rightarrow> uuid list \<Rightarrow> uuid list \<Rightarrow> (ActivityField \<times> string \<times> string) list" where
  "dependency_changes p oldIDs newIDs =
     (if patch_dependencies_set p
      then [(ActivityFieldDependencies, uuidListString oldIDs, uuidListString newIDs)] else [])"

text \<open>The rows and dependencies whose deferred triggers fire.\<close>

definition touched_rows :: "task_row \<Rightarrow> task_row \<Rightarrow> db \<Rightarrow> task_row list" where
  "touched_rows r new d =
     filter (\<lambda>x. t_id x = t_id r \<or>
       t_parent r = None \<and> moved r new \<and> t_parent x = Some (t_id r)) (tasks d)"

definition touched_edges :: "TaskPatch \<Rightarrow> task_row \<Rightarrow> (uuid \<times> uuid) list" where
  "touched_edges p r =
     (if patch_dependencies_set p then map (Pair (t_id r)) (patch_dependency_ids p) else [])"

definition version_mismatch :: "int option \<Rightarrow> task_row \<Rightarrow> bool" where
  "version_mismatch expectedVersion r =
     (case expectedVersion of None \<Rightarrow> False | Some v \<Rightarrow> t_version r \<noteq> v)"

definition updateWithExpectedVersion ::
  "(string \<Rightarrow> string \<Rightarrow> bool) \<Rightarrow> (nat \<Rightarrow> uuid) \<Rightarrow> time \<Rightarrow> time \<Rightarrow> int \<Rightarrow> int option \<Rightarrow> TaskPatch \<Rightarrow>
   OperationActor \<Rightarrow> db \<Rightarrow> (db \<times> TaskWithRelations) result" where
  "updateWithExpectedVersion collation ids now dbnow number expectedVersion p actor d =
     bindR (OperationActor_Validate actor) (\<lambda>_.
     case find (\<lambda>x. t_number x = number) (tasks d) of
       None \<Rightarrow> Inl ErrNotFound
     | Some r \<Rightarrow>
         if version_mismatch expectedVersion r
         then Inl (VersionConflictError (t_version r))
         else
         bindR (apply_patch p d r) (\<lambda>new.
           if t_parent r \<noteq> None \<and> moved r new \<and>
              (\<not> patch_parent_set p \<or> patch_parent_task_id p \<noteq> None)
           then Inl ErrConflict
           else
           bindR (validateParentAssignment (t_id r) (t_parent new) (t_project new)
             (t_milestone new) (t_status new) d) (\<lambda>_.
           let oldDependencyIDs = taskDependencyIDs (t_id r) d;
               newDependencyIDs = new_dependency_ids p oldDependencyIDs in
           bindR (update_dependencies p r new d) (\<lambda>d1.
           bindR (update_completion p now r new d1) (\<lambda>completedAt.
           bindR (update_row dbnow completedAt r new d1) (\<lambda>d2.
           bindR (update_children (\<lambda>k. ids (16 + k)) p r new actor now dbnow d2) (\<lambda>d4.
           bindR (record_changes ids (t_id r) actor dbnow
             (field_changes r new @ dependency_changes p oldDependencyIDs newDependencyIDs) d4)
             (\<lambda>d5.
           bindR (update_labels collation (ids 14) p (t_id r) actor dbnow d5) (\<lambda>d6.
           bindR (InsertBusinessAudit (ids 15)
             \<lparr>audit_id = uuid_nil, audit_occurred_at = now, audit_actor = actor,
              audit_entity_type = ''task'', audit_entity_id = t_id r,
              audit_entity_number = Some number, audit_action = ''updated'',
              audit_old_value = Some (AuditTask r oldDependencyIDs [] None),
              audit_new_value = Some (AuditTask new newDependencyIDs []
                (patch_schedule_shift_days p))\<rparr> d6) (\<lambda>d7.
           bindR (reread collation (t_id r) d7) (\<lambda>out.
           bindR (commit (touched_rows r new d7) (touched_edges p r) d7) (\<lambda>_.
             Inr (d7, out)))))))))))))"

definition TaskStore_UpdateWithOperation ::
  "(string \<Rightarrow> string \<Rightarrow> bool) \<Rightarrow> (nat \<Rightarrow> uuid) \<Rightarrow> time \<Rightarrow> time \<Rightarrow> int \<Rightarrow> TaskPatch \<Rightarrow>
   OperationActor \<Rightarrow> db \<Rightarrow> (db \<times> TaskWithRelations) result" where
  "TaskStore_UpdateWithOperation collation ids now dbnow number p actor d =
     updateWithExpectedVersion collation ids now dbnow number None p actor d"

definition TaskStore_Update ::
  "(string \<Rightarrow> string \<Rightarrow> bool) \<Rightarrow> (nat \<Rightarrow> uuid) \<Rightarrow> time \<Rightarrow> time \<Rightarrow> int \<Rightarrow> TaskPatch \<Rightarrow> uuid \<Rightarrow> db \<Rightarrow>
   (db \<times> TaskWithRelations) result" where
  "TaskStore_Update collation ids now dbnow number p actorID d =
     TaskStore_UpdateWithOperation collation ids now dbnow number p
       (SessionOperation actorID ''internal'') d"

definition TaskStore_UpdateVersionedWithOperation ::
  "(string \<Rightarrow> string \<Rightarrow> bool) \<Rightarrow> (nat \<Rightarrow> uuid) \<Rightarrow> time \<Rightarrow> time \<Rightarrow> int \<Rightarrow> int \<Rightarrow> TaskPatch \<Rightarrow>
   OperationActor \<Rightarrow> db \<Rightarrow> (db \<times> TaskWithRelations) result" where
  "TaskStore_UpdateVersionedWithOperation collation ids now dbnow number expectedVersion p actor
     d = updateWithExpectedVersion collation ids now dbnow number (Some expectedVersion) p actor d"

section \<open>Archiving a Task\<close>

definition FormatBool :: "bool \<Rightarrow> string" where
  "FormatBool b = (if b then ''true'' else ''false'')"

definition set_archived :: "bool \<Rightarrow> time \<Rightarrow> task_row \<Rightarrow> task_row" where
  "set_archived archived dbnow r =
     touch dbnow (r\<lparr>t_archived_at :=
       (if archived then (case t_archived_at r of None \<Rightarrow> Some dbnow | Some t \<Rightarrow> Some t)
        else None)\<rparr>)"

text \<open>The activity and the audit of a change, and the UPDATE, whose error is not translated.\<close>

definition record_archived ::
  "(nat \<Rightarrow> uuid) \<Rightarrow> time \<Rightarrow> time \<Rightarrow> bool \<Rightarrow> OperationActor \<Rightarrow> task_row \<Rightarrow> db \<Rightarrow> db result" where
  "record_archived ids now dbnow archived actor r d =
     (let wasArchived = (t_archived_at r \<noteq> None) in
      if wasArchived \<noteq> archived then
        bindR (recordFieldChange (ids 0) (t_id r) actor ActivityFieldArchived
          (FormatBool wasArchived) (FormatBool archived) dbnow d) (\<lambda>d1.
          InsertBusinessAudit (ids 1)
            \<lparr>audit_id = uuid_nil, audit_occurred_at = now, audit_actor = actor,
             audit_entity_type = ''task'', audit_entity_id = t_id r,
             audit_entity_number = Some (t_number r),
             audit_action = (if archived then ''archived'' else ''restored''),
             audit_old_value = Some (AuditArchived wasArchived),
             audit_new_value = Some (AuditArchived archived)\<rparr> d1)
      else Inr d)"

definition archive_row :: "time \<Rightarrow> bool \<Rightarrow> task_row \<Rightarrow> db \<Rightarrow> db result" where
  "archive_row dbnow archived r d =
     (case update_task_rows (\<lambda>x. t_id x = t_id r \<and> t_version x = t_version r)
         (set_archived archived dbnow) d of
        Inl e \<Rightarrow> Inl ErrOther
      | Inr (d1, n) \<Rightarrow> if n = 0 then Inl ErrOther else Inr d1)"

definition setArchivedWithExpectedVersion ::
  "(string \<Rightarrow> string \<Rightarrow> bool) \<Rightarrow> (nat \<Rightarrow> uuid) \<Rightarrow> time \<Rightarrow> time \<Rightarrow> int \<Rightarrow> int option \<Rightarrow> bool \<Rightarrow>
   OperationActor \<Rightarrow> db \<Rightarrow> (db \<times> TaskWithRelations) result" where
  "setArchivedWithExpectedVersion collation ids now dbnow number expectedVersion archived actor
     d =
     bindR (OperationActor_Validate actor) (\<lambda>_.
     case find (\<lambda>x. t_number x = number) (tasks d) of
       None \<Rightarrow> Inl ErrNotFound
     | Some r \<Rightarrow>
         if version_mismatch expectedVersion r
         then Inl (VersionConflictError (t_version r))
         else if archived \<and> t_archived_at r = None \<and>
           (t_activity r = Some TaskActivityWorking \<or>
            t_activity r = Some TaskActivityNeedsResolution)
         then Inl ErrConflict
         else
         bindR (record_archived ids now dbnow archived actor r d) (\<lambda>d1.
         bindR (archive_row dbnow archived r d1) (\<lambda>d2.
         bindR (reread collation (t_id r) d2) (\<lambda>out. Inr (d2, out)))))"

definition TaskStore_SetArchivedWithOperation ::
  "(string \<Rightarrow> string \<Rightarrow> bool) \<Rightarrow> (nat \<Rightarrow> uuid) \<Rightarrow> time \<Rightarrow> time \<Rightarrow> int \<Rightarrow> bool \<Rightarrow>
   OperationActor \<Rightarrow> db \<Rightarrow> (db \<times> TaskWithRelations) result" where
  "TaskStore_SetArchivedWithOperation collation ids now dbnow number archived actor d =
     setArchivedWithExpectedVersion collation ids now dbnow number None archived actor d"

definition TaskStore_SetArchived ::
  "(string \<Rightarrow> string \<Rightarrow> bool) \<Rightarrow> (nat \<Rightarrow> uuid) \<Rightarrow> time \<Rightarrow> time \<Rightarrow> int \<Rightarrow> bool \<Rightarrow> uuid \<Rightarrow> db \<Rightarrow>
   (db \<times> TaskWithRelations) result" where
  "TaskStore_SetArchived collation ids now dbnow number archived actorID d =
     TaskStore_SetArchivedWithOperation collation ids now dbnow number archived
       (SessionOperation actorID ''internal'') d"

definition TaskStore_SetArchivedVersionedWithOperation ::
  "(string \<Rightarrow> string \<Rightarrow> bool) \<Rightarrow> (nat \<Rightarrow> uuid) \<Rightarrow> time \<Rightarrow> time \<Rightarrow> int \<Rightarrow> int \<Rightarrow> bool \<Rightarrow>
   OperationActor \<Rightarrow> db \<Rightarrow> (db \<times> TaskWithRelations) result" where
  "TaskStore_SetArchivedVersionedWithOperation collation ids now dbnow number expectedVersion
     archived actor d =
     setArchivedWithExpectedVersion collation ids now dbnow number (Some expectedVersion) archived
       actor d"

end
