(* ===== verification/Task_Invariant.thy ===== *)
theory Task_Invariant
  imports Workflow_System Task_Commands
begin

text \<open>
  What the commands of \<open>Task_Commands\<close> do to the database, and that they keep the invariant of the
  workflow and the rules of the Task graph.
\<close>

section \<open>Statements that leave Tasks alone\<close>

text \<open>Every table these commands do not write.\<close>

definition others :: "db \<Rightarrow> db" where
  "others d = d\<lparr>tasks := [], dependencies := [], task_labels := [], activity := [], audits := []\<rparr>"

lemma others_updates [simp]:
  "others (d\<lparr>tasks := a\<rparr>) = others d" "others (d\<lparr>dependencies := b\<rparr>) = others d"
  "others (d\<lparr>task_labels := c\<rparr>) = others d" "others (d\<lparr>activity := e\<rparr>) = others d"
  "others (d\<lparr>audits := f\<rparr>) = others d"
  by (simp_all add: others_def)

lemma others_fields:
  assumes "others d' = others d"
  shows "threads d' = threads d" "items d' = items d" "claims d' = claims d" "checks d' = checks d"
    "criteria d' = criteria d" "users d' = users d" "projects d' = projects d"
    "milestones d' = milestones d"
  using assms [THEN arg_cong, of threads] assms [THEN arg_cong, of items]
    assms [THEN arg_cong, of claims] assms [THEN arg_cong, of checks]
    assms [THEN arg_cong, of criteria] assms [THEN arg_cong, of users]
    assms [THEN arg_cong, of projects] assms [THEN arg_cong, of milestones]
  by (simp_all add: others_def)

definition same_tasks :: "db \<Rightarrow> db \<Rightarrow> bool" where
  "same_tasks d d' \<longleftrightarrow>
     tasks d' = tasks d \<and> dependencies d' = dependencies d \<and> others d' = others d"

lemma same_tasks_refl [simp]: "same_tasks d d"
  by (simp add: same_tasks_def)

lemma same_tasks_trans [trans]: "same_tasks d d' \<Longrightarrow> same_tasks d' d'' \<Longrightarrow> same_tasks d d''"
  by (simp add: same_tasks_def)

lemma insertActivity_same: "insertActivity newID i actor f a b dbnow d = Inr d' \<Longrightarrow> same_tasks d d'"
  by (auto simp: insertActivity_def same_tasks_def split: if_splits)

lemma recordFieldChange_same:
  "recordFieldChange newID i actor f a b dbnow d = Inr d' \<Longrightarrow> same_tasks d d'"
  by (auto simp: recordFieldChange_def insertActivity_same split: if_splits)

lemma record_changes_same:
  "record_changes ids i actor dbnow cs d = Inr d' \<Longrightarrow> same_tasks d d'"
proof (induction ids i actor dbnow cs d rule: record_changes.induct)
  case (2 ids i actor dbnow f a b rest d)
  then show ?case
    by (auto simp: result_simps dest: recordFieldChange_same intro: same_tasks_trans)
qed simp

lemma InsertBusinessAudit_same: "InsertBusinessAudit newID e d = Inr d' \<Longrightarrow> same_tasks d d'"
  by (drule InsertBusinessAudit_effect) (auto simp: same_tasks_def)

lemma InsertBusinessAudit_kept:
  "InsertBusinessAudit newID e d = Inr d' \<Longrightarrow> same_tasks d d' \<and> activity d' = activity d"
  using InsertBusinessAudit_same [of newID e d d'] by (auto dest: InsertBusinessAudit_effect)

lemma insert_labels_same: "insert_labels i ls d = Inr d' \<Longrightarrow> same_tasks d d'"
  by (induction i ls d rule: insert_labels.induct)
    (auto simp: same_tasks_def split: if_splits)

lemma replaceTaskLabels_same: "replaceTaskLabels i ls d = Inr d' \<Longrightarrow> same_tasks d d'"
  by (auto simp: replaceTaskLabels_def same_tasks_def dest: insert_labels_same)

lemma update_labels_same: "update_labels collation newID p i actor dbnow d = Inr d' \<Longrightarrow> same_tasks d d'"
  by (auto simp: update_labels_def result_simps split: if_splits
      dest!: replaceTaskLabels_same recordFieldChange_same intro: same_tasks_trans)

section \<open>Dependencies\<close>

lemma insert_dependencies_effect:
  "insert_dependencies i ds d = Inr d' \<Longrightarrow>
   d' = d\<lparr>dependencies := dependencies d @ map (Pair i) ds\<rparr> \<and>
   (\<forall>x \<in> set ds. x \<noteq> i \<and> (i, x) \<notin> set (dependencies d) \<and> x \<in> t_id ` set (tasks d) \<and>
      i \<in> t_id ` set (tasks d)) \<and> distinct ds"
proof (induction i ds d rule: insert_dependencies.induct)
  case (2 i x rest d)
  from 2(2) have guards: "i \<noteq> x" "(i, x) \<notin> set (dependencies d)" "i \<in> t_id ` set (tasks d)"
    "x \<in> t_id ` set (tasks d)"
    and run: "insert_dependencies i rest (d\<lparr>dependencies := dependencies d @ [(i, x)]\<rparr>) = Inr d'"
    by (simp_all split: if_splits)
  have "d' = d\<lparr>dependencies := dependencies d @ map (Pair i) (x # rest)\<rparr>"
    and "\<forall>y \<in> set rest. y \<noteq> i \<and> y \<noteq> x \<and> (i, y) \<notin> set (dependencies d) \<and>
      y \<in> t_id ` set (tasks d)" and "distinct rest"
    using 2(1) guards run by auto
  with guards show ?case by auto
qed simp

lemma replaceTaskDependencies_effect:
  assumes "replaceTaskDependencies i ds d = Inr d'"
  shows "d' = d\<lparr>dependencies := replace_out i ds (dependencies d)\<rparr>" and "distinct ds"
    and "x \<in> set ds \<Longrightarrow> x \<noteq> i \<and> x \<in> t_id ` set (tasks d) \<and> i \<in> t_id ` set (tasks d)"
proof -
  have "insert_dependencies i ds (d\<lparr>dependencies := filter (\<lambda>e. fst e \<noteq> i) (dependencies d)\<rparr>) =
      Inr d'" using assms by (simp add: replaceTaskDependencies_def)
  note e = insert_dependencies_effect [OF this]
  show "d' = d\<lparr>dependencies := replace_out i ds (dependencies d)\<rparr>"
    using conjunct1 [OF e] by (simp add: replace_out_def)
  show "distinct ds" using e by blast
  show "x \<in> set ds \<Longrightarrow> x \<noteq> i \<and> x \<in> t_id ` set (tasks d) \<and> i \<in> t_id ` set (tasks d)"
    using conjunct1 [OF conjunct2 [OF e]] by simp
qed

lemma validate_dependencies_Inr:
  assumes "validate_dependencies i project parent d seen ds = Inr ()" and "x \<in> set ds"
  shows "x \<noteq> i \<and> i \<notin> set (reachable (dependencies d) x)"
  using assms
  by (induction i project parent d seen ds rule: validate_dependencies.induct)
    (auto split: if_splits option.splits)

section \<open>Edited rows\<close>

text \<open>The columns of a Task that only the workflow store writes.\<close>

definition workflow_cols ::
  "task_row \<Rightarrow> uuid \<times> int \<times> TaskPhase option \<times> TaskActivityState option \<times> int option \<times>
     uuid option" where
  "workflow_cols r =
     (t_id r, t_number r, t_phase r, t_activity r, t_review_cycle r, t_active_issue r)"

text \<open>
  \<open>child_edited i\<close>: a child of \<open>i\<close> may change its Milestone and its dates, any other row is kept.
  \<open>edited i\<close>: the row of \<open>i\<close> itself may also change what its editor may change.
\<close>

definition child_edited :: "uuid \<Rightarrow> task_row \<Rightarrow> task_row \<Rightarrow> bool" where
  "child_edited i x x' \<longleftrightarrow>
     workflow_cols x' = workflow_cols x \<and> t_project x' = t_project x \<and> t_parent x' = t_parent x \<and>
     t_version x \<le> t_version x' \<and> (t_parent x \<noteq> Some i \<longrightarrow> x' = x)"

definition edited :: "uuid \<Rightarrow> task_row \<Rightarrow> task_row \<Rightarrow> bool" where
  "edited i x x' \<longleftrightarrow>
     workflow_cols x' = workflow_cols x \<and> t_project x' = t_project x \<and>
     t_version x \<le> t_version x' \<and>
     (t_id x \<noteq> i \<longrightarrow> t_parent x' = t_parent x \<and> (t_parent x \<noteq> Some i \<longrightarrow> x' = x))"

lemma child_edited_refl [simp]: "child_edited i x x"
  by (simp add: child_edited_def)

lemma child_edited_trans: "child_edited i x y \<Longrightarrow> child_edited i y z \<Longrightarrow> child_edited i x z"
  by (auto simp: child_edited_def)

definition child_edits :: "uuid \<Rightarrow> db \<Rightarrow> db \<Rightarrow> bool" where
  "child_edits i d d' \<longleftrightarrow>
     list_all2 (child_edited i) (tasks d) (tasks d') \<and> dependencies d' = dependencies d \<and>
     others d' = others d"

lemma same_tasks_child_edits: "same_tasks d d' \<Longrightarrow> child_edits i d d'"
  by (simp add: same_tasks_def child_edits_def list_all2_refl)

lemma child_edits_refl [simp]: "child_edits i d d"
  by (rule same_tasks_child_edits) simp

lemma child_edits_trans [trans]: "child_edits i d d' \<Longrightarrow> child_edits i d' d'' \<Longrightarrow> child_edits i d d''"
  unfolding child_edits_def by (auto intro: list_all2_trans [OF child_edited_trans])

lemma list_all2_from: "list_all2 R xs ys \<Longrightarrow> y \<in> set ys \<Longrightarrow> \<exists>x \<in> set xs. R x y"
  by (induction rule: list_all2_induct) auto

lemma list_all2_to: "list_all2 R xs ys \<Longrightarrow> x \<in> set xs \<Longrightarrow> \<exists>y \<in> set ys. R x y"
  by (induction rule: list_all2_induct) auto

lemma list_all2_mono':
  "list_all2 R xs ys \<Longrightarrow> (\<And>x y. x \<in> set xs \<Longrightarrow> R x y \<Longrightarrow> Q x y) \<Longrightarrow> list_all2 Q xs ys"
  by (induction rule: list_all2_induct) auto

lemma list_all2_update_where:
  "(\<And>x. x \<in> set xs \<Longrightarrow> if p x then R x (f x) else R x x) \<Longrightarrow> list_all2 R xs (update_where p f xs)"
  by (induction xs) (auto simp: update_where_def)

lemma update_task_rows_Inr:
  "update_task_rows p f d = Inr (d', n) \<longleftrightarrow>
     d' = d\<lparr>tasks := update_where p f (tasks d)\<rparr> \<and> n = length (filter p (tasks d)) \<and>
     (\<forall>r \<in> set (tasks d). p r \<longrightarrow> t_project (f r) = t_project r \<and> task_row_checks (f r) \<and>
        task_refs_kept d r (f r))"
  by (auto simp: update_task_rows_def Let_def)

text \<open>The Tasks with the given identifiers are children of \<open>i\<close>.\<close>

definition family :: "uuid \<Rightarrow> uuid set \<Rightarrow> db \<Rightarrow> bool" where
  "family i X d \<longleftrightarrow> (\<forall>r \<in> set (tasks d). t_id r \<in> X \<longrightarrow> t_parent r = Some i)"

lemma family_edits:
  assumes "child_edits i d d'" and "family i X d"
  shows "family i X d'"
proof -
  have "t_parent r' = Some i" if r': "r' \<in> set (tasks d')" "t_id r' \<in> X" for r'
  proof -
    obtain r where "r \<in> set (tasks d)" "child_edited i r r'"
      using assms(1) list_all2_from [OF _ r'(1)] by (auto simp: child_edits_def)
    with assms(2) r'(2) show ?thesis by (auto simp: family_def child_edited_def workflow_cols_def)
  qed
  then show ?thesis by (simp add: family_def)
qed

lemma update_child_edits:
  assumes "update_task_rows (\<lambda>r. t_id r = c) f d = Inr (d', n)" and "family i {c} d"
    and "\<And>r. workflow_cols (f r) = workflow_cols r \<and> t_parent (f r) = t_parent r \<and>
      t_version (f r) = t_version r + 1"
  shows "child_edits i d d'"
  using assms
  by (auto simp: update_task_rows_Inr child_edits_def child_edited_def family_def
      intro!: list_all2_update_where)

lemma family_subset: "family i X d \<Longrightarrow> Y \<subseteq> X \<Longrightarrow> family i Y d"
  by (auto simp: family_def)

lemma move_children_edits:
  "move_children ids i project milestone actor now dbnow cs d = Inr d' \<Longrightarrow>
   family i (t_id ` set cs) d \<Longrightarrow> child_edits i d d'"
proof (induction ids i project milestone actor now dbnow cs d rule: move_children.induct)
  case (2 ids i project milestone actor now dbnow c rest d)
  from 2(2) obtain d1 n d2 d3 where
    u: "update_task_rows (\<lambda>r. t_id r = t_id c)
      (\<lambda>r. touch dbnow (r\<lparr>t_project := project, t_milestone := milestone\<rparr>)) d = Inr (d1, n)"
    and f: "record_changes ids (t_id c) actor dbnow
       [(ActivityFieldProject, uuid_String (t_project c), uuid_String project),
        (ActivityFieldMilestone, uuidPtrString (t_milestone c), uuidPtrString milestone)]
       d1 = Inr d2"
    and a: "same_tasks d2 d3"
    and r: "move_children (\<lambda>k. ids (k + 8)) i project milestone actor now dbnow rest d3 = Inr d'"
    by (auto simp: result_simps dest: InsertBusinessAudit_same)
  have "child_edits i d d1"
    by (rule update_child_edits [OF u])
      (use 2(3) in \<open>auto simp: family_def touch_def workflow_cols_def\<close>)
  also have "child_edits i d1 d3"
    using record_changes_same [OF f] a by (blast intro: same_tasks_child_edits same_tasks_trans)
  finally have step: "child_edits i d d3" .
  have "family i (t_id ` set rest) d3"
    by (rule family_edits [OF step], rule family_subset [OF 2(3)]) auto
  with step r have "child_edits i d3 d'" by (auto intro: 2(1))
  with step show ?case by (rule child_edits_trans)
qed simp

lemma shift_children_edits:
  "shift_children ids i days actor now dbnow cs d = Inr d' \<Longrightarrow>
   family i (t_id ` set cs) d \<Longrightarrow> child_edits i d d'"
proof (induction ids i days actor now dbnow cs d rule: shift_children.induct)
  case (2 ids i days actor now dbnow c rest d)
  let ?c = "shift_dates days c"
  from 2(2) obtain d1 n d2 d3 where
    u: "update_task_rows (\<lambda>r. t_id r = t_id c)
      (\<lambda>r. touch dbnow (r\<lparr>t_start_date := t_start_date ?c, t_due_date := t_due_date ?c\<rparr>)) d =
      Inr (d1, n)"
    and f: "same_tasks d1 d2"
    and a: "same_tasks d2 d3"
    and r: "shift_children (\<lambda>k. ids (k + 8)) i days actor now dbnow rest d3 = Inr d'"
    by (auto simp: result_simps Let_def simp del: record_changes.simps
        dest!: InsertBusinessAudit_same record_changes_same)
  have "child_edits i d d1"
    by (rule update_child_edits [OF u])
      (use 2(3) in \<open>auto simp: family_def touch_def workflow_cols_def\<close>)
  also have "child_edits i d1 d3"
    using f a by (blast intro: same_tasks_child_edits same_tasks_trans)
  finally have step: "child_edits i d d3" .
  have "family i (t_id ` set rest) d3"
    by (rule family_edits [OF step], rule family_subset [OF 2(3)]) auto
  with step r have "child_edits i d3 d'" by (auto intro: 2(1) [OF refl])
  with step show ?case by (rule child_edits_trans)
qed simp

lemma family_children:
  assumes "distinct (map t_id (tasks d))" and "set cs \<subseteq> set (children_of i d)"
  shows "family i (t_id ` set cs) d"
proof -
  have "t_parent r = Some i" if "r \<in> set (tasks d)" "c \<in> set cs" "t_id r = t_id c" for r c
  proof -
    have "c \<in> set (tasks d)" "t_parent c = Some i"
      using assms(2) that(2) by (auto simp: children_of_def)
    with that assms(1) show ?thesis using distinct_key_inj [of t_id "tasks d" r c] by auto
  qed
  then show ?thesis by (auto simp: family_def)
qed

lemma moveTaskChildren_edits:
  assumes "distinct (map t_id (tasks d))"
    and "moveTaskChildren ids i project milestone actor now dbnow d = Inr d'"
  shows "child_edits i d d'"
proof -
  have "d' = d \<or>
      move_children ids i project milestone actor now dbnow (children_of i d) d = Inr d'"
    using assms(2) by (simp add: moveTaskChildren_def Let_def split: list.splits if_splits)
  then show ?thesis
    using move_children_edits family_children [OF assms(1) subset_refl] by auto
qed

lemma shiftTaskChildrenSchedules_edits:
  assumes "distinct (map t_id (tasks d))"
    and "shiftTaskChildrenSchedules ids i days actor now dbnow d = Inr d'"
  shows "child_edits i d d'"
  by (rule shift_children_edits [OF assms(2) [unfolded shiftTaskChildrenSchedules_def]])
    (rule family_children [OF assms(1)], auto)

lemma child_edits_ids: "child_edits i d d' \<Longrightarrow> map t_id (tasks d') = map t_id (tasks d)"
  by (simp add: child_edits_def child_edited_def workflow_cols_def list_all2_conv_all_nth
      list_eq_iff_nth_eq)

section \<open>What an edit does\<close>

lemma update_row_effect:
  assumes keys: "distinct (map t_id (tasks d))" and r: "r \<in> set (tasks d)"
    and run: "update_row dbnow completedAt r new d = Inr d'"
  shows "d' = d\<lparr>tasks := update_where (\<lambda>x. t_id x = t_id r) (set_columns dbnow completedAt new)
      (tasks d)\<rparr>"
    and "t_project new = t_project r" and "t_parent new \<noteq> Some (t_id r)"
proof -
  have u: "update_task_rows (\<lambda>x. t_id x = t_id r \<and> t_version x = t_version r)
      (set_columns dbnow completedAt new) d = Inr (d', length (filter (\<lambda>x. t_id x = t_id r \<and>
        t_version x = t_version r) (tasks d)))"
    using run by (auto simp: update_row_def result_simps update_task_rows_Inr split: if_splits)
  have "(t_id x = t_id r \<and> t_version x = t_version r) = (t_id x = t_id r)"
    if "x \<in> set (tasks d)" for x
    using keys r that distinct_key_inj [of t_id "tasks d" x r] by auto
  then show "d' = d\<lparr>tasks := update_where (\<lambda>x. t_id x = t_id r)
      (set_columns dbnow completedAt new) (tasks d)\<rparr>"
    using u by (simp add: update_task_rows_Inr update_where_def cong: map_cong)
  have "t_project (set_columns dbnow completedAt new r) = t_project r \<and>
      task_row_checks (set_columns dbnow completedAt new r)"
    using u r by (auto simp: update_task_rows_Inr)
  then show "t_project new = t_project r" "t_parent new \<noteq> Some (t_id r)"
    by (auto simp: set_columns_def touch_def task_row_checks_def)
qed

text \<open>The rows after an edit of \<open>r\<close>: its own columns set, then its children moved and shifted.\<close>

definition edited_rows ::
  "time \<Rightarrow> time option \<Rightarrow> task_row \<Rightarrow> task_row \<Rightarrow> task_row list \<Rightarrow> task_row list \<Rightarrow> bool" where
  "edited_rows dbnow completedAt r new rows rows' \<longleftrightarrow>
     list_all2 (child_edited (t_id r))
       (update_where (\<lambda>x. t_id x = t_id r) (set_columns dbnow completedAt new) rows) rows'"

lemma update_dependencies_effect:
  assumes "update_dependencies p r new d = Inr d1"
  shows "d1 = d\<lparr>dependencies := (if patch_dependencies_set p
      then replace_out (t_id r) (patch_dependency_ids p) (dependencies d) else dependencies d)\<rparr>"
  using assms replaceTaskDependencies_effect(1) [of "t_id r" "patch_dependency_ids p" d d1]
  by (auto simp: update_dependencies_def result_simps split: if_splits)

lemma version_mismatch_iff [simp]:
  "version_mismatch v r \<longleftrightarrow> v \<notin> {None, Some (t_version r)}"
  by (auto simp: version_mismatch_def split: option.splits)

lemma update_children_edits:
  assumes keys: "distinct (map t_id (tasks d))"
    and run: "update_children ids p r new actor now dbnow d = Inr d'"
  shows "child_edits (t_id r) d d'"
proof -
  obtain d1 where move: "d1 = d \<or> moveTaskChildren ids (t_id r) (t_project new) (t_milestone new)
      actor now dbnow d = Inr d1"
    and shift: "d' = d1 \<or> (\<exists>days. shiftTaskChildrenSchedules (\<lambda>k. ids (4 + k)) (t_id r) days actor
      now dbnow d1 = Inr d')"
    using run
    by (auto simp: update_children_def result_simps split: if_splits option.splits)
  have 1: "child_edits (t_id r) d d1" using move moveTaskChildren_edits [OF keys] by auto
  then have "distinct (map t_id (tasks d1))" using keys by (simp add: child_edits_ids)
  then have "child_edits (t_id r) d1 d'"
    using shift shiftTaskChildrenSchedules_edits by auto
  with 1 show ?thesis by (rule child_edits_trans)
qed

text \<open>A successful edit, with the steps it went through.\<close>

lemma update_cases:
  assumes run: "updateWithExpectedVersion collation ids now dbnow number v p actor d = Inr (d', out)"
  obtains r new d1 completedAt d2 d3 d4 d5 where
    "find (\<lambda>x. t_number x = number) (tasks d) = Some r" and "v \<in> {None, Some (t_version r)}"
    and "apply_patch p d r = Inr new"
    and "validateParentAssignment (t_id r) (t_parent new) (t_project new) (t_milestone new)
      (t_status new) d = Inr ()"
    and "update_dependencies p r new d = Inr d1"
    and "update_completion p now r new d1 = Inr completedAt"
    and "update_row dbnow completedAt r new d1 = Inr d2"
    and "update_children (\<lambda>k. ids (16 + k)) p r new actor now dbnow d2 = Inr d3"
    and "record_changes ids (t_id r) actor dbnow (field_changes r new @
      dependency_changes p (taskDependencyIDs (t_id r) d)
        (new_dependency_ids p (taskDependencyIDs (t_id r) d))) d3 = Inr d4"
    and "update_labels collation (ids 14) p (t_id r) actor dbnow d4 = Inr d5"
    and "same_tasks d5 d'"
    and "commit (touched_rows r new d') (touched_edges p r) d' = Inr ()"
    and "activity d' = activity d5"
proof -
  obtain r where r: "find (\<lambda>x. t_number x = number) (tasks d) = Some r"
    using run by (auto simp: updateWithExpectedVersion_def result_simps split: option.splits)
  have v: "v \<in> {None, Some (t_version r)}"
    using run r by (auto simp: updateWithExpectedVersion_def result_simps split: if_splits)
  show thesis
    using run r v that
    by (auto simp: updateWithExpectedVersion_def Let_def result_simps split: if_splits
        dest!: InsertBusinessAudit_kept)
qed

lemma update_effect:
  assumes keys: "distinct (map t_id (tasks d))"
    and run: "updateWithExpectedVersion collation ids now dbnow number v p actor d = Inr (d', out)"
  obtains r new d1 completedAt where
    "find (\<lambda>x. t_number x = number) (tasks d) = Some r" and "v \<in> {None, Some (t_version r)}"
    and "apply_patch p d r = Inr new"
    and "update_dependencies p r new d = Inr d1"
    and "update_completion p now r new d1 = Inr completedAt"
    and "t_project new = t_project r" and "t_parent new \<noteq> Some (t_id r)"
    and "edited_rows dbnow completedAt r new (tasks d) (tasks d')"
    and "dependencies d' = dependencies d1" and "others d' = others d"
    and "commit (touched_rows r new d') (touched_edges p r) d' = Inr ()"
  using run
proof (cases rule: update_cases)
  case (1 r new d1 completedAt d2 d3 d4 d5)
  note d1 = update_dependencies_effect [OF 1(5)]
  have r: "r \<in> set (tasks d1)" using find_SomeD [OF 1(1)] d1 by simp
  have keys1: "distinct (map t_id (tasks d1))" using keys d1 by simp
  note row = update_row_effect [OF keys1 r 1(7)]
  have "map t_id (tasks d2) = map t_id (tasks d1)"
    by (simp add: row(1) map_update_where set_columns_def touch_def)
  then have "child_edits (t_id r) d2 d3" using update_children_edits [OF _ 1(8)] keys1 by simp
  moreover have "same_tasks d3 d'"
    using record_changes_same [OF 1(9)] update_labels_same [OF 1(10)] 1(11)
    by (blast intro: same_tasks_trans)
  ultimately have e: "child_edits (t_id r) d2 d'"
    by (blast intro: child_edits_trans same_tasks_child_edits)
  have "edited_rows dbnow completedAt r new (tasks d) (tasks d')"
    using e row(1) d1 by (simp add: edited_rows_def child_edits_def)
  moreover have "dependencies d' = dependencies d1" "others d' = others d"
    using e row(1) d1 by (simp_all add: child_edits_def)
  ultimately show thesis using that 1 row(2,3) by blast
qed

lemma edited_rows_edited:
  assumes "edited_rows dbnow completedAt r new rows rows'" and "t_project new = t_project r"
    and "t_parent new \<noteq> Some (t_id r)"
    and "\<And>x. x \<in> set rows \<Longrightarrow> t_id x = t_id r \<Longrightarrow> x = r"
  shows "list_all2 (edited (t_id r)) rows rows'"
proof -
  let ?f = "\<lambda>x. if t_id x = t_id r then set_columns dbnow completedAt new x else x"
  have "list_all2 (\<lambda>x y. child_edited (t_id r) (?f x) y) rows rows'"
    using assms(1)
    by (simp add: edited_rows_def update_where_def list_all2_conv_all_nth)
  then show ?thesis
  proof (rule list_all2_mono')
    fix x y assume x: "x \<in> set rows" and e: "child_edited (t_id r) (?f x) y"
    show "edited (t_id r) x y"
    proof (cases "t_id x = t_id r")
      case True
      then have "x = r" using assms(4) x by blast
      with e assms(2) show ?thesis
        by (auto simp: edited_def child_edited_def workflow_cols_def set_columns_def touch_def)
    next
      case False
      with e show ?thesis by (auto simp: edited_def child_edited_def)
    qed
  qed
qed

end
