(* ===== verification/Task_Rules.thy ===== *)
theory Task_Rules
  imports Task_Invariant
begin

text \<open>
  The rules of the Task graph, and that every command keeps them: dependencies form an acyclic
  graph inside a Project, the hierarchy has one level, a ready Task waits for nothing, and the
  lifecycle of every Task is one the lifecycle commands can reach.
\<close>

section \<open>The rules\<close>

definition edge_ok :: "task_row list \<Rightarrow> uuid \<times> uuid \<Rightarrow> bool" where
  "edge_ok rows e \<longleftrightarrow>
     (\<exists>a \<in> set rows. \<exists>b \<in> set rows. t_id a = fst e \<and> t_id b = snd e \<and>
        t_project a = t_project b \<and> t_parent a \<noteq> Some (snd e) \<and> t_parent b \<noteq> Some (fst e))"

definition parent_ok :: "task_row list \<Rightarrow> task_row \<Rightarrow> bool" where
  "parent_ok rows r \<longleftrightarrow>
     (case t_parent r of
        None \<Rightarrow> True
      | Some p \<Rightarrow> \<exists>q \<in> set rows. t_id q = p \<and> t_parent q = None \<and> t_project q = t_project r \<and>
          t_milestone q = t_milestone r)"

definition graph_wf :: "db \<Rightarrow> bool" where
  "graph_wf d \<longleftrightarrow>
     distinct (dependencies d) \<and> acyclic (set (dependencies d)) \<and>
     (\<forall>e \<in> set (dependencies d). edge_ok (tasks d) e) \<and>
     (\<forall>r \<in> set (tasks d). parent_ok (tasks d) r)"

definition ready_wf :: "db \<Rightarrow> bool" where
  "ready_wf d \<longleftrightarrow>
     (\<forall>a \<in> set (tasks d). \<forall>b \<in> set (tasks d).
        (t_id a, t_id b) \<in> set (dependencies d) \<longrightarrow> t_phase a = Some TaskPhaseReady \<longrightarrow>
        \<not> unfinished_row b)"

definition lifecycles_wf :: "db \<Rightarrow> bool" where
  "lifecycles_wf d \<longleftrightarrow>
     (\<forall>r \<in> set (tasks d). \<forall>l. row_lifecycle r = Some l \<longrightarrow> lifecycle_step\<^sup>*\<^sup>* NewTaskLifecycle l)"

section \<open>Edits\<close>

lemma edited_fields:
  assumes "edited i x x'"
  shows "t_id x' = t_id x" "t_phase x' = t_phase x" "t_activity x' = t_activity x"
    "t_review_cycle x' = t_review_cycle x" "t_project x' = t_project x" "t_number x' = t_number x"
    "t_active_issue x' = t_active_issue x" "t_version x \<le> t_version x'"
  using assms by (auto simp: edited_def workflow_cols_def)

lemma edited_row:
  assumes "edited i x x'"
  shows "unfinished_row x' = unfinished_row x" "row_lifecycle x' = row_lifecycle x"
  by (simp_all only: unfinished_row_def row_lifecycle_def edited_fields [OF assms])

text \<open>
  The parents of other Tasks are kept, and the deferred triggers have seen the edited row: every
  row still has a parent it agrees with.
\<close>

lemma parent_ok_edited:
  assumes keys: "distinct (map t_id rows)" "map t_id rows' = map t_id rows"
    and ed: "list_all2 (edited i) rows rows'"
    and ok: "\<And>x. x \<in> set rows \<Longrightarrow> parent_ok rows x"
    and seen: "\<And>x. x \<in> set rows' \<Longrightarrow> t_id x = i \<Longrightarrow> validate_task_relationships x d"
    and d: "tasks d = rows'"
    and y: "y \<in> set rows'"
  shows "parent_ok rows' y"
proof (cases "t_parent y")
  case None
  then show ?thesis by (simp add: parent_ok_def)
next
  case (Some p)
  show ?thesis
  proof (cases "t_id y = i")
    case True
    with seen [OF y] Some d show ?thesis
      by (auto simp: validate_task_relationships_def parent_ok_def dest!: find_SomeD
          split: option.splits)
  next
    case False
    obtain x where x: "x \<in> set rows" "edited i x y" using list_all2_from [OF ed y] by blast
    with False have px: "t_parent x = Some p" and idx: "t_id x \<noteq> i"
      using Some by (auto simp: edited_def workflow_cols_def)
    then obtain q where q: "q \<in> set rows" "t_id q = p" "t_parent q = None"
      "t_project q = t_project x" "t_milestone q = t_milestone x"
      using ok [OF x(1)] by (auto simp: parent_ok_def)
    obtain q' where q': "q' \<in> set rows'" "edited i q q'" using list_all2_to [OF ed q(1)] by blast
    then have idq: "t_id q' = p" using q(2) by (simp add: edited_fields)
    show ?thesis
    proof (cases "p = i")
      case False
      with q q' x px idx have "q' = q" "y = x" by (auto simp: edited_def)
      with q q' px Some show ?thesis by (auto simp: parent_ok_def)
    next
      case True
      then have "validate_task_relationships q' d" using seen q' idq by blast
      then have "t_parent q' = None \<and> t_project q' = t_project y \<and> t_milestone q' = t_milestone y"
        using y d Some idq by (auto simp: validate_task_relationships_def split: option.splits)
      with q' idq Some show ?thesis by (auto simp: parent_ok_def)
    qed
  qed
qed

lemma edge_ok_edited:
  assumes ed: "list_all2 (edited i) rows rows'" and e: "edge_ok rows e"
    and seen: "\<And>x. x \<in> set rows' \<Longrightarrow> t_id x = i \<Longrightarrow> validate_task_relationships x d"
    and d: "e \<in> set (dependencies d)"
  shows "edge_ok rows' e"
proof -
  obtain a b where ab: "a \<in> set rows" "b \<in> set rows" "t_id a = fst e" "t_id b = snd e"
    "t_project a = t_project b" "t_parent a \<noteq> Some (snd e)" "t_parent b \<noteq> Some (fst e)"
    using e by (auto simp: edge_ok_def)
  obtain a' b' where a': "a' \<in> set rows'" "edited i a a'" and b': "b' \<in> set rows'" "edited i b b'"
    using list_all2_to [OF ed ab(1)] list_all2_to [OF ed ab(2)] by blast
  have "t_parent x \<noteq> Some y" if "x \<in> set rows'" "t_id x = i" "(i, y) = e \<or> (y, i) = e" for x y
    using seen [OF that(1,2)] d that(2,3) by (auto simp: validate_task_relationships_def)
  then have "t_parent a' \<noteq> Some (snd e)" "t_parent b' \<noteq> Some (fst e)"
    using ab a' b' edited_fields [OF a'(2)] edited_fields [OF b'(2)]
    by (auto simp: edited_def prod_eq_iff)
  then show ?thesis
    using ab a' b' edited_fields [OF a'(2)] edited_fields [OF b'(2)]
    unfolding edge_ok_def by (intro bexI [of _ a'] bexI [of _ b']) auto
qed

lemma edits_keys: "list_all2 (edited i) rows rows' \<Longrightarrow> map t_id rows' = map t_id rows"
  by (auto simp: list_all2_conv_all_nth list_eq_iff_nth_eq dest: edited_fields(1))

lemma sql_and_Some [simp]: "sql_and (Some a) (Some b) = Some (a \<and> b)"
  by (cases a; cases b) simp_all

lemma commit_Inr:
  "commit rows edges d = Inr () \<longleftrightarrow>
     (\<forall>r \<in> set rows. validate_task_relationships r d) \<and>
     (\<forall>e \<in> set edges. validate_task_dependency e d)"
  by (auto simp: commit_def)

text \<open>An inserted dependency whose endpoints exist.\<close>

lemma validate_task_dependency_edge_ok:
  assumes v: "validate_task_dependency e d"
    and ends: "fst e \<in> t_id ` set (tasks d)" "snd e \<in> t_id ` set (tasks d)"
  shows "edge_ok (tasks d) e"
proof -
  have found: "\<exists>r \<in> set (tasks d). find (\<lambda>x. t_id x = i) (tasks d) = Some r \<and> t_id r = i"
    if "i \<in> t_id ` set (tasks d)" for i
    using that by (cases "find (\<lambda>x. t_id x = i) (tasks d)") (auto simp: find_None_iff dest: find_SomeD)
  obtain a b where a: "a \<in> set (tasks d)" "find (\<lambda>x. t_id x = fst e) (tasks d) = Some a" "t_id a = fst e"
    and b: "b \<in> set (tasks d)" "find (\<lambda>x. t_id x = snd e) (tasks d) = Some b" "t_id b = snd e"
    using found [OF ends(1)] found [OF ends(2)] by blast
  have "t_project a = t_project b" "t_parent a \<noteq> Some (snd e)" "t_parent b \<noteq> Some (fst e)"
    using v a(2) b(2)
    by (auto simp: validate_task_dependency_def sql_check_def Let_def split: if_splits)
  with a b show ?thesis unfolding edge_ok_def by (intro bexI [of _ a] bexI [of _ b]) auto
qed

definition edits :: "uuid \<Rightarrow> TaskPatch \<Rightarrow> db \<Rightarrow> db \<Rightarrow> bool" where
  "edits i p d d' \<longleftrightarrow>
     list_all2 (edited i) (tasks d) (tasks d') \<and> others d' = others d \<and>
     dependencies d' = (if patch_dependencies_set p
       then replace_out i (patch_dependency_ids p) (dependencies d) else dependencies d)"

lemma update_edits:
  assumes keys: "distinct (map t_id (tasks d))"
    and run: "updateWithExpectedVersion collation ids now dbnow number v p actor d = Inr (d', out)"
  obtains r where "r \<in> set (tasks d)" and "t_number r = number"
    and "edits (t_id r) p d d'"
    and "\<And>x. x \<in> set (tasks d') \<Longrightarrow> t_id x = t_id r \<Longrightarrow> validate_task_relationships x d'"
    and "\<And>x. patch_dependencies_set p \<Longrightarrow> x \<in> set (patch_dependency_ids p) \<Longrightarrow>
      x \<noteq> t_id r \<and> t_id r \<notin> set (reachable (dependencies d) x) \<and> x \<in> t_id ` set (tasks d) \<and>
      validate_task_dependency (t_id r, x) d'"
    and "patch_dependencies_set p \<Longrightarrow> distinct (patch_dependency_ids p)"
    and "\<And>x. patch_dependencies_set p \<Longrightarrow> t_phase r = Some TaskPhaseReady \<Longrightarrow> x \<in> set (tasks d) \<Longrightarrow>
      t_id x \<in> set (patch_dependency_ids p) \<Longrightarrow> \<not> unfinished_row x"
  using keys run
proof (cases rule: update_effect)
  case (1 r new d1 completedAt)
  have r: "r \<in> set (tasks d)" "t_number r = number" using find_SomeD [OF 1(1)] by auto
  have inj: "x = r" if "x \<in> set (tasks d)" "t_id x = t_id r" for x
    using keys r that distinct_key_inj [of t_id "tasks d" x r] by auto
  have "edits (t_id r) p d d'"
    using edited_rows_edited [OF 1(8,6,7) inj] 1(9,10) update_dependencies_effect [OF 1(4)]
    by (simp add: edits_def)
  moreover have "validate_task_relationships x d'" if "x \<in> set (tasks d')" "t_id x = t_id r" for x
    using 1(11) that by (auto simp: commit_Inr touched_rows_def)
  moreover have "x \<noteq> t_id r \<and> t_id r \<notin> set (reachable (dependencies d) x) \<and>
      x \<in> t_id ` set (tasks d) \<and> validate_task_dependency (t_id r, x) d'"
    if "patch_dependencies_set p" "x \<in> set (patch_dependency_ids p)" for x
    using 1(4,11) that replaceTaskDependencies_effect(3) [of "t_id r" "patch_dependency_ids p" d d1 x]
    by (auto simp: update_dependencies_def commit_Inr touched_edges_def result_simps
        validateDependencyAssignments_def dest: validate_dependencies_Inr split: if_splits)
  moreover have "distinct (patch_dependency_ids p)" if "patch_dependencies_set p"
    using 1(4) that by (auto simp: update_dependencies_def result_simps split: if_splits
        dest: replaceTaskDependencies_effect(2))
  moreover have "\<not> unfinished_row x" if "patch_dependencies_set p" "t_phase r = Some TaskPhaseReady"
    "x \<in> set (tasks d)" "t_id x \<in> set (patch_dependency_ids p)" for x
  proof -
    have "countUnfinishedTasks (patch_dependency_ids p) d \<le> 0"
      using 1(4) that by (auto simp: update_dependencies_def result_simps split: if_splits)
    with that(3,4) show ?thesis
      by (auto simp: countUnfinishedTasks_def count_where_def filter_empty_conv split: if_splits)
  qed
  ultimately show thesis using that r by blast
qed

lemma graph_wf_update:
  assumes keys: "distinct (map t_id (tasks d))" and wf: "graph_wf d"
    and run: "updateWithExpectedVersion collation ids now dbnow number v p actor d = Inr (d', out)"
  shows "graph_wf d'"
  using keys run
proof (cases rule: update_edits)
  case (1 r)
  let ?i = "t_id r"
  have ed: "list_all2 (edited ?i) (tasks d) (tasks d')" using 1(3) by (simp add: edits_def)
  note ids = edits_keys [OF ed]
  have deps: "dependencies d' = (if patch_dependencies_set p
      then replace_out ?i (patch_dependency_ids p) (dependencies d) else dependencies d)"
    using 1(3) by (simp add: edits_def)
  have ends: "x \<in> t_id ` set (tasks d') \<longleftrightarrow> x \<in> t_id ` set (tasks d)" for x
    using ids by (metis list.set_map)
  have "parent_ok (tasks d') x" if "x \<in> set (tasks d')" for x
    by (rule parent_ok_edited [OF keys ids ed _ 1(4) refl that])
      (use wf in \<open>auto simp: graph_wf_def\<close>)
  moreover have "edge_ok (tasks d') e" if e: "e \<in> set (dependencies d')" for e
  proof (cases "e \<in> set (dependencies d)")
    case True
    then show ?thesis
      using edge_ok_edited [OF ed _ 1(4) e] wf by (auto simp: graph_wf_def)
  next
    case False
    then obtain x where x: "e = (?i, x)" "patch_dependencies_set p"
      "x \<in> set (patch_dependency_ids p)"
      using e deps by (auto simp: set_replace_out split: if_splits)
    then show ?thesis
      using 1(1) 1(5) [OF x(2,3)] by (intro validate_task_dependency_edge_ok) (auto simp: ends)
  qed
  moreover have "acyclic (set (dependencies d'))"
    using wf 1(5) deps by (auto simp: graph_wf_def intro!: acyclic_replace_out)
  moreover have "distinct (dependencies d')"
    using wf 1(6) deps by (auto simp: graph_wf_def replace_out_def distinct_map inj_on_def)
  ultimately show ?thesis by (simp add: graph_wf_def)
qed

lemma ready_wf_update:
  assumes keys: "distinct (map t_id (tasks d))" and wf: "ready_wf d"
    and run: "updateWithExpectedVersion collation ids now dbnow number v p actor d = Inr (d', out)"
  shows "ready_wf d'"
  using keys run
proof (cases rule: update_edits)
  case (1 r)
  have ed: "list_all2 (edited (t_id r)) (tasks d) (tasks d')"
    and deps: "dependencies d' = (if patch_dependencies_set p
      then replace_out (t_id r) (patch_dependency_ids p) (dependencies d) else dependencies d)"
    using 1(3) by (simp_all add: edits_def)
  have "\<not> unfinished_row b'" if ab': "a' \<in> set (tasks d')" "b' \<in> set (tasks d')"
    "(t_id a', t_id b') \<in> set (dependencies d')" "t_phase a' = Some TaskPhaseReady" for a' b'
  proof -
    obtain a b where a: "a \<in> set (tasks d)" "edited (t_id r) a a'"
      and b: "b \<in> set (tasks d)" "edited (t_id r) b b'"
      using list_all2_from [OF ed ab'(1)] list_all2_from [OF ed ab'(2)] by blast
    note f = edited_fields(1,2) [OF a(2)] edited_fields(1) [OF b(2)]
    show ?thesis
    proof (cases "(t_id a, t_id b) \<in> set (dependencies d)")
      case True
      with wf a b f ab'(4) show ?thesis by (auto simp: ready_wf_def edited_row [OF b(2)])
    next
      case False
      with deps ab'(3) f have x: "t_id a = t_id r" "patch_dependencies_set p"
        "t_id b \<in> set (patch_dependency_ids p)"
        by (auto simp: set_replace_out split: if_splits)
      then have "a = r" using distinct_key_inj [OF keys a(1) 1(1)] by simp
      with 1(7) x a b f ab'(4) show ?thesis by (auto simp: edited_row [OF b(2)])
    qed
  qed
  then show ?thesis by (auto simp: ready_wf_def)
qed

lemma lifecycles_wf_edits:
  "list_all2 (edited i) (tasks d) (tasks d') \<Longrightarrow> lifecycles_wf d \<Longrightarrow> lifecycles_wf d'"
  by (fastforce simp: lifecycles_wf_def edited_row dest: list_all2_from)

section \<open>What the rules read\<close>

definition graph_cols :: "task_row \<Rightarrow> uuid \<times> uuid \<times> uuid option \<times> uuid option" where
  "graph_cols r = (t_id r, t_project r, t_milestone r, t_parent r)"

lemma graph_wf_cols:
  assumes cols: "list_all2 (\<lambda>x y. graph_cols y = graph_cols x) (tasks d) (tasks d')"
    and deps: "dependencies d' = dependencies d" and wf: "graph_wf d"
  shows "graph_wf d'"
proof -
  have "edge_ok (tasks d') e" if e: "edge_ok (tasks d) e" for e
  proof -
    obtain a b where ab: "a \<in> set (tasks d)" "b \<in> set (tasks d)" "t_id a = fst e" "t_id b = snd e"
      "t_project a = t_project b" "t_parent a \<noteq> Some (snd e)" "t_parent b \<noteq> Some (fst e)"
      using e by (auto simp: edge_ok_def)
    obtain a' b' where "a' \<in> set (tasks d')" "graph_cols a' = graph_cols a"
      "b' \<in> set (tasks d')" "graph_cols b' = graph_cols b"
      using list_all2_to [OF cols ab(1)] list_all2_to [OF cols ab(2)] by blast
    with ab show ?thesis
      unfolding edge_ok_def by (intro bexI [of _ a'] bexI [of _ b']) (auto simp: graph_cols_def)
  qed
  moreover have "parent_ok (tasks d') y" if y: "y \<in> set (tasks d')" for y
  proof -
    obtain x where x: "x \<in> set (tasks d)" "graph_cols y = graph_cols x"
      using list_all2_from [OF cols y] by blast
    then have "parent_ok (tasks d) x" using wf by (simp add: graph_wf_def)
    show ?thesis
    proof (cases "t_parent y")
      case (Some p)
      with x \<open>parent_ok (tasks d) x\<close> obtain q where q: "q \<in> set (tasks d)" "t_id q = p"
        "t_parent q = None" "t_project q = t_project x" "t_milestone q = t_milestone x"
        by (auto simp: parent_ok_def graph_cols_def split: option.splits)
      obtain q' where "q' \<in> set (tasks d')" "graph_cols q' = graph_cols q"
        using list_all2_to [OF cols q(1)] by blast
      with Some x q show ?thesis
        unfolding parent_ok_def graph_cols_def by (simp only: option.case) auto
    qed (simp add: parent_ok_def)
  qed
  ultimately show ?thesis using wf deps by (simp add: graph_wf_def)
qed

text \<open>The invariant of the workflow reads only the workflow columns.\<close>

lemma coupled_cols:
  assumes "workflow_cols r' = workflow_cols r" and "claims d' = claims d" and "threads d' = threads d"
    and "items d' = items d"
  shows "coupled d' r' = coupled d r"
proof -
  have "t_id r' = t_id r" "t_phase r' = t_phase r" "t_activity r' = t_activity r"
    "t_review_cycle r' = t_review_cycle r" "t_active_issue r' = t_active_issue r"
    using assms(1) by (simp_all add: workflow_cols_def)
  moreover have "active_claims d' = active_claims d" "open_issues d' = open_issues d"
    using assms(2,3) by (simp_all add: active_claims_def open_issues_def fun_eq_iff)
  ultimately show ?thesis
    by (simp only: coupled_def row_shape_def row_lifecycle_def claim_coupled_def issue_coupled_def
        assms(4))
qed

lemma wf_db_cols:
  assumes cols: "list_all2 (\<lambda>x y. workflow_cols y = workflow_cols x) (tasks d) (tasks d')"
    and same: "claims d' = claims d" "threads d' = threads d" "items d' = items d"
    and wf: "wf_db d"
  shows "wf_db d'"
proof -
  have ids: "map t_id (tasks d') = map t_id (tasks d)" "map t_number (tasks d') = map t_number (tasks d)"
    using cols by (auto simp: list_all2_conv_all_nth list_eq_iff_nth_eq workflow_cols_def)
  then have imgs: "t_id ` set (tasks d') = t_id ` set (tasks d)" by (metis list.set_map)
  have main: "main_threads d' = main_threads d"
    using same(2) by (simp add: main_threads_def fun_eq_iff)
  have "coupled d' y" if y: "y \<in> set (tasks d')" for y
  proof -
    obtain x where x: "x \<in> set (tasks d)" "workflow_cols y = workflow_cols x"
      using list_all2_from [OF cols y] by blast
    with wf show ?thesis by (simp add: coupled_cols [OF x(2) same] wf_but_def)
  qed
  moreover have "wf_rows d'"
  proof -
    have "\<exists>m. main_threads d' (t_id y) = [m]" if y: "y \<in> set (tasks d')" "t_phase y \<noteq> None" for y
    proof -
      obtain x where x: "x \<in> set (tasks d)" "workflow_cols y = workflow_cols x"
        using list_all2_from [OF cols y(1)] by blast
      then have "t_id y = t_id x" "t_phase x \<noteq> None" using y(2) by (auto simp: workflow_cols_def)
      with wf x(1) show ?thesis by (simp add: wf_but_def wf_rows_def main)
    qed
    with wf show ?thesis by (simp add: wf_but_def wf_rows_def same imgs)
  qed
  ultimately show ?thesis using wf ids same by (simp add: wf_but_def wf_keys_def)
qed

lemma edits_cols:
  assumes "list_all2 (edited i) (tasks d) (tasks d')" and "others d' = others d" and "wf_db d"
  shows "wf_db d'"
  using list_all2_mono [OF assms(1), of "\<lambda>x y. workflow_cols y = workflow_cols x"]
    wf_db_cols [OF _ others_fields(3,1,2) [OF assms(2)] assms(3)]
  by (simp add: edited_def)

section \<open>Archiving\<close>

lemma record_archived_same:
  "record_archived ids now dbnow archived actor r d = Inr d' \<Longrightarrow> same_tasks d d'"
  by (auto simp: record_archived_def Let_def result_simps split: if_splits
      dest!: recordFieldChange_same InsertBusinessAudit_same intro: same_tasks_trans)

lemma archive_row_Inr:
  "archive_row dbnow archived r d = Inr d' \<Longrightarrow>
   \<exists>n. update_task_rows (\<lambda>x. t_id x = t_id r \<and> t_version x = t_version r)
     (set_archived archived dbnow) d = Inr (d', n)"
  by (auto simp: archive_row_def split: sum.splits if_splits)

lemma archive_effect:
  assumes keys: "distinct (map t_id (tasks d))"
    and run: "setArchivedWithExpectedVersion collation ids now dbnow number v archived actor d =
      Inr (d', out)"
  obtains r where "r \<in> set (tasks d)" and "t_number r = number"
    and "v \<in> {None, Some (t_version r)}"
    and "archived \<and> t_archived_at r = None \<longrightarrow>
      t_activity r \<noteq> Some TaskActivityWorking \<and> t_activity r \<noteq> Some TaskActivityNeedsResolution"
    and "tasks d' = update_where (\<lambda>x. t_id x = t_id r) (set_archived archived dbnow) (tasks d)"
    and "dependencies d' = dependencies d" and "others d' = others d"
proof -
  obtain r d2 n where find: "find (\<lambda>x. t_number x = number) (tasks d) = Some r"
    and v: "v \<in> {None, Some (t_version r)}"
    and guard: "archived \<and> t_archived_at r = None \<longrightarrow>
      t_activity r \<noteq> Some TaskActivityWorking \<and> t_activity r \<noteq> Some TaskActivityNeedsResolution"
    and same: "same_tasks d d2"
    and u: "update_task_rows (\<lambda>x. t_id x = t_id r \<and> t_version x = t_version r)
      (set_archived archived dbnow) d2 = Inr (d', n)"
    using run
    by (auto simp: setArchivedWithExpectedVersion_def result_simps
        split: option.splits if_splits dest!: record_archived_same archive_row_Inr)
  have r: "r \<in> set (tasks d)" "t_number r = number" using find_SomeD [OF find] by auto
  have "(t_id x = t_id r \<and> t_version x = t_version r) = (t_id x = t_id r)"
    if "x \<in> set (tasks d)" for x
    using keys r that distinct_key_inj [of t_id "tasks d" x r] by auto
  then have "tasks d' = update_where (\<lambda>x. t_id x = t_id r) (set_archived archived dbnow) (tasks d)"
    using u same
    by (simp add: update_task_rows_Inr update_where_def same_tasks_def cong: map_cong)
  then show thesis
    using that r v guard u same by (auto simp: update_task_rows_Inr same_tasks_def)
qed

lemma set_archived_cols:
  "workflow_cols (set_archived a dbnow x) = workflow_cols x"
  "graph_cols (set_archived a dbnow x) = graph_cols x"
  "t_version (set_archived a dbnow x) = t_version x + 1"
  by (simp_all add: workflow_cols_def graph_cols_def set_archived_def touch_def)

lemma archive_edited:
  assumes "distinct (map t_id (tasks d))"
    and "setArchivedWithExpectedVersion collation ids now dbnow number v archived actor d =
      Inr (d', out)"
  obtains r where "r \<in> set (tasks d)" and "t_number r = number"
    and "list_all2 (edited (t_id r)) (tasks d) (tasks d')"
    and "list_all2 (\<lambda>x y. graph_cols y = graph_cols x) (tasks d) (tasks d')"
    and "dependencies d' = dependencies d" and "others d' = others d"
  using assms
proof (cases rule: archive_effect)
  case (1 r)
  have "edited (t_id r) x (set_archived archived dbnow x)" if "t_id x = t_id r" for x
    using that set_archived_cols [of archived dbnow x] by (simp add: edited_def graph_cols_def)
  then show thesis
    using that [OF 1(1,2)] 1(5,6,7)
    by (simp add: list_all2_update_where set_archived_cols edited_def [of _ x x for x])
qed

text \<open>All rules at once.\<close>

definition store_wf :: "db \<Rightarrow> bool" where
  "store_wf d \<longleftrightarrow> wf_db d \<and> graph_wf d \<and> ready_wf d \<and> lifecycles_wf d"

lemma wf_db_keys: "wf_db d \<Longrightarrow> distinct (map t_id (tasks d))"
  by (simp add: wf_but_def wf_keys_def)

lemma ready_wf_edits:
  assumes ed: "list_all2 (edited i) (tasks d) (tasks d')" and "dependencies d' = dependencies d"
    and "ready_wf d"
  shows "ready_wf d'"
proof -
  have "\<not> unfinished_row b'" if ab: "a' \<in> set (tasks d')" "b' \<in> set (tasks d')"
    "(t_id a', t_id b') \<in> set (dependencies d)" "t_phase a' = Some TaskPhaseReady" for a' b'
  proof -
    obtain a b where "a \<in> set (tasks d)" "edited i a a'" "b \<in> set (tasks d)" "edited i b b'"
      using list_all2_from [OF ed ab(1)] list_all2_from [OF ed ab(2)] by blast
    with ab assms(3) edited_fields(1,2) [of i a a'] edited_fields(1) [of i b b']
    show ?thesis by (simp add: ready_wf_def edited_row)
  qed
  with assms(2) show ?thesis by (simp add: ready_wf_def)
qed

lemma archive_wf:
  assumes wf: "store_wf d"
    and run: "setArchivedWithExpectedVersion collation ids now dbnow number v archived actor d =
      Inr (d', out)"
  shows "store_wf d'"
proof -
  have keys: "distinct (map t_id (tasks d))" using wf by (simp add: store_wf_def wf_db_keys)
  from keys run obtain r :: task_row where ed: "list_all2 (edited (t_id r)) (tasks d) (tasks d')"
    "list_all2 (\<lambda>x y. graph_cols y = graph_cols x) (tasks d) (tasks d')"
    and same: "dependencies d' = dependencies d" "others d' = others d"
    by (rule archive_edited) blast
  show ?thesis
    using wf edits_cols [OF ed(1) same(2)] graph_wf_cols [OF ed(2) same(1)]
      ready_wf_edits [OF ed(1) same(1)] lifecycles_wf_edits [OF ed(1)]
    by (simp add: store_wf_def)
qed

lemma update_wf:
  assumes wf: "store_wf d"
    and run: "updateWithExpectedVersion collation ids now dbnow number v p actor d = Inr (d', out)"
  shows "store_wf d'"
proof -
  have keys: "distinct (map t_id (tasks d))" using wf by (simp add: store_wf_def wf_db_keys)
  from keys run obtain r :: task_row where ed: "edits (t_id r) p d d'" by (rule update_edits) blast
  show ?thesis
    using wf edits_cols [of "t_id r" d d'] lifecycles_wf_edits [of "t_id r" d d'] ed
      graph_wf_update [OF keys _ run] ready_wf_update [OF keys _ run]
    by (simp add: store_wf_def edits_def)
qed

section \<open>Creation\<close>

lemma insert_task_row_effect:
  assumes "insert_task_row mainID r d = Inr d'" and "t_phase r \<noteq> None"
  shows "d' = d\<lparr>tasks := tasks d @ [r],
      threads := threads d @ [main_thread mainID (t_id r) (t_created_at r)]\<rparr>"
    and "t_id r \<notin> t_id ` set (tasks d)" and "t_number r \<notin> t_number ` set (tasks d)"
    and "mainID \<notin> thread_id ` set (threads d)"
  using assms by (auto simp: insert_task_row_def split: if_splits)

definition creates :: "uuid \<Rightarrow> task_row \<Rightarrow> uuid list \<Rightarrow> db \<Rightarrow> db \<Rightarrow> bool" where
  "creates mainID row deps d d' \<longleftrightarrow>
     tasks d' = tasks d @ [row] \<and>
     threads d' = threads d @ [main_thread mainID (t_id row) (t_created_at row)] \<and>
     dependencies d' = replace_out (t_id row) deps (dependencies d) \<and>
     items d' = items d \<and> claims d' = claims d \<and> checks d' = checks d \<and> criteria d' = criteria d"

lemma create_cases:
  assumes run: "TaskStore_CreateWithOperation collation ids number now dbnow task labelIDs deps actor
    d = Inr (d', out)"
  obtains t completedAt d1 d2 d3 where "prepare_task (ids 0) actor task = Inr t"
    and "validateParentAssignment (task_id t) (task_parent_task_id t) (task_project_id t)
      (task_milestone_id t) (task_status t) d = Inr ()"
    and "validateDependencyAssignments (task_id t) (task_project_id t) (task_parent_task_id t)
      deps d = Inr ()"
    and "insert_task_row (ids 1) (new_task_row number dbnow completedAt t) d = Inr d1"
    and "same_tasks d1 d2" and "replaceTaskDependencies (task_id t) deps d2 = Inr d3"
    and "same_tasks d3 d'"
    and "commit [new_task_row number dbnow completedAt t] (map (Pair (task_id t)) deps) d' = Inr ()"
proof -
  have label: "same_tasks d1 d2" if "(if labelIDs = [] then Inr d1
      else replaceTaskLabels i labelIDs d1) = Inr d2" for i d1 d2
    using that by (auto split: if_splits dest: replaceTaskLabels_same)
  show thesis
    using run unfolding TaskStore_CreateWithOperation_def Let_def bindR_eq_Inr mapPg_simps
    by (elim exE conjE)
      (rule that, assumption, simp, simp, assumption, erule label, assumption,
       auto dest!: insertActivity_same InsertBusinessAudit_same intro: same_tasks_trans)
qed

lemma create_effect:
  assumes run: "TaskStore_CreateWithOperation collation ids number now dbnow task labelIDs deps actor
    d = Inr (d', out)"
  obtains t completedAt row where "prepare_task (ids 0) actor task = Inr t"
    and "row = new_task_row number dbnow completedAt t"
    and "creates (ids 1) row deps d d'"
    and "t_id row \<notin> t_id ` set (tasks d)" and "t_number row \<notin> t_number ` set (tasks d)"
    and "ids 1 \<notin> thread_id ` set (threads d)"
    and "\<And>x. x \<in> set deps \<Longrightarrow> x \<noteq> t_id row \<and> t_id row \<notin> set (reachable (dependencies d) x) \<and>
      x \<in> t_id ` set (tasks d') \<and> validate_task_dependency (t_id row, x) d'"
    and "distinct deps" and "validate_task_relationships row d'"
  using run
proof (cases rule: create_cases)
  case (1 t completedAt d1 d2 d3)
  let ?row = "new_task_row number dbnow completedAt t"
  have i: "t_id ?row = task_id t" "t_phase ?row = Some TaskPhaseBacklog"
    by (simp_all add: new_task_row_def)
  note ins = insert_task_row_effect [OF 1(4)]
  note dep = replaceTaskDependencies_effect [OF 1(6)]
  have d': "tasks d' = tasks d1" "dependencies d' = replace_out (task_id t) deps (dependencies d1)"
    "others d' = others d1"
    using 1(5,7) dep(1) by (auto simp: same_tasks_def)
  note o = others_fields [OF d'(3)]
  have cr: "creates (ids 1) ?row deps d d'"
    using ins(1) d' o i by (simp add: creates_def)
  have new: "x \<noteq> task_id t \<and> task_id t \<notin> set (reachable (dependencies d) x) \<and>
      x \<in> t_id ` set (tasks d') \<and> validate_task_dependency (task_id t, x) d'" if x: "x \<in> set deps" for x
  proof -
    have "x \<in> t_id ` set (tasks d')" using dep(3) [OF x] 1(5) d'(1) by (simp add: same_tasks_def)
    moreover have "validate_task_dependency (task_id t, x) d'" using 1(8) x by (simp add: commit_Inr)
    ultimately show ?thesis
      using validate_dependencies_Inr [OF 1(3) [unfolded validateDependencyAssignments_def] x]
      by simp
  qed
  have "validate_task_relationships ?row d'" using 1(8) by (simp add: commit_Inr)
  then show thesis
    using that [OF 1(1) refl cr] ins(2-4) i new dep(2) by simp
qed

lemma edge_ok_mono: "edge_ok rows e \<Longrightarrow> set rows \<subseteq> set rows' \<Longrightarrow> edge_ok rows' e"
  unfolding edge_ok_def by blast

lemma parent_ok_mono: "parent_ok rows r \<Longrightarrow> set rows \<subseteq> set rows' \<Longrightarrow> parent_ok rows' r"
  by (auto simp: parent_ok_def split: option.splits)

lemma edge_ends: "edge_ok rows e \<Longrightarrow> fst e \<in> t_id ` set rows \<and> snd e \<in> t_id ` set rows"
  unfolding edge_ok_def by (metis image_eqI)

lemma create_graph_wf:
  assumes wf: "graph_wf d"
    and run: "TaskStore_CreateWithOperation collation ids number now dbnow task labelIDs deps actor
      d = Inr (d', out)"
  shows "graph_wf d'"
  using run
proof (cases rule: create_effect)
  case (1 t completedAt row)
  have t: "tasks d' = tasks d @ [row]" "dependencies d' = replace_out (t_id row) deps (dependencies d)"
    using 1(3) by (auto simp: creates_def)
  have sub: "set (tasks d) \<subseteq> set (tasks d')" by (auto simp: t)
  have "edge_ok (tasks d') e" if "e \<in> set (dependencies d')" for e
  proof (cases "e \<in> set (dependencies d)")
    case True
    with wf sub show ?thesis by (auto simp: graph_wf_def intro: edge_ok_mono)
  next
    case False
    with that t obtain x where x: "e = (t_id row, x)" "x \<in> set deps" by (auto simp: set_replace_out)
    with 1(7) [OF x(2)] t show ?thesis by (intro validate_task_dependency_edge_ok) auto
  qed
  moreover have "parent_ok (tasks d') row"
    using 1(9) by (auto simp: validate_task_relationships_def parent_ok_def dest!: find_SomeD
        split: option.splits)
  then have "parent_ok (tasks d') x" if "x \<in> set (tasks d')" for x
    using that wf t parent_ok_mono [OF _ sub] by (auto simp: graph_wf_def)
  moreover have "acyclic (set (dependencies d'))"
    using wf 1(7) t by (auto simp: graph_wf_def intro!: acyclic_replace_out)
  moreover have "distinct (dependencies d')"
    using wf 1(8) t by (auto simp: graph_wf_def replace_out_def distinct_map inj_on_def)
  ultimately show ?thesis by (simp add: graph_wf_def)
qed

lemma create_ready_wf:
  assumes graph: "graph_wf d" and wf: "ready_wf d"
    and run: "TaskStore_CreateWithOperation collation ids number now dbnow task labelIDs deps actor
      d = Inr (d', out)"
  shows "ready_wf d'"
  using run
proof (cases rule: create_effect)
  case (1 t completedAt row)
  have t: "tasks d' = tasks d @ [row]" "dependencies d' = replace_out (t_id row) deps (dependencies d)"
    using 1(3) by (auto simp: creates_def)
  have "\<not> unfinished_row b" if ab: "a \<in> set (tasks d')" "b \<in> set (tasks d')"
    "(t_id a, t_id b) \<in> set (dependencies d')" "t_phase a = Some TaskPhaseReady" for a b
  proof -
    have "a \<noteq> row" using ab(4) 1(2) by (auto simp: new_task_row_def)
    then have a: "a \<in> set (tasks d)" using ab(1) t by auto
    then have "t_id a \<noteq> t_id row" using 1(4) by (metis image_eqI)
    then have e: "(t_id a, t_id b) \<in> set (dependencies d)" using ab(3) t by (auto simp: set_replace_out)
    then have "t_id b \<in> t_id ` set (tasks d)" using graph by (auto simp: graph_wf_def dest!: edge_ends)
    then have "b \<noteq> row" using 1(4) by auto
    with ab(2) t have "b \<in> set (tasks d)" by auto
    with a e ab(4) wf show ?thesis by (auto simp: ready_wf_def)
  qed
  then show ?thesis by (auto simp: ready_wf_def)
qed

lemma create_lifecycles_wf:
  assumes wf: "lifecycles_wf d"
    and run: "TaskStore_CreateWithOperation collation ids number now dbnow task labelIDs deps actor
      d = Inr (d', out)"
  shows "lifecycles_wf d'"
  using run
proof (cases rule: create_effect)
  case (1 t completedAt row)
  have "row_lifecycle row = Some NewTaskLifecycle"
    by (simp add: 1(2) new_task_row_def row_lifecycle_def NewTaskLifecycle_def)
  with wf 1(3) show ?thesis by (auto simp: lifecycles_wf_def creates_def)
qed

text \<open>A fresh Task has no claim and no issue, and the trigger has given it its Main Thread.\<close>

lemma create_wf_db:
  assumes wf: "wf_db d"
    and run: "TaskStore_CreateWithOperation collation ids number now dbnow task labelIDs deps actor
      d = Inr (d', out)"
  shows "wf_db d'"
  using run
proof (cases rule: create_effect)
  case (1 t completedAt row)
  let ?m = "main_thread (ids 1) (t_id row) (t_created_at row)"
  have t: "tasks d' = tasks d @ [row]" "threads d' = threads d @ [?m]" "items d' = items d"
    "claims d' = claims d"
    using 1(3) by (auto simp: creates_def)
  have m: "thread_role ?m = ThreadRoleMain" "thread_task_id ?m = t_id row" "thread_id ?m = ids 1"
    by (simp_all add: main_thread_def)
  have rows: "wf_rows d" and keys: "wf_keys d" using wf by (auto simp: wf_but_def)
  have own: "claim_task_id c \<noteq> t_id row" if "c \<in> set (claims d)" for c
    using rows 1(4) that unfolding wf_rows_def by metis
  have own': "thread_task_id c \<noteq> t_id row" if "c \<in> set (threads d)" for c
    using rows 1(4) that unfolding wf_rows_def by metis
  have views: "active_claims d' i = active_claims d i" "open_issues d' i = open_issues d i"
    "main_threads d' i = main_threads d i @ (if i = t_id row then [?m] else [])" for i
    using m by (auto simp: active_claims_def open_issues_def main_threads_def t)
  have none: "active_claims d (t_id row) = []" "open_issues d (t_id row) = []"
    "main_threads d (t_id row) = []"
    using own own'
    by (auto simp: active_claims_def open_issues_def main_threads_def filter_empty_conv)
  have "coupled d' row"
    using none
    by (simp add: coupled_def row_shape_def claim_coupled_def issue_coupled_def views 1(2)
        new_task_row_def row_lifecycle_def lifecycle_valid_iff)
  moreover have "coupled d' x" if "x \<in> set (tasks d)" for x
    by (rule coupled_cong [of d' x d]) (use wf that in \<open>auto simp: views t wf_but_def\<close>)
  moreover have "wf_keys d'" using keys 1(4-6) m by (auto simp: wf_keys_def t)
  moreover have "\<exists>m. main_threads d' (t_id x) = [m]" if "x \<in> set (tasks d')" "t_phase x \<noteq> None" for x
  proof (cases "t_id x = t_id row")
    case True
    then show ?thesis using none by (simp add: views)
  next
    case False
    with that t have "x \<in> set (tasks d)" by auto
    with False that(2) rows show ?thesis by (auto simp: views wf_rows_def)
  qed
  then have "wf_rows d'"
    using rows m by (auto simp: wf_rows_def t)
  ultimately show ?thesis using t by (auto simp: wf_but_def)
qed

lemma create_wf:
  assumes "store_wf d"
    and "TaskStore_CreateWithOperation collation ids number now dbnow task labelIDs deps actor d =
      Inr (d', out)"
  shows "store_wf d'"
  using assms create_wf_db [OF _ assms(2)] create_graph_wf [OF _ assms(2)]
    create_ready_wf [OF _ _ assms(2)] create_lifecycles_wf [OF _ assms(2)]
  by (simp add: store_wf_def)

end
