(* ===== verification/Store_System.thy ===== *)
theory Store_System
  imports Task_Rules
begin

text \<open>
  The Task store and the workflow store on one database: a step is a command of either store, or
  a change of the tables neither of them writes.  Every database these steps can reach from an
  empty one keeps the rules of \<open>Task_Rules\<close>.
\<close>

section \<open>Workflow commands keep the rules\<close>

lemma lifecycle_apply_ready:
  assumes "lifecycle_apply c s = Inr t" and "lc_phase t = TaskPhaseReady"
  shows "\<exists>archived. c = MarkReady archived False"
  using assms
  by (cases c) (auto simp: lifecycle_defs lifecycle_results TaskPhase_Active_def
      split: if_splits prod.splits)

lemma lifecycle_apply_nonterminal:
  assumes "lifecycle_apply c s = Inr t"
  shows "lc_phase s \<noteq> TaskPhaseDone" and "lc_phase s \<noteq> TaskPhaseCancelled"
  using assms
  by (cases c, auto simp: lifecycle_defs lifecycle_results TaskPhase_Terminal_def
      TaskPhase_Active_def split: if_splits prod.splits)+

lemma lifecycle_run_last:
  "lifecycle_run cs s = Inr t \<Longrightarrow> cs \<noteq> [] \<Longrightarrow> \<exists>u. lifecycle_apply (last cs) u = Inr t"
  by (induction cs arbitrary: s) (auto simp: result_simps)

lemma lifecycle_commands_Cons: "cs \<in> lifecycle_commands c task d \<Longrightarrow> cs \<noteq> []"
  by (cases c) auto

lemma lifecycle_commands_last:
  "cs \<in> lifecycle_commands c task d \<Longrightarrow> last cs = MarkReady archived False \<Longrightarrow>
   \<not> has_unfinished_dependencies (ws_task_id task) d"
  by (cases c) auto

lemma lifecycle_commands_ready:
  assumes "cs \<in> lifecycle_commands c task d" and "lifecycle_run cs l = Inr l'"
    and "lc_phase l' = TaskPhaseReady"
  shows "\<not> has_unfinished_dependencies (ws_task_id task) d"
  using lifecycle_run_last [OF assms(2) lifecycle_commands_Cons [OF assms(1)]] assms(3)
    lifecycle_apply_ready lifecycle_commands_last [OF assms(1)] by metis

lemma lifecycle_commands_nonterminal:
  assumes "cs \<in> lifecycle_commands c task d" and "lifecycle_run cs l = Inr l'"
  shows "lc_phase l \<noteq> TaskPhaseDone \<and> lc_phase l \<noteq> TaskPhaseCancelled"
proof -
  obtain c' cs' where "cs = c' # cs'" using lifecycle_commands_Cons [OF assms(1)] by (cases cs) auto
  then obtain t where "lifecycle_apply c' l = Inr t" using assms(2) by (auto simp: result_simps)
  then show ?thesis using lifecycle_apply_nonterminal by blast
qed

lemma core_rules:
  assumes "core d' = core d"
  shows "graph_wf d' = graph_wf d" "ready_wf d' = ready_wf d" "lifecycles_wf d' = lifecycles_wf d"
proof -
  have "tasks d' = tasks d" "dependencies d' = dependencies d"
    using assms rest_fields(1) [of d' d] by (simp_all add: core_eq)
  then show "graph_wf d' = graph_wf d" "ready_wf d' = ready_wf d" "lifecycles_wf d' = lifecycles_wf d"
    by (simp_all add: graph_wf_def ready_wf_def lifecycles_wf_def)
qed

text \<open>The rows after a run of lifecycle commands on one Task.\<close>

lemma moves_rows:
  assumes wf: "wf_db d" and lock: "lockWorkflowTask n d = Inr task" and mv: "moves cs task now d d'"
  obtains r task1 where "r \<in> set (tasks d)" and "t_id r = ws_task_id task"
    and "row_lifecycle r = Some (ws_lifecycle task)"
    and "lifecycle_run cs (ws_lifecycle task) = Inr (ws_lifecycle task1)"
    and "t_version r = ws_version task"
    and "\<And>x. x \<in> set (tasks d) \<Longrightarrow> t_id x = t_id r \<Longrightarrow> x = r"
    and "tasks d' = update_where (\<lambda>x. t_id x = t_id r) (persisted task1 (ws_version task) now) (tasks d)"
    and "dependencies d' = dependencies d"
proof -
  obtain r where r: "r \<in> set (tasks d)" "t_id r = ws_task_id task" "t_version r = ws_version task"
    "row_lifecycle r = Some (ws_lifecycle task)"
    using lockWorkflowTask_Inr(5) [OF wf lock] by blast
  have inj: "x = r" if "x \<in> set (tasks d)" "t_id x = t_id r" for x
    using distinct_key_inj [OF wf_db_keys [OF wf] that(1) r(1) that(2)] .
  obtain task1 where t: "lifecycle_run cs (ws_lifecycle task) = Inr (ws_lifecycle task1)"
    "tasks d' = update_where (\<lambda>x. t_id x = ws_task_id task) (persisted task1 (ws_version task) now)
      (tasks d)"
    using mv unfolding moves_def by blast
  have "dependencies d' = dependencies d"
    using mv rest_fields(1) [of d' d] by (simp add: moves_def)
  then show thesis using that [OF r(1,2,4) t(1) r(3) inj t(2) [folded r(2)]] by blast
qed

lemma persisted_cols: "graph_cols (persisted task v now r) = graph_cols r"
  by (simp add: graph_cols_def persisted_def)

lemma moves_graph_wf:
  assumes wf: "wf_db d" "graph_wf d" and lock: "lockWorkflowTask n d = Inr task"
    and mv: "moves cs task now d d'"
  shows "graph_wf d'"
  using wf(1) lock mv
proof (cases rule: moves_rows)
  case (1 r task1)
  show ?thesis
    by (rule graph_wf_cols [OF _ 1(8) wf(2)])
      (simp add: 1(7) list_all2_update_where persisted_cols)
qed

lemma moves_lifecycles_wf:
  assumes wf: "wf_db d" "lifecycles_wf d" and lock: "lockWorkflowTask n d = Inr task"
    and mv: "moves cs task now d d'"
  shows "lifecycles_wf d'"
  using wf(1) lock mv
proof (cases rule: moves_rows)
  case (1 r task1)
  have "lifecycle_step\<^sup>*\<^sup>* NewTaskLifecycle (ws_lifecycle task1)"
    using wf(2) 1(1,3) lifecycle_run_steps [OF 1(4)] by (auto simp: lifecycles_wf_def)
  then show ?thesis
    using wf(2) by (auto simp: lifecycles_wf_def 1(7) table_simps split: if_splits)
qed

lemma unfinished_lifecycle:
  "row_lifecycle r = Some l \<Longrightarrow>
   unfinished_row r \<longleftrightarrow> lc_phase l \<noteq> TaskPhaseDone \<and> lc_phase l \<noteq> TaskPhaseCancelled"
  by (auto simp: row_lifecycle_def unfinished_row_def split: option.splits)

lemma moves_ready_wf:
  assumes wf: "wf_db d" "ready_wf d" and lock: "lockWorkflowTask n d = Inr task"
    and cs: "cs \<in> lifecycle_commands c task d" and mv: "moves cs task now d d'"
  shows "ready_wf d'"
  using wf(1) lock mv
proof (cases rule: moves_rows)
  case (1 r task1)
  let ?f = "persisted task1 (ws_version task) now"
  have r: "unfinished_row r"
    using lifecycle_commands_nonterminal [OF cs 1(4)] unfinished_lifecycle [OF 1(3)] by blast
  have pre: "\<exists>x \<in> set (tasks d). x' = (if x = r then ?f x else x)" if x': "x' \<in> set (tasks d')" for x'
  proof -
    obtain x where "x \<in> set (tasks d)" "x' = (if t_id x = t_id r then ?f x else x)"
      using x' by (auto simp: 1(7) update_where_def)
    moreover from this(1) 1(6) have "(t_id x = t_id r) = (x = r)" by blast
    ultimately show ?thesis by auto
  qed
  have "\<not> unfinished_row b'" if ab: "a' \<in> set (tasks d')" "b' \<in> set (tasks d')"
    "(t_id a', t_id b') \<in> set (dependencies d)" "t_phase a' = Some TaskPhaseReady" for a' b'
  proof -
    obtain a b where a: "a \<in> set (tasks d)" "a' = (if a = r then ?f a else a)"
      and b: "b \<in> set (tasks d)" "b' = (if b = r then ?f b else b)"
      using pre [OF ab(1)] pre [OF ab(2)] by blast
    have e: "(t_id a, t_id b) \<in> set (dependencies d)" using ab(3) a b by (auto split: if_splits)
    have "\<not> unfinished_row b"
    proof (cases "a = r")
      case True
      then have "lc_phase (ws_lifecycle task1) = TaskPhaseReady" using ab(4) a(2) by simp
      then have "\<not> has_unfinished_dependencies (ws_task_id task) d"
        using lifecycle_commands_ready [OF cs 1(4)] by blast
      then have "\<And>e x. e \<in> set (dependencies d) \<Longrightarrow> fst e = t_id r \<Longrightarrow> x \<in> set (tasks d) \<Longrightarrow>
          t_id x = snd e \<Longrightarrow> \<not> unfinished_row x"
        using 1(2) by (simp add: has_unfinished_dependencies_def)
      from this [OF e _ b(1)] True show ?thesis by simp
    next
      case False
      with wf(2) a b(1) e ab(4) show ?thesis by (auto simp: ready_wf_def)
    qed
    moreover from this r have "b' = b" using b(2) by auto
    ultimately show ?thesis by simp
  qed
  then show ?thesis by (auto simp: ready_wf_def 1(8))
qed

lemma workflow_store_wf:
  assumes wf: "store_wf d" and run: "workflow_apply c d = Inr d'"
  shows "store_wf d'"
proof -
  have w: "wf_db d" using wf by (simp add: store_wf_def)
  obtain task where r: "refines c task d d'"
    using workflow_apply_refines [OF wf_db_keys [OF w] run] by blast
  have lock: "lockWorkflowTask (command_number c) d = Inr task" using r by (simp add: refines_def)
  from r consider "core d' = core d" | cs where "cs \<in> lifecycle_commands c task d"
    "moves cs task (command_time c) d d'" unfolding refines_def by blast
  then have "graph_wf d' \<and> ready_wf d' \<and> lifecycles_wf d'"
  proof cases
    case 1
    from wf core_rules [OF 1] show ?thesis by (simp add: store_wf_def)
  next
    case 2
    have "graph_wf d" "ready_wf d" "lifecycles_wf d" using wf by (simp_all add: store_wf_def)
    then show ?thesis
      using moves_graph_wf [OF w _ lock 2(2)] moves_ready_wf [OF w _ lock 2]
        moves_lifecycles_wf [OF w _ lock 2(2)] by blast
  qed
  then show ?thesis using workflow_apply_wf [OF run w] by (simp add: store_wf_def)
qed

section \<open>The system\<close>

datatype task_command =
    CreateTask "string \<Rightarrow> string \<Rightarrow> bool" "nat \<Rightarrow> uuid" int time time Task "uuid list" "uuid list"
      OperationActor
  | UpdateTask "string \<Rightarrow> string \<Rightarrow> bool" "nat \<Rightarrow> uuid" time time int "int option" TaskPatch
      OperationActor
  | ArchiveTask "string \<Rightarrow> string \<Rightarrow> bool" "nat \<Rightarrow> uuid" time time int "int option" bool
      OperationActor

fun task_apply :: "task_command \<Rightarrow> db \<Rightarrow> db result" where
  "task_apply (CreateTask collation ids number now dbnow t labelIDs deps actor) d =
     state_of (TaskStore_CreateWithOperation collation ids number now dbnow t labelIDs deps actor d)"
| "task_apply (UpdateTask collation ids now dbnow number v p actor) d =
     state_of (updateWithExpectedVersion collation ids now dbnow number v p actor d)"
| "task_apply (ArchiveTask collation ids now dbnow number v archived actor) d =
     state_of (setArchivedWithExpectedVersion collation ids now dbnow number v archived actor d)"

lemma task_apply_wf: "store_wf d \<Longrightarrow> task_apply c d = Inr d' \<Longrightarrow> store_wf d'"
  by (cases c) (simp_all, (elim exE, blast intro: create_wf update_wf archive_wf)+)

text \<open>The tables of Tasks, their graph, their threads and claims.\<close>

definition owned_tables ::
  "db \<Rightarrow> task_row list \<times> Thread list \<times> item_row list \<times> TaskStageClaim list \<times> (uuid \<times> uuid) list"
  where
  "owned_tables d = (tasks d, threads d, items d, claims d, dependencies d)"

inductive system_step :: "db \<Rightarrow> db \<Rightarrow> bool" where
  workflow: "workflow_apply c d = Inr d' \<Longrightarrow> system_step d d'"
| task: "task_apply c d = Inr d' \<Longrightarrow> system_step d d'"
| other: "owned_tables d' = owned_tables d \<Longrightarrow> system_step d d'"

lemma owned_tables_wf:
  assumes "owned_tables d' = owned_tables d" and "store_wf d"
  shows "store_wf d'"
proof -
  have t: "tasks d' = tasks d" "threads d' = threads d" "items d' = items d" "claims d' = claims d"
    "dependencies d' = dependencies d"
    using assms(1) by (simp_all add: owned_tables_def)
  have "wf_db d'"
    by (rule wf_db_cols [of d]) (use assms(2) t in \<open>simp_all add: list_all2_refl store_wf_def\<close>)
  with assms(2) t show ?thesis
    by (simp add: store_wf_def graph_wf_def ready_wf_def lifecycles_wf_def)
qed

lemma empty_store_wf: "owned_tables d = ([], [], [], [], []) \<Longrightarrow> store_wf d"
  by (simp add: owned_tables_def store_wf_def wf_but_def wf_keys_def wf_rows_def graph_wf_def
      ready_wf_def lifecycles_wf_def acyclic_def)

interpretation store_machine:
  invariant_system "\<lambda>d. owned_tables d = ([], [], [], [], [])" system_step store_wf
proof unfold_locales
  show "owned_tables d = ([], [], [], [], []) \<Longrightarrow> store_wf d" for d by (rule empty_store_wf)
  show "store_wf d \<Longrightarrow> system_step d d' \<Longrightarrow> store_wf d'" for d d'
    by (auto elim!: system_step.cases dest: workflow_store_wf task_apply_wf owned_tables_wf)
qed

end
