(* ===== verification/Scenario.thy ===== *)
theory Scenario
  imports Store_System
begin

text \<open>
  A concrete run of the two stores, from an empty database to an accepted Task.  The databases of
  the run are the concrete inputs at which the properties of the stores are applied.
\<close>

section \<open>People and the first Task\<close>

definition alice :: uuid where "alice = 11"

definition alice_session :: OperationActor where
  "alice_session = SessionOperation alice ''req-1''"

definition alice_actor :: Actor where
  "alice_actor = \<lparr>actor_type = ActorTypeUser, actor_user_id = Some alice, actor_ref = []\<rparr>"

definition draws :: "uuid \<Rightarrow> nat \<Rightarrow> uuid" where
  "draws start k = start + of_nat k"

definition empty_db :: db where
  "empty_db =
     \<lparr>tasks = [], threads = [], items = [], mentions = [], claims = [],
      criteria = [],
      checks = [], dependencies = [], code_changes = [], audits = [],
      users = [\<lparr>user_id = alice, user_name = ''Alice'', user_email = None, user_avatar_url = None,
        user_platform_role = PlatformRoleMember, user_access_status = AccessStatusApproved,
        user_roles = [], user_active = True, user_created_at = 1, user_updated_at = 1\<rparr>],
      api_tokens = [], agent_runs = [],
      projects = [\<lparr>project_id = 21, project_number = 1, project_version = 1,
        project_name = ''P'', project_description = [], project_creator_id = alice,
        project_archived_at = None, project_created_at = 2, project_updated_at = 2\<rparr>],
      milestones = [], labels = [], task_labels = [], activity = [], legacy_claims = []\<rparr>"

definition first_task :: Task where
  "first_task =
     \<lparr>task_id = 101, task_number = 0, task_version = 0, task_title = ''Ship'',
      task_context = ''Because'', task_expected_result = ''Shipped'', task_description = [],
      task_phase = TaskPhaseOther [], task_activity = TaskActivityNone, task_review_cycle = 0,
      task_active_issue_thread_id = None, task_main_thread_id = 0,
      task_status = TaskStatusOther [], task_priority = TaskPriorityOther [],
      task_execution_mode = TaskExecutionModeOther [], task_assignee_id = None,
      task_creator_id = alice, task_start_date = None, task_due_date = None,
      task_project_id = 21, task_milestone_id = None, task_parent_task_id = None,
      task_created_at = 0, task_updated_at = 0, task_completed_at = None,
      task_archived_at = None\<rparr>"

definition first_criterion :: AcceptanceCriterion where
  "first_criterion =
     \<lparr>crit_id = 31, crit_version = 1, crit_milestone_id = None, crit_task_id = Some 101,
      crit_criterion = ''It works'', crit_verification = ''Try it'', crit_revision = 1,
      crit_position = 1, crit_archived_at = None, crit_created_at = 12, crit_updated_at = 12\<rparr>"

definition passed_check :: AcceptanceCheck where
  "passed_check =
     \<lparr>check_id = 0, check_criterion_id = 31, check_criterion_revision = 1,
      check_outcome = AcceptanceOutcomePassed, check_evidence = ''Seen'',
      check_checker = alice_actor, check_purpose = AcceptanceCheckPurposeOther [],
      check_task_claim_id = None, check_task_review_cycle = None, check_checked_at = 0\<rparr>"

section \<open>Traces\<close>

text \<open>The databases after each step of a run, up to the first step that fails.\<close>

fun run_trace :: "(db \<Rightarrow> db result) list \<Rightarrow> db \<Rightarrow> db list" where
  "run_trace [] d = []"
| "run_trace (f # fs) d = (case f d of Inl e \<Rightarrow> [] | Inr d' \<Rightarrow> d' # run_trace fs d')"

lemma trace_0: "run_trace fs d \<noteq> [] \<Longrightarrow> hd fs d = Inr (run_trace fs d ! 0)"
  by (cases fs) (auto split: sum.splits)

lemma trace_Suc:
  "Suc i < length (run_trace fs d) \<Longrightarrow> (fs ! Suc i) (run_trace fs d ! i) = Inr (run_trace fs d ! Suc i)"
proof (induction fs d arbitrary: i rule: run_trace.induct)
  case (2 f fs d)
  show ?case
  proof (cases "f d")
    case (Inr d')
    with 2(2) have len: "i < length (run_trace fs d')" by simp
    show ?thesis
    proof (cases i)
      case 0
      with len have "run_trace fs d' \<noteq> []" by auto
      then have "fs \<noteq> []" by auto
      then have "fs ! 0 = hd fs" by (simp add: hd_conv_nth)
      with 0 Inr trace_0 [OF \<open>run_trace fs d' \<noteq> []\<close>] show ?thesis by simp
    next
      case (Suc j)
      with 2(1) [OF Inr, of j] len Inr show ?thesis by simp
    qed
  qed (use 2(2) in simp)
qed simp

text \<open>What the properties look at.\<close>

definition task_summary ::
  "db \<Rightarrow> (uuid \<times> int \<times> TaskLifecycle option \<times> TaskActivityState option \<times> uuid option) list \<times>
     (uuid \<times> uuid) list" where
  "task_summary d =
     (map (\<lambda>r. (t_id r, t_version r, row_lifecycle r, t_activity r, t_parent r)) (tasks d),
      dependencies d)"

definition claim_summary ::
  "db \<Rightarrow> int list \<times> (uuid \<times> uuid \<times> StageClaimStatus \<times> TaskClaimOutcome \<times> int) list" where
  "claim_summary d =
     (map t_number (tasks d),
      map (\<lambda>c. (claim_id c, claim_task_id c, claim_status c, claim_outcome c, claim_expires_at c)) (claims d))"

section \<open>From a new Task to an accepted one\<close>

definition create_first :: task_command where
  "create_first =
     CreateTask bytes_le (draws 1000) 1 10 11 first_task [] [] alice_session"

definition add_criterion :: "db \<Rightarrow> db" where
  "add_criterion d = d\<lparr>criteria := [first_criterion], audits := [], activity := []\<rparr>"

definition mark_ready :: workflow_command where
  "mark_ready = WMarkReady (draws 2000) 1 1 alice_session 20"

definition claim_execution :: workflow_command where
  "claim_execution = WClaim (draws 3000) 1 2 alice_actor alice_session ''web'' [] 30"

definition complete_execution :: workflow_command where
  "complete_execution =
     WCompleteExecution (draws 4000) 1 3001 3 1 ''Done it'' [] alice_actor alice_session 40"

definition claim_review :: workflow_command where
  "claim_review = WClaim (draws 5000) 1 4 alice_actor alice_session ''web'' [] 50"

definition record_check :: workflow_command where
  "record_check =
     WRecordAcceptanceCheck (draws 6000) 1 5001 5 1 passed_check alice_actor alice_session 60"

definition accept_task :: workflow_command where
  "accept_task = WAcceptTask (draws 7000) 1 5001 5 1 ''Good'' alice_actor alice_session 70"

definition create_late_child :: task_command where
  "create_late_child =
     CreateTask bytes_le (draws 12000) 2 80 81
       (first_task\<lparr>task_id := 102, task_parent_task_id := Some 101\<rparr>) [] [] alice_session"

definition main_steps :: "(db \<Rightarrow> db result) list" where
  "main_steps =
     [task_apply create_first, (\<lambda>d. Inr (add_criterion d)), workflow_apply mark_ready,
      workflow_apply claim_execution, workflow_apply complete_execution,
      workflow_apply claim_review, workflow_apply record_check, workflow_apply accept_task,
      task_apply create_late_child]"

definition main_trace :: "db list" where
  "main_trace = run_trace main_steps empty_db"

abbreviation lifecycle_at :: "TaskPhase \<Rightarrow> TaskActivityState \<Rightarrow> int \<Rightarrow> TaskLifecycle option" where
  "lifecycle_at p a n \<equiv> Some \<lparr>lc_phase = p, lc_activity = a, lc_review_cycle = n\<rparr>"

lemma main_run_summary:
  "map (\<lambda>d. (task_summary d, claim_summary d)) main_trace =
     [(([(101, 1, lifecycle_at TaskPhaseBacklog TaskActivityNone 0, None, None)], []),
       ([1], [])),
      (([(101, 1, lifecycle_at TaskPhaseBacklog TaskActivityNone 0, None, None)], []),
       ([1], [])),
      (([(101, 2, lifecycle_at TaskPhaseReady TaskActivityNone 0, None, None)], []),
       ([1], [])),
      (([(101, 3, lifecycle_at TaskPhaseInProgress TaskActivityWorking 0, Some TaskActivityWorking, None)], []),
       ([1], [(3001, 101, StageClaimStatusActive, TaskClaimOutcomeNone, 604800000030)])),
      (([(101, 4, lifecycle_at TaskPhaseInReview TaskActivityAvailable 1, Some TaskActivityAvailable, None)], []),
       ([1], [(3001, 101, StageClaimStatusCompleted, TaskClaimOutcomeExecutionCompleted, 604800000030)])),
      (([(101, 5, lifecycle_at TaskPhaseInReview TaskActivityWorking 1, Some TaskActivityWorking, None)], []),
       ([1], [(3001, 101, StageClaimStatusCompleted, TaskClaimOutcomeExecutionCompleted, 604800000030),
         (5001, 101, StageClaimStatusActive, TaskClaimOutcomeNone, 604800000050)])),
      (([(101, 5, lifecycle_at TaskPhaseInReview TaskActivityWorking 1, Some TaskActivityWorking, None)], []),
       ([1], [(3001, 101, StageClaimStatusCompleted, TaskClaimOutcomeExecutionCompleted, 604800000030),
         (5001, 101, StageClaimStatusActive, TaskClaimOutcomeNone, 604800000050)])),
      (([(101, 6, lifecycle_at TaskPhaseDone TaskActivityNone 1, None, None)], []),
       ([1], [(3001, 101, StageClaimStatusCompleted, TaskClaimOutcomeExecutionCompleted, 604800000030),
         (5001, 101, StageClaimStatusCompleted, TaskClaimOutcomeTaskAccepted, 604800000050)])),
      (([(101, 6, lifecycle_at TaskPhaseDone TaskActivityNone 1, None, None),
         (102, 1, lifecycle_at TaskPhaseBacklog TaskActivityNone 0, None, Some 101)], []),
       ([1, 2], [(3001, 101, StageClaimStatusCompleted, TaskClaimOutcomeExecutionCompleted, 604800000030),
         (5001, 101, StageClaimStatusCompleted, TaskClaimOutcomeTaskAccepted, 604800000050)]))]"
  by code_simp

lemma main_length: "length main_trace = 9"
  using arg_cong [OF main_run_summary, of length] by simp

lemma main_nth:
  "i < 9 \<Longrightarrow> (task_summary (main_trace ! i), claim_summary (main_trace ! i)) =
     map (\<lambda>d. (task_summary d, claim_summary d)) main_trace ! i"
  by (simp add: main_length)

section \<open>A Task that waits for another, and its child\<close>

definition cancel_first :: workflow_command where
  "cancel_first = WCancelTask (draws 8000) 1 1 ''Not needed'' alice_actor alice_session 20"

definition create_second :: task_command where
  "create_second =
     CreateTask bytes_le (draws 9000) 2 30 31 (first_task\<lparr>task_id := 102\<rparr>) [] [101] alice_session"

definition ready_second :: workflow_command where
  "ready_second = WMarkReady (draws 10000) 2 1 alice_session 40"

definition create_child :: task_command where
  "create_child =
     CreateTask bytes_le (draws 11000) 3 50 51
       (first_task\<lparr>task_id := 103, task_parent_task_id := Some 102\<rparr>) [] [] alice_session"

definition no_patch :: TaskPatch where
  "no_patch =
     \<lparr>patch_title = None, patch_context = None, patch_expected_result = None,
      patch_description = None, patch_status = None, patch_priority = None,
      patch_execution_mode = None, patch_assignee_set = False, patch_assignee_id = None,
      patch_due_date_set = False, patch_due_date = None, patch_start_date_set = False,
      patch_start_date = None, patch_labels_set = False, patch_label_ids = [],
      patch_project_set = False, patch_project_id = None, patch_milestone_set = False,
      patch_milestone_id = None, patch_parent_set = False, patch_parent_task_id = None,
      patch_dependencies_set = False, patch_dependency_ids = [],
      patch_schedule_shift_days = None\<rparr>"

definition second_patch :: TaskPatch where
  "second_patch = no_patch\<lparr>patch_title := Some ''Ship it'', patch_assignee_set := True,
     patch_assignee_id := Some alice, patch_dependencies_set := True\<rparr>"

definition edit_second :: task_command where
  "edit_second = UpdateTask bytes_le (draws 13000) 60 61 2 (Some 2) second_patch alice_session"

definition archive_second :: task_command where
  "archive_second = ArchiveTask bytes_le (draws 14000) 70 71 2 (Some 3) True alice_session"

definition family_steps :: "(db \<Rightarrow> db result) list" where
  "family_steps =
     [task_apply create_first, workflow_apply cancel_first, task_apply create_second,
      workflow_apply ready_second, task_apply create_child, task_apply edit_second,
      task_apply archive_second]"

definition family_trace :: "db list" where
  "family_trace = run_trace family_steps empty_db"

lemma family_summary:
  "map task_summary (drop 3 family_trace) =
     [([(101, 2, lifecycle_at TaskPhaseCancelled TaskActivityNone 0, None, None),
        (102, 2, lifecycle_at TaskPhaseReady TaskActivityNone 0, None, None)], [(102, 101)]),
      ([(101, 2, lifecycle_at TaskPhaseCancelled TaskActivityNone 0, None, None),
        (102, 2, lifecycle_at TaskPhaseReady TaskActivityNone 0, None, None),
        (103, 1, lifecycle_at TaskPhaseBacklog TaskActivityNone 0, None, Some 102)],
       [(102, 101)]),
      ([(101, 2, lifecycle_at TaskPhaseCancelled TaskActivityNone 0, None, None),
        (102, 3, lifecycle_at TaskPhaseReady TaskActivityNone 0, None, None),
        (103, 1, lifecycle_at TaskPhaseBacklog TaskActivityNone 0, None, Some 102)], []),
      ([(101, 2, lifecycle_at TaskPhaseCancelled TaskActivityNone 0, None, None),
        (102, 4, lifecycle_at TaskPhaseReady TaskActivityNone 0, None, None),
        (103, 1, lifecycle_at TaskPhaseBacklog TaskActivityNone 0, None, Some 102)], [])]"
  by code_simp

section \<open>The databases by name\<close>

abbreviation created_db :: db where
  "created_db \<equiv> main_trace ! 0"

abbreviation criterion_db :: db where
  "criterion_db \<equiv> main_trace ! 1"

abbreviation ready_db :: db where
  "ready_db \<equiv> main_trace ! 2"

abbreviation working_db :: db where
  "working_db \<equiv> main_trace ! 3"

abbreviation executed_db :: db where
  "executed_db \<equiv> main_trace ! 4"

abbreviation reviewing_db :: db where
  "reviewing_db \<equiv> main_trace ! 5"

abbreviation checked_db :: db where
  "checked_db \<equiv> main_trace ! 6"

abbreviation accepted_db :: db where
  "accepted_db \<equiv> main_trace ! 7"

abbreviation late_db :: db where
  "late_db \<equiv> main_trace ! 8"

abbreviation unblocked_db :: db where
  "unblocked_db \<equiv> family_trace ! 3"

abbreviation family_db :: db where
  "family_db \<equiv> family_trace ! 4"

abbreviation edited_db :: db where
  "edited_db \<equiv> family_trace ! 5"

abbreviation archived_db :: db where
  "archived_db \<equiv> family_trace ! 6"

lemma family_length: "length family_trace = 7"
  using arg_cong [OF family_summary, of length] by simp

lemma main_run:
  "task_apply create_first empty_db = Inr created_db"
  "add_criterion created_db = criterion_db"
  "workflow_apply mark_ready criterion_db = Inr ready_db"
  "workflow_apply claim_execution ready_db = Inr working_db"
  "workflow_apply complete_execution working_db = Inr executed_db"
  "workflow_apply claim_review executed_db = Inr reviewing_db"
  "workflow_apply record_check reviewing_db = Inr checked_db"
  "workflow_apply accept_task checked_db = Inr accepted_db"
  "task_apply create_late_child accepted_db = Inr late_db"
proof -
  have len: "length (run_trace main_steps empty_db) = 9" using main_length by (simp add: main_trace_def)
  have "main_steps ! Suc i = f \<Longrightarrow> Suc i < 9 \<Longrightarrow> f (main_trace ! i) = Inr (main_trace ! Suc i)" for i f
    using trace_Suc [of i main_steps empty_db] len by (simp add: main_trace_def)
  note st = this [OF refl, of 0] this [OF refl, of 1] this [OF refl, of 2] this [OF refl, of 3]
    this [OF refl, of 4] this [OF refl, of 5] this [OF refl, of 6] this [OF refl, of 7]
  have "run_trace main_steps empty_db \<noteq> []" using len by auto
  from trace_0 [OF this] show "task_apply create_first empty_db = Inr created_db"
    by (simp add: main_trace_def main_steps_def)
  from st show "add_criterion created_db = criterion_db"
    "workflow_apply mark_ready criterion_db = Inr ready_db"
    "workflow_apply claim_execution ready_db = Inr working_db"
    "workflow_apply complete_execution working_db = Inr executed_db"
    "workflow_apply claim_review executed_db = Inr reviewing_db"
    "workflow_apply record_check reviewing_db = Inr checked_db"
    "workflow_apply accept_task checked_db = Inr accepted_db"
    "task_apply create_late_child accepted_db = Inr late_db"
    by (simp_all add: main_steps_def numeral_eq_Suc)
qed

lemma family_run:
  "task_apply create_first empty_db = Inr (family_trace ! 0)"
  "workflow_apply cancel_first (family_trace ! 0) = Inr (family_trace ! 1)"
  "task_apply create_second (family_trace ! 1) = Inr (family_trace ! 2)"
  "workflow_apply ready_second (family_trace ! 2) = Inr unblocked_db"
  "task_apply create_child unblocked_db = Inr family_db"
  "task_apply edit_second family_db = Inr edited_db"
  "task_apply archive_second edited_db = Inr archived_db"
proof -
  have len: "length (run_trace family_steps empty_db) = 7"
    using family_length by (simp add: family_trace_def)
  have "family_steps ! Suc i = f \<Longrightarrow> Suc i < 7 \<Longrightarrow> f (family_trace ! i) = Inr (family_trace ! Suc i)"
    for i f
    using trace_Suc [of i family_steps empty_db] len by (simp add: family_trace_def)
  note st = this [OF refl, of 0] this [OF refl, of 1] this [OF refl, of 2] this [OF refl, of 3]
    this [OF refl, of 4] this [OF refl, of 5]
  have "run_trace family_steps empty_db \<noteq> []" using len by auto
  from trace_0 [OF this] show "task_apply create_first empty_db = Inr (family_trace ! 0)"
    by (simp add: family_trace_def family_steps_def)
  from st show "workflow_apply cancel_first (family_trace ! 0) = Inr (family_trace ! 1)"
    "task_apply create_second (family_trace ! 1) = Inr (family_trace ! 2)"
    "workflow_apply ready_second (family_trace ! 2) = Inr unblocked_db"
    "task_apply create_child unblocked_db = Inr family_db"
    "task_apply edit_second family_db = Inr edited_db"
    "task_apply archive_second edited_db = Inr archived_db"
    by (simp_all add: family_steps_def numeral_eq_Suc)
qed

section \<open>The runs are runs of the system\<close>

abbreviation reachable_db :: "db \<Rightarrow> bool" where
  "reachable_db \<equiv> reach (\<lambda>d. owned_tables d = ([], [], [], [], [])) system_step"

lemma empty_reach: "reachable_db empty_db"
  by (rule reach_init) (simp add: owned_tables_def empty_db_def)

lemma main_reach:
  "reachable_db created_db" "reachable_db criterion_db" "reachable_db ready_db"
  "reachable_db working_db" "reachable_db executed_db" "reachable_db reviewing_db"
  "reachable_db checked_db" "reachable_db accepted_db" "reachable_db late_db"
proof -
  show 1: "reachable_db created_db"
    by (rule reach_step [OF empty_reach system_step.task [OF main_run(1)]])
  have "owned_tables criterion_db = owned_tables created_db"
    unfolding main_run(2) [symmetric] by (simp add: owned_tables_def add_criterion_def)
  then show 2: "reachable_db criterion_db" by (rule reach_step [OF 1 system_step.other])
  show 3: "reachable_db ready_db" by (rule reach_step [OF 2 system_step.workflow [OF main_run(3)]])
  show 4: "reachable_db working_db"
    by (rule reach_step [OF 3 system_step.workflow [OF main_run(4)]])
  show 5: "reachable_db executed_db"
    by (rule reach_step [OF 4 system_step.workflow [OF main_run(5)]])
  show 6: "reachable_db reviewing_db"
    by (rule reach_step [OF 5 system_step.workflow [OF main_run(6)]])
  show 7: "reachable_db checked_db"
    by (rule reach_step [OF 6 system_step.workflow [OF main_run(7)]])
  show 8: "reachable_db accepted_db"
    by (rule reach_step [OF 7 system_step.workflow [OF main_run(8)]])
  show "reachable_db late_db" by (rule reach_step [OF 8 system_step.task [OF main_run(9)]])
qed

lemma family_reach:
  "reachable_db unblocked_db" "reachable_db family_db" "reachable_db edited_db"
proof -
  have 1: "reachable_db (family_trace ! 0)"
    by (rule reach_step [OF empty_reach system_step.task [OF family_run(1)]])
  have 2: "reachable_db (family_trace ! 1)"
    by (rule reach_step [OF 1 system_step.workflow [OF family_run(2)]])
  have 3: "reachable_db (family_trace ! 2)"
    by (rule reach_step [OF 2 system_step.task [OF family_run(3)]])
  show 4: "reachable_db unblocked_db"
    by (rule reach_step [OF 3 system_step.workflow [OF family_run(4)]])
  show 5: "reachable_db family_db" by (rule reach_step [OF 4 system_step.task [OF family_run(5)]])
  show "reachable_db edited_db" by (rule reach_step [OF 5 system_step.task [OF family_run(6)]])
qed

lemma reachable_store_wf: "reachable_db d \<Longrightarrow> store_wf d"
  by (rule store_machine.inv_reach)

lemma reachable_wf_db: "reachable_db d \<Longrightarrow> wf_db d"
  using reachable_store_wf by (simp add: store_wf_def)

text \<open>The rows of a database whose summary is known.\<close>

lemma summary_rows:
  assumes "task_summary d = (xs, es)" and "i < length xs" and "xs ! i = (k, v, l, a, p)"
  shows "tasks d ! i \<in> set (tasks d)" "t_id (tasks d ! i) = k" "t_version (tasks d ! i) = v"
    "row_lifecycle (tasks d ! i) = l" "t_activity (tasks d ! i) = a" "t_parent (tasks d ! i) = p"
  using assms by (auto simp: task_summary_def)

lemma main_summaries:
  "task_summary ready_db = ([(101, 2, lifecycle_at TaskPhaseReady TaskActivityNone 0, None, None)], [])"
  "task_summary working_db = ([(101, 3, lifecycle_at TaskPhaseInProgress TaskActivityWorking 0,
     Some TaskActivityWorking, None)], [])"
  "task_summary checked_db = ([(101, 5, lifecycle_at TaskPhaseInReview TaskActivityWorking 1,
     Some TaskActivityWorking, None)], [])"
  "task_summary accepted_db =
     ([(101, 6, lifecycle_at TaskPhaseDone TaskActivityNone 1, None, None)], [])"
  "task_summary late_db =
     ([(101, 6, lifecycle_at TaskPhaseDone TaskActivityNone 1, None, None),
       (102, 1, lifecycle_at TaskPhaseBacklog TaskActivityNone 0, None, Some 101)], [])"
  "claim_summary working_db =
     ([1], [(3001, 101, StageClaimStatusActive, TaskClaimOutcomeNone, 604800000030)])"
  using main_nth [of 2] main_nth [of 3] main_nth [of 6] main_nth [of 7] main_nth [of 8]
  by (simp_all add: main_run_summary)

lemma family_summaries:
  "task_summary unblocked_db =
     ([(101, 2, lifecycle_at TaskPhaseCancelled TaskActivityNone 0, None, None),
       (102, 2, lifecycle_at TaskPhaseReady TaskActivityNone 0, None, None)], [(102, 101)])"
  "task_summary family_db =
     ([(101, 2, lifecycle_at TaskPhaseCancelled TaskActivityNone 0, None, None),
       (102, 2, lifecycle_at TaskPhaseReady TaskActivityNone 0, None, None),
       (103, 1, lifecycle_at TaskPhaseBacklog TaskActivityNone 0, None, Some 102)],
      [(102, 101)])"
  using arg_cong [OF family_summary, of "\<lambda>xs. xs ! 0"] arg_cong [OF family_summary, of "\<lambda>xs. xs ! 1"]
  by (simp_all add: family_length)

end
