(* ===== verification/Workflow_Guarantees.thy ===== *)
theory Workflow_Guarantees
  imports Scenario
begin

text \<open>
  What the two stores guarantee of Tasks, claims and issues: the properties that follow from the
  invariant of \<open>Store_System\<close> and from the refinement of \<open>Workflow_System\<close>.
\<close>

section \<open>Reachable databases\<close>

text \<open>C9. Invariant: in every database the commands can reach, a Task that is being worked on has
  exactly one active claim and its stage is that of the phase; any other Task has none.  A Task
  that needs resolution has exactly one open issue, the one it names; any other Task has none.\<close>

theorem reachable_claims_and_issues:
  assumes "reach (\<lambda>d. owned_tables d = ([], [], [], [], [])) system_step d"
    and "r \<in> set (tasks d)"
  shows "(if t_activity r = Some TaskActivityWorking
      then \<exists>c p. active_claims d (t_id r) = [c] \<and> t_phase r = Some p \<and> claim_stage c = phase_stage p
      else active_claims d (t_id r) = []) \<and>
    (if t_activity r = Some TaskActivityNeedsResolution
      then \<exists>t. open_issues d (t_id r) = [t] \<and> t_active_issue r = Some (thread_id t)
      else open_issues d (t_id r) = [] \<and> t_active_issue r = None)"
proof -
  have "coupled d r"
    using reachable_store_wf [OF assms(1)] assms(2) by (auto simp: store_wf_def wf_but_def)
  then show ?thesis
    by (auto simp: coupled_def claim_coupled_def issue_coupled_def split: if_splits)
qed

theorem reachable_claims_and_issues_witness:
  "\<exists>c p. active_claims working_db 101 = [c] \<and> t_phase (tasks working_db ! 0) = Some p \<and>
     claim_stage c = phase_stage p"
proof -
  note r = summary_rows [OF main_summaries(2), of 0]
  from reachable_claims_and_issues [OF main_reach(4), of "tasks working_db ! 0"] r show ?thesis
    by simp
qed



text \<open>C12. Invariant: in every reachable database the hierarchy has one level.  The parent of a
  Task exists, has no parent itself, and shares the Project and the Milestone of its child.\<close>

theorem reachable_hierarchy:
  assumes "reach (\<lambda>d. owned_tables d = ([], [], [], [], [])) system_step d"
    and "r \<in> set (tasks d)" and "t_parent r = Some p"
  shows "\<exists>q \<in> set (tasks d). t_id q = p \<and> t_parent q = None \<and> t_project q = t_project r \<and>
    t_milestone q = t_milestone r"
proof -
  have "parent_ok (tasks d) r"
    using reachable_store_wf [OF assms(1)] assms(2) by (simp add: store_wf_def graph_wf_def)
  then show ?thesis using assms(3) by (simp add: parent_ok_def)
qed

theorem reachable_hierarchy_witness:
  "\<exists>q \<in> set (tasks family_db). t_id q = 102 \<and> t_parent q = None"
proof -
  note r = summary_rows [OF family_summaries(2), of 2]
  from reachable_hierarchy [OF family_reach(2), of "tasks family_db ! 2" 102] r show ?thesis
    by auto
qed

text \<open>C13. Invariant: in every reachable database no dependency of a ready Task is unfinished.\<close>

theorem reachable_ready_unblocked:
  assumes "reach (\<lambda>d. owned_tables d = ([], [], [], [], [])) system_step d"
    and "a \<in> set (tasks d)" and "b \<in> set (tasks d)"
    and "(t_id a, t_id b) \<in> set (dependencies d)" and "t_phase a = Some TaskPhaseReady"
  shows "t_phase b = Some TaskPhaseDone \<or> t_phase b = Some TaskPhaseCancelled"
proof -
  have "\<not> unfinished_row b"
    using reachable_store_wf [OF assms(1)] assms(2-5) unfolding store_wf_def ready_wf_def by blast
  then show ?thesis by (auto simp: unfinished_row_def split: option.splits)
qed

theorem reachable_ready_unblocked_witness:
  "t_phase (tasks unblocked_db ! 0) = Some TaskPhaseDone \<or>
   t_phase (tasks unblocked_db ! 0) = Some TaskPhaseCancelled"
proof -
  note a = summary_rows [OF family_summaries(1), of 1] and b = summary_rows [OF family_summaries(1), of 0]
  have "dependencies unblocked_db = [(102, 101)]" using family_summaries(1) by (simp add: task_summary_def)
  moreover have "t_phase (tasks unblocked_db ! 1) = Some TaskPhaseReady"
    using a(4) by (auto simp: row_lifecycle_def split: option.splits)
  ultimately show ?thesis
    using a b
    by (intro reachable_ready_unblocked [OF family_reach(1), of "tasks unblocked_db ! 1"]) simp_all
qed

text \<open>C15. Refinement: every lifecycle stored in a reachable database is one the lifecycle commands
  can reach from a new Task; in particular it is valid.\<close>

theorem reachable_lifecycles:
  assumes "reach (\<lambda>d. owned_tables d = ([], [], [], [], [])) system_step d"
    and "r \<in> set (tasks d)" and "row_lifecycle r = Some l"
  shows "reach (\<lambda>s. s = NewTaskLifecycle) lifecycle_step l"
proof -
  have "lifecycle_step\<^sup>*\<^sup>* NewTaskLifecycle l"
    using reachable_store_wf [OF assms(1)] assms(2,3) unfolding store_wf_def lifecycles_wf_def by blast
  then show ?thesis by (induction rule: rtranclp_induct) (auto intro: reach.intros)
qed

theorem reachable_lifecycles_witness:
  "reach (\<lambda>s. s = NewTaskLifecycle) lifecycle_step
     \<lparr>lc_phase = TaskPhaseDone, lc_activity = TaskActivityNone, lc_review_cycle = 1\<rparr>"
  by (rule reachable_lifecycles [OF main_reach(8), of "tasks accepted_db ! 0"])
    (use summary_rows [OF main_summaries(4), of 0] in simp_all)

section \<open>One Task row at a time\<close>

text \<open>C10. Refinement: a workflow command that succeeds either leaves every Task row alone (only
  recording a submission, recording a check, and an expiry with nothing to expire may) or carries
  the one Task it names through the lifecycle commands it stands for.  That row then has the
  lifecycle they end in and the next version; every other row and every other table is unchanged,
  and the version the caller gave was the stored one.\<close>

theorem workflow_refines_lifecycle:
  assumes "wf_db d" and "workflow_apply c d = Inr d'"
  shows "\<exists>task. lockWorkflowTask (command_number c) d = Inr task \<and>
    (case command_version c of None \<Rightarrow> True | Some v \<Rightarrow> v = ws_version task) \<and>
    dependencies d' = dependencies d \<and> criteria d' = criteria d \<and> users d' = users d \<and>
    projects d' = projects d \<and> code_changes d' = code_changes d \<and>
    (may_keep_task c \<and> tasks d' = tasks d \<or>
     (\<exists>cs \<in> lifecycle_commands c task d. \<exists>l issue.
        lifecycle_run cs (ws_lifecycle task) = Inr l \<and>
        tasks d' = map (\<lambda>r. if t_id r = ws_task_id task
          then persisted (task\<lparr>ws_lifecycle := l, ws_active_issue := issue\<rparr>) (ws_version task)
            (command_time c) r else r) (tasks d)))"
proof -
  obtain task where ref: "refines c task d d'"
    using workflow_apply_refines [OF wf_db_keys [OF assms(1)] assms(2)] by blast
  have rest: "rest d' = rest d" using ref unfolding refines_def moves_def core_eq by blast
  note same = rest_fields [OF rest]
  have v: "case command_version c of None \<Rightarrow> True | Some v \<Rightarrow> v = ws_version task"
    using ref by (cases "command_version c") (simp_all add: refines_def)
  from ref consider (keep) "may_keep_task c" "tasks d' = tasks d"
    | (move) cs where "cs \<in> lifecycle_commands c task d" "moves cs task (command_time c) d d'"
    unfolding refines_def core_eq by blast
  then have rows: "may_keep_task c \<and> tasks d' = tasks d \<or>
     (\<exists>cs \<in> lifecycle_commands c task d. \<exists>l issue.
        lifecycle_run cs (ws_lifecycle task) = Inr l \<and>
        tasks d' = map (\<lambda>r. if t_id r = ws_task_id task
          then persisted (task\<lparr>ws_lifecycle := l, ws_active_issue := issue\<rparr>) (ws_version task)
            (command_time c) r else r) (tasks d))"
  proof cases
    case keep
    then show ?thesis by blast
  next
    case move
    from move(2) obtain task1 where
      t: "lifecycle_run cs (ws_lifecycle task) = Inr (ws_lifecycle task1)"
      "tasks d' = map (\<lambda>r. if t_id r = ws_task_id task
        then persisted task1 (ws_version task) (command_time c) r else r) (tasks d)"
      unfolding moves_def update_where_def by blast
    have "persisted task1 = persisted (task\<lparr>ws_lifecycle := ws_lifecycle task1,
        ws_active_issue := ws_active_issue task1\<rparr>)"
      by (simp add: persisted_def [abs_def])
    with t have "lifecycle_run cs (ws_lifecycle task) = Inr (ws_lifecycle task1) \<and>
      tasks d' = map (\<lambda>r. if t_id r = ws_task_id task
        then persisted (task\<lparr>ws_lifecycle := ws_lifecycle task1,
          ws_active_issue := ws_active_issue task1\<rparr>) (ws_version task) (command_time c) r
        else r) (tasks d)" by simp
    with move(1) show ?thesis by blast
  qed
  have "lockWorkflowTask (command_number c) d = Inr task" using ref by (simp add: refines_def)
  with v rows same(1,2,3,4,11) show ?thesis by blast
qed

theorem workflow_refines_lifecycle_witness:
  "\<exists>task. lockWorkflowTask 1 ready_db = Inr task \<and> ws_version task = 2 \<and>
     users working_db = users ready_db"
proof -
  have "command_number claim_execution = 1" "command_version claim_execution = Some 2"
    by (simp_all add: claim_execution_def)
  moreover note workflow_refines_lifecycle [OF reachable_wf_db [OF main_reach(3)] main_run(4)]
  ultimately show ?thesis by auto
qed

text \<open>C14. Safety: no lost update.  Of two workflow commands on one Task that were given the same
  version, where the first changes the Task, the second fails.\<close>

theorem workflow_no_lost_update:
  assumes "wf_db d" and "workflow_apply c d = Inr d'" and "\<not> may_keep_task c"
    and "command_version c = Some v" and "command_version c' = Some v"
    and "command_number c' = command_number c"
  shows "\<exists>e. workflow_apply c' d' = Inl e"
proof (rule ccontr)
  assume "\<not> (\<exists>e. workflow_apply c' d' = Inl e)"
  then obtain d'' where run': "workflow_apply c' d' = Inr d''" by (cases "workflow_apply c' d'") auto
  have wf': "wf_db d'" by (rule workflow_apply_wf [OF assms(2,1)])
  obtain task cs where lock: "lockWorkflowTask (command_number c) d = Inr task"
    and v: "ws_version task = v" and mv: "moves cs task (command_time c) d d'"
    using workflow_apply_refines [OF wf_db_keys [OF assms(1)] assms(2)] assms(3,4)
    by (auto simp: refines_def)
  obtain task' where lock': "lockWorkflowTask (command_number c) d' = Inr task'"
    and v': "ws_version task' = v"
    using workflow_apply_refines [OF wf_db_keys [OF wf'] run'] assms(5,6) by (auto simp: refines_def)
  obtain r where r: "r \<in> set (tasks d)" "t_number r = command_number c" "t_id r = ws_task_id task"
    using lockWorkflowTask_Inr(5) [OF assms(1) lock] by blast
  obtain x where x: "x \<in> set (tasks d')" "t_number x = command_number c" "t_version x = v"
    using lockWorkflowTask_Inr(5) [OF wf' lock'] v' by auto
  obtain task1 where t: "tasks d' = update_where (\<lambda>y. t_id y = ws_task_id task)
      (persisted task1 (ws_version task) (command_time c)) (tasks d)"
    using mv by (auto simp: moves_def)
  let ?r = "persisted task1 (ws_version task) (command_time c) r"
  have "?r \<in> set (tasks d')" using r by (auto simp: t update_where_def)
  then have "x = ?r"
    using x r(2) wf' distinct_key_inj [of t_number "tasks d'" x ?r]
    by (simp add: wf_but_def wf_keys_def)
  with x(3) v show False by simp
qed

theorem workflow_no_lost_update_witness:
  "\<exists>e. workflow_apply (WCancelTask (draws 12000) 1 2 ''Late'' alice_actor alice_session 31) working_db =
     Inl e"
  by (rule workflow_no_lost_update [where c = claim_execution and d = ready_db and v = 2])
    (use reachable_wf_db [OF main_reach(3)] main_run(4) in \<open>simp_all add: claim_execution_def\<close>)

end
