(* ===== verification/Claim_Guarantees.thy ===== *)
theory Claim_Guarantees
  imports Scenario
begin

text \<open>
  What the workflow store guarantees to the holder of a claim and to the acceptance of a Task.
\<close>

section \<open>Acceptance\<close>

lemma row_lifecycle_fields:
  "row_lifecycle r = Some l \<Longrightarrow> t_phase r = Some (lc_phase l) \<and> t_review_cycle r = Some (lc_review_cycle l) \<and>
     lc_activity l = (case t_activity r of None \<Rightarrow> TaskActivityNone | Some a \<Rightarrow> a)"
  by (auto simp: row_lifecycle_def split: option.splits)

lemma zero_filter: "int (length (filter p xs)) \<le> 0 \<longleftrightarrow> (\<forall>x \<in> set xs. \<not> p x)"
  by (simp add: filter_empty_conv)

lemma zero_remdups: "int (length (remdups xs)) \<le> 0 \<longleftrightarrow> xs = []"
  by simp

lemma readiness_met:
  assumes "ValidateCompletion (taskCompletionReadinessForCycle taskID cycle d) = Inr u"
  shows "c \<in> set (criteria d) \<Longrightarrow> crit_task_id c = Some taskID \<Longrightarrow> crit_archived_at c = None \<Longrightarrow>
      criterion_satisfied c cycle d"
    and "x \<in> set (tasks d) \<Longrightarrow> t_parent x = Some taskID \<or> (taskID, t_id x) \<in> set (dependencies d) \<Longrightarrow>
      \<not> unfinished_row x"
proof -
  let ?r = "taskCompletionReadinessForCycle taskID cycle d"
  have m: "ready_active_criteria ?r \<le> 0 \<or> ready_unsatisfied_criteria ?r \<le> 0"
    "ready_unfinished_children ?r \<le> 0" "ready_unfinished_dependencies ?r \<le> 0"
    using assms by (auto simp: ValidateCompletion_Inr)
  show "criterion_satisfied c cycle d" if "c \<in> set (criteria d)" "crit_task_id c = Some taskID"
    "crit_archived_at c = None"
  proof -
    have c: "c \<in> set (active_criteria taskID d)" using that by (simp add: active_criteria_def)
    then have "\<not> ready_active_criteria ?r \<le> 0"
      by (auto simp: taskCompletionReadinessForCycle_def)
    with m(1) c show ?thesis
      by (auto simp: taskCompletionReadinessForCycle_def zero_filter simp del: of_nat_le_0_iff)
  qed
  show "\<not> unfinished_row x" if "x \<in> set (tasks d)"
    "t_parent x = Some taskID \<or> (taskID, t_id x) \<in> set (dependencies d)"
    using that m(2,3) by (auto simp: taskCompletionReadinessForCycle_def filter_empty_conv)
qed

lemma unfinished_row_iff:
  "unfinished_row r \<longleftrightarrow> t_phase r \<noteq> Some TaskPhaseDone \<and> t_phase r \<noteq> Some TaskPhaseCancelled"
  by (auto simp: unfinished_row_def split: option.splits)

lemma TaskLifecycle_Accept_Inr:
  "TaskLifecycle_Accept readiness l = Inr l' \<longleftrightarrow>
     lc_phase l = TaskPhaseInReview \<and> lc_activity l = TaskActivityWorking \<and>
     ValidateCompletion readiness = Inr () \<and>
     l' = l\<lparr>lc_phase := TaskPhaseDone, lc_activity := TaskActivityNone\<rparr>"
  by (auto simp: TaskLifecycle_Accept_def requireWorkingStage_Inr result_simps)

text \<open>C17. Safety: a Task is accepted only in review, worked on under the review claim the caller
  holds, when every active criterion has a passed or waived acceptance check of its current
  revision recorded in the current review cycle, and every child and every dependency is done or
  cancelled.  The Task is then done, one version later, completed at the time of the call.\<close>

theorem accept_task_gates:
  assumes "wf_db d"
    and "TaskWorkflowStore_AcceptTask ids n claimID v cv summary actor operation now d =
      Inr (d', out)"
  shows "\<exists>r \<in> set (tasks d). t_number r = n \<and> t_version r = v \<and>
    t_phase r = Some TaskPhaseInReview \<and> t_activity r = Some TaskActivityWorking \<and>
    (\<exists>c. active_claims d (t_id r) = [c] \<and> claim_id c = claimID \<and>
       claim_stage c = TaskClaimStageReview \<and> claim_subject_user_id c = op_user_id operation) \<and>
    (\<forall>c \<in> set (criteria d). crit_task_id c = Some (t_id r) \<and> crit_archived_at c = None \<longrightarrow>
       (\<exists>k \<in> set (checks d). check_criterion_id k = crit_id c \<and>
          check_criterion_revision k = crit_revision c \<and>
          check_purpose k = AcceptanceCheckPurposeAcceptance \<and>
          check_task_review_cycle k = t_review_cycle r \<and>
          check_outcome k \<in> {AcceptanceOutcomePassed, AcceptanceOutcomeWaived})) \<and>
    (\<forall>x \<in> set (tasks d). t_parent x = Some (t_id r) \<or> (t_id r, t_id x) \<in> set (dependencies d) \<longrightarrow>
       t_phase x \<in> {Some TaskPhaseDone, Some TaskPhaseCancelled}) \<and>
    (\<exists>r' \<in> set (tasks d'). t_id r' = t_id r \<and> t_phase r' = Some TaskPhaseDone \<and>
       t_version r' = v + 1 \<and> t_completed_at r' = Some now)"
proof -
  obtain task claim where lock: "lockWorkflowTask n d = Inr task" "ws_version task = v"
    "lockActiveTaskStageClaim (ws_task_id task) d = Inr claim" "claim_id claim = claimID"
    and actor: "validateClaimActor claim actor operation = Inr ()"
    using assms(2)
    by (auto simp: TaskWorkflowStore_AcceptTask_def lockOwnedWorkflowClaim_Inr result_simps
        split: if_splits prod.splits)
  obtain task' where "lockWorkflowTask n d = Inr task'"
    and mv': "moves [Accept (taskCompletionReadinessForCycle (ws_task_id task')
      (lc_review_cycle (ws_lifecycle task')) d)] task' now d d'"
    using AcceptTask_moves [OF wf_db_keys [OF assms(1)] assms(2)] by blast
  with lock have mv: "moves [Accept (taskCompletionReadinessForCycle (ws_task_id task)
      (lc_review_cycle (ws_lifecycle task)) d)] task now d d'" by simp
  note lk = lockWorkflowTask_Inr [OF assms(1) lock(1)]
  from assms(1) lock(1) mv show ?thesis
  proof (cases rule: moves_rows)
    case (1 r task1)
    obtain r0 where "r0 \<in> set (tasks d)" "t_number r0 = n" "t_id r0 = ws_task_id task"
      using lk(5) by blast
    then have n: "t_number r = n" using 1(2,6) by metis
    let ?l = "ws_lifecycle task"
    note f = row_lifecycle_fields [OF 1(3)]
    have acc: "TaskLifecycle_Accept (taskCompletionReadinessForCycle (ws_task_id task)
        (lc_review_cycle ?l) d) ?l = Inr (ws_lifecycle task1)"
      using 1(4) by (simp add: result_simps)
    then have ph: "lc_phase ?l = TaskPhaseInReview" "lc_activity ?l = TaskActivityWorking"
      and done': "lc_phase (ws_lifecycle task1) = TaskPhaseDone"
      and met: "ValidateCompletion (taskCompletionReadinessForCycle (ws_task_id task)
        (lc_review_cycle ?l) d) = Inr ()"
      by (simp_all add: TaskLifecycle_Accept_Inr)
    note own = owned_claim [OF lk(2) lock(3)]
    have row: "t_phase r = Some TaskPhaseInReview" "t_activity r = Some TaskActivityWorking"
      using f ph by (auto split: option.splits)
    have claim: "\<exists>c. active_claims d (t_id r) = [c] \<and> claim_id c = claimID \<and>
       claim_stage c = TaskClaimStageReview \<and> claim_subject_user_id c = op_user_id operation"
      using own 1(2) ph lock(4) actor
      by (auto simp: validateClaimActor_def result_simps split: if_splits)
    have crit: "\<forall>c \<in> set (criteria d). crit_task_id c = Some (t_id r) \<and> crit_archived_at c = None \<longrightarrow>
       (\<exists>k \<in> set (checks d). check_criterion_id k = crit_id c \<and>
          check_criterion_revision k = crit_revision c \<and>
          check_purpose k = AcceptanceCheckPurposeAcceptance \<and>
          check_task_review_cycle k = t_review_cycle r \<and>
          check_outcome k \<in> {AcceptanceOutcomePassed, AcceptanceOutcomeWaived})"
      using readiness_met(1) [OF met] 1(2) f by (auto simp: criterion_satisfied_def)
    have fin: "\<forall>x \<in> set (tasks d). t_parent x = Some (t_id r) \<or>
        (t_id r, t_id x) \<in> set (dependencies d) \<longrightarrow>
        t_phase x \<in> {Some TaskPhaseDone, Some TaskPhaseCancelled}"
      using readiness_met(2) [OF met] 1(2) by (auto simp: unfinished_row_iff)
    let ?r = "persisted task1 (ws_version task) now r"
    have "?r \<in> set (tasks d')" using 1(1) by (auto simp: 1(7) update_where_def)
    moreover have "t_completed_at ?r = Some now" using done' by (simp add: persisted_def)
    ultimately have "\<exists>r' \<in> set (tasks d'). t_id r' = t_id r \<and> t_phase r' = Some TaskPhaseDone \<and>
       t_version r' = v + 1 \<and> t_completed_at r' = Some now"
      using done' lock(2) by (intro bexI [of _ ?r]) simp_all
    with 1(1,5) n lock(2) row claim crit fin show ?thesis by blast
  qed
qed

theorem accept_task_gates_witness:
  "\<exists>r \<in> set (tasks checked_db). t_number r = 1 \<and> t_version r = 5 \<and>
     t_phase r = Some TaskPhaseInReview"
proof -
  obtain out where "TaskWorkflowStore_AcceptTask (draws 7000) 1 5001 5 1 ''Good'' alice_actor
      alice_session 70 checked_db = Inr (accepted_db, out)"
    using main_run(8) by (auto simp: accept_task_def)
  from accept_task_gates [OF reachable_wf_db [OF main_reach(7)] this] show ?thesis by blast
qed

section \<open>Who may finish a claim\<close>

text \<open>The claim a command acts under: its identifier and version, and who calls.\<close>

fun command_claim :: "workflow_command \<Rightarrow> (uuid \<times> int \<times> Actor \<times> OperationActor) option" where
  "command_claim (WReleaseClaim ids n claimID v cv handoff actor operation now) =
     Some (claimID, cv, actor, operation)"
| "command_claim (WRecordWorkSubmission ids n claimID v cv body actor operation now) =
     Some (claimID, cv, actor, operation)"
| "command_claim (WCompleteExecution ids n claimID v cv body changes actor operation now) =
     Some (claimID, cv, actor, operation)"
| "command_claim (WRequestChanges ids n claimID v cv reason actor operation now) =
     Some (claimID, cv, actor, operation)"
| "command_claim (WRequestResolution ids n claimID v cv issueType request actor operation now) =
     Some (claimID, cv, actor, operation)"
| "command_claim (WRecordAcceptanceCheck ids n claimID v cv check actor operation now) =
     Some (claimID, cv, actor, operation)"
| "command_claim (WAcceptTask ids n claimID v cv body actor operation now) =
     Some (claimID, cv, actor, operation)"
| "command_claim _ = None"

lemma finishClaim_owner:
  assumes "finishClaim ids n claimID v cv outcome kind body actor operation now mutate d = Inr (d', out)"
  shows "\<exists>task claim. lockOwnedWorkflowClaim n claimID v cv actor operation d = Inr (task, claim)"
  using assms by (auto simp: finishClaim_def result_simps split: prod.splits)

lemma command_claim_owner:
  assumes "workflow_apply c d = Inr d'" and "command_claim c = Some (claimID, cv, actor, operation)"
  shows "\<exists>task claim. lockWorkflowTask (command_number c) d = Inr task \<and>
    lockActiveTaskStageClaim (ws_task_id task) d = Inr claim \<and> claim_id claim = claimID \<and>
    claim_version claim = cv \<and> validateClaimActor claim actor operation = Inr ()"
proof (cases c)
  case (WReleaseClaim ids n claimID v cv handoff actor operation now)
  with assms show ?thesis
    by (auto simp: TaskWorkflowStore_ReleaseClaim_def lockOwnedWorkflowClaim_Inr split: if_splits
        dest!: finishClaim_owner)
next
  case (WRequestChanges ids n claimID v cv reason actor operation now)
  with assms show ?thesis
    by (auto simp: TaskWorkflowStore_RequestChanges_def lockOwnedWorkflowClaim_Inr split: if_splits
        dest!: finishClaim_owner)
next
  case (WRecordWorkSubmission ids n claimID v cv body actor operation now)
  with assms show ?thesis
    by (auto simp: TaskWorkflowStore_RecordWorkSubmission_def lockOwnedWorkflowClaim_Inr result_simps
        split: if_splits prod.splits)
next
  case (WCompleteExecution ids n claimID v cv body changes actor operation now)
  with assms show ?thesis
    by (auto simp: TaskWorkflowStore_CompleteExecutionWithDelivery_def lockOwnedWorkflowClaim_Inr
        result_simps split: if_splits prod.splits)
next
  case (WRequestResolution ids n claimID v cv issueType request actor operation now)
  with assms show ?thesis
    by (auto simp: TaskWorkflowStore_RequestResolution_def lockOwnedWorkflowClaim_Inr result_simps
        split: if_splits prod.splits)
next
  case (WRecordAcceptanceCheck ids n claimID v cv check actor operation now)
  with assms show ?thesis
    by (auto simp: TaskWorkflowStore_RecordAcceptanceCheck_def Let_def result_simps
        split: if_splits)
next
  case (WAcceptTask ids n claimID v cv body actor operation now)
  with assms show ?thesis
    by (auto simp: TaskWorkflowStore_AcceptTask_def lockOwnedWorkflowClaim_Inr result_simps
        split: if_splits prod.splits)
qed (use assms(2) in simp_all)

text \<open>C18. Safety: a command that acts under a claim succeeds only for the active claim it names, at
  the version it names, and only for its holder: the same subject, the same kind of
  authentication with the same token or run, and the same acting person or agent.\<close>

theorem claim_holder_only:
  assumes "workflow_apply c d = Inr d'" and "command_claim c = Some (claimID, cv, actor, operation)"
  shows "\<exists>claim \<in> set (claims d). claim_id claim = claimID \<and> claim_version claim = cv \<and>
    claim_status claim = StageClaimStatusActive \<and>
    claim_subject_user_id claim = op_user_id operation \<and>
    claim_auth_method claim = op_auth_method operation \<and>
    claim_api_token_id claim = op_token_id operation \<and>
    claim_agent_run_id claim = op_agent_run_id operation \<and>
    claim_claimed_by claim = actor"
proof -
  obtain task :: workflowTask and claim :: TaskStageClaim where lock: "lockActiveTaskStageClaim (ws_task_id task) d = Inr claim"
    and c: "claim_id claim = claimID" "claim_version claim = cv"
    and actor: "validateClaimActor claim actor operation = Inr ()"
    using command_claim_owner [OF assms] by (elim exE conjE) (rule that)
  note lk = lockActiveTaskStageClaim_Inr [OF lock]
  have "claim_subject_user_id claim = op_user_id operation \<and>
    claim_auth_method claim = op_auth_method operation \<and>
    claim_api_token_id claim = op_token_id operation \<and>
    claim_agent_run_id claim = op_agent_run_id operation \<and> claim_claimed_by claim = actor"
    using actor
    by (auto simp: validateClaimActor_def result_simps split: if_splits intro: Actor.equality)
  with lk c show ?thesis by blast
qed

theorem claim_holder_only_witness:
  "\<exists>claim \<in> set (claims working_db). claim_id claim = 3001 \<and> claim_subject_user_id claim = alice"
proof -
  have "command_claim complete_execution = Some (3001, 1, alice_actor, alice_session)"
    by (simp add: complete_execution_def)
  from claim_holder_only [OF main_run(5) this] show ?thesis
    by (auto simp: alice_session_def SessionOperation_def)
qed

section \<open>One holder at a time\<close>

lemma lockWorkflowTask_exists:
  assumes wf: "wf_db d" and r: "r \<in> set (tasks d)" and l: "row_lifecycle r = Some l"
  shows "\<exists>task. lockWorkflowTask (t_number r) d = Inr task \<and> ws_task_id task = t_id r \<and>
    ws_version task = t_version r \<and> ws_lifecycle task = l \<and> ws_archived_at task = t_archived_at r"
proof -
  note f = row_lifecycle_fields [OF l]
  have "find (\<lambda>x. t_number x = t_number r) (tasks d) = Some r"
    using wf r find_key [of t_number "tasks d" r] by (simp add: wf_but_def wf_keys_def)
  moreover obtain m where "main_threads d (t_id r) = [m]"
    using wf r f by (auto simp: wf_but_def wf_rows_def)
  then have "\<exists>i. main_thread_id d (t_id r) = Some i"
    unfolding main_thread_id_def main_threads_def
    by (cases "find (\<lambda>t. thread_task_id t = t_id r \<and> thread_role t = ThreadRoleMain) (threads d)")
      (auto simp: find_None_iff filter_eq_Cons_iff)
  moreover have "lifecycle_valid l"
    using wf r l by (auto simp: wf_but_def coupled_def row_shape_def)
  ultimately show ?thesis
    using f by (cases l) (auto simp: lockWorkflowTask_def scanWorkflowTask_def Let_def)
qed

text \<open>C3. Error behaviour: while the claim on a Task has not expired, nobody else can claim the
  Task.  The call fails, and with valid arguments on a Task that is not archived the error is
  \<open>ErrActiveClaim\<close>.\<close>

theorem claim_excludes_claim:
  assumes "wf_db d" and "r \<in> set (tasks d)" and "t_activity r = Some TaskActivityWorking"
    and "\<And>c. c \<in> set (active_claims d (t_id r)) \<Longrightarrow> now < claim_expires_at c"
  shows "(\<exists>e. TaskWorkflowStore_Claim ids (t_number r) v claimedBy operation kind session now d = Inl e) \<and>
    (validateThreadOperationActor claimedBy operation = Inr () \<and> v = t_version r \<and>
       t_archived_at r = None \<longrightarrow>
     TaskWorkflowStore_Claim ids (t_number r) v claimedBy operation kind session now d =
       Inl ErrActiveClaim)"
proof -
  have cp: "coupled d r" using assms(1,2) by (auto simp: wf_but_def)
  then obtain l where l: "row_lifecycle r = Some l"
    using assms(3) by (auto simp: coupled_def row_shape_def split: option.splits)
  obtain task where t: "lockWorkflowTask (t_number r) d = Inr task" "ws_task_id task = t_id r"
    "ws_version task = t_version r" "ws_lifecycle task = l" "ws_archived_at task = t_archived_at r"
    using lockWorkflowTask_exists [OF assms(1,2) l] by blast
  have act: "lc_activity l = TaskActivityWorking"
    using row_lifecycle_fields [OF l] assms(3) by simp
  have valid: "lifecycle_valid l" using cp l by (auto simp: coupled_def row_shape_def)
  then have phase: "TaskPhase_Active (lc_phase l)"
    using act by (auto simp: lifecycle_valid_iff TaskPhase_Active_def split: TaskPhase.splits)
  obtain c where c: "active_claims d (t_id r) = [c]"
    using cp assms(3) by (auto simp: coupled_def claim_coupled_def)
  then have "find (\<lambda>c. claim_task_id c = t_id r \<and> claim_status c = StageClaimStatusActive) (claims d) = Some c"
    unfolding active_claims_def by (simp add: filter_find)
  then have "lockActiveTaskStageClaim (ws_task_id task) d = Inr c"
    by (simp add: lockActiveTaskStageClaim_def t)
  moreover have "now < claim_expires_at c" using assms(4) c by simp
  ultimately have ex: "expireDueWorkflowClaim (ids 0) task operation now d = Inr (d, task)"
    using act t by (simp add: expireDueWorkflowClaim_def)
  have "TaskLifecycle_Claim (ws_archived_at task \<noteq> None) (ws_lifecycle task) =
      Inl (if t_archived_at r = None then ErrActiveClaim else ErrConflict)"
    using act phase t by (simp add: TaskLifecycle_Claim_def)
  then show ?thesis
    using t(1,3) ex
    by (cases "validateThreadOperationActor claimedBy operation")
      (auto simp: TaskWorkflowStore_Claim_def check_version_def)
qed

theorem claim_excludes_claim_witness:
  "\<exists>e. TaskWorkflowStore_Claim (draws 13000) 1 3 alice_actor alice_session ''web'' [] 31 working_db = Inl e"
proof -
  note r = summary_rows [OF main_summaries(2), of 0]
  have n: "t_number (tasks working_db ! 0) = 1" and
    c: "\<forall>c \<in> set (claims working_db). claim_expires_at c = 604800000030"
    using main_summaries(6) r(1) by (auto simp: claim_summary_def map_eq_Cons_conv)
  have "31 < claim_expires_at c" if "c \<in> set (active_claims working_db (t_id (tasks working_db ! 0)))" for c
    using that c by (auto simp: active_claims_def)
  from claim_excludes_claim [OF reachable_wf_db [OF main_reach(4)], of "tasks working_db ! 0" 31, OF _ _ this] n r
  show ?thesis by simp
qed

end
