(* ===== verification/Task_Guarantees.thy ===== *)
theory Task_Guarantees
  imports Scenario
begin

text \<open>
  What the Task store guarantees to the editors of a Task: exactly the named columns change, a stale
  version is refused, and every change of a column is logged.
\<close>

section \<open>Editing\<close>

lemma second_patch_new:
  "apply_patch second_patch d r = Inr new \<Longrightarrow>
   t_title new = ''Ship it'' \<and> t_assignee new = Some alice"
  by (auto simp: apply_patch_def second_patch_def no_patch_def patch_schedule_def or_old_def
      result_simps Let_def split: if_splits)



section \<open>Stale versions\<close>

text \<open>C21. Error behaviour: an edit or an archiving of a Task that names another version than the
  stored one fails with a version conflict that reports the stored version, whatever else it asks
  for; one that names a Task that does not exist fails with \<open>ErrNotFound\<close>.\<close>

theorem stale_version_refused:
  assumes "distinct (map t_number (tasks d))" and "OperationActor_Validate actor = Inr ()"
  shows "(\<forall>r \<in> set (tasks d). v \<noteq> t_version r \<longrightarrow>
      TaskStore_UpdateVersionedWithOperation collation ids now dbnow (t_number r) v p actor d =
        Inl (VersionConflictError (t_version r)) \<and>
      TaskStore_SetArchivedVersionedWithOperation collation ids now dbnow (t_number r) v archived actor d =
        Inl (VersionConflictError (t_version r))) \<and>
    (number \<notin> t_number ` set (tasks d) \<longrightarrow>
      TaskStore_UpdateVersionedWithOperation collation ids now dbnow number v p actor d = Inl ErrNotFound \<and>
      TaskStore_SetArchivedVersionedWithOperation collation ids now dbnow number v archived actor d =
        Inl ErrNotFound)"
proof -
  have found: "find (\<lambda>x. t_number x = t_number r) (tasks d) = Some r" if "r \<in> set (tasks d)" for r
    using find_key [OF assms(1) that] .
  have missing: "find (\<lambda>x. t_number x = number) (tasks d) = None" if "number \<notin> t_number ` set (tasks d)"
    using that by (auto simp: find_None_iff)
  show ?thesis
    using assms(2) found missing
    by (simp add: TaskStore_UpdateVersionedWithOperation_def
        TaskStore_SetArchivedVersionedWithOperation_def updateWithExpectedVersion_def
        setArchivedWithExpectedVersion_def)
qed

theorem stale_version_refused_witness:
  "TaskStore_UpdateVersionedWithOperation bytes_le (draws 15000) 90 91 (t_number (tasks family_db ! 1)) 1
     no_patch alice_session family_db = Inl (VersionConflictError 2)"
proof -
  have "distinct (map t_number (tasks family_db))"
    using reachable_wf_db [OF family_reach(2)] by (simp add: wf_but_def wf_keys_def)
  moreover have "OperationActor_Validate alice_session = Inr ()" by code_simp
  ultimately show ?thesis
    using stale_version_refused [of family_db alice_session 1 bytes_le "draws 15000" 90 91 no_patch]
      summary_rows [OF family_summaries(2), of 1] by simp
qed

section \<open>Archiving\<close>

text \<open>C22. Functional correctness of archiving: a Task that is being worked on or needs resolution is
  not archived.  Only the row of the Task changes: its version is the next one, restoring clears
  the time of archiving, and archiving again keeps the first one.\<close>

theorem archive_task_effect:
  assumes "wf_db d"
    and "setArchivedWithExpectedVersion collation ids now dbnow number v archived actor d = Inr (d', out)"
  shows "\<exists>r \<in> set (tasks d). t_number r = number \<and> v \<in> {None, Some (t_version r)} \<and>
    (archived \<and> t_archived_at r = None \<longrightarrow>
       t_activity r \<notin> {Some TaskActivityWorking, Some TaskActivityNeedsResolution}) \<and>
    tasks d' = map (\<lambda>x. if t_id x = t_id r
      then x\<lparr>t_version := t_version x + 1, t_updated_at := dbnow,
        t_archived_at := (if \<not> archived then None
          else if t_archived_at r = None then Some dbnow else t_archived_at r)\<rparr>
      else x) (tasks d) \<and>
    dependencies d' = dependencies d \<and> claims d' = claims d \<and> threads d' = threads d"
proof -
  have keys: "distinct (map t_id (tasks d))" using assms(1) by (rule wf_db_keys)
  from keys assms(2) show ?thesis
  proof (cases rule: archive_effect)
    case (1 r)
    have "set_archived archived dbnow x = x\<lparr>t_version := t_version x + 1, t_updated_at := dbnow,
        t_archived_at := (if \<not> archived then None
          else if t_archived_at r = None then Some dbnow else t_archived_at r)\<rparr>"
      if "x \<in> set (tasks d)" "t_id x = t_id r" for x
    proof -
      have "x = r" using distinct_key_inj [OF keys that(1) 1(1)] that(2) by simp
      then show ?thesis by (cases "t_archived_at r") (simp_all add: set_archived_def touch_def)
    qed
    then have "tasks d' = map (\<lambda>x. if t_id x = t_id r
      then x\<lparr>t_version := t_version x + 1, t_updated_at := dbnow,
        t_archived_at := (if \<not> archived then None
          else if t_archived_at r = None then Some dbnow else t_archived_at r)\<rparr>
      else x) (tasks d)"
      unfolding 1(5) update_where_def by (intro map_cong) simp_all
    with 1 others_fields [OF 1(7)] show ?thesis by blast
  qed
qed

theorem archive_task_effect_witness:
  "\<exists>r \<in> set (tasks edited_db). t_number r = 2 \<and> t_version r = 3 \<and>
     dependencies archived_db = dependencies edited_db"
proof -
  obtain out where "setArchivedWithExpectedVersion bytes_le (draws 14000) 70 71 2 (Some 3) True
      alice_session edited_db = Inr (archived_db, out)"
    using family_run(7) by (auto simp: archive_second_def)
  from archive_task_effect [OF reachable_wf_db [OF family_reach(3)] this] show ?thesis by fastforce
qed

section \<open>The activity log\<close>

lemma recordFieldChange_activity:
  assumes "recordFieldChange newID i actor f a b dbnow d = Inr d'"
  shows "\<exists>es. activity d' = activity d @ es \<and>
    map (\<lambda>e. (act_field e, act_old_value e, act_new_value e)) es =
      (if a = b then [] else [(f, strPtrOrNil a, strPtrOrNil b)]) \<and>
    (\<forall>e \<in> set es. act_task_id e = i \<and> act_actor_id e = op_user_id actor \<and> act_created_at e = dbnow)"
  using assms by (auto simp: recordFieldChange_def insertActivity_def split: if_splits)

lemma record_changes_activity:
  "record_changes ids i actor dbnow cs d = Inr d' \<Longrightarrow>
   \<exists>es. activity d' = activity d @ es \<and>
    map (\<lambda>e. (act_field e, act_old_value e, act_new_value e)) es =
      map (\<lambda>(f, a, b). (f, strPtrOrNil a, strPtrOrNil b)) (filter (\<lambda>(f, a, b). a \<noteq> b) cs) \<and>
    (\<forall>e \<in> set es. act_task_id e = i \<and> act_actor_id e = op_user_id actor \<and> act_created_at e = dbnow)"
proof (induction ids i actor dbnow cs d rule: record_changes.induct)
  case (2 ids i actor dbnow f a b rest d)
  from 2(2) obtain d1 where d1: "recordFieldChange (ids 0) i actor f a b dbnow d = Inr d1"
    "record_changes (\<lambda>k. ids (Suc k)) i actor dbnow rest d1 = Inr d'"
    by (auto simp: result_simps)
  obtain es where es: "activity d1 = activity d @ es"
    "map (\<lambda>e. (act_field e, act_old_value e, act_new_value e)) es =
      (if a = b then [] else [(f, strPtrOrNil a, strPtrOrNil b)])"
    "\<forall>e \<in> set es. act_task_id e = i \<and> act_actor_id e = op_user_id actor \<and> act_created_at e = dbnow"
    using recordFieldChange_activity [OF d1(1)] by blast
  obtain fs where fs: "activity d' = activity d1 @ fs"
    "map (\<lambda>e. (act_field e, act_old_value e, act_new_value e)) fs =
      map (\<lambda>(f, a, b). (f, strPtrOrNil a, strPtrOrNil b)) (filter (\<lambda>(f, a, b). a \<noteq> b) rest)"
    "\<forall>e \<in> set fs. act_task_id e = i \<and> act_actor_id e = op_user_id actor \<and> act_created_at e = dbnow"
    using 2(1) [OF d1(2)] by blast
  show ?case
    by (rule exI [of _ "es @ fs"]) (use es fs in auto)
qed simp

text \<open>The columns an edit logs, and when each has changed: dates count by the day, and the values of
  an enumeration by their text.\<close>

definition changed_columns :: "task_row \<Rightarrow> task_row \<Rightarrow> (ActivityField \<times> bool) list" where
  "changed_columns r new =
     [(ActivityFieldTitle, t_title r \<noteq> t_title new),
      (ActivityFieldContext, t_context r \<noteq> t_context new),
      (ActivityFieldExpectedResult, t_expected_result r \<noteq> t_expected_result new),
      (ActivityFieldDescription, t_description r \<noteq> t_description new),
      (ActivityFieldStatus, TaskStatus_string (t_status r) \<noteq> TaskStatus_string (t_status new)),
      (ActivityFieldPriority, TaskPriority_string (t_priority r) \<noteq> TaskPriority_string (t_priority new)),
      (ActivityFieldExecutionMode,
       TaskExecutionMode_string (t_execution_mode r) \<noteq> TaskExecutionMode_string (t_execution_mode new)),
      (ActivityFieldAssignee, t_assignee r \<noteq> t_assignee new),
      (ActivityFieldStartDate, map_option (\<lambda>t. t div day_micros) (t_start_date r) \<noteq>
        map_option (\<lambda>t. t div day_micros) (t_start_date new)),
      (ActivityFieldDueDate, map_option (\<lambda>t. t div day_micros) (t_due_date r) \<noteq>
        map_option (\<lambda>t. t div day_micros) (t_due_date new)),
      (ActivityFieldProject, t_project r \<noteq> t_project new),
      (ActivityFieldMilestone, t_milestone r \<noteq> t_milestone new),
      (ActivityFieldParent, t_parent r \<noteq> t_parent new)]"

lemma uuidPtrString_inject: "uuidPtrString a = uuidPtrString b \<longleftrightarrow> a = b"
  by (cases a; cases b) (simp_all add: uuidPtrString_def eq_commute [of "[]"])

lemma date_String_not_Nil: "date_String t \<noteq> []"
  by (simp add: date_String_def split: prod.splits)

lemma datePtrString_inject:
  "datePtrString a = datePtrString b \<longleftrightarrow>
     map_option (\<lambda>t. t div day_micros) a = map_option (\<lambda>t. t div day_micros) b"
  by (cases a; cases b)
    (simp_all add: datePtrString_def date_String_inject date_String_not_Nil eq_commute [of "[]"])

lemma field_changes_columns:
  "map (\<lambda>(f, a, b). (f, a \<noteq> b)) (field_changes r new) = changed_columns r new"
  by (simp add: field_changes_def changed_columns_def uuidPtrString_inject datePtrString_inject)

text \<open>\<open>logs X d d'\<close>: the log of \<open>d'\<close> is that of \<open>d\<close> and then entries that satisfy \<open>X\<close>.\<close>

definition logs :: "(Activity \<Rightarrow> bool) \<Rightarrow> db \<Rightarrow> db \<Rightarrow> bool" where
  "logs X d d' \<longleftrightarrow> (\<exists>es. activity d' = activity d @ es \<and> (\<forall>e \<in> set es. X e))"

lemma logs_same: "activity d' = activity d \<Longrightarrow> logs X d d'"
  by (auto simp: logs_def)

lemma logs_trans: "logs X d d' \<Longrightarrow> logs X d' d'' \<Longrightarrow> logs X d d''"
  unfolding logs_def by (metis Un_iff append.assoc set_append)

lemma logs_mono: "logs X d d' \<Longrightarrow> (\<And>e. X e \<Longrightarrow> Y e) \<Longrightarrow> logs Y d d'"
  unfolding logs_def by blast

abbreviation entry_of :: "OperationActor \<Rightarrow> uuid set \<Rightarrow> Activity \<Rightarrow> bool" where
  "entry_of actor X e \<equiv> act_task_id e \<in> X \<and> act_actor_id e = op_user_id actor"

lemma record_changes_logs:
  "record_changes ids i actor dbnow cs d = Inr d' \<Longrightarrow> logs (entry_of actor {i}) d d'"
  by (drule record_changes_activity) (auto simp: logs_def)

lemma update_task_rows_activity: "update_task_rows p f d = Inr (d', n) \<Longrightarrow> activity d' = activity d"
  by (auto simp: update_task_rows_Inr)

lemma child_step_logs:
  assumes "update_task_rows p f d = Inr (d1, n)"
    and "record_changes ids i actor dbnow cs d1 = Inr d2"
    and "activity d3 = activity d2" and "i \<in> X"
  shows "logs (entry_of actor X) d d3"
  using logs_same [OF update_task_rows_activity [OF assms(1)]] record_changes_logs [OF assms(2)]
    assms(3,4)
  by (blast intro: logs_trans logs_same logs_mono)

lemma move_children_logs:
  "move_children ids i project milestone actor now dbnow cs d = Inr d' \<Longrightarrow> t_id ` set cs \<subseteq> X \<Longrightarrow>
   logs (entry_of actor X) d d'"
proof (induction ids i project milestone actor now dbnow cs d rule: move_children.induct)
  case (2 ids i project milestone actor now dbnow c rest d)
  from 2(2) obtain d1 n d2 d3 where
    st: "update_task_rows (\<lambda>r. t_id r = t_id c)
      (\<lambda>r. touch dbnow (r\<lparr>t_project := project, t_milestone := milestone\<rparr>)) d = Inr (d1, n)"
    "record_changes ids (t_id c) actor dbnow
       [(ActivityFieldProject, uuid_String (t_project c), uuid_String project),
        (ActivityFieldMilestone, uuidPtrString (t_milestone c), uuidPtrString milestone)] d1 = Inr d2"
    and au: "activity d3 = activity d2"
    and rec: "move_children (\<lambda>k. ids (k + 8)) i project milestone actor now dbnow rest d3 = Inr d'"
    by (auto simp: result_simps simp del: record_changes.simps dest: InsertBusinessAudit_kept)
  from child_step_logs [OF st au, of X] 2(3) have "logs (entry_of actor X) d d3" by simp
  moreover have "logs (entry_of actor X) d3 d'" using 2 rec by simp
  ultimately show ?case by (rule logs_trans)
qed (simp add: logs_same)

lemma shift_children_logs:
  "shift_children ids i days actor now dbnow cs d = Inr d' \<Longrightarrow> t_id ` set cs \<subseteq> X \<Longrightarrow>
   logs (entry_of actor X) d d'"
proof (induction ids i days actor now dbnow cs d rule: shift_children.induct)
  case (2 ids i days actor now dbnow c rest d)
  let ?c = "shift_dates days c"
  from 2(2) obtain d1 n d2 d3 where
    st: "update_task_rows (\<lambda>r. t_id r = t_id c)
      (\<lambda>r. touch dbnow (r\<lparr>t_start_date := t_start_date ?c, t_due_date := t_due_date ?c\<rparr>)) d =
      Inr (d1, n)"
    "record_changes ids (t_id c) actor dbnow
       [(ActivityFieldStartDate, datePtrString (t_start_date c), datePtrString (t_start_date ?c)),
        (ActivityFieldDueDate, datePtrString (t_due_date c), datePtrString (t_due_date ?c))] d1 = Inr d2"
    and au: "activity d3 = activity d2"
    and rec: "shift_children (\<lambda>k. ids (k + 8)) i days actor now dbnow rest d3 = Inr d'"
    by (auto simp: result_simps Let_def simp del: record_changes.simps dest: InsertBusinessAudit_kept)
  from child_step_logs [OF st au, of X] 2(3) have "logs (entry_of actor X) d d3" by simp
  moreover have "logs (entry_of actor X) d3 d'" using 2 rec by simp
  ultimately show ?case by (rule logs_trans)
qed (simp add: logs_same)

lemma update_children_logs:
  assumes run: "update_children ids p r new actor now dbnow d = Inr d'"
    and own: "\<And>x. x \<in> set (tasks d) \<Longrightarrow> t_id x = t_id r \<Longrightarrow> t_parent x \<noteq> Some (t_id r)"
    and keys: "distinct (map t_id (tasks d))"
  shows "logs (entry_of actor (- {t_id r})) d d'"
proof -
  have cs: "t_id ` set (children_of (t_id r) e) \<subseteq> - {t_id r}"
    if "child_edits (t_id r) d e" for e
  proof -
    have "t_parent y \<noteq> Some (t_id r)" if y: "y \<in> set (tasks e)" "t_id y = t_id r" for y
    proof -
      obtain x where "x \<in> set (tasks d)" "child_edited (t_id r) x y"
        using \<open>child_edits (t_id r) d e\<close> list_all2_from [OF _ y(1)] by (auto simp: child_edits_def)
      with own [of x] y(2) show ?thesis by (auto simp: child_edited_def workflow_cols_def)
    qed
    then show ?thesis by (auto simp: children_of_def)
  qed
  obtain d1 where move: "d1 = d \<or> moveTaskChildren ids (t_id r) (t_project new) (t_milestone new)
      actor now dbnow d = Inr d1"
    and shift: "d' = d1 \<or> (\<exists>days. shiftTaskChildrenSchedules (\<lambda>k. ids (4 + k)) (t_id r) days actor
      now dbnow d1 = Inr d')"
    using run by (force simp: update_children_def result_simps split: if_splits option.splits)
  have "d1 = d \<or> move_children ids (t_id r) (t_project new) (t_milestone new) actor now dbnow
      (children_of (t_id r) d) d = Inr d1"
    using move by (simp add: moveTaskChildren_def Let_def split: list.splits if_splits)
  then have "logs (entry_of actor (- {t_id r})) d d1"
    using move_children_logs [OF _ cs [OF child_edits_refl]] by (elim disjE) (simp_all add: logs_same)
  moreover have "child_edits (t_id r) d d1" using move moveTaskChildren_edits [OF keys] by auto
  then have "t_id ` set (filter scheduled (children_of (t_id r) d1)) \<subseteq> - {t_id r}" using cs by auto
  then have "logs (entry_of actor (- {t_id r})) d1 d'"
    using shift unfolding shiftTaskChildrenSchedules_def
    by (elim disjE exE) (rule logs_same, simp, rule shift_children_logs)
  ultimately show ?thesis by (rule logs_trans)
qed

lemma insert_labels_activity: "insert_labels i ls d = Inr d' \<Longrightarrow> activity d' = activity d"
  by (induction i ls d rule: insert_labels.induct) (auto split: if_splits)

lemma update_labels_logs:
  assumes "update_labels collation newID p i actor dbnow d = Inr d'"
  shows "logs (\<lambda>e. act_field e = ActivityFieldLabels \<and> entry_of actor {i} e) d d'"
proof (cases "patch_labels_set p")
  case True
  then obtain d1 a b where "replaceTaskLabels i (patch_label_ids p) d = Inr d1"
    and rec: "recordFieldChange newID i actor ActivityFieldLabels a b dbnow d1 = Inr d'"
    using assms by (auto simp: update_labels_def result_simps)
  then have "activity d1 = activity d" by (auto simp: replaceTaskLabels_def dest: insert_labels_activity)
  then show ?thesis
    using rec by (auto simp: logs_def recordFieldChange_def insertActivity_def split: if_splits)
qed (use assms in \<open>simp add: update_labels_def logs_same\<close>)

lemma logged_columns:
  assumes "map act_field es = map fst (filter (\<lambda>(f, a, b). a \<noteq> b) (field_changes r new @
      dependency_changes p old ids))"
  shows "map act_field (filter (\<lambda>e. act_field e \<notin> {ActivityFieldDependencies, ActivityFieldLabels}) es) =
    map fst (filter snd (changed_columns r new))"
proof -
  let ?P = "\<lambda>f. f \<notin> {ActivityFieldDependencies, ActivityFieldLabels}"
  let ?c = "map fst (filter (\<lambda>(f, a, b). a \<noteq> b) (field_changes r new))"
  have "map act_field (filter (?P \<circ> act_field) es) = filter ?P (map act_field es)"
    by (simp add: filter_map)
  also have "\<dots> = filter ?P ?c" by (simp add: assms dependency_changes_def)
  also have "\<dots> = ?c"
  proof (rule filter_True)
    have "\<forall>x \<in> set (field_changes r new). ?P (fst x)" by (simp add: field_changes_def)
    then show "\<forall>f \<in> set ?c. ?P f" by auto
  qed
  also have "\<dots> = map fst (filter snd (map (\<lambda>(f, a, b). (f, a \<noteq> b)) (field_changes r new)))"
    by (simp add: filter_map comp_def case_prod_unfold)
  finally show ?thesis unfolding field_changes_columns by (simp add: comp_def)
qed



section \<open>A completed parent\<close>

text \<open>C24. Safety, a rule that does not hold: a database is reachable in which an unfinished Task has a
  parent in phase \<open>done\<close>.  \<open>validateParentAssignment\<close> refuses an unfinished child for a parent whose
  \<open>status\<close> is \<open>done\<close>, but the workflow store records completion in \<open>phase\<close> alone.\<close>

theorem done_parent_gets_open_child:
  "\<exists>d. reachable_db d \<and> (\<exists>p \<in> set (tasks d). \<exists>c \<in> set (tasks d).
     t_phase p = Some TaskPhaseDone \<and> t_parent c = Some (t_id p) \<and> t_phase c = Some TaskPhaseBacklog)"
proof -
  note p = summary_rows [OF main_summaries(5), of 0] and c = summary_rows [OF main_summaries(5), of 1]
  have "t_phase (tasks late_db ! 0) = Some TaskPhaseDone" "t_phase (tasks late_db ! 1) = Some TaskPhaseBacklog"
    using p(4) c(4) by (auto simp: row_lifecycle_def split: option.splits)
  moreover have "t_parent (tasks late_db ! 1) = Some (t_id (tasks late_db ! 0))" using p(2) c(6) by simp
  ultimately show ?thesis
    using main_reach(9) p(1) c(1)
    by (intro exI [of _ late_db] conjI bexI [of _ "tasks late_db ! 0"] bexI [of _ "tasks late_db ! 1"]) simp_all
qed

end
