(* ===== verification/Go_Base64.thy ===== *)
theory Go_Base64
  imports Pactline_Prelude
begin

text \<open>
  \<open>base64.RawURLEncoding\<close> of the Go standard library, as the page tokens of the stores use it: three
  bytes become four characters of the URL alphabet, a last group of one or two bytes two or three
  characters, without padding.  The decoder skips line breaks and ignores the unused bits of the
  last character.
\<close>

section \<open>The alphabet\<close>

definition b64_char :: "nat \<Rightarrow> char" where
  "b64_char n =
     (if n < 26 then char_of (65 + n) else if n < 52 then char_of (71 + n)
      else if n < 62 then char_of (n - 4) else if n = 62 then CHR ''-'' else CHR ''_'')"

definition b64_value :: "char \<Rightarrow> nat option" where
  "b64_value c =
     (let k = of_char c :: nat in
      if 65 \<le> k \<and> k \<le> 90 then Some (k - 65) else if 97 \<le> k \<and> k \<le> 122 then Some (k - 71)
      else if 48 \<le> k \<and> k \<le> 57 then Some (k + 4) else if k = 45 then Some 62
      else if k = 95 then Some 63 else None)"

lemma b64_value_char: "n < 64 \<Longrightarrow> b64_value (b64_char n) = Some n"
  by (auto simp: b64_value_def b64_char_def Let_def)

section \<open>Encoding and decoding\<close>

fun EncodeToString :: "string \<Rightarrow> string" where
  "EncodeToString (a # b # c # rest) =
     (let v = of_char a * 65536 + of_char b * 256 + of_char c in
      b64_char (v div 262144) # b64_char (v div 4096 mod 64) # b64_char (v div 64 mod 64) #
      b64_char (v mod 64) # EncodeToString rest)"
| "EncodeToString [a, b] =
     (let v = of_char a * 256 + of_char b in
      [b64_char (v div 1024), b64_char (v div 16 mod 64), b64_char (v mod 16 * 4)])"
| "EncodeToString [a] =
     (let v = of_char a in [b64_char (v div 4), b64_char (v mod 4 * 16)])"
| "EncodeToString [] = []"

fun decode_quanta :: "nat list \<Rightarrow> string option" where
  "decode_quanta (a # b # c # d # rest) =
     (let v = a * 262144 + b * 4096 + c * 64 + d in
      map_option (\<lambda>s. char_of (v div 65536) # char_of (v div 256 mod 256) # char_of (v mod 256) # s)
        (decode_quanta rest))"
| "decode_quanta [a, b, c] =
     (let v = a * 4096 + b * 64 + c in Some [char_of (v div 1024), char_of (v div 4 mod 256)])"
| "decode_quanta [a, b] = Some [char_of ((a * 64 + b) div 16)]"
| "decode_quanta [a] = None"
| "decode_quanta [] = Some []"

fun quantum_values :: "string \<Rightarrow> nat list option" where
  "quantum_values [] = Some []"
| "quantum_values (c # s) =
     (if c = CHR 10 \<or> c = CHR 13 then quantum_values s
      else case (b64_value c, quantum_values s) of (Some v, Some vs) \<Rightarrow> Some (v # vs) | _ \<Rightarrow> None)"

definition DecodeString :: "string \<Rightarrow> string option" where
  "DecodeString s = Option.bind (quantum_values s) decode_quanta"

section \<open>Round trip\<close>

lemma b64_char_plain: "n < 64 \<Longrightarrow> b64_char n \<noteq> CHR 10 \<and> b64_char n \<noteq> CHR 13"
  using b64_value_char [of n] by (auto simp: b64_value_def)

lemma quantum_values_chars: "\<forall>n \<in> set ns. n < 64 \<Longrightarrow> quantum_values (map b64_char ns) = Some ns"
  by (induction ns) (auto simp: b64_value_char b64_char_plain)

text \<open>The six-bit values of a byte string.\<close>

fun sextets :: "nat list \<Rightarrow> nat list" where
  "sextets (a # b # c # rest) =
     (let v = a * 65536 + b * 256 + c in
      v div 262144 # v div 4096 mod 64 # v div 64 mod 64 # v mod 64 # sextets rest)"
| "sextets [a, b] = (let v = a * 256 + b in [v div 1024, v div 16 mod 64, v mod 16 * 4])"
| "sextets [a] = [a div 4, a mod 4 * 16]"
| "sextets [] = []"

lemma EncodeToString_sextets: "EncodeToString s = map b64_char (sextets (map of_char s))"
  by (induction s rule: EncodeToString.induct) (simp_all add: Let_def)

lemma sextets_bound: "\<forall>x \<in> set bs. x < 256 \<Longrightarrow> \<forall>n \<in> set (sextets bs). n < 64"
  by (induction bs rule: sextets.induct) (auto simp: Let_def less_mult_imp_div_less)

lemma four_sextets:
  fixes v :: nat
  shows "v div 262144 * 262144 + v div 4096 mod 64 * 4096 + v div 64 mod 64 * 64 + v mod 64 = v"
proof -
  have "v div 262144 = v div 4096 div 64" "v div 4096 = v div 64 div 64"
    by (simp_all flip: div_mult2_eq)
  then show ?thesis
    using div_mult_mod_eq [of v 64] div_mult_mod_eq [of "v div 64" 64]
      div_mult_mod_eq [of "v div 4096" 64] by linarith
qed

lemma three_sextets:
  fixes v :: nat
  shows "v div 1024 * 4096 + v div 16 mod 64 * 64 + v mod 16 * 4 = v * 4"
proof -
  have "v div 1024 = v div 16 div 64" by (simp flip: div_mult2_eq)
  then show ?thesis
    using div_mult_mod_eq [of v 16] div_mult_mod_eq [of "v div 16" 64] by linarith
qed

lemma byte_digits:
  fixes a b c :: nat
  assumes "b < 256" "c < 256"
  shows "(a * 65536 + b * 256 + c) div 65536 = a" "(a * 65536 + b * 256 + c) div 256 mod 256 = b"
    "(a * 65536 + b * 256 + c) mod 256 = c"
proof -
  have v: "a * 65536 + b * 256 + c = (a * 256 + b) * 256 + c" by simp
  have d: "((a * 256 + b) * 256 + c) div 256 = a * 256 + b" using assms(2) by simp
  have "(a * 65536 + b * 256 + c) div 65536 = ((a * 256 + b) * 256 + c) div 256 div 256"
    unfolding v by (simp flip: div_mult2_eq)
  with d assms show "(a * 65536 + b * 256 + c) div 65536 = a" by simp
  show "(a * 65536 + b * 256 + c) div 256 mod 256 = b"
    unfolding v d using assms(1) by simp
  show "(a * 65536 + b * 256 + c) mod 256 = c"
    unfolding v mod_mult_self3 using assms(2) by simp
qed

lemma decode_sextets:
  "\<forall>x \<in> set bs. x < 256 \<Longrightarrow> decode_quanta (sextets bs) = Some (map char_of bs)"
proof (induction bs rule: sextets.induct)
  case (1 a b c rest)
  then show ?case
    using byte_digits [of b c a] by (simp add: Let_def four_sextets)
next
  case (2 a b)
  let ?v = "a * 256 + b"
  have "?v * 4 div (4 * 256) = ?v * 4 div 4 div 256" by (rule div_mult2_eq)
  then have "?v * 4 div 1024 = ?v div 256" by simp
  moreover have "?v div 256 = a" "?v mod 256 = b" using 2 by simp_all
  ultimately show ?case by (simp add: Let_def three_sextets)
next
  case (3 a)
  have "a div 4 * 64 + a mod 4 * 16 = a * 16" using div_mult_mod_eq [of a 4] by linarith
  then show ?case by simp
qed simp

lemma DecodeString_EncodeToString: "DecodeString (EncodeToString s) = Some s"
proof -
  have "of_char c < (256::nat)" for c :: char
    by (metis mod_less_divisor of_char_mod_256 zero_less_numeral)
  then have b: "\<forall>x \<in> set (map of_char s). x < (256::nat)" by simp
  have "map char_of (map of_char s :: nat list) = s" by (simp add: comp_def)
  with quantum_values_chars [OF sextets_bound [OF b]] decode_sextets [OF b] show ?thesis
    by (simp add: DecodeString_def EncodeToString_sextets)
qed

end
