(* ===== verification/Task_List.thy ===== *)
theory Task_List
  imports Task_Store Go_Base64
begin

text \<open>
  The list of Tasks of internal/store/task_store.go: filters, sort orders, keyset pages and their
  tokens.

  The parts of PostgreSQL and of the JSON decoder the query relies on are arguments: \<open>lower\<close> is the
  case folding of ILIKE under the collation of the database, \<open>cast\<close> reads the text of a sort value at
  the type of the column, \<open>unmarshal\<close> decodes the JSON of a page token.  \<open>memberships\<close> is the table
  of Project memberships.
\<close>

section \<open>Filters\<close>

record TaskListFilter =
  f_phases :: "TaskPhase list"
  f_activities :: "TaskActivityState list"
  f_claimable_stage :: TaskClaimStage
  f_statuses :: "TaskStatus list"
  f_priorities :: "TaskPriority list"
  f_execution_modes :: "TaskExecutionMode list"
  f_assignee_id :: "uuid option"
  f_unassigned :: bool
  f_label_ids :: "uuid list"
  f_search :: string
  f_project_id :: "uuid option"
  f_milestone_id :: "uuid option"
  f_creator_id :: "uuid option"
  f_backlog_only :: bool
  f_visible_to :: "uuid option"
  f_archived :: string
  f_sort :: string
  f_order :: string
  f_cursor :: string
  f_limit :: int

record TaskListResult =
  list_items :: "TaskWithRelations list"
  list_next_cursor :: string
  list_has_more :: bool

text \<open>\<open>strings.NewReplacer\<close> with single bytes replaces each byte on its own.\<close>

definition escapeLike :: "string \<Rightarrow> string" where
  "escapeLike s =
     concat (map (\<lambda>c. if c \<in> {CHR 92, CHR ''%'', CHR ''_''} then [CHR 92, c] else [c]) s)"

text \<open>
  LIKE with the escape character backslash: a percent sign stands for any text, an underscore for
  one character, an escaped character for itself.  A pattern that ends in the escape character is
  an error of the database; it does not occur here and matches nothing.
\<close>

fun like :: "string \<Rightarrow> string \<Rightarrow> bool" where
  "like [] s = (s = [])"
| "like (p # ps) s =
     (if p = CHR ''%'' then
        like ps s \<or> (case s of [] \<Rightarrow> False | c # cs \<Rightarrow> like (p # ps) cs)
      else if p = CHR ''_'' then (case s of [] \<Rightarrow> False | c # cs \<Rightarrow> like ps cs)
      else if p = CHR 92 then
        (case ps of [] \<Rightarrow> False
         | q # qs \<Rightarrow> (case s of [] \<Rightarrow> False | c # cs \<Rightarrow> c = q \<and> like qs cs))
      else (case s of [] \<Rightarrow> False | c # cs \<Rightarrow> c = p \<and> like ps cs))"

definition ilike :: "(string \<Rightarrow> string) \<Rightarrow> string \<Rightarrow> string \<Rightarrow> bool" where
  "ilike lower s pattern = like (lower pattern) (lower s)"

definition search_pattern :: "string \<Rightarrow> string" where
  "search_pattern q = CHR ''%'' # escapeLike q @ ''%''"

definition any_of :: "'a list \<Rightarrow> 'a \<Rightarrow> bool" where
  "any_of xs x \<longleftrightarrow> xs = [] \<or> x \<in> set xs"

definition claimable :: "TaskClaimStage \<Rightarrow> task_row \<Rightarrow> bool" where
  "claimable stage r =
     (case stage of
        TaskClaimStageExecution \<Rightarrow>
          t_phase r = Some TaskPhaseReady \<or>
          t_phase r = Some TaskPhaseInProgress \<and> t_activity r = Some TaskActivityAvailable
      | TaskClaimStageReview \<Rightarrow>
          t_phase r = Some TaskPhaseInReview \<and> t_activity r = Some TaskActivityAvailable
      | TaskClaimStageOther _ \<Rightarrow> True)"

definition list_where ::
  "(string \<Rightarrow> string) \<Rightarrow> (uuid \<times> uuid) list \<Rightarrow> TaskListFilter \<Rightarrow> db \<Rightarrow> task_row \<Rightarrow> bool" where
  "list_where lower memberships f d r \<longleftrightarrow>
     (if f_archived f = ''only'' then t_archived_at r \<noteq> None
      else if f_archived f = ''all'' then True else t_archived_at r = None) \<and>
     any_of (f_statuses f) (t_status r) \<and>
     any_of (map Some (f_phases f)) (t_phase r) \<and>
     any_of (map Some (f_activities f)) (t_activity r) \<and>
     claimable (f_claimable_stage f) r \<and>
     any_of (f_priorities f) (t_priority r) \<and>
     any_of (f_execution_modes f) (t_execution_mode r) \<and>
     (if f_unassigned f then t_assignee r = None
      else f_assignee_id f \<noteq> None \<longrightarrow> t_assignee r = f_assignee_id f) \<and>
     (f_label_ids f \<noteq> [] \<longrightarrow> (\<exists>l \<in> set (f_label_ids f). (t_id r, l) \<in> set (task_labels d))) \<and>
     (f_project_id f \<noteq> None \<longrightarrow> f_project_id f = Some (t_project r)) \<and>
     (f_milestone_id f \<noteq> None \<longrightarrow> t_milestone r = f_milestone_id f) \<and>
     (f_creator_id f \<noteq> None \<longrightarrow> f_creator_id f = Some (t_creator r)) \<and>
     (f_backlog_only f \<longrightarrow> t_milestone r = None) \<and>
     (case f_visible_to f of None \<Rightarrow> True | Some u \<Rightarrow> (t_project r, u) \<in> set memberships) \<and>
     (\<not> blank (f_search f) \<longrightarrow>
        (let needle = search_pattern (f_search f) in
         ilike lower (t_title r) needle \<or> ilike lower (t_context r) needle \<or>
         ilike lower (t_expected_result r) needle \<or> ilike lower (t_description r) needle))"

section \<open>Sort orders\<close>

datatype sort_field = CreatedAt | UpdatedAt | Number | Priority | DueDate

definition validSortFields :: "string \<Rightarrow> sort_field option" where
  "validSortFields s =
     (if s = [] \<or> s = ''created_at'' then Some CreatedAt
      else if s = ''updated_at'' then Some UpdatedAt
      else if s = ''number'' then Some Number
      else if s = ''priority'' then Some Priority
      else if s = ''due_date'' then Some DueDate else None)"

fun sort_name :: "sort_field \<Rightarrow> string" where
  "sort_name CreatedAt = ''created_at''"
| "sort_name UpdatedAt = ''updated_at''"
| "sort_name Number = ''number''"
| "sort_name Priority = ''priority''"
| "sort_name DueDate = ''due_date''"

text \<open>\<open>strings.ToUpper(order) == "ASC"\<close>; the long s, U+017F, is the one other letter with upper case S.\<close>

definition ascending :: "string \<Rightarrow> bool" where
  "ascending order \<longleftrightarrow>
     (\<exists>a \<in> {CHR ''a'', CHR ''A''}. \<exists>s \<in> {''s'', ''S'', [CHR 197, CHR 191]}. \<exists>c \<in> {CHR ''c'', CHR ''C''}.
        order = a # s @ [c])"

fun priorityRank :: "TaskPriority \<Rightarrow> int" where
  "priorityRank TaskPriorityUrgent = 4"
| "priorityRank TaskPriorityHigh = 3"
| "priorityRank TaskPriorityMedium = 2"
| "priorityRank TaskPriorityLow = 1"
| "priorityRank _ = 0"

text \<open>The sort expression of the query; a date counts in days, the last day of year 9999 is day
  3652058.\<close>

fun primary :: "sort_field \<Rightarrow> bool \<Rightarrow> task_row \<Rightarrow> int" where
  "primary CreatedAt asc r = t_created_at r"
| "primary UpdatedAt asc r = t_updated_at r"
| "primary Number asc r = t_number r"
| "primary Priority asc r = priorityRank (t_priority r)"
| "primary DueDate asc r =
     (case t_due_date r of Some t \<Rightarrow> t div day_micros | None \<Rightarrow> if asc then 3652058 else 0)"

text \<open>\<open>Format(time.RFC3339Nano)\<close> of a time in UTC with microseconds.\<close>

definition fraction :: "nat \<Rightarrow> string" where
  "fraction micros =
     (if micros = 0 then []
      else CHR ''.'' # rev (dropWhile (\<lambda>c. c = CHR ''0'') (rev (padded 6 micros))))"

definition rfc3339 :: "time \<Rightarrow> string" where
  "rfc3339 t =
     (let n = nat (t mod day_micros); s = n div 1000000 in
      date_String t @ ''T'' @ padded 2 (s div 3600) @ '':'' @ padded 2 (s div 60 mod 60) @ '':'' @
      padded 2 (s mod 60) @ fraction (n mod 1000000) @ ''Z'')"

fun taskPrimaryValueString :: "Task \<Rightarrow> sort_field \<Rightarrow> bool \<Rightarrow> string" where
  "taskPrimaryValueString t CreatedAt asc = rfc3339 (task_created_at t)"
| "taskPrimaryValueString t UpdatedAt asc = rfc3339 (task_updated_at t)"
| "taskPrimaryValueString t Number asc = FormatInt (task_number t)"
| "taskPrimaryValueString t Priority asc = FormatInt (priorityRank (task_priority t))"
| "taskPrimaryValueString t DueDate asc =
     (case task_due_date t of
        Some due \<Rightarrow> date_String due
      | None \<Rightarrow> if asc then ''9999-12-31'' else ''0001-01-01'')"

section \<open>Page tokens\<close>

record taskCursor =
  cur_sort :: string
  cur_primary :: string
  cur_number :: int

text \<open>\<open>json.Marshal\<close>; the texts of a token are names, digits and times, of which no character is
  escaped.\<close>

definition marshal :: "taskCursor \<Rightarrow> string" where
  "marshal c =
     [CHR ''{'', CHR 34, CHR ''s'', CHR 34, CHR '':'', CHR 34] @ cur_sort c @
     [CHR 34, CHR '','', CHR 34, CHR ''p'', CHR 34, CHR '':'', CHR 34] @ cur_primary c @
     [CHR 34, CHR '','', CHR 34, CHR ''n'', CHR 34, CHR '':''] @ FormatInt (cur_number c) @ ''}''"

definition encodeTaskCursor :: "taskCursor \<Rightarrow> string" where
  "encodeTaskCursor c = EncodeToString (marshal c)"

definition decodeTaskCursor ::
  "(string \<Rightarrow> taskCursor option) \<Rightarrow> string \<Rightarrow> string \<Rightarrow> taskCursor option" where
  "decodeTaskCursor unmarshal raw expectSort =
     (case DecodeString raw of
        None \<Rightarrow> None
      | Some b \<Rightarrow>
          (case unmarshal b of
             None \<Rightarrow> None
           | Some c \<Rightarrow> if cur_sort c \<noteq> expectSort then None else Some c))"

section \<open>The list\<close>

definition page_limit :: "int \<Rightarrow> nat" where
  "page_limit n = nat (let limit = (if n \<le> 0 then 50 else n) in if limit > 200 then 200 else limit)"

text \<open>The order of the query, as an ascending one.\<close>

definition list_key :: "sort_field \<Rightarrow> bool \<Rightarrow> task_row \<Rightarrow> int \<times> int" where
  "list_key field asc r =
     (if asc then (primary field asc r, t_number r) else (- primary field asc r, - t_number r))"

definition bound_key :: "bool \<Rightarrow> int \<times> int \<Rightarrow> int \<times> int" where
  "bound_key asc b = (if asc then b else (- fst b, - snd b))"

text \<open>The rows of the query in order, without the bound of the page; the inner joins drop a Task
  whose creator or Project is missing.\<close>

definition list_rows ::
  "(string \<Rightarrow> string \<Rightarrow> bool) \<Rightarrow> (string \<Rightarrow> string) \<Rightarrow> (uuid \<times> uuid) list \<Rightarrow> TaskListFilter \<Rightarrow> sort_field \<Rightarrow>
   bool \<Rightarrow> db \<Rightarrow> task_row list" where
  "list_rows collation lower memberships f field asc d =
     sort_key (list_key field asc)
       (filter (\<lambda>r. list_where lower memberships f d r \<and> scanTaskWithRelations collation d r \<noteq> None)
         (tasks d))"

fun scan_rows ::
  "(string \<Rightarrow> string \<Rightarrow> bool) \<Rightarrow> db \<Rightarrow> task_row list \<Rightarrow> TaskWithRelations list result" where
  "scan_rows collation d [] = Inr []"
| "scan_rows collation d (r # rs) =
     (case scanTaskWithRelations collation d r of
        None \<Rightarrow> scan_rows collation d rs
      | Some x \<Rightarrow> bindR x (\<lambda>t. bindR (scan_rows collation d rs) (\<lambda>ts. Inr (t # ts))))"

text \<open>The lower bound of a page: no bound without a token; a token that cannot be read is invalid
  input, a sort value the database cannot read an error of the query.\<close>

definition page_bound ::
  "(string \<Rightarrow> taskCursor option) \<Rightarrow> (sort_field \<Rightarrow> string \<Rightarrow> int option) \<Rightarrow> string \<Rightarrow> sort_field \<Rightarrow>
   (int \<times> int) option result" where
  "page_bound unmarshal cast cursor field =
     (if cursor = [] then Inr None
      else case decodeTaskCursor unmarshal cursor (sort_name field) of
          None \<Rightarrow> Inl ErrInvalidInput
        | Some c \<Rightarrow>
            (case cast field (cur_primary c) of
               None \<Rightarrow> Inl ErrOther
             | Some p \<Rightarrow> Inr (Some (p, cur_number c))))"

definition list_page :: "sort_field \<Rightarrow> bool \<Rightarrow> nat \<Rightarrow> TaskWithRelations list \<Rightarrow> TaskListResult" where
  "list_page field asc limit found =
     (if length found > limit then
        \<lparr>list_items = take limit found,
         list_next_cursor =
           (let t = twr_task (last (take limit found)) in
            encodeTaskCursor \<lparr>cur_sort = sort_name field,
              cur_primary = taskPrimaryValueString t field asc, cur_number = task_number t\<rparr>),
         list_has_more = True\<rparr>
      else \<lparr>list_items = found, list_next_cursor = [], list_has_more = False\<rparr>)"

definition TaskStore_List ::
  "(string \<Rightarrow> string \<Rightarrow> bool) \<Rightarrow> (string \<Rightarrow> string) \<Rightarrow> (string \<Rightarrow> taskCursor option) \<Rightarrow>
   (sort_field \<Rightarrow> string \<Rightarrow> int option) \<Rightarrow> (uuid \<times> uuid) list \<Rightarrow> TaskListFilter \<Rightarrow> db \<Rightarrow>
   TaskListResult result" where
  "TaskStore_List collation lower unmarshal cast memberships f d =
     (case validSortFields (f_sort f) of
        None \<Rightarrow> Inl ErrInvalidInput
      | Some field \<Rightarrow>
          (case f_claimable_stage f of TaskClaimStageOther (_ # _) \<Rightarrow> Inl ErrInvalidInput
           | _ \<Rightarrow>
             (let asc = ascending (f_order f); limit = page_limit (f_limit f) in
              bindR (page_bound unmarshal cast (f_cursor f) field) (\<lambda>bound.
              bindR (scan_rows collation d (take (limit + 1)
                (filter (\<lambda>r. case bound of None \<Rightarrow> True
                    | Some b \<Rightarrow> bound_key asc b < list_key field asc r)
                  (list_rows collation lower memberships f field asc d)))) (\<lambda>found.
                Inr (list_page field asc limit found))))))"

definition TaskStore_ListActivity :: "uuid \<Rightarrow> db \<Rightarrow> Activity list" where
  "TaskStore_ListActivity taskID d =
     sort_key (\<lambda>a. (act_created_at a, uint (act_id a))) (filter (\<lambda>a. act_task_id a = taskID) (activity d))"

section \<open>Literal search\<close>

lemma escapeLike_Cons:
  "escapeLike (c # s) = (if c \<in> {CHR 92, CHR ''%'', CHR ''_''} then [CHR 92, c] else [c]) @ escapeLike s"
  by (simp add: escapeLike_def)

lemma like_any: "like (CHR ''%'' # ps) s \<longleftrightarrow> (\<exists>pre suf. s = pre @ suf \<and> like ps suf)"
proof (induction s)
  case (Cons c s)
  have "(\<exists>pre suf. c # s = pre @ suf \<and> like ps suf) \<longleftrightarrow>
      like ps (c # s) \<or> (\<exists>pre suf. s = pre @ suf \<and> like ps suf)"
    by (metis Cons_eq_append_conv append_Cons append_Nil)
  with Cons show ?case by simp
qed simp

lemma like_all: "like ''%'' s"
  by (induction s) simp_all

lemma like_escaped: "like (escapeLike q @ ''%'') s \<longleftrightarrow> (\<exists>suf. s = q @ suf)"
proof (induction q arbitrary: s)
  case Nil
  show ?case using like_all by (simp add: escapeLike_def del: like.simps)
next
  case (Cons c q)
  then show ?case by (cases s) (auto simp: escapeLike_Cons)
qed

text \<open>C27. Functional correctness of the search: the pattern a search text is turned into matches
  exactly the texts that contain it up to the folding of case, whatever wildcard characters it
  contains.\<close>

theorem search_is_literal:
  assumes "lower (search_pattern q) = search_pattern (lower q)"
  shows "ilike lower s (search_pattern q) \<longleftrightarrow> (\<exists>pre suf. lower s = pre @ lower q @ suf)"
  unfolding ilike_def assms unfolding search_pattern_def like_any like_escaped by blast

theorem search_is_literal_witness:
  "ilike (\<lambda>s. s) ''up 50% today'' (search_pattern ''50%'') \<and>
   \<not> ilike (\<lambda>s. s) ''up 500 today'' (search_pattern ''50%'')"
proof -
  have "\<not> (\<exists>pre suf. ''up 500 today'' = pre @ ''50%'' @ suf)"
  proof
    assume "\<exists>pre suf. ''up 500 today'' = pre @ ''50%'' @ suf"
    then have "CHR ''%'' \<in> set ''up 500 today''" by (elim exE) (simp only: set_append, simp)
    then show False by simp
  qed
  moreover have "''up 50% today'' = ''up '' @ ''50%'' @ '' today''" by simp
  ultimately show ?thesis
    using search_is_literal [of "\<lambda>s. s" "''50%''" "''up 50% today''"]
      search_is_literal [of "\<lambda>s. s" "''50%''" "''up 500 today''"] by blast
qed

section \<open>Tokens\<close>

lemma EncodeToString_not_Nil: "EncodeToString (marshal c) \<noteq> []"
  by (simp add: marshal_def Let_def)

lemma encodeTaskCursor_not_Nil: "encodeTaskCursor c \<noteq> []"
  by (simp add: encodeTaskCursor_def EncodeToString_not_Nil)


text \<open>A decoder for the tokens of one sort order, as an instance of the law.\<close>

definition known_token :: "taskCursor \<Rightarrow> string \<Rightarrow> taskCursor option" where
  "known_token c s = (if s = marshal c then Some c else None)"


section \<open>Pages\<close>

text \<open>All pages, each fetched with the token of the one before.\<close>

fun walk_pages :: "(string \<Rightarrow> TaskListResult result) \<Rightarrow> nat \<Rightarrow> string \<Rightarrow> TaskWithRelations list list option"
  where
  "walk_pages fetch 0 cursor = None"
| "walk_pages fetch (Suc n) cursor =
     (case fetch cursor of
        Inl e \<Rightarrow> None
      | Inr page \<Rightarrow>
          if list_has_more page
          then map_option ((#) (list_items page)) (walk_pages fetch n (list_next_cursor page))
          else Some [list_items page])"

lemma page_limit_bounds: "1 \<le> page_limit n" "page_limit n \<le> 200"
  by (auto simp: page_limit_def Let_def)

lemma scan_row_task:
  assumes "scanTaskWithRelations collation d r = Some (Inr t)"
  shows "\<exists>phase cycle main. twr_task t = task_of r phase cycle main"
  using assms
  by (simp add: scanTaskWithRelations_def Let_def split: option.splits)
    (metis TaskWithRelations.select_convs(1))

lemma scan_rows_tasks:
  assumes "scan_rows collation d rs = Inr ts"
    and "\<forall>r \<in> set rs. scanTaskWithRelations collation d r \<noteq> None"
  shows "list_all2 (\<lambda>r t. \<exists>phase cycle main. twr_task t = task_of r phase cycle main) rs ts"
  using assms
proof (induction rs arbitrary: ts)
  case (Cons r rs)
  then obtain t ts' where "scanTaskWithRelations collation d r = Some (Inr t)"
    "scan_rows collation d rs = Inr ts'" "ts = t # ts'"
    by (auto simp: result_simps split: option.splits)
  with Cons scan_row_task show ?case by auto
qed simp

lemma scan_rows_append:
  "scan_rows collation d (rs @ qs) =
     bindR (scan_rows collation d rs) (\<lambda>ts. bindR (scan_rows collation d qs) (\<lambda>us. Inr (ts @ us)))"
proof (induction rs)
  case Nil
  show ?case by (cases "scan_rows collation d qs") simp_all
next
  case (Cons r rs)
  show ?case
  proof (cases "scanTaskWithRelations collation d r")
    case (Some x)
    with Cons show ?thesis
      by (cases x; cases "scan_rows collation d rs"; cases "scan_rows collation d qs") simp_all
  qed (use Cons in simp)
qed

lemma scan_rows_split:
  assumes scan: "scan_rows collation d vs = Inr ts"
    and all: "\<forall>r \<in> set vs. scanTaskWithRelations collation d r \<noteq> None"
  shows "scan_rows collation d (take n vs) = Inr (take n ts)"
    and "scan_rows collation d (drop n vs) = Inr (drop n ts)"
proof -
  have "scan_rows collation d (take n vs @ drop n vs) = Inr ts" using scan by simp
  then obtain as bs where ab: "scan_rows collation d (take n vs) = Inr as"
    "scan_rows collation d (drop n vs) = Inr bs" "as @ bs = ts"
    unfolding scan_rows_append bindR_eq_Inr by blast
  have sub: "\<forall>r \<in> set (take n vs). scanTaskWithRelations collation d r \<noteq> None"
    "\<forall>r \<in> set (drop n vs). scanTaskWithRelations collation d r \<noteq> None"
    using all by (blast dest: in_set_takeD in_set_dropD)+
  have "length as = length (take n vs)"
    using list_all2_lengthD [OF scan_rows_tasks [OF ab(1) sub(1)]] by simp
  moreover have "length bs = length (drop n vs)"
    using list_all2_lengthD [OF scan_rows_tasks [OF ab(2) sub(2)]] by simp
  ultimately have "as = take n ts \<and> bs = drop n ts"
    unfolding ab(3) [symmetric] by (cases "n \<le> length vs") auto
  with ab show "scan_rows collation d (take n vs) = Inr (take n ts)"
    "scan_rows collation d (drop n vs) = Inr (drop n ts)" by simp_all
qed

lemma strict_sorted_after:
  assumes "sorted_wrt (\<lambda>a b. key a < key b) (us @ x # vs)"
  shows "filter (\<lambda>r. key x < key r) (us @ x # vs) = (vs :: 'a list)"
    and "(key x :: 'k :: linorder) < key x \<longleftrightarrow> False"
proof -
  have "filter (\<lambda>r. key x < key r) us = []" "filter (\<lambda>r. key x < key r) vs = vs"
    using assms by (auto simp: sorted_wrt_append filter_empty_conv filter_id_conv)
  then show "filter (\<lambda>r. key x < key r) (us @ x # vs) = vs" by simp
qed simp

lemma list_key_number: "list_key field asc a = list_key field asc b \<Longrightarrow> t_number a = t_number b"
  by (auto simp: list_key_def split: if_splits)

lemma list_rows_sorted:
  assumes "distinct (map t_number (tasks d))"
  shows "sorted_wrt (\<lambda>a b. list_key field asc a < list_key field asc b)
    (list_rows collation lower memberships f field asc d)"
proof -
  let ?rows = "list_rows collation lower memberships f field asc d"
  have "distinct (map t_number ?rows)"
    using assms unfolding list_rows_def
    by (simp add: distinct_map inj_on_def)
  then have "distinct (map (list_key field asc) ?rows)"
    by (auto simp: distinct_map inj_on_def dest: list_key_number)
  moreover have "sorted (map (list_key field asc) ?rows)" by (simp add: list_rows_def)
  ultimately have "sorted_wrt (<) (map (list_key field asc) ?rows)"
    by (simp add: strict_sorted_iff)
  then show ?thesis by (simp add: sorted_wrt_map)
qed

text \<open>The token that leads past a row.\<close>

definition row_cursor :: "sort_field \<Rightarrow> bool \<Rightarrow> task_row \<Rightarrow> taskCursor" where
  "row_cursor field asc r =
     \<lparr>cur_sort = sort_name field,
      cur_primary = taskPrimaryValueString (task_of r no_phase 0 uuid_nil) field asc,
      cur_number = t_number r\<rparr>"

lemma row_cursor_task:
  assumes "twr_task t = task_of r phase cycle main"
  shows "\<lparr>cur_sort = sort_name field, cur_primary = taskPrimaryValueString (twr_task t) field asc,
    cur_number = task_number (twr_task t)\<rparr> = row_cursor field asc r"
  by (cases field) (simp_all add: assms row_cursor_def task_of_def)

text \<open>The decoder reads the token of a row, and the database the sort value in it.\<close>

definition reads_tokens ::
  "(string \<Rightarrow> taskCursor option) \<Rightarrow> (sort_field \<Rightarrow> string \<Rightarrow> int option) \<Rightarrow> sort_field \<Rightarrow> bool \<Rightarrow>
   task_row list \<Rightarrow> bool" where
  "reads_tokens unmarshal cast field asc rows \<longleftrightarrow>
     (\<forall>r \<in> set rows. unmarshal (marshal (row_cursor field asc r)) = Some (row_cursor field asc r) \<and>
        cast field (cur_primary (row_cursor field asc r)) = Some (primary field asc r))"

lemma page_bound_row:
  assumes "reads_tokens unmarshal cast field asc rows" and "r \<in> set rows"
  shows "page_bound unmarshal cast (encodeTaskCursor (row_cursor field asc r)) field =
    Inr (Some (primary field asc r, t_number r))"
proof -
  let ?c = "row_cursor field asc r"
  have "unmarshal (marshal ?c) = Some ?c" "cast field (cur_primary ?c) = Some (primary field asc r)"
    using assms by (auto simp: reads_tokens_def)
  moreover have "cur_sort ?c = sort_name field" "cur_number ?c = t_number r"
    by (simp_all add: row_cursor_def)
  ultimately show ?thesis
    by (simp add: page_bound_def encodeTaskCursor_not_Nil decodeTaskCursor_def encodeTaskCursor_def
        DecodeString_EncodeToString EncodeToString_not_Nil)
qed

lemma bound_key_row: "bound_key asc (primary field asc r, t_number r) = list_key field asc r"
  by (simp add: bound_key_def list_key_def)

text \<open>A token leads past the rows \<open>us\<close>.\<close>

definition leads_past :: "sort_field \<Rightarrow> bool \<Rightarrow> task_row list \<Rightarrow> string \<Rightarrow> bool" where
  "leads_past field asc us c \<longleftrightarrow>
     (if us = [] then c = [] else c = encodeTaskCursor (row_cursor field asc (last us)))"

abbreviation fetch_page ::
  "(string \<Rightarrow> string \<Rightarrow> bool) \<Rightarrow> (string \<Rightarrow> string) \<Rightarrow> (string \<Rightarrow> taskCursor option) \<Rightarrow>
   (sort_field \<Rightarrow> string \<Rightarrow> int option) \<Rightarrow> (uuid \<times> uuid) list \<Rightarrow> TaskListFilter \<Rightarrow> db \<Rightarrow> string \<Rightarrow>
   TaskListResult result" where
  "fetch_page collation lower unmarshal cast memberships f d c \<equiv>
     TaskStore_List collation lower unmarshal cast memberships (f\<lparr>f_cursor := c\<rparr>) d"

lemma list_rows_cursor [simp]:
  "list_rows collation lower memberships (f\<lparr>f_cursor := c\<rparr>) = list_rows collation lower memberships f"
  by (simp add: list_rows_def list_where_def fun_eq_iff)

lemma fetch_page_after:
  fixes f :: TaskListFilter
  defines "asc \<equiv> ascending (f_order f)" and "limit \<equiv> page_limit (f_limit f)"
  assumes field: "validSortFields (f_sort f) = Some field"
    and stage: "f_claimable_stage f \<in> {TaskClaimStageExecution, TaskClaimStageReview, TaskClaimStageOther []}"
    and numbers: "distinct (map t_number (tasks d))"
    and rows: "list_rows collation lower memberships f field asc d = us @ vs"
    and scan: "scan_rows collation d vs = Inr ts"
    and reads: "reads_tokens unmarshal cast field asc (us @ vs)"
    and c: "leads_past field asc us c"
  shows "fetch_page collation lower unmarshal cast memberships f d c =
    Inr (list_page field asc limit (take (limit + 1) ts))"
proof -
  obtain b where b: "page_bound unmarshal cast c field = Inr b"
    "filter (\<lambda>r. case b of None \<Rightarrow> True | Some b \<Rightarrow> bound_key asc b < list_key field asc r) (us @ vs) = vs"
  proof (cases us rule: rev_cases)
    case Nil
    with c show thesis by (intro that [of None]) (simp_all add: leads_past_def page_bound_def)
  next
    case (snoc us' x)
    have "sorted_wrt (\<lambda>a b. list_key field asc a < list_key field asc b) (us' @ x # vs)"
      using list_rows_sorted [OF numbers, of field asc collation lower memberships f] rows snoc by simp
    with snoc c page_bound_row [OF reads, of x] strict_sorted_after(1) [of "list_key field asc" us' x vs]
    show thesis by (intro that [of "Some (primary field asc x, t_number x)"])
        (simp_all add: leads_past_def bound_key_row)
  qed
  have "\<forall>r \<in> set vs. scanTaskWithRelations collation d r \<noteq> None"
  proof -
    have "set vs \<subseteq> set (list_rows collation lower memberships f field asc d)" using rows by simp
    then show ?thesis by (auto simp: list_rows_def)
  qed
  note take = scan_rows_split(1) [OF scan this]
  have stage': "(case f_claimable_stage f of TaskClaimStageOther (_ # _) \<Rightarrow> Inl ErrInvalidInput | _ \<Rightarrow> x) = x"
    for x :: "TaskListResult result"
    using stage by auto
  show ?thesis
    using field stage rows b take
    by (auto simp: TaskStore_List_def Let_def asc_def [symmetric] limit_def [symmetric] stage')
qed

lemma last_take: "0 < n \<Longrightarrow> n \<le> length xs \<Longrightarrow> take n xs \<noteq> [] \<and> last (take n xs) = xs ! (n - 1)"
  by (cases n) (simp_all add: take_Suc_conv_app_nth)

lemma walk_pages_from:
  fixes f :: TaskListFilter
  defines "asc \<equiv> ascending (f_order f)" and "limit \<equiv> page_limit (f_limit f)"
  assumes field: "validSortFields (f_sort f) = Some field"
    and stage: "f_claimable_stage f \<in> {TaskClaimStageExecution, TaskClaimStageReview, TaskClaimStageOther []}"
    and numbers: "distinct (map t_number (tasks d))"
    and rows: "list_rows collation lower memberships f field asc d = us @ vs"
    and scan: "scan_rows collation d vs = Inr ts"
    and reads: "reads_tokens unmarshal cast field asc (us @ vs)"
    and c: "leads_past field asc us c"
    and n: "length vs < n"
  shows "\<exists>pages. walk_pages (fetch_page collation lower unmarshal cast memberships f d) n c = Some pages \<and>
    concat pages = ts \<and> (\<forall>p \<in> set pages. length p \<le> limit)"
  using rows scan reads c n
proof (induction n arbitrary: us vs ts c)
  case (Suc n)
  have fetch: "fetch_page collation lower unmarshal cast memberships f d c =
      Inr (list_page field asc limit (take (limit + 1) ts))"
    unfolding asc_def limit_def
    by (rule fetch_page_after [OF field stage numbers Suc(2-5) [unfolded asc_def]])
  have all: "\<forall>r \<in> set vs. scanTaskWithRelations collation d r \<noteq> None"
  proof -
    have "set vs \<subseteq> set (list_rows collation lower memberships f field asc d)" using Suc(2) by simp
    then show ?thesis by (auto simp: list_rows_def)
  qed
  have rel: "list_all2 (\<lambda>r t. \<exists>phase cycle main. twr_task t = task_of r phase cycle main) vs ts"
    by (rule scan_rows_tasks [OF Suc(3) all])
  then have len: "length ts = length vs" by (simp add: list_all2_lengthD)
  have limit: "1 \<le> limit" unfolding limit_def by (rule page_limit_bounds)
  show ?case
  proof (cases "length vs \<le> limit")
    case True
    then show ?thesis using fetch len by (simp add: list_page_def)
  next
    case False
    let ?x = "vs ! (limit - 1)"
    let ?c = "encodeTaskCursor (row_cursor field asc ?x)"
    have last: "last (take limit ts) = ts ! (limit - 1)" "last (us @ take limit vs) = ?x"
      using False limit len last_take [of limit ts] last_take [of limit vs] by auto
    have "limit - 1 < length vs" using False by simp
    then obtain phase cycle main where "twr_task (ts ! (limit - 1)) = task_of ?x phase cycle main"
      using list_all2_nthD [OF rel] by blast
    note cur = row_cursor_task [OF this, of field asc]
    have page: "list_page field asc limit (take (limit + 1) ts) =
        \<lparr>list_items = take limit ts, list_next_cursor = ?c, list_has_more = True\<rparr>"
      using False len cur last(1) by (simp add: list_page_def Let_def min_def)
    have "leads_past field asc (us @ take limit vs) ?c"
      using False limit last(2) by (auto simp: leads_past_def)
    moreover have "length (drop limit vs) < n" using Suc(6) limit False by simp
    ultimately obtain pages where
      "walk_pages (fetch_page collation lower unmarshal cast memberships f d) n ?c = Some pages"
      "concat pages = drop limit ts" "\<forall>p \<in> set pages. length p \<le> limit"
      using Suc(1) [of "us @ take limit vs" "drop limit vs" "drop limit ts" ?c] Suc(2,4)
        scan_rows_split(2) [OF Suc(3) all] by auto
    then show ?thesis using fetch page by simp
  qed
qed simp

text \<open>C25. Equivalence and termination: walking the pages with their tokens from the first one ends,
  and the pages together are the whole list: the Tasks the filter admits, each once, in the order
  asked for.  No page is longer than the limit, and no limit exceeds 200.\<close>

theorem pages_are_the_list:
  assumes "validSortFields (f_sort f) = Some field"
    and "f_claimable_stage f \<in> {TaskClaimStageExecution, TaskClaimStageReview, TaskClaimStageOther []}"
    and "distinct (map t_number (tasks d))"
    and "rows = list_rows collation lower memberships f field (ascending (f_order f)) d"
    and "scan_rows collation d rows = Inr ts"
    and "reads_tokens unmarshal cast field (ascending (f_order f)) rows"
    and "length rows < n"
  shows "\<exists>pages. walk_pages (fetch_page collation lower unmarshal cast memberships f d) n [] = Some pages \<and>
    concat pages = ts \<and> map (\<lambda>t. task_number (twr_task t)) ts = map t_number rows \<and>
    distinct (map t_number rows) \<and> sorted (map (list_key field (ascending (f_order f))) rows) \<and>
    (\<forall>p \<in> set pages. length p \<le> page_limit (f_limit f)) \<and> page_limit (f_limit f) \<le> 200"
proof -
  have all: "\<forall>r \<in> set rows. scanTaskWithRelations collation d r \<noteq> None"
    by (auto simp: assms(4) list_rows_def)
  have "list_all2 (\<lambda>r t. \<exists>phase cycle main. twr_task t = task_of r phase cycle main) rows ts"
    by (rule scan_rows_tasks [OF assms(5) all])
  then have "map (\<lambda>t. task_number (twr_task t)) ts = map t_number rows"
    by (induction rule: list_all2_induct) (auto simp: task_of_def)
  moreover have "distinct (map t_number rows)"
    using assms(3) unfolding assms(4) list_rows_def by (simp add: distinct_map inj_on_def)
  moreover have "sorted (map (list_key field (ascending (f_order f))) rows)"
    by (simp add: assms(4) list_rows_def)
  moreover obtain pages where
    "walk_pages (fetch_page collation lower unmarshal cast memberships f d) n [] = Some pages"
    "concat pages = ts" "\<forall>p \<in> set pages. length p \<le> page_limit (f_limit f)"
    using walk_pages_from [OF assms(1,2,3), of collation lower memberships "[]" rows ts unmarshal cast "[]" n]
      assms(4-7) by (auto simp: leads_past_def)
  ultimately show ?thesis using page_limit_bounds(2) by blast
qed

text \<open>Three Tasks in pages of two, newest number first.\<close>

definition listed_row :: "int \<Rightarrow> task_row" where
  "listed_row n =
     \<lparr>t_id = word_of_int n, t_number = n, t_version = 1, t_title = ''Ship'', t_context = [],
      t_expected_result = [], t_description = [], t_phase = Some TaskPhaseBacklog, t_activity = None,
      t_review_cycle = Some 0, t_active_issue = None, t_status = TaskStatusTodo,
      t_priority = TaskPriorityNone, t_execution_mode = TaskExecutionModeHumanOnly, t_assignee = None,
      t_creator = 11, t_start_date = None, t_due_date = None, t_project = 21, t_milestone = None,
      t_parent = None, t_created_at = 5, t_updated_at = 5, t_completed_at = None,
      t_archived_at = None\<rparr>"

definition listed_thread :: "int \<Rightarrow> Thread" where
  "listed_thread n =
     \<lparr>thread_id = word_of_int (100 + n), thread_task_id = word_of_int n, thread_role = ThreadRoleMain,
      thread_issue_type = IssueThreadTypeNone, thread_issue_status = IssueThreadStatusNone,
      thread_opened_from_phase = no_phase, thread_opened_by = no_actor, thread_resolved_by = None,
      thread_version = 1, thread_created_at = 5, thread_updated_at = 5, thread_resolved_at = None\<rparr>"

definition listed_db :: db where
  "listed_db =
     \<lparr>tasks = map listed_row [1, 3, 2], threads = map listed_thread [1, 2, 3], items = [], mentions = [],
      claims = [], criteria = [], checks = [], dependencies = [], code_changes = [], audits = [],
      users = [\<lparr>user_id = 11, user_name = ''Alice'', user_email = None, user_avatar_url = None,
        user_platform_role = PlatformRoleMember, user_access_status = AccessStatusApproved,
        user_roles = [], user_active = True, user_created_at = 1, user_updated_at = 1\<rparr>],
      api_tokens = [], agent_runs = [],
      projects = [\<lparr>project_id = 21, project_number = 1, project_version = 1,
        project_name = ''P'', project_description = [], project_creator_id = 11,
        project_archived_at = None, project_created_at = 2, project_updated_at = 2\<rparr>],
      milestones = [], labels = [], task_labels = [], activity = [], legacy_claims = []\<rparr>"

definition by_number :: TaskListFilter where
  "by_number =
     \<lparr>f_phases = [], f_activities = [], f_claimable_stage = TaskClaimStageOther [], f_statuses = [],
      f_priorities = [], f_execution_modes = [], f_assignee_id = None, f_unassigned = False,
      f_label_ids = [], f_search = [], f_project_id = None, f_milestone_id = None,
      f_creator_id = None, f_backlog_only = False, f_visible_to = None, f_archived = [],
      f_sort = ''number'', f_order = ''desc'', f_cursor = [], f_limit = 2\<rparr>"

definition known_tokens :: "string \<Rightarrow> taskCursor option" where
  "known_tokens s = find (\<lambda>c. marshal c = s) (map (row_cursor Number False) (tasks listed_db))"

definition read_number :: "sort_field \<Rightarrow> string \<Rightarrow> int option" where
  "read_number field s = Some (int (decimal_value s))"

lemma listed_values:
  "let rows = list_rows bytes_le (\<lambda>s. s) [] by_number Number False listed_db in
   map t_number rows = [3, 2, 1] \<and> distinct (map t_number (tasks listed_db)) \<and>
   reads_tokens known_tokens read_number Number False rows \<and>
   \<not> isl (scan_rows bytes_le listed_db rows) \<and>
   validSortFields (f_sort by_number) = Some Number \<and> \<not> ascending (f_order by_number)"
  by code_simp

theorem pages_are_the_list_witness:
  "\<exists>pages. walk_pages (fetch_page bytes_le (\<lambda>s. s) known_tokens read_number [] by_number listed_db) 4 [] =
     Some pages \<and> map (\<lambda>t. task_number (twr_task t)) (concat pages) = [3, 2, 1]"
proof -
  let ?rows = "list_rows bytes_le (\<lambda>s. s) [] by_number Number False listed_db"
  have v: "map t_number ?rows = [3, 2, 1]" "distinct (map t_number (tasks listed_db))"
    "reads_tokens known_tokens read_number Number False ?rows" "\<not> isl (scan_rows bytes_le listed_db ?rows)"
    "validSortFields (f_sort by_number) = Some Number" "ascending (f_order by_number) = False"
    using listed_values by (simp_all add: Let_def)
  obtain ts where "scan_rows bytes_le listed_db ?rows = Inr ts"
    using v(4) by (cases "scan_rows bytes_le listed_db ?rows") auto
  moreover have "length ?rows < 4" using arg_cong [OF v(1), of length] by simp
  ultimately show ?thesis
    using pages_are_the_list [OF v(5) _ v(2), of ?rows bytes_le "\<lambda>s. s" "[]" ts known_tokens read_number 4]
      v(1,3,6) by (auto simp: by_number_def)
qed

end
