(* ===== verification/Idempotency.thy ===== *)
theory Idempotency
  imports Domain_Actors
begin

text \<open>
  Idempotent requests: internal/access/idempotency.go, internal/store/idempotency_store.go and the
  middleware of internal/api/idempotency.go.

  A bearer mutation runs under a key.  The store keeps one record per key, in state processing
  while the request runs and completed, with the response, afterwards.  The middleware is split
  where other requests interleave: \<open>wrap_begin\<close> up to the call of the handler, \<open>wrap_end\<close> after it.
  The SHA-256 digest is an argument.  Header names are the canonical ones the Go header map holds.
\<close>

section \<open>Keys and responses\<close>

definition IdempotencyRetention :: int where
  "IdempotencyRetention = hours 24"

record IdempotencyKey =
  key_user_id :: uuid
  key_credential_kind :: AuthenticationMethod
  key_credential_id :: uuid
  key_token_id :: "uuid option"
  key_agent_run_id :: "uuid option"
  key_method :: string
  key_route :: string
  key_value :: string

text \<open>The body is a Go slice of bytes, None the nil slice.\<close>

record StoredResponse =
  resp_status :: int
  resp_headers :: "(string \<times> string list) list"
  resp_body :: "string option"

datatype Claim =
    ClaimAcquired
  | ClaimReplay StoredResponse
  | ClaimInProgress
  | ClaimReused

datatype idempotency_error = ErrIdempotencyNotClaimed | ErrStore

section \<open>The store\<close>

text \<open>A row; the columns of the response are null exactly in state processing.\<close>

record idempotency_row =
  ir_key :: IdempotencyKey
  ir_hash :: string
  ir_response :: "StoredResponse option"
  ir_created_at :: time
  ir_expires_at :: time

record idempotency_db =
  idem_rows :: "idempotency_row list"
  idem_users :: "uuid list"
  idem_tokens :: "uuid list"
  idem_runs :: "uuid list"

text \<open>The primary key.\<close>

definition primary_key ::
  "IdempotencyKey \<Rightarrow> uuid \<times> AuthenticationMethod \<times> uuid \<times> string \<times> string \<times> string" where
  "primary_key k =
     (key_user_id k, key_credential_kind k, key_credential_id k, key_method k, key_route k, key_value k)"

abbreviation same_key :: "IdempotencyKey \<Rightarrow> idempotency_row \<Rightarrow> bool" where
  "same_key k r \<equiv> primary_key (ir_key r) = primary_key k"

text \<open>The CHECK constraints of an inserted row.\<close>

definition credential_shape :: "IdempotencyKey \<Rightarrow> bool" where
  "credential_shape k \<longleftrightarrow>
     key_credential_kind k = AuthenticationMethodAPIToken \<and> key_agent_run_id k = None \<and>
       key_token_id k = Some (key_credential_id k) \<or>
     key_credential_kind k = AuthenticationMethodAgentDelegate \<and> key_token_id k = None \<and>
       key_agent_run_id k = Some (key_credential_id k)"

definition row_checks :: "IdempotencyKey \<Rightarrow> string \<Rightarrow> time \<Rightarrow> time \<Rightarrow> bool" where
  "row_checks k hash now expiresAt \<longleftrightarrow>
     credential_shape k \<and> 1 \<le> length (key_value k) \<and> length (key_value k) \<le> 128 \<and>
     length hash = 32 \<and> now < expiresAt"

definition row_refs :: "IdempotencyKey \<Rightarrow> idempotency_db \<Rightarrow> bool" where
  "row_refs k d \<longleftrightarrow>
     key_user_id k \<in> set (idem_users d) \<and>
     (case key_token_id k of None \<Rightarrow> True | Some t \<Rightarrow> t \<in> set (idem_tokens d)) \<and>
     (case key_agent_run_id k of None \<Rightarrow> True | Some t \<Rightarrow> t \<in> set (idem_runs d))"

definition IdempotencyStore_Claim ::
  "IdempotencyKey \<Rightarrow> string \<Rightarrow> time \<Rightarrow> time \<Rightarrow> idempotency_db \<Rightarrow>
   idempotency_error + (idempotency_db \<times> Claim)" where
  "IdempotencyStore_Claim k requestHash now expiresAt d =
     (let d1 = d\<lparr>idem_rows := filter (\<lambda>r. \<not> (same_key k r \<and> ir_expires_at r \<le> now)) (idem_rows d)\<rparr> in
      if \<not> row_checks k requestHash now expiresAt then Inl ErrStore
      else case find (same_key k) (idem_rows d1) of
          None \<Rightarrow>
            if \<not> row_refs k d then Inl ErrStore
            else Inr (d1\<lparr>idem_rows := idem_rows d1 @
              [\<lparr>ir_key = k, ir_hash = requestHash, ir_response = None, ir_created_at = now,
                ir_expires_at = expiresAt\<rparr>]\<rparr>, ClaimAcquired)
        | Some r \<Rightarrow>
            Inr (d1,
              if length (ir_hash r) \<noteq> length requestHash \<or> ir_hash r \<noteq> requestHash then ClaimReused
              else case ir_response r of
                  None \<Rightarrow> ClaimInProgress
                | Some response \<Rightarrow> ClaimReplay response))"

abbreviation processing :: "IdempotencyKey \<Rightarrow> idempotency_row \<Rightarrow> bool" where
  "processing k r \<equiv> same_key k r \<and> ir_response r = None"

text \<open>
  The CHECK constraints of a completed row: the status is an HTTP status and the body is not null;
  the driver sends a nil slice as null.
\<close>

definition response_checks :: "StoredResponse \<Rightarrow> bool" where
  "response_checks response \<longleftrightarrow>
     100 \<le> resp_status response \<and> resp_status response \<le> 599 \<and> resp_body response \<noteq> None"

definition IdempotencyStore_Complete ::
  "IdempotencyKey \<Rightarrow> StoredResponse \<Rightarrow> idempotency_db \<Rightarrow> idempotency_error + idempotency_db" where
  "IdempotencyStore_Complete k response d =
     (if \<not> (\<exists>r \<in> set (idem_rows d). processing k r) then Inl ErrIdempotencyNotClaimed
      else if \<not> response_checks response then Inl ErrStore
      else Inr (d\<lparr>idem_rows := map (\<lambda>r. if processing k r then r\<lparr>ir_response := Some response\<rparr> else r)
        (idem_rows d)\<rparr>))"

definition IdempotencyStore_Release :: "IdempotencyKey \<Rightarrow> idempotency_db \<Rightarrow> idempotency_db" where
  "IdempotencyStore_Release k d =
     d\<lparr>idem_rows := filter (\<lambda>r. \<not> processing k r) (idem_rows d)\<rparr>"

section \<open>The middleware\<close>

record request_identity =
  ident_actor_id :: uuid
  ident_method :: AuthenticationMethod
  ident_token_id :: "uuid option"
  ident_run_id :: "uuid option"

text \<open>A request: the pattern of its route, the encoded query, the values of the header
  Idempotency-Key, the body when it could be read.\<close>

record http_request =
  req_identity :: "request_identity option"
  req_method :: string
  req_pattern :: string
  req_query :: string
  req_content_type :: string
  req_keys :: "string list"
  req_body :: "string option"
  req_id :: string

datatype reply =
    Problem int string
  | Response StoredResponse

datatype outcome = Pass | Answer reply | Run IdempotencyKey

definition requiresIdempotency :: "string \<Rightarrow> bool" where
  "requiresIdempotency method \<longleftrightarrow> method \<in> {''POST'', ''PATCH'', ''DELETE''}"

definition validIdempotencyKey :: "string \<Rightarrow> bool" where
  "validIdempotencyKey v \<longleftrightarrow>
     1 \<le> length v \<and> length v \<le> 128 \<and>
     (\<forall>c \<in> set v. 33 \<le> (of_char c :: nat) \<and> (of_char c :: nat) \<le> 126)"

definition idempotencyCredential ::
  "request_identity \<Rightarrow> (uuid \<times> uuid option \<times> uuid option) option" where
  "idempotencyCredential current =
     (case ident_method current of
        AuthenticationMethodAPIToken \<Rightarrow>
          (case ident_token_id current of
             Some t \<Rightarrow> if t \<noteq> uuid_nil then Some (t, Some t, None) else None
           | None \<Rightarrow> None)
      | AuthenticationMethodAgentDelegate \<Rightarrow>
          (case ident_run_id current of
             Some t \<Rightarrow> if t \<noteq> uuid_nil then Some (t, None, Some t) else None
           | None \<Rightarrow> None)
      | _ \<Rightarrow> None)"

text \<open>\<open>strings.Cut\<close> at the first blank.\<close>

definition stripMethodPattern :: "string \<Rightarrow> string" where
  "stripMethodPattern pattern =
     (if CHR '' '' \<in> set pattern then tl (dropWhile (\<lambda>c. c \<noteq> CHR '' '') pattern) else pattern)"

text \<open>The bytes that are hashed.\<close>

definition fingerprint_input :: "string \<Rightarrow> string \<Rightarrow> string \<Rightarrow> string \<Rightarrow> string \<Rightarrow> string" where
  "fingerprint_input method route query contentType body =
     concat (map (\<lambda>s. s @ [CHR 0x00]) [method, route, query, TrimSpace contentType]) @ body"

definition idempotencyFingerprint ::
  "(string \<Rightarrow> string) \<Rightarrow> http_request \<Rightarrow> string \<Rightarrow> string \<Rightarrow> string" where
  "idempotencyFingerprint sha256 r route body =
     sha256 (fingerprint_input (req_method r) route (req_query r) (req_content_type r) body)"

definition set_header :: "string \<Rightarrow> string list \<Rightarrow> (string \<times> string list) list \<Rightarrow> (string \<times> string list) list"
  where
  "set_header name values hs = filter (\<lambda>h. fst h \<noteq> name) hs @ [(name, values)]"

definition replayStoredResponse :: "http_request \<Rightarrow> StoredResponse \<Rightarrow> StoredResponse" where
  "replayStoredResponse r response =
     response\<lparr>resp_headers :=
       set_header ''Idempotency-Replayed'' [''true'']
         (set_header ''X-Request-Id'' [req_id r]
           (filter (\<lambda>h. fst h \<noteq> ''X-Request-Id'') (resp_headers response)))\<rparr>"

definition replayedResponseHeaders :: "string list" where
  "replayedResponseHeaders = [''Content-Type'', ''Etag'', ''Location'', ''X-Request-Id'']"

text \<open>Appending no byte to the nil slice gives the nil slice.\<close>

definition copy_bytes :: "string option \<Rightarrow> string option" where
  "copy_bytes b = (if b = Some [] then None else b)"

definition storedResponse :: "string \<Rightarrow> StoredResponse \<Rightarrow> StoredResponse" where
  "storedResponse currentRequestID captured =
     captured\<lparr>resp_headers := set_header ''X-Request-Id'' [currentRequestID]
       (filter (\<lambda>h. fst h \<in> set replayedResponseHeaders) (resp_headers captured)),
       resp_body := copy_bytes (resp_body captured)\<rparr>"

definition bearer :: "AuthenticationMethod \<Rightarrow> bool" where
  "bearer m \<longleftrightarrow> m = AuthenticationMethodAPIToken \<or> m = AuthenticationMethodAgentDelegate"

definition claim_outcome :: "http_request \<Rightarrow> IdempotencyKey \<Rightarrow> Claim \<Rightarrow> outcome" where
  "claim_outcome r k c =
     (case c of
        ClaimReplay response \<Rightarrow> Answer (Response (replayStoredResponse r response))
      | ClaimInProgress \<Rightarrow> Answer (Problem 409 ''IDEMPOTENCY_IN_PROGRESS'')
      | ClaimReused \<Rightarrow> Answer (Problem 409 ''IDEMPOTENCY_KEY_REUSED'')
      | ClaimAcquired \<Rightarrow> Run k)"

definition wrap_begin ::
  "(string \<Rightarrow> string) \<Rightarrow> time \<Rightarrow> http_request \<Rightarrow> idempotency_db \<Rightarrow> idempotency_db \<times> outcome" where
  "wrap_begin sha256 now r d =
     (case req_identity r of
        None \<Rightarrow> (d, Pass)
      | Some current \<Rightarrow>
          if \<not> bearer (ident_method current) \<or> \<not> requiresIdempotency (req_method r) then (d, Pass)
          else case idempotencyCredential current of
              None \<Rightarrow> (d, Answer (Problem 500 ''INTERNAL_ERROR''))
            | Some (credentialID, tokenID, agentRunID) \<Rightarrow>
                (case req_keys r of
                   [] \<Rightarrow> (d, Answer (Problem 400 ''IDEMPOTENCY_KEY_REQUIRED''))
                 | v # vs \<Rightarrow>
                     if v = [] then (d, Answer (Problem 400 ''IDEMPOTENCY_KEY_REQUIRED''))
                     else if vs \<noteq> [] \<or> \<not> validIdempotencyKey v
                     then (d, Answer (Problem 400 ''INVALID_REQUEST''))
                     else let route = stripMethodPattern (req_pattern r) in
                       if route = [] then (d, Answer (Problem 500 ''INTERNAL_ERROR''))
                       else case req_body r of
                           None \<Rightarrow> (d, Answer (Problem 400 ''INVALID_REQUEST''))
                         | Some body \<Rightarrow>
                             (let k = \<lparr>key_user_id = ident_actor_id current,
                                    key_credential_kind = ident_method current,
                                    key_credential_id = credentialID, key_token_id = tokenID,
                                    key_agent_run_id = agentRunID, key_method = req_method r,
                                    key_route = route, key_value = v\<rparr> in
                              case IdempotencyStore_Claim k (idempotencyFingerprint sha256 r route body)
                                  now (now + IdempotencyRetention) d of
                                Inl e \<Rightarrow> (d, Answer (Problem 500 ''INTERNAL_ERROR''))
                              | Inr (d1, c) \<Rightarrow> (d1, claim_outcome r k c))))"

definition wrap_end ::
  "string \<Rightarrow> IdempotencyKey \<Rightarrow> StoredResponse \<Rightarrow> idempotency_db \<Rightarrow> idempotency_db \<times> reply" where
  "wrap_end requestID k captured d =
     (let response = storedResponse requestID captured in
      if resp_status response \<ge> 500
      then (IdempotencyStore_Release k d, Response captured)
      else case IdempotencyStore_Complete k response d of
          Inl e \<Rightarrow> (d, Problem 500 ''INTERNAL_ERROR'')
        | Inr d1 \<Rightarrow> (d1, Response captured))"

text \<open>The deferred recovery: the claim is released before the panic goes on.\<close>

definition wrap_panic :: "IdempotencyKey \<Rightarrow> idempotency_db \<Rightarrow> idempotency_db" where
  "wrap_panic k d = IdempotencyStore_Release k d"

section \<open>Interleaved requests\<close>

text \<open>
  Any number of requests, each begun, run and ended on its own.  \<open>mw_running\<close> holds the keys under
  which a handler runs, \<open>mw_done\<close> the completed executions with the time until which each is retained;
  the clock does not go backwards.
\<close>

record middleware =
  mw_db :: idempotency_db
  mw_clock :: time
  mw_running :: "IdempotencyKey list"
  mw_done :: "(IdempotencyKey \<times> StoredResponse \<times> time) list"

definition expiry_of :: "IdempotencyKey \<Rightarrow> idempotency_db \<Rightarrow> time" where
  "expiry_of k d = (case find (same_key k) (idem_rows d) of None \<Rightarrow> 0 | Some r \<Rightarrow> ir_expires_at r)"

inductive middleware_step :: "(string \<Rightarrow> string) \<Rightarrow> middleware \<Rightarrow> middleware \<Rightarrow> bool" for sha256 where
  starts: "mw_clock m \<le> now \<Longrightarrow> wrap_begin sha256 now r (mw_db m) = (d, Run k) \<Longrightarrow>
    middleware_step sha256 m (m\<lparr>mw_db := d, mw_clock := now, mw_running := k # mw_running m\<rparr>)"
| answers: "mw_clock m \<le> now \<Longrightarrow> wrap_begin sha256 now r (mw_db m) = (d, x) \<Longrightarrow> x \<in> insert Pass (range Answer) \<Longrightarrow>
    middleware_step sha256 m (m\<lparr>mw_db := d, mw_clock := now\<rparr>)"
| completes: "k \<in> set (mw_running m) \<Longrightarrow> resp_status captured < 500 \<Longrightarrow>
    IdempotencyStore_Complete k (storedResponse requestID captured) (mw_db m) = Inr d \<Longrightarrow>
    middleware_step sha256 m (m\<lparr>mw_db := d, mw_running := remove1 k (mw_running m),
      mw_done := (k, storedResponse requestID captured, expiry_of k d) # mw_done m\<rparr>)"
| fails: "k \<in> set (mw_running m) \<Longrightarrow> wrap_end requestID k captured (mw_db m) = (d, x) \<Longrightarrow>
    resp_status captured \<ge> 500 \<or> (\<exists>e. IdempotencyStore_Complete k (storedResponse requestID captured) (mw_db m) = Inl e) \<Longrightarrow>
    middleware_step sha256 m (m\<lparr>mw_db := d, mw_running := remove1 k (mw_running m)\<rparr>)"
| panics: "k \<in> set (mw_running m) \<Longrightarrow>
    middleware_step sha256 m (m\<lparr>mw_db := wrap_panic k (mw_db m), mw_running := remove1 k (mw_running m)\<rparr>)"

text \<open>The record of a key, completed and retained.\<close>

definition retained :: "idempotency_db \<Rightarrow> IdempotencyKey \<Rightarrow> StoredResponse \<Rightarrow> time \<Rightarrow> bool" where
  "retained d k response e \<longleftrightarrow>
     (\<exists>r \<in> set (idem_rows d). same_key k r \<and> ir_response r = Some response \<and> ir_expires_at r = e)"

definition unique_keys :: "idempotency_db \<Rightarrow> bool" where
  "unique_keys d \<longleftrightarrow> distinct (map (\<lambda>r. primary_key (ir_key r)) (idem_rows d))"

definition live :: "time \<Rightarrow> IdempotencyKey \<Rightarrow> (IdempotencyKey \<times> StoredResponse \<times> time) \<Rightarrow> bool" where
  "live now k e \<longleftrightarrow> primary_key (fst e) = primary_key k \<and> now < snd (snd e)"

definition middleware_inv :: "middleware \<Rightarrow> bool" where
  "middleware_inv m \<longleftrightarrow>
     unique_keys (mw_db m) \<and>
     (\<forall>(k, response, e) \<in> set (mw_done m). mw_clock m < e \<longrightarrow> retained (mw_db m) k response e) \<and>
     (\<forall>k. length (filter (live (mw_clock m) k) (mw_done m)) \<le> 1)"

text \<open>What the operations of the store keep.\<close>

lemma unique_row:
  assumes "unique_keys d" and "r \<in> set (idem_rows d)" and "r' \<in> set (idem_rows d)"
    and "primary_key (ir_key r) = primary_key (ir_key r')"
  shows "r = r'"
  using assms distinct_key_inj [of "\<lambda>r. primary_key (ir_key r)" "idem_rows d" r r']
  by (simp add: unique_keys_def)

lemma find_same_key:
  assumes "unique_keys d" and "r \<in> set (idem_rows d)" and "same_key k r"
  shows "find (same_key k) (idem_rows d) = Some r"
proof -
  have "find (\<lambda>x. primary_key (ir_key x) = primary_key (ir_key r)) (idem_rows d) = Some r"
    by (rule find_key) (use assms in \<open>simp_all add: unique_keys_def\<close>)
  with assms(3) show ?thesis by simp
qed

lemma Claim_cases:
  assumes "IdempotencyStore_Claim k h now e d = Inr (d', c)"
  obtains rows where "rows = filter (\<lambda>r. \<not> (same_key k r \<and> ir_expires_at r \<le> now)) (idem_rows d)"
    and "idem_rows d' = rows \<or>
      (\<exists>r. idem_rows d' = rows @ [r] \<and> same_key k r \<and> (\<forall>q \<in> set rows. \<not> same_key k q))"
proof -
  let ?rows = "filter (\<lambda>r. \<not> (same_key k r \<and> ir_expires_at r \<le> now)) (idem_rows d)"
  show thesis
  proof (cases "find (same_key k) ?rows")
    case None
    then have "\<forall>q \<in> set ?rows. \<not> same_key k q" by (auto simp: find_None_iff)
    moreover have "\<exists>r. idem_rows d' = ?rows @ [r] \<and> same_key k r"
      using assms None by (auto simp: IdempotencyStore_Claim_def Let_def split: if_splits)
    ultimately show thesis using that [OF refl] by blast
  next
    case (Some r)
    then have "idem_rows d' = ?rows"
      using assms by (auto simp: IdempotencyStore_Claim_def Let_def split: if_splits)
    then show thesis using that [OF refl] by blast
  qed
qed

lemma Claim_kept:
  assumes "IdempotencyStore_Claim k' h now e' d = Inr (d', c)" and "unique_keys d"
  shows "unique_keys d'" and "retained d k response e \<Longrightarrow> now < e \<Longrightarrow> retained d' k response e"
proof -
  obtain rows where rows: "rows = filter (\<lambda>r. \<not> (same_key k' r \<and> ir_expires_at r \<le> now)) (idem_rows d)"
    "idem_rows d' = rows \<or>
      (\<exists>r. idem_rows d' = rows @ [r] \<and> same_key k' r \<and> (\<forall>q \<in> set rows. \<not> same_key k' q))"
    using assms(1) by (rule Claim_cases)
  have "distinct (map (\<lambda>r. primary_key (ir_key r)) rows)"
    using assms(2) by (simp add: rows(1) unique_keys_def distinct_map_filter)
  then show "unique_keys d'" using rows(2) by (fastforce simp: unique_keys_def)
  show "retained d' k response e" if ret: "retained d k response e" "now < e"
  proof -
    obtain q where "q \<in> set rows" "same_key k q" "ir_response q = Some response" "ir_expires_at q = e"
      using ret by (auto simp: rows(1) retained_def)
    with rows(2) show ?thesis by (auto simp: retained_def)
  qed
qed

lemma Complete_kept:
  assumes "IdempotencyStore_Complete k' response' d = Inr d'" and "unique_keys d"
  shows "unique_keys d'" and "retained d k response e \<Longrightarrow> retained d' k response e"
    and "\<exists>e. retained d' k' response' e \<and> expiry_of k' d' = e" and "\<not> retained d k' response e"
proof -
  let ?f = "\<lambda>r. if processing k' r then r\<lparr>ir_response := Some response'\<rparr> else r"
  have d': "d' = d\<lparr>idem_rows := map ?f (idem_rows d)\<rparr>"
    and ex: "\<exists>r \<in> set (idem_rows d). processing k' r"
    using assms(1) by (auto simp: IdempotencyStore_Complete_def split: if_splits)
  have keys: "primary_key (ir_key (?f r)) = primary_key (ir_key r)" for r by simp
  show u: "unique_keys d'" using assms(2) by (simp add: d' unique_keys_def comp_def keys)
  show "retained d' k response e" if "retained d k response e"
    using that by (force simp: d' retained_def)
  from ex obtain r where r: "r \<in> set (idem_rows d)" "processing k' r" by blast
  then have r': "?f r \<in> set (idem_rows d')" by (simp add: d')
  then have "find (same_key k') (idem_rows d') = Some (?f r)"
    by (rule find_same_key [OF u]) (use r(2) in simp)
  with r(2) r' show "\<exists>e. retained d' k' response' e \<and> expiry_of k' d' = e"
    by (auto simp: retained_def expiry_of_def intro!: bexI [of _ "?f r"])
  show "\<not> retained d k' response e"
  proof
    assume "retained d k' response e"
    then obtain q where "q \<in> set (idem_rows d)" "same_key k' q" "ir_response q = Some response"
      by (auto simp: retained_def)
    with r unique_row [OF assms(2), of q r] show False by simp
  qed
qed

lemma Release_kept:
  assumes "unique_keys d"
  shows "unique_keys (IdempotencyStore_Release k' d)"
    and "retained d k response e \<Longrightarrow> retained (IdempotencyStore_Release k' d) k response e"
  using assms by (auto simp: IdempotencyStore_Release_def unique_keys_def retained_def distinct_map_filter)

lemma wrap_begin_cases:
  assumes "wrap_begin sha256 now r d = (d', x)"
  shows "d' = d \<or> (\<exists>k h c. IdempotencyStore_Claim k h now (now + IdempotencyRetention) d = Inr (d', c))"
  using assms
  by (simp add: wrap_begin_def Let_def split: option.splits if_splits list.splits prod.splits sum.splits)
    metis+

lemma wrap_begin_kept:
  assumes "wrap_begin sha256 now r d = (d', x)" and "unique_keys d"
  shows "unique_keys d'" and "retained d k response e \<Longrightarrow> now < e \<Longrightarrow> retained d' k response e"
  using wrap_begin_cases [OF assms(1)] Claim_kept [OF _ assms(2)] assms(2) by blast+

lemma live_later: "t \<le> now \<Longrightarrow> length (filter (live now k) xs) \<le> length (filter (live t k) xs)"
  by (induction xs) (auto simp: live_def)

lemma inv_begin:
  assumes "middleware_inv m" and "mw_clock m \<le> now" and "wrap_begin sha256 now r (mw_db m) = (d, x)"
  shows "middleware_inv (m\<lparr>mw_db := d, mw_clock := now, mw_running := ks\<rparr>)"
proof -
  have u: "unique_keys (mw_db m)" using assms(1) by (simp add: middleware_inv_def)
  note kept = wrap_begin_kept [OF assms(3) u]
  have "retained d k response e" if "(k, response, e) \<in> set (mw_done m)" "now < e" for k response e
    using assms(1,2) kept(2) that by (force simp: middleware_inv_def)
  moreover have "length (filter (live now k) (mw_done m)) \<le> 1" for k
    using live_later [OF assms(2), of k "mw_done m"] assms(1)
    by (auto simp: middleware_inv_def intro: order_trans)
  ultimately show ?thesis using kept(1) by (auto simp: middleware_inv_def)
qed

lemma inv_release:
  assumes "middleware_inv m"
  shows "middleware_inv (m\<lparr>mw_db := IdempotencyStore_Release k (mw_db m), mw_running := ks\<rparr>)"
proof -
  have "unique_keys (mw_db m)" using assms by (simp add: middleware_inv_def)
  note kept = Release_kept [OF this]
  have "retained (IdempotencyStore_Release k (mw_db m)) k' response e"
    if "(k', response, e) \<in> set (mw_done m)" "mw_clock m < e" for k' response e
    using assms that by (intro kept(2)) (auto simp: middleware_inv_def)
  with assms kept(1) show ?thesis by (simp add: middleware_inv_def case_prod_beta)
qed

lemma inv_complete:
  assumes inv: "middleware_inv m" and run: "IdempotencyStore_Complete k response (mw_db m) = Inr d"
  shows "middleware_inv (m\<lparr>mw_db := d, mw_running := ks, mw_done := (k, response, expiry_of k d) # mw_done m\<rparr>)"
proof -
  have u: "unique_keys (mw_db m)" using inv by (simp add: middleware_inv_def)
  note kept = Complete_kept [OF run u]
  have none: "filter (live (mw_clock m) j) (mw_done m) = []" if "primary_key j = primary_key k" for j
  proof (rule ccontr)
    assume "filter (live (mw_clock m) j) (mw_done m) \<noteq> []"
    then obtain k' q e where "(k', q, e) \<in> set (mw_done m)" "live (mw_clock m) j (k', q, e)"
      by (force simp: filter_empty_conv)
    then have "retained (mw_db m) k q e"
      using inv that by (force simp: middleware_inv_def live_def retained_def)
    with kept(4) show False by blast
  qed
  have "length (filter (live (mw_clock m) j) ((k, response, expiry_of k d) # mw_done m)) \<le> 1" for j
  proof (cases "primary_key j = primary_key k")
    case True
    then show ?thesis using none [OF True] by simp
  next
    case False
    then show ?thesis using inv by (simp add: middleware_inv_def live_def)
  qed
  moreover have "retained d k' q e" if "(k', q, e) \<in> set ((k, response, expiry_of k d) # mw_done m)"
    "mw_clock m < e" for k' q e
    using that kept(2,3) inv by (force simp: middleware_inv_def)
  ultimately show ?thesis using kept(1) by (auto simp: middleware_inv_def)
qed

lemma inv_same: "middleware_inv (m\<lparr>mw_running := ks\<rparr>) = middleware_inv m"
  by (simp add: middleware_inv_def)

lemma middleware_step_inv:
  assumes "middleware_inv m" and "middleware_step sha256 m m'"
  shows "middleware_inv m'"
  using assms(2)
proof cases
  case (starts now r d k)
  with inv_begin [OF assms(1) starts(2,3)] show ?thesis by simp
next
  case (answers now r d x)
  with inv_begin [OF assms(1) answers(2,3), of "mw_running m"] show ?thesis by simp
next
  case (completes k captured requestID d)
  with inv_complete [OF assms(1) completes(4)] show ?thesis by simp
next
  case (fails k requestID captured d x)
  have "d = mw_db m \<or> d = IdempotencyStore_Release k (mw_db m)"
    using fails(3,4) by (auto simp: wrap_end_def Let_def storedResponse_def split: if_splits)
  with fails inv_release [OF assms(1)] inv_same assms(1) show ?thesis by auto
next
  case (panics k)
  with inv_release [OF assms(1)] show ?thesis by (simp add: wrap_panic_def)
qed

definition fresh_middleware :: "middleware \<Rightarrow> bool" where
  "fresh_middleware m \<longleftrightarrow> idem_rows (mw_db m) = [] \<and> mw_running m = [] \<and> mw_done m = []"

lemma fresh_inv: "fresh_middleware m \<Longrightarrow> middleware_inv m"
  by (simp add: fresh_middleware_def middleware_inv_def unique_keys_def)

interpretation idempotent: invariant_system fresh_middleware "middleware_step sha256" middleware_inv
  for sha256
  by unfold_locales (fact fresh_inv, fact middleware_step_inv)

text \<open>C28. Invariant: however requests interleave, fail, panic and expire, at most one execution under a
  key has completed while its response is retained, and the retained record holds exactly that
  response.\<close>

theorem completed_at_most_once:
  assumes "reach fresh_middleware (middleware_step sha256) m"
  shows "length (filter (\<lambda>(k', response, e). primary_key k' = primary_key k \<and> mw_clock m < e) (mw_done m)) \<le> 1 \<and>
    (\<forall>(k', response, e) \<in> set (mw_done m). mw_clock m < e \<longrightarrow>
       (\<exists>r \<in> set (idem_rows (mw_db m)). primary_key (ir_key r) = primary_key k' \<and>
          ir_response r = Some response \<and> ir_expires_at r = e))"
proof -
  have "middleware_inv m" by (rule idempotent.inv_reach [OF assms])
  moreover have "(\<lambda>(k', response, e). primary_key k' = primary_key k \<and> mw_clock m < e) = live (mw_clock m) k"
    by (auto simp: live_def fun_eq_iff)
  ultimately show ?thesis by (auto simp: middleware_inv_def retained_def)
qed

section \<open>Repeated requests\<close>

text \<open>A repetition of a request, possibly with another query, content type or body.\<close>

abbreviation variant ::
  "http_request \<Rightarrow> string \<Rightarrow> string \<Rightarrow> string \<Rightarrow> string \<Rightarrow> http_request" where
  "variant r i query contentType body \<equiv>
     r\<lparr>req_id := i, req_query := query, req_content_type := contentType, req_body := Some body\<rparr>"

lemma wrap_begin_Run:
  assumes "wrap_begin sha256 now r d = (d1, Run k)"
  shows "\<exists>body. req_body r = Some body \<and>
    IdempotencyStore_Claim k (idempotencyFingerprint sha256 r (key_route k) body) now
      (now + IdempotencyRetention) d = Inr (d1, ClaimAcquired) \<and>
    (\<forall>i query contentType body' now' d'.
       wrap_begin sha256 now' (variant r i query contentType body') d' =
       (case IdempotencyStore_Claim k (idempotencyFingerprint sha256 (variant r i query contentType body')
            (key_route k) body') now' (now' + IdempotencyRetention) d' of
          Inl e \<Rightarrow> (d', Answer (Problem 500 ''INTERNAL_ERROR''))
        | Inr (d1, c) \<Rightarrow> (d1, claim_outcome (variant r i query contentType body') k c)))"
proof -
  obtain current credentialID tokenID agentRunID v body where r: "req_identity r = Some current"
    "bearer (ident_method current)" "requiresIdempotency (req_method r)"
    "idempotencyCredential current = Some (credentialID, tokenID, agentRunID)"
    "req_keys r = [v]" "v \<noteq> []" "validIdempotencyKey v" "stripMethodPattern (req_pattern r) \<noteq> []"
    "req_body r = Some body"
    using assms
    by (simp add: wrap_begin_def Let_def split: option.splits if_splits list.splits prod.splits sum.splits)
  let ?route = "stripMethodPattern (req_pattern r)"
  let ?k = "\<lparr>key_user_id = ident_actor_id current, key_credential_kind = ident_method current,
    key_credential_id = credentialID, key_token_id = tokenID, key_agent_run_id = agentRunID,
    key_method = req_method r, key_route = ?route, key_value = v\<rparr>"
  have wrap: "wrap_begin sha256 now' (variant r i query contentType body') d' =
       (case IdempotencyStore_Claim ?k (idempotencyFingerprint sha256 (variant r i query contentType body')
            ?route body') now' (now' + IdempotencyRetention) d' of
          Inl e \<Rightarrow> (d', Answer (Problem 500 ''INTERNAL_ERROR''))
        | Inr (d1, c) \<Rightarrow> (d1, claim_outcome (variant r i query contentType body') ?k c))"
    for now' i query contentType body' d'
    using r by (simp add: wrap_begin_def Let_def)
  have self: "variant r (req_id r) (req_query r) (req_content_type r) body = r" using r(9) by simp
  have "IdempotencyStore_Claim ?k (idempotencyFingerprint sha256 r ?route body) now
      (now + IdempotencyRetention) d = Inr (d1, ClaimAcquired) \<and> k = ?k"
    using assms wrap [where now' = now and i = "req_id r" and query = "req_query r" and
      contentType = "req_content_type r" and body' = body and d' = d] unfolding self
    by (simp add: claim_outcome_def split: sum.splits prod.splits Claim.splits)
  moreover have "key_route ?k = ?route" by simp
  ultimately show ?thesis using r(9) wrap by metis
qed

lemma Claim_acquired:
  assumes "IdempotencyStore_Claim k h now e d = Inr (d', ClaimAcquired)"
  shows "\<exists>rows. idem_rows d' = rows @ [\<lparr>ir_key = k, ir_hash = h, ir_response = None, ir_created_at = now,
      ir_expires_at = e\<rparr>] \<and> (\<forall>q \<in> set rows. \<not> same_key k q)"
    and "row_checks k h now e"
  using assms
  by (auto simp: IdempotencyStore_Claim_def Let_def find_None_iff split: if_splits option.splits)

lemma Claim_present:
  assumes "idem_rows d = rows @ [r]" and "\<forall>q \<in> set rows. \<not> same_key k q" and "same_key k r"
    and "now < ir_expires_at r" and "row_checks k h now e"
  shows "IdempotencyStore_Claim k h now e d =
    Inr (d, if h = ir_hash r
      then case ir_response r of None \<Rightarrow> ClaimInProgress | Some response \<Rightarrow> ClaimReplay response
      else ClaimReused)"
proof -
  have "filter (\<lambda>q. \<not> (same_key k q \<and> ir_expires_at q \<le> now)) (idem_rows d) = idem_rows d"
    using assms(1,2,4) by (auto simp: filter_id_conv)
  then have keep: "d\<lparr>idem_rows := filter (\<lambda>q. \<not> (same_key k q \<and> ir_expires_at q \<le> now)) (idem_rows d)\<rparr> = d"
    by simp
  have "find (same_key k) rows = None" using assms(2) by (auto simp: find_None_iff)
  moreover have "find P (xs @ ys) = (case find P xs of None \<Rightarrow> find P ys | Some x \<Rightarrow> Some x)"
    for P and xs ys :: "idempotency_row list" by (induction xs) auto
  ultimately have "find (same_key k) (idem_rows d) = Some r" using assms(1,3) by simp
  with assms(5) show ?thesis
    unfolding IdempotencyStore_Claim_def keep Let_def by (cases "h = ir_hash r") auto
qed

text \<open>The row a request leaves when it runs, and what its repetitions meet while the row is there.\<close>

lemma begun_request:
  assumes "wrap_begin sha256 now r d = (d1, Run k)"
    and "now \<le> now'" and "now' < now + IdempotencyRetention" and "\<And>s. length (sha256 s) = 32"
  shows "\<exists>body rows. req_body r = Some body \<and>
    idem_rows d1 = rows @ [\<lparr>ir_key = k, ir_hash = idempotencyFingerprint sha256 r (key_route k) body,
      ir_response = None, ir_created_at = now, ir_expires_at = now + IdempotencyRetention\<rparr>] \<and>
    (\<forall>q \<in> set rows. \<not> same_key k q) \<and>
    (\<forall>d2 response i query contentType body'.
       idem_rows d2 = rows @ [\<lparr>ir_key = k, ir_hash = idempotencyFingerprint sha256 r (key_route k) body,
         ir_response = response, ir_created_at = now, ir_expires_at = now + IdempotencyRetention\<rparr>] \<longrightarrow>
       wrap_begin sha256 now' (variant r i query contentType body') d2 =
         (d2, claim_outcome (variant r i query contentType body') k
           (if idempotencyFingerprint sha256 (variant r i query contentType body') (key_route k) body' =
               idempotencyFingerprint sha256 r (key_route k) body
            then case response of None \<Rightarrow> ClaimInProgress | Some x \<Rightarrow> ClaimReplay x
            else ClaimReused)))"
proof -
  obtain body where body: "req_body r = Some body"
    and acq: "IdempotencyStore_Claim k (idempotencyFingerprint sha256 r (key_route k) body) now
      (now + IdempotencyRetention) d = Inr (d1, ClaimAcquired)"
    and wrap: "wrap_begin sha256 now' (variant r i query contentType body') d' =
       (case IdempotencyStore_Claim k (idempotencyFingerprint sha256 (variant r i query contentType body')
            (key_route k) body') now' (now' + IdempotencyRetention) d' of
          Inl e \<Rightarrow> (d', Answer (Problem 500 ''INTERNAL_ERROR''))
        | Inr (d1, c) \<Rightarrow> (d1, claim_outcome (variant r i query contentType body') k c))"
    for i query contentType body' now' d'
    using wrap_begin_Run [OF assms(1)] by blast
  obtain rows where rows: "idem_rows d1 = rows @ [\<lparr>ir_key = k,
      ir_hash = idempotencyFingerprint sha256 r (key_route k) body, ir_response = None,
      ir_created_at = now, ir_expires_at = now + IdempotencyRetention\<rparr>]" "\<forall>q \<in> set rows. \<not> same_key k q"
    using Claim_acquired(1) [OF acq] by blast
  have checks: "row_checks k (sha256 x) now' (now' + IdempotencyRetention)" for x
    using Claim_acquired(2) [OF acq] assms(4)
    by (simp add: row_checks_def IdempotencyRetention_def hours_def)
  have "wrap_begin sha256 now' (variant r i query contentType body') d2 =
      (d2, claim_outcome (variant r i query contentType body') k
        (if idempotencyFingerprint sha256 (variant r i query contentType body') (key_route k) body' =
            idempotencyFingerprint sha256 r (key_route k) body
         then case response of None \<Rightarrow> ClaimInProgress | Some x \<Rightarrow> ClaimReplay x else ClaimReused))"
    if d2: "idem_rows d2 = rows @ [\<lparr>ir_key = k, ir_hash = idempotencyFingerprint sha256 r (key_route k) body,
      ir_response = response, ir_created_at = now, ir_expires_at = now + IdempotencyRetention\<rparr>]"
    for d2 response i query contentType body'
    using Claim_present [OF d2 rows(2) _ _ checks] assms(3)
      wrap [where now' = now' and i = i and query = query and contentType = contentType and
        body' = body' and d' = d2]
    by (simp add: idempotencyFingerprint_def split del: if_split cong: if_cong)
  with body rows show ?thesis by blast
qed

text \<open>C29. Functional correctness of a repetition: once the handler has answered a request with a
  status below 500 and the answer is stored, a repetition of the request within the retention time
  is answered with the same status and body and does not run the handler; a request that reuses the
  key with another fingerprint is refused.\<close>

theorem repetition_is_replayed:
  assumes "wrap_begin sha256 now r d = (d1, Run k)"
    and "wrap_end (req_id r) k captured d1 = (d2, Response captured)" and "resp_status captured < 500"
    and "now \<le> now'" and "now' < now + IdempotencyRetention" and "\<And>s. length (sha256 s) = 32"
  shows "\<exists>replayed body. req_body r = Some body \<and>
    wrap_begin sha256 now' (r\<lparr>req_id := i\<rparr>) d2 = (d2, Answer (Response replayed)) \<and>
    resp_status replayed = resp_status captured \<and> resp_body replayed = resp_body captured \<and>
    (''Idempotency-Replayed'', [''true'']) \<in> set (resp_headers replayed) \<and>
    (\<forall>body'. idempotencyFingerprint sha256 (r\<lparr>req_body := Some body'\<rparr>) (key_route k) body' \<noteq>
        idempotencyFingerprint sha256 r (key_route k) body \<longrightarrow>
      wrap_begin sha256 now' (r\<lparr>req_body := Some body'\<rparr>) d2 =
        (d2, Answer (Problem 409 ''IDEMPOTENCY_KEY_REUSED'')))"
proof -
  let ?resp = "storedResponse (req_id r) captured"
  let ?row = "\<lambda>body response. \<lparr>ir_key = k, ir_hash = idempotencyFingerprint sha256 r (key_route k) body,
    ir_response = response, ir_created_at = now, ir_expires_at = now + IdempotencyRetention\<rparr>"
  obtain body rows where body: "req_body r = Some body" and rows: "idem_rows d1 = rows @ [?row body None]"
    "\<forall>q \<in> set rows. \<not> same_key k q"
    and wrap: "\<And>d2 response i query contentType body'. idem_rows d2 = rows @ [?row body response] \<Longrightarrow>
       wrap_begin sha256 now' (variant r i query contentType body') d2 =
         (d2, claim_outcome (variant r i query contentType body') k
           (if idempotencyFingerprint sha256 (variant r i query contentType body') (key_route k) body' =
               idempotencyFingerprint sha256 r (key_route k) body
            then case response of None \<Rightarrow> ClaimInProgress | Some x \<Rightarrow> ClaimReplay x else ClaimReused))"
    using begun_request [OF assms(1,4,5,6)] by blast
  have complete: "IdempotencyStore_Complete k ?resp d1 = Inr d2"
    using assms(2,3) by (auto simp: wrap_end_def Let_def storedResponse_def split: if_splits sum.splits)
  then have "idem_rows d2 = map (\<lambda>q. if processing k q then q\<lparr>ir_response := Some ?resp\<rparr> else q) (idem_rows d1)"
    by (auto simp: IdempotencyStore_Complete_def split: if_splits)
  also have "\<dots> = rows @ [?row body (Some ?resp)]"
    using rows by (auto simp: map_idI)
  finally have rows2: "idem_rows d2 = rows @ [?row body (Some ?resp)]" .
  have self: "variant r i (req_query r) (req_content_type r) body = r\<lparr>req_id := i\<rparr>"
    "variant r (req_id r) (req_query r) (req_content_type r) body' = r\<lparr>req_body := Some body'\<rparr>" for i body'
    using body by simp_all
  have "wrap_begin sha256 now' (r\<lparr>req_id := i\<rparr>) d2 =
      (d2, Answer (Response (replayStoredResponse (r\<lparr>req_id := i\<rparr>) ?resp)))"
    using wrap [OF rows2, where i = i and query = "req_query r" and contentType = "req_content_type r" and
      body' = body] unfolding self
    by (simp add: idempotencyFingerprint_def claim_outcome_def)
  moreover have "wrap_begin sha256 now' (r\<lparr>req_body := Some body'\<rparr>) d2 =
      (d2, Answer (Problem 409 ''IDEMPOTENCY_KEY_REUSED''))"
    if "idempotencyFingerprint sha256 (r\<lparr>req_body := Some body'\<rparr>) (key_route k) body' \<noteq>
      idempotencyFingerprint sha256 r (key_route k) body" for body'
    using wrap [OF rows2, where i = "req_id r" and query = "req_query r" and contentType = "req_content_type r" and
      body' = body'] that unfolding self
    by (simp add: claim_outcome_def)
  moreover have "resp_body ?resp = resp_body captured"
    using complete
    by (auto simp: IdempotencyStore_Complete_def response_checks_def storedResponse_def copy_bytes_def
      split: if_splits)
  then have "resp_status (replayStoredResponse q ?resp) = resp_status captured"
    "resp_body (replayStoredResponse q ?resp) = resp_body captured"
    "(''Idempotency-Replayed'', [''true'']) \<in> set (resp_headers (replayStoredResponse q ?resp))" for q
    by (simp_all add: replayStoredResponse_def storedResponse_def set_header_def)
  ultimately show ?thesis using body by blast
qed

text \<open>C30. Error: an answer with an empty body, such as 204 No Content, cannot be stored.  The request,
  whose handler has run, is answered with an internal error, the record stays in progress, and
  every repetition within the retention time is refused as still in progress.\<close>

theorem empty_answer_stays_in_progress:
  assumes "wrap_begin sha256 now r d = (d1, Run k)"
    and "resp_status captured < 500" and "resp_body captured = None \<or> resp_body captured = Some []"
    and "now \<le> now'" and "now' < now + IdempotencyRetention" and "\<And>s. length (sha256 s) = 32"
  shows "wrap_end (req_id r) k captured d1 = (d1, Problem 500 ''INTERNAL_ERROR'') \<and>
    wrap_begin sha256 now' (r\<lparr>req_id := i\<rparr>) d1 = (d1, Answer (Problem 409 ''IDEMPOTENCY_IN_PROGRESS''))"
proof
  have "resp_body (storedResponse (req_id r) captured) = None"
    using assms(3) by (auto simp: storedResponse_def copy_bytes_def)
  then have "\<exists>e. IdempotencyStore_Complete k (storedResponse (req_id r) captured) d1 = Inl e"
    by (simp add: IdempotencyStore_Complete_def response_checks_def)
  with assms(2) show "wrap_end (req_id r) k captured d1 = (d1, Problem 500 ''INTERNAL_ERROR'')"
    by (auto simp: wrap_end_def Let_def storedResponse_def)
next
  obtain body where body: "req_body r = Some body"
    and wrap: "\<And>i query contentType body'.
       wrap_begin sha256 now' (variant r i query contentType body') d1 =
         (d1, claim_outcome (variant r i query contentType body') k
           (if idempotencyFingerprint sha256 (variant r i query contentType body') (key_route k) body' =
               idempotencyFingerprint sha256 r (key_route k) body
            then ClaimInProgress else ClaimReused))"
    using begun_request [OF assms(1,4,5,6)] by fastforce
  have "variant r i (req_query r) (req_content_type r) body = r\<lparr>req_id := i\<rparr>" using body by simp
  then show "wrap_begin sha256 now' (r\<lparr>req_id := i\<rparr>) d1 =
      (d1, Answer (Problem 409 ''IDEMPOTENCY_IN_PROGRESS''))"
    using wrap [where i = i and query = "req_query r" and contentType = "req_content_type r" and body' = body]
    by (simp add: idempotencyFingerprint_def claim_outcome_def)
qed

section \<open>A concrete request\<close>

definition some_digest :: "string \<Rightarrow> string" where
  "some_digest s = take 32 (s @ replicate 32 CHR ''0'')"

lemma length_some_digest: "length (some_digest s) = 32"
  by (simp add: some_digest_def)

definition post_task :: http_request where
  "post_task =
     \<lparr>req_identity = Some \<lparr>ident_actor_id = 11, ident_method = AuthenticationMethodAPIToken,
        ident_token_id = Some 71, ident_run_id = None\<rparr>,
      req_method = ''POST'', req_pattern = ''POST /api/v1/tasks'', req_query = [],
      req_content_type = ''application/json'', req_keys = [''k-1''], req_body = Some ''{}'',
      req_id = ''r-1''\<rparr>"

definition created :: StoredResponse where
  "created = \<lparr>resp_status = 201, resp_headers = [(''Etag'', [''v1''])], resp_body = Some ''{1}''\<rparr>"

definition empty_store :: idempotency_db where
  "empty_store = \<lparr>idem_rows = [], idem_users = [11], idem_tokens = [71], idem_runs = []\<rparr>"

definition post_key :: IdempotencyKey where
  "post_key =
     \<lparr>key_user_id = 11, key_credential_kind = AuthenticationMethodAPIToken, key_credential_id = 71,
      key_token_id = Some 71, key_agent_run_id = None, key_method = ''POST'',
      key_route = ''/api/v1/tasks'', key_value = ''k-1''\<rparr>"

definition begun_store :: idempotency_db where
  "begun_store = fst (wrap_begin some_digest 5 post_task empty_store)"

definition ended_store :: idempotency_db where
  "ended_store = fst (wrap_end ''r-1'' post_key created begun_store)"

lemma post_task_run:
  "snd (wrap_begin some_digest 5 post_task empty_store) = Run post_key \<and>
   snd (wrap_end ''r-1'' post_key created begun_store) = Response created \<and>
   \<not> isl (IdempotencyStore_Complete post_key (storedResponse ''r-1'' created) begun_store)"
  by code_simp

lemma post_task_begun: "wrap_begin some_digest 5 post_task empty_store = (begun_store, Run post_key)"
  using post_task_run by (simp add: begun_store_def prod_eq_iff)

lemma post_task_ended: "wrap_end (req_id post_task) post_key created begun_store = (ended_store, Response created)"
proof -
  have "req_id post_task = ''r-1''" by (simp add: post_task_def)
  with post_task_run show ?thesis by (simp add: ended_store_def prod_eq_iff)
qed

theorem repetition_is_replayed_witness:
  "\<exists>replayed. wrap_begin some_digest 6 (post_task\<lparr>req_id := ''r-2''\<rparr>) ended_store =
     (ended_store, Answer (Response replayed)) \<and> resp_status replayed = 201 \<and> resp_body replayed = Some ''{1}''"
  using repetition_is_replayed [OF post_task_begun post_task_ended, of 6 "''r-2''"] length_some_digest
  by (auto simp: created_def IdempotencyRetention_def hours_def)

theorem empty_answer_stays_in_progress_witness:
  "wrap_end ''r-1'' post_key \<lparr>resp_status = 204, resp_headers = [], resp_body = Some []\<rparr> begun_store =
     (begun_store, Problem 500 ''INTERNAL_ERROR'') \<and>
   wrap_begin some_digest 6 (post_task\<lparr>req_id := ''r-2''\<rparr>) begun_store =
     (begun_store, Answer (Problem 409 ''IDEMPOTENCY_IN_PROGRESS''))"
  using empty_answer_stays_in_progress [OF post_task_begun,
      of "\<lparr>resp_status = 204, resp_headers = [], resp_body = Some []\<rparr>" 6 "''r-2''"] length_some_digest
  by (simp add: IdempotencyRetention_def hours_def post_task_def)

definition ran_middleware :: middleware where
  "ran_middleware =
     \<lparr>mw_db = ended_store, mw_clock = 5, mw_running = [],
      mw_done = [(post_key, storedResponse ''r-1'' created, expiry_of post_key ended_store)]\<rparr>"

theorem completed_at_most_once_witness:
  "reach fresh_middleware (middleware_step some_digest) ran_middleware \<and>
   length (filter (\<lambda>(k', response, e). primary_key k' = primary_key post_key \<and> 5 < e)
     (mw_done ran_middleware)) \<le> 1"
proof -
  let ?m0 = "\<lparr>mw_db = empty_store, mw_clock = 0, mw_running = [], mw_done = []\<rparr>"
  let ?m1 = "\<lparr>mw_db = begun_store, mw_clock = 5, mw_running = [post_key], mw_done = []\<rparr>"
  have "reach fresh_middleware (middleware_step some_digest) ?m0"
    by (rule reach_init) (simp add: fresh_middleware_def empty_store_def)
  moreover have "middleware_step some_digest ?m0 ?m1"
    using middleware_step.starts [of ?m0 5 some_digest post_task begun_store post_key] post_task_begun
    by simp
  ultimately have 1: "reach fresh_middleware (middleware_step some_digest) ?m1" by (rule reach_step)
  obtain d where d: "IdempotencyStore_Complete post_key (storedResponse ''r-1'' created) begun_store = Inr d"
    using post_task_run
    by (cases "IdempotencyStore_Complete post_key (storedResponse ''r-1'' created) begun_store") auto
  moreover have "resp_status (storedResponse ''r-1'' created) = 201"
    by (simp add: storedResponse_def created_def)
  ultimately have "d = ended_store" by (simp add: ended_store_def wrap_end_def Let_def)
  with d have "middleware_step some_digest ?m1 ran_middleware"
    using middleware_step.completes [of post_key ?m1 created "''r-1''" ended_store some_digest]
    by (simp add: ran_middleware_def created_def)
  with 1 have "reach fresh_middleware (middleware_step some_digest) ran_middleware" by (rule reach_step)
  with completed_at_most_once [OF this, of post_key] show ?thesis by (simp add: ran_middleware_def)
qed

section \<open>Fingerprints\<close>

lemma append_NUL_inject:
  "CHR 0x00 \<notin> set a \<Longrightarrow> CHR 0x00 \<notin> set b \<Longrightarrow> a @ CHR 0x00 # x = b @ CHR 0x00 # y \<longleftrightarrow> a = b \<and> x = y"
proof (induction a arbitrary: b)
  case Nil
  then show ?case by (cases b) auto
next
  case (Cons c a)
  then show ?case by (cases b) auto
qed

text \<open>C31. Functional correctness of the fingerprint: the bytes that are hashed determine the method,
  the route, the query, the content type up to surrounding blanks, and the body, so two requests
  with one digest differ in none of them unless the digest collides.\<close>

theorem fingerprint_unambiguous:
  assumes "CHR 0x00 \<notin> set (m @ p @ q @ TrimSpace c)" and "CHR 0x00 \<notin> set (m' @ p' @ q' @ TrimSpace c')"
    and "fingerprint_input m p q c body = fingerprint_input m' p' q' c' body'"
  shows "m = m' \<and> p = p' \<and> q = q' \<and> TrimSpace c = TrimSpace c' \<and> body = body'"
  using assms by (simp add: fingerprint_input_def append_NUL_inject)

theorem fingerprint_unambiguous_witness:
  "fingerprint_input ''POST'' ''/a'' [] [] ''b'' \<noteq> fingerprint_input ''POST'' ''/'' [] [] ''ab''"
  using fingerprint_unambiguous [of "''POST''" "''/a''" "[]" "[]" "''POST''" "''/''" "[]" "[]" "''b''" "''ab''"]
  by auto

end
