(* ===== verification/Spec2Isabelle.thy ===== *)
theory Spec2Isabelle
  imports Workflow_Guarantees Claim_Guarantees Task_Guarantees
    Task_List Idempotency
begin

text \<open>
  \<^bold>\<open>Pactline: a verification development for the Task workflow server.\<close>

  Pactline (the Go module under src/) coordinates project work shared by people and agents.

  \<^item> \<open>Pactline_Prelude\<close>: identifiers, instants, results, byte strings, tables, reachability.
  \<^item> \<open>Domain_Actors\<close>: errors, actors, operation provenance.
  \<^item> \<open>Task_Lifecycle\<close>: the lifecycle state machine of internal/domain/task_lifecycle.go.
\<close>

end
